(* ===== verification/Prelude.thy ===== *)
theory Prelude
  imports Main
begin

text \<open>
  What every other theory of the development shares: the exceptions the Python scripts raise, the
  effect type of a script (a function from the state to an exception or a value, and the new
  state), its combinators, and the rules by which facts about a composed script follow from facts
  about its parts.
\<close>

section \<open>Collections of facts\<close>

named_theorems py_eff \<open>unfolding rules of the effect combinators\<close>
named_theorems py_keeps \<open>operations that keep an invariant of the state\<close>

section \<open>Exceptions\<close>

text \<open>
  The exceptions that the modelled code raises or lets pass, by their Python names. A
  \<open>SystemExit\<close> carries its message; the process ends with status 1 for it, and also for any other
  exception that reaches the top level.
\<close>

datatype exn =
    SystemExit string
  | CalledProcessError "string list" int
  | RuntimeError string
  | ComposeSafetyError string
  | AssertionError string
  | FileNotFoundError string
  | ValueError string
  | KeyError string
  | IndexError
  | TypeError string
  | EOFError
  | StopIteration
  | RecursionError
  | JSONDecodeError string
  | UnicodeDecodeError
  | UnicodeEncodeError
  | OverflowError
  | InvalidSecurityStatusResponse string
  | URLError string
  | TimeoutErr
  | ConnectionErr
  | HTTPException string
  | UnboundLocalError string

section \<open>The effect type\<close>

type_synonym ('s, 'a) py = "'s \<Rightarrow> (exn + 'a) \<times> 's"

definition ret :: "'a \<Rightarrow> ('s, 'a) py" where
  "ret x s = (Inr x, s)"

definition raise :: "exn \<Rightarrow> ('s, 'a) py" where
  "raise e s = (Inl e, s)"

definition bind_py :: "('s, 'a) py \<Rightarrow> ('a \<Rightarrow> ('s, 'b) py) \<Rightarrow> ('s, 'b) py" where
  "bind_py m f s = (case m s of (Inl e, t) \<Rightarrow> (Inl e, t) | (Inr x, t) \<Rightarrow> f x t)"

definition then_py :: "('s, 'a) py \<Rightarrow> ('s, 'b) py \<Rightarrow> ('s, 'b) py" where
  "then_py m n = bind_py m (\<lambda>_. n)"

definition asks :: "('s \<Rightarrow> 'a) \<Rightarrow> ('s, 'a) py" where
  "asks f s = (Inr (f s), s)"

definition modify :: "('s \<Rightarrow> 's) \<Rightarrow> ('s, unit) py" where
  "modify f s = (Inr (), f s)"

definition lift_py :: "exn + 'a \<Rightarrow> ('s, 'a) py" where
  "lift_py r s = (r, s)"

definition when_py :: "bool \<Rightarrow> ('s, unit) py \<Rightarrow> ('s, unit) py" where
  "when_py b m = (if b then m else ret ())"

text \<open>\<open>assert cond, message\<close>.\<close>

definition assert_py :: "bool \<Rightarrow> string \<Rightarrow> ('s, unit) py" where
  "assert_py b msg = (if b then ret () else raise (AssertionError msg))"

text \<open>A \<open>for\<close> loop over a list, and a list comprehension whose body has effects.\<close>

fun for_py :: "('a \<Rightarrow> ('s, unit) py) \<Rightarrow> 'a list \<Rightarrow> ('s, unit) py" where
  "for_py f [] = ret ()"
| "for_py f (x # xs) = then_py (f x) (for_py f xs)"

fun map_py :: "('a \<Rightarrow> ('s, 'b) py) \<Rightarrow> 'a list \<Rightarrow> ('s, 'b list) py" where
  "map_py f [] = ret []"
| "map_py f (x # xs) = bind_py (f x) (\<lambda>y. bind_py (map_py f xs) (\<lambda>ys. ret (y # ys)))"

text \<open>A loop that carries values from one iteration to the next.\<close>

fun fold_py :: "('a \<Rightarrow> 'b \<Rightarrow> ('s, 'b) py) \<Rightarrow> 'a list \<Rightarrow> 'b \<Rightarrow> ('s, 'b) py" where
  "fold_py f [] b = ret b"
| "fold_py f (x # xs) b = bind_py (f x b) (fold_py f xs)"

lemma ret_run [py_eff]: "ret x s = (Inr x, s)"
  by (rule ret_def)

lemma raise_run [py_eff]: "raise e s = (Inl e, s)"
  by (rule raise_def)

lemma asks_run [py_eff]: "asks f s = (Inr (f s), s)"
  by (simp add: asks_def)

lemma modify_run [py_eff]: "modify f s = (Inr (), f s)"
  by (simp add: modify_def)

lemma asks_parts [simp]: "fst (asks f s) = Inr (f s)" "snd (asks f s) = s"
  by (simp_all add: asks_def)

lemma modify_parts [simp]: "fst (modify f s) = Inr ()" "snd (modify f s) = f s"
  by (simp_all add: modify_def)

lemma lift_run [py_eff]: "lift_py r s = (r, s)"
  by (rule lift_py_def)

lemma bind_run_Inr [py_eff]: "m s = (Inr x, t) \<Longrightarrow> bind_py m f s = f x t"
  by (simp add: bind_py_def)

lemma bind_run_Inl [py_eff]: "m s = (Inl e, t) \<Longrightarrow> bind_py m f s = (Inl e, t)"
  by (simp add: bind_py_def)

lemma bind_ret [simp]: "bind_py (ret x) f = f x"
  by (rule ext) (simp add: bind_py_def ret_def)

lemma bind_raise [simp]: "bind_py (raise e) f = raise e"
  by (rule ext) (simp add: bind_py_def raise_def)

lemma then_ret [simp]: "then_py (ret x) n = n"
  by (simp add: then_py_def)

lemma then_raise [simp]: "then_py (raise e) n = raise e"
  by (simp add: then_py_def)

lemma bind_assoc: "bind_py (bind_py m f) g = bind_py m (\<lambda>x. bind_py (f x) g)"
  by (rule ext) (simp add: bind_py_def split: prod.splits sum.splits)

lemma bind_right_ret: "bind_py m ret = m"
  by (rule ext) (simp add: bind_py_def ret_def split: prod.splits sum.splits)

text \<open>Running a composed script on a state.\<close>

lemmas py_run = asks_run modify_run bind_py_def then_py_def ret_def raise_def lift_py_def when_py_def assert_py_def

section \<open>Inversion of successful runs\<close>

lemma bind_ok: "bind_py m f s = (Inr y, u) \<longleftrightarrow> (\<exists>x t. m s = (Inr x, t) \<and> f x t = (Inr y, u))"
  by (simp add: bind_py_def split: prod.splits sum.splits)

lemma then_ok: "then_py m n s = (Inr y, u) \<longleftrightarrow> (\<exists>x t. m s = (Inr x, t) \<and> n t = (Inr y, u))"
  by (simp add: then_py_def bind_ok)

lemma ret_ok [simp]: "ret x s = (Inr y, u) \<longleftrightarrow> x = y \<and> s = u"
  by (simp add: ret_def)

lemma raise_ok [simp]: "raise e s \<noteq> (Inr y, u)"
  by (simp add: raise_def)

lemma asks_ok [simp]: "asks f s = (Inr y, u) \<longleftrightarrow> f s = y \<and> s = u"
  by (simp add: asks_def)

lemma modify_ok [simp]: "modify f s = (Inr y, u) \<longleftrightarrow> f s = u"
  by (simp add: modify_def)

lemma when_ok: "when_py b m s = (Inr y, u) \<longleftrightarrow> (if b then m s = (Inr y, u) else s = u)"
  by (auto simp: when_py_def)

lemma assert_ok: "assert_py b msg s = (Inr y, u) \<longleftrightarrow> b \<and> s = u"
  by (auto simp: assert_py_def)

lemmas run_ok = bind_ok then_ok when_ok assert_ok

lemma bind_asks: "bind_py (asks f) g s = g (f s) s"
  by (simp add: bind_py_def asks_def)

lemma bind_lift: "bind_py (lift_py (Inr x)) f = f x" "bind_py (lift_py (Inl e)) f = raise e"
  by (rule ext, simp add: bind_py_def lift_py_def raise_def)+

text \<open>Runs that always raise.\<close>

definition never :: "('s, 'a) py \<Rightarrow> bool" where
  "never m \<longleftrightarrow> (\<forall>s. isl (fst (m s)))"

lemma never_first: "never m \<Longrightarrow> never (bind_py m f)" "never m \<Longrightarrow> never (then_py m n)"
  unfolding never_def then_py_def bind_py_def by (auto split: prod.splits sum.splits) (metis fst_conv isl_def sum.disc(2))+

lemma never_later: "(\<And>x. never (f x)) \<Longrightarrow> never (bind_py m f)" "never n \<Longrightarrow> never (then_py m n)"
  unfolding never_def then_py_def bind_py_def by (simp_all split: prod.splits sum.splits)

lemma neverD: "never m \<Longrightarrow> \<exists>e t. m s = (Inl e, t)"
  unfolding never_def by (metis isl_def prod.collapse)

section \<open>Which exceptions a run can end with\<close>

definition raises :: "(exn \<Rightarrow> bool) \<Rightarrow> ('s, 'a) py \<Rightarrow> bool" where
  "raises Q m \<longleftrightarrow> (\<forall>s e t. m s = (Inl e, t) \<longrightarrow> Q e)"

named_theorems py_raises \<open>the exceptions an operation can raise\<close>

lemma raisesD: "raises Q m \<Longrightarrow> m s = (Inl e, t) \<Longrightarrow> Q e"
  unfolding raises_def by blast

lemma raises_ret [py_raises]: "raises Q (ret x)"
  by (simp add: raises_def ret_def)

lemma raises_asks [py_raises]: "raises Q (asks f)"
  by (simp add: raises_def asks_def)

lemma raises_modify [py_raises]: "raises Q (modify f)"
  by (simp add: raises_def modify_def)

lemma raises_raise: "Q e \<Longrightarrow> raises Q (raise e)"
  by (simp add: raises_def raise_def)

lemma raises_bind [py_raises]: "raises Q m \<Longrightarrow> (\<And>x. raises Q (f x)) \<Longrightarrow> raises Q (bind_py m f)"
  unfolding raises_def bind_py_def by (fastforce split: prod.splits sum.splits)

lemma raises_then [py_raises]: "raises Q m \<Longrightarrow> raises Q n \<Longrightarrow> raises Q (then_py m n)"
  by (simp add: then_py_def raises_bind)

lemma raises_if [py_raises]: "raises Q m \<Longrightarrow> raises Q n \<Longrightarrow> raises Q (if b then m else n)"
  by simp

lemma raises_for [py_raises]: "(\<And>x. x \<in> set xs \<Longrightarrow> raises Q (f x)) \<Longrightarrow> raises Q (for_py f xs)"
  by (induction xs) (auto intro!: raises_ret raises_then)

section \<open>Invariants of the state\<close>

text \<open>
  \<open>keeps I m\<close>: whatever \<open>m\<close> ends with, value or exception, it keeps \<open>I\<close>. Composed scripts keep
  an invariant when their parts do; the rules are the introduction rules for it.
\<close>

definition keeps :: "('s \<Rightarrow> bool) \<Rightarrow> ('s, 'a) py \<Rightarrow> bool" where
  "keeps I m \<longleftrightarrow> (\<forall>s. I s \<longrightarrow> I (snd (m s)))"

lemma keepsI: "(\<And>s. I s \<Longrightarrow> I (snd (m s))) \<Longrightarrow> keeps I m"
  by (simp add: keeps_def)

lemma keepsD: "keeps I m \<Longrightarrow> I s \<Longrightarrow> I (snd (m s))"
  by (simp add: keeps_def)

lemma keepsE: "keeps I m \<Longrightarrow> I s \<Longrightarrow> m s = (r, t) \<Longrightarrow> I t"
  by (metis keepsD snd_conv)

lemma keeps_ret [py_keeps]: "keeps I (ret x)"
  by (simp add: keeps_def ret_def)

lemma keeps_raise [py_keeps]: "keeps I (raise e)"
  by (simp add: keeps_def raise_def)

lemma keeps_asks [py_keeps]: "keeps I (asks f)"
  by (simp add: keeps_def)

lemma keeps_lift [py_keeps]: "keeps I (lift_py r)"
  by (simp add: keeps_def lift_py_def)

lemma keeps_bind [py_keeps]:
  assumes "keeps I m" and "\<And>x. keeps I (f x)"
  shows "keeps I (bind_py m f)"
proof (rule keepsI)
  fix s
  assume s: "I s"
  show "I (snd (bind_py m f s))"
  proof (cases "m s")
    case (Pair r t)
    with assms(1) s have "I t" by (rule keepsE)
    with Pair assms(2) show ?thesis
      by (cases r) (simp_all add: bind_py_def keepsD)
  qed
qed

lemma keeps_then [py_keeps]: "keeps I m \<Longrightarrow> keeps I n \<Longrightarrow> keeps I (then_py m n)"
  by (simp add: then_py_def keeps_bind)

lemma keeps_when [py_keeps]: "keeps I m \<Longrightarrow> keeps I (when_py b m)"
  by (simp add: when_py_def keeps_ret)

lemma keeps_assert [py_keeps]: "keeps I (assert_py b msg)"
  by (simp add: assert_py_def keeps_ret keeps_raise)

lemma keeps_if [py_keeps]: "keeps I m \<Longrightarrow> keeps I n \<Longrightarrow> keeps I (if b then m else n)"
  by simp

lemma keeps_for [py_keeps]: "(\<And>x. x \<in> set xs \<Longrightarrow> keeps I (f x)) \<Longrightarrow> keeps I (for_py f xs)"
  by (induction xs) (auto intro: keeps_ret keeps_then)

lemma keeps_map [py_keeps]: "(\<And>x. x \<in> set xs \<Longrightarrow> keeps I (f x)) \<Longrightarrow> keeps I (map_py f xs)"
  by (induction xs) (auto intro!: keeps_ret keeps_bind)

lemma keeps_fold [py_keeps]:
  "(\<And>x b. x \<in> set xs \<Longrightarrow> keeps I (f x b)) \<Longrightarrow> keeps I (fold_py f xs b)"
  by (induction xs arbitrary: b) (auto intro!: keeps_ret keeps_bind)

section \<open>Loops that succeed\<close>

text \<open>A step whose value is known to satisfy \<open>V\<close>.\<close>

definition ensures :: "('a \<Rightarrow> 's \<Rightarrow> bool) \<Rightarrow> ('s, 'a) py \<Rightarrow> bool" where
  "ensures Q m \<longleftrightarrow> (\<forall>s x t. m s = (Inr x, t) \<longrightarrow> Q x t)"

lemma ensuresD: "ensures Q m \<Longrightarrow> m s = (Inr x, t) \<Longrightarrow> Q x t"
  by (simp add: ensures_def)

lemma ensures_bind: "(\<And>x. ensures Q (f x)) \<Longrightarrow> ensures Q (bind_py m f)"
  by (auto simp: ensures_def bind_ok)

lemma ensures_bind_value: "ensures (\<lambda>x s. V x) m \<Longrightarrow> (\<And>x. V x \<Longrightarrow> ensures Q (f x)) \<Longrightarrow> ensures Q (bind_py m f)"
  unfolding ensures_def bind_ok by metis

lemma ensures_then: "ensures Q n \<Longrightarrow> ensures Q (then_py m n)"
  by (simp add: then_py_def ensures_bind)

text \<open>What one iteration establishes and the others keep holds after the loop.\<close>

lemma for_py_done:
  assumes "for_py f xs s = (Inr u, t)" and "x \<in> set xs"
    and "\<And>g g'. f x g = (Inr (), g') \<Longrightarrow> I g'" and "\<And>y. keeps I (f y)"
  shows "I t"
  using assms(1,2)
proof (induction xs arbitrary: s)
  case (Cons y ys)
  then obtain s' where y: "f y s = (Inr (), s')" and ys: "for_py f ys s' = (Inr u, t)"
    by (auto simp: then_ok)
  show ?case
  proof (cases "x = y")
    case True
    with y assms(3) have "I s'" by simp
    moreover have "keeps I (for_py f ys)" by (intro keeps_for assms(4))
    ultimately show ?thesis using ys by (metis keepsE)
  qed (use Cons ys in auto)
qed simp

lemma map_py_ok_length: "map_py f xs s = (Inr ys, t) \<Longrightarrow> length ys = length xs"
  by (induction xs arbitrary: s ys t) (auto simp: bind_ok)

lemma for_py_append:
  "for_py f (xs @ ys) = then_py (for_py f xs) (for_py f ys)"
  by (induction xs) (simp_all add: then_py_def bind_assoc)

section \<open>Options and lists\<close>

fun need :: "exn \<Rightarrow> 'a option \<Rightarrow> exn + 'a" where
  "need e None = Inl e"
| "need e (Some x) = Inr x"

lemma need_ok [simp]: "need e o' = Inr x \<longleftrightarrow> o' = Some x"
  by (cases o') auto

definition bind_sum :: "'e + 'a \<Rightarrow> ('a \<Rightarrow> 'e + 'b) \<Rightarrow> 'e + 'b" where
  "bind_sum r f = (case r of Inl e \<Rightarrow> Inl e | Inr x \<Rightarrow> f x)"

lemma bind_sum_Inl [simp]: "bind_sum (Inl e) f = Inl e"
  by (simp add: bind_sum_def)

lemma bind_sum_Inr [simp]: "bind_sum (Inr x) f = f x"
  by (simp add: bind_sum_def)

lemma bind_sum_ok: "bind_sum r f = Inr y \<longleftrightarrow> (\<exists>x. r = Inr x \<and> f x = Inr y)"
  by (cases r) auto

text \<open>Every element but the last \<open>n\<close>, as the slice \<open>xs[:-n]\<close> for a positive \<open>n\<close>.\<close>

definition all_but_last :: "nat \<Rightarrow> 'a list \<Rightarrow> 'a list" where
  "all_but_last n xs = take (length xs - n) xs"

definition last_n :: "nat \<Rightarrow> 'a list \<Rightarrow> 'a list" where
  "last_n n xs = drop (length xs - n) xs"

lemma all_but_last_append_last_n: "all_but_last n xs @ last_n n xs = xs"
  by (simp add: all_but_last_def last_n_def)

lemma length_last_n [simp]: "length (last_n n xs) = min n (length xs)"
  by (simp add: last_n_def)

end
