(* ===== verification/PyText.thy ===== *)
theory PyText
  imports Prelude "HOL-Library.Char_ord" "HOL-Library.List_Lexorder"
begin

text \<open>
  The Python text operations the scripts use, on \<open>string\<close>: a Python \<open>str\<close> is represented by its
  UTF-8 bytes, one \<open>char\<close> each (a lone surrogate by the three bytes the same scheme gives it), so
  comparison of strings is comparison by code point, as in Python, and ASCII literals are
  themselves.
\<close>

section \<open>Prefixes and substrings\<close>

fun starts_with :: "string \<Rightarrow> string \<Rightarrow> bool" where
  "starts_with [] s = True"
| "starts_with (p # ps) [] = False"
| "starts_with (p # ps) (c # cs) = (p = c \<and> starts_with ps cs)"

definition ends_with :: "string \<Rightarrow> string \<Rightarrow> bool" where
  "ends_with p s = starts_with (rev p) (rev s)"

text \<open>\<open>p in s\<close>\<close>

fun contains :: "string \<Rightarrow> string \<Rightarrow> bool" where
  "contains p [] = (p = [])"
| "contains p (c # cs) = (starts_with p (c # cs) \<or> contains p cs)"

lemma starts_with_append: "starts_with p s \<longleftrightarrow> (\<exists>t. s = p @ t)"
  by (induction p s rule: starts_with.induct) auto

lemma starts_with_self [simp]: "starts_with p (p @ t)"
  by (auto simp: starts_with_append)

lemma ends_with_append: "ends_with p s \<longleftrightarrow> (\<exists>t. s = t @ p)"
proof
  assume "ends_with p s"
  then obtain t where "rev s = rev p @ t" by (auto simp: ends_with_def starts_with_append)
  then have "s = rev t @ p" by (metis rev_append rev_rev_ident)
  then show "\<exists>t. s = t @ p" ..
next
  assume "\<exists>t. s = t @ p"
  then show "ends_with p s" by (auto simp: ends_with_def)
qed

lemma contains_append: "contains p s \<longleftrightarrow> (\<exists>u v. s = u @ p @ v)"
proof (induction s)
  case Nil
  then show ?case by simp
next
  case (Cons c cs)
  note IH = Cons
  show ?case
  proof
    assume "contains p (c # cs)"
    then consider "starts_with p (c # cs)" | "contains p cs" by auto
    then show "\<exists>u v. c # cs = u @ p @ v"
    proof cases
      case 1
      then show ?thesis by (metis append_Nil starts_with_append)
    next
      case 2
      then show ?thesis using IH by (metis append_Cons)
    qed
  next
    assume "\<exists>u v. c # cs = u @ p @ v"
    then obtain u v where uv: "c # cs = u @ p @ v" by blast
    show "contains p (c # cs)"
    proof (cases u)
      case Nil
      with uv have "starts_with p (c # cs)" by (auto simp: starts_with_append)
      then show ?thesis by simp
    next
      case (Cons d ds)
      with uv have "contains p cs" using IH by auto
      then show ?thesis by simp
    qed
  qed
qed

lemma contains_mono: "contains p s \<Longrightarrow> contains p (u @ s @ v)"
  by (metis append.assoc contains_append)

lemma contains_trans: "contains p q \<Longrightarrow> contains q s \<Longrightarrow> contains p s"
  by (metis append.assoc contains_append)

section \<open>White space\<close>

text \<open>The code points \<open>str.isspace\<close> accepts, in UTF-8.\<close>

definition ws_seqs :: "string list" where
  "ws_seqs =
     [[CHR 0x20], [CHR 0x09], [CHR 0x0A], [CHR 0x0B], [CHR 0x0C], [CHR 0x0D],
      [CHR 0x1C], [CHR 0x1D], [CHR 0x1E], [CHR 0x1F],
      [CHR 0xC2, CHR 0x85], [CHR 0xC2, CHR 0xA0], [CHR 0xE1, CHR 0x9A, CHR 0x80],
      [CHR 0xE2, CHR 0x80, CHR 0x80], [CHR 0xE2, CHR 0x80, CHR 0x81],
      [CHR 0xE2, CHR 0x80, CHR 0x82], [CHR 0xE2, CHR 0x80, CHR 0x83],
      [CHR 0xE2, CHR 0x80, CHR 0x84], [CHR 0xE2, CHR 0x80, CHR 0x85],
      [CHR 0xE2, CHR 0x80, CHR 0x86], [CHR 0xE2, CHR 0x80, CHR 0x87],
      [CHR 0xE2, CHR 0x80, CHR 0x88], [CHR 0xE2, CHR 0x80, CHR 0x89],
      [CHR 0xE2, CHR 0x80, CHR 0x8A], [CHR 0xE2, CHR 0x80, CHR 0xA8],
      [CHR 0xE2, CHR 0x80, CHR 0xA9], [CHR 0xE2, CHR 0x80, CHR 0xAF],
      [CHR 0xE2, CHR 0x81, CHR 0x9F], [CHR 0xE3, CHR 0x80, CHR 0x80]]"

fun first_match :: "string list \<Rightarrow> string \<Rightarrow> string option" where
  "first_match [] s = None"
| "first_match (w # ws) s = (if w \<noteq> [] \<and> starts_with w s then Some w else first_match ws s)"

lemma first_match_prefix: "first_match ws s = Some w \<Longrightarrow> w \<noteq> [] \<and> starts_with w s"
  by (induction ws) (auto split: if_splits)

lemma first_match_drop: "first_match ws s = Some w \<Longrightarrow> length (drop (length w) s) < length s"
  by (auto dest!: first_match_prefix simp: starts_with_append)

function strip_seqs :: "string list \<Rightarrow> string \<Rightarrow> string" where
  "strip_seqs ws s =
     (case first_match ws s of None \<Rightarrow> s | Some w \<Rightarrow> strip_seqs ws (drop (length w) s))"
  by pat_completeness auto
termination
  by (relation "measure (\<lambda>(ws, s). length s)") (auto dest: first_match_drop)

declare strip_seqs.simps [simp del]

definition lstrip :: "string \<Rightarrow> string" where
  "lstrip s = strip_seqs ws_seqs s"

definition rstrip :: "string \<Rightarrow> string" where
  "rstrip s = rev (strip_seqs (map rev ws_seqs) (rev s))"

definition strip :: "string \<Rightarrow> string" where
  "strip s = rstrip (lstrip s)"

text \<open>\<open>s.rstrip(c)\<close> for one character.\<close>

definition rstrip_char :: "char \<Rightarrow> string \<Rightarrow> string" where
  "rstrip_char c s = rev (dropWhile (\<lambda>d. d = c) (rev s))"

lemma strip_seqs_suffix: "\<exists>u. s = u @ strip_seqs ws s"
proof (induction ws s rule: strip_seqs.induct)
  case (1 ws s)
  show ?case
  proof (cases "first_match ws s")
    case None
    then show ?thesis by (simp add: strip_seqs.simps)
  next
    case (Some w)
    with "1.IH" obtain u where "drop (length w) s = u @ strip_seqs ws (drop (length w) s)" by blast
    then have "s = (take (length w) s @ u) @ strip_seqs ws (drop (length w) s)"
      by (metis append.assoc append_take_drop_id)
    moreover have "strip_seqs ws s = strip_seqs ws (drop (length w) s)"
      using Some by (simp add: strip_seqs.simps [of ws s])
    ultimately show ?thesis by metis
  qed
qed

lemma length_lstrip: "length (lstrip s) \<le> length s"
  using strip_seqs_suffix [of s ws_seqs] unfolding lstrip_def by (metis length_append le_add2)

lemma strip_infix: "\<exists>u v. s = u @ strip s @ v"
proof -
  obtain u where u: "s = u @ lstrip s" using strip_seqs_suffix lstrip_def by metis
  obtain v where "rev (lstrip s) = v @ strip_seqs (map rev ws_seqs) (rev (lstrip s))"
    using strip_seqs_suffix by blast
  then have "lstrip s = strip s @ rev v"
    by (metis rev_append rev_rev_ident rstrip_def strip_def)
  with u show ?thesis by metis
qed

lemma strip_keeps_chars: "set (strip s) \<subseteq> set s"
  using strip_infix [of s] by (metis Un_iff set_append subsetI)

lemma first_match_None: "first_match ws s = None \<longleftrightarrow> (\<forall>w\<in>set ws. w \<noteq> [] \<longrightarrow> \<not> starts_with w s)"
  by (induction ws) auto

lemma strip_seqs_stop: "first_match ws s = None \<Longrightarrow> strip_seqs ws s = s"
  by (simp add: strip_seqs.simps)

lemma strip_seqs_done: "first_match ws (strip_seqs ws s) = None"
proof (induction ws s rule: strip_seqs.induct)
  case (1 ws s)
  then show ?case
    by (cases "first_match ws s") (simp_all add: strip_seqs.simps [of ws s])
qed

lemma strip_Nil [simp]: "strip [] = []"
proof -
  have "\<exists>u v. [] = u @ strip [] @ v" by (rule strip_infix)
  then show ?thesis by simp
qed

text \<open>Text of printable ASCII characters without blanks is left alone.\<close>

definition graphic :: "char \<Rightarrow> bool" where
  "graphic c \<longleftrightarrow> 33 \<le> (of_char c :: nat) \<and> (of_char c :: nat) \<le> 126"

lemma ws_not_graphic: "w \<in> set ws_seqs \<Longrightarrow> c \<in> set w \<Longrightarrow> \<not> graphic c"
  by (auto simp: ws_seqs_def graphic_def)

lemma graphic_no_match:
  assumes "s \<noteq> [] \<Longrightarrow> graphic (hd s)"
  shows "first_match ws_seqs s = None" and "first_match (map rev ws_seqs) s = None"
proof -
  have "\<not> starts_with w s" if "w \<in> set ws_seqs \<or> w \<in> set (map rev ws_seqs)" "w \<noteq> []" for w
  proof
    assume "starts_with w s"
    with that(2) obtain t where s: "s = w @ t" and "s \<noteq> []"
      by (auto simp: starts_with_append)
    with assms that(2) have "graphic (hd w)" by simp
    moreover have "hd w \<in> set w" using that(2) by simp
    ultimately show False using that(1) ws_not_graphic by auto
  qed
  then show "first_match ws_seqs s = None" and "first_match (map rev ws_seqs) s = None"
    by (auto simp: first_match_None)
qed

lemma strip_graphic:
  assumes "s \<noteq> [] \<Longrightarrow> graphic (hd s) \<and> graphic (last s)"
  shows "strip s = s"
proof -
  have "lstrip s = s"
    unfolding lstrip_def using assms by (intro strip_seqs_stop graphic_no_match) simp
  moreover have "rstrip s = s"
    unfolding rstrip_def using assms
    by (subst strip_seqs_stop, intro graphic_no_match) (simp_all add: hd_rev)
  ultimately show ?thesis by (simp add: strip_def)
qed

section \<open>Lines and fields\<close>

text \<open>The line boundaries of \<open>str.splitlines\<close>; \<open>\<setminus>r\<setminus>n\<close> comes first, as one boundary.\<close>

definition line_seqs :: "string list" where
  "line_seqs =
     [[CHR 0x0D, CHR 0x0A], [CHR 0x0A], [CHR 0x0D], [CHR 0x0B], [CHR 0x0C],
      [CHR 0x1C], [CHR 0x1D], [CHR 0x1E], [CHR 0xC2, CHR 0x85],
      [CHR 0xE2, CHR 0x80, CHR 0xA8], [CHR 0xE2, CHR 0x80, CHR 0xA9]]"

function split_lines :: "string \<Rightarrow> string \<Rightarrow> string list" where
  "split_lines acc s =
     (case first_match line_seqs s of
        Some w \<Rightarrow> rev acc # split_lines [] (drop (length w) s)
      | None \<Rightarrow> (case s of [] \<Rightarrow> (if acc = [] then [] else [rev acc])
                        | c # cs \<Rightarrow> split_lines (c # acc) cs))"
  by pat_completeness auto
termination
  by (relation "measure (\<lambda>(acc, s). length s)") (auto dest: first_match_drop)

declare split_lines.simps [simp del]

definition splitlines :: "string \<Rightarrow> string list" where
  "splitlines s = split_lines [] s"

text \<open>\<open>s.split(c, 1)\<close> and \<open>s.partition(c)\<close> for one character.\<close>

fun cut_at :: "char \<Rightarrow> string \<Rightarrow> (string \<times> string) option" where
  "cut_at c [] = None"
| "cut_at c (d # ds) =
     (if d = c then Some ([], ds)
      else map_option (\<lambda>(a, b). (d # a, b)) (cut_at c ds))"

lemma cut_at_Some: "cut_at c s = Some (a, b) \<longleftrightarrow> s = a @ c # b \<and> c \<notin> set a"
proof (induction s arbitrary: a)
  case Nil
  then show ?case by simp
next
  case (Cons d ds)
  then show ?case by (cases a) (auto split: option.splits)
qed

lemma cut_at_None: "cut_at c s = None \<longleftrightarrow> c \<notin> set s"
  by (induction s) auto

text \<open>\<open>s.rsplit(c, 1)[-1]\<close>: what follows the last \<open>c\<close>, or all of \<open>s\<close>.\<close>

definition after_last :: "char \<Rightarrow> string \<Rightarrow> string" where
  "after_last c s = rev (takeWhile (\<lambda>d. d \<noteq> c) (rev s))"

lemma after_last_append: "c \<notin> set t \<Longrightarrow> after_last c (u @ c # t) = t"
  by (simp add: after_last_def takeWhile_append)

text \<open>\<open>s.replace(old, new)\<close> for a non-empty \<open>old\<close>, and with a count of one.\<close>

function replace_all :: "string \<Rightarrow> string \<Rightarrow> string \<Rightarrow> string" where
  "replace_all old new s =
     (case s of
        [] \<Rightarrow> []
      | c # cs \<Rightarrow>
          if old \<noteq> [] \<and> starts_with old s then new @ replace_all old new (drop (length old) s)
          else c # replace_all old new cs)"
  by pat_completeness auto
termination
  by (relation "measure (\<lambda>(old, new, s). length s)") auto

declare replace_all.simps [simp del]

fun replace_first :: "string \<Rightarrow> string \<Rightarrow> string \<Rightarrow> string" where
  "replace_first old new [] = (if old = [] then new else [])"
| "replace_first old new (c # cs) =
     (if starts_with old (c # cs) then new @ drop (length old) (c # cs)
      else c # replace_first old new cs)"

lemma replace_first_absent: "\<not> contains old s \<Longrightarrow> replace_first old new s = s"
  by (induction s) auto

lemma replace_all_absent: "\<not> contains old s \<Longrightarrow> replace_all old new s = s"
  by (induction s) (auto simp: replace_all.simps)

fun join :: "string \<Rightarrow> string list \<Rightarrow> string" where
  "join sep [] = []"
| "join sep [x] = x"
| "join sep (x # y # xs) = x @ sep @ join sep (y # xs)"

definition nl :: string where
  "nl = [CHR 0x0A]"

section \<open>Decimal integers\<close>

definition digit_char :: "nat \<Rightarrow> char" where
  "digit_char d = char_of (48 + d)"

definition is_digit :: "char \<Rightarrow> bool" where
  "is_digit c \<longleftrightarrow> 48 \<le> (of_char c :: nat) \<and> (of_char c :: nat) \<le> 57"

definition digit_val :: "char \<Rightarrow> nat" where
  "digit_val c = of_char c - 48"

fun show_nat :: "nat \<Rightarrow> string" where
  "show_nat n = (if n < 10 then [digit_char n] else show_nat (n div 10) @ [digit_char (n mod 10)])"

declare show_nat.simps [simp del]

definition show_int :: "int \<Rightarrow> string" where
  "show_int i = (if i < 0 then CHR ''-'' # show_nat (nat (- i)) else show_nat (nat i))"

definition read_digits :: "string \<Rightarrow> nat" where
  "read_digits ds = foldl (\<lambda>n c. 10 * n + digit_val c) 0 ds"

lemma digit_char_of [simp]: "d < 10 \<Longrightarrow> (of_char (digit_char d) :: nat) = 48 + d"
  by (simp add: digit_char_def)

lemma is_digit_char [simp]: "d < 10 \<Longrightarrow> is_digit (digit_char d)"
  by (simp add: is_digit_def)

lemma digit_val_char [simp]: "d < 10 \<Longrightarrow> digit_val (digit_char d) = d"
  by (simp add: digit_val_def)

lemma digit_graphic: "is_digit c \<Longrightarrow> graphic c"
  by (simp add: is_digit_def graphic_def)

lemma show_nat_digits: "\<forall>c\<in>set (show_nat n). is_digit c"
proof (induction n rule: show_nat.induct)
  case (1 n)
  then show ?case by (subst show_nat.simps) auto
qed

lemma show_nat_nonempty [simp]: "show_nat n \<noteq> []"
  by (subst show_nat.simps) simp

lemma read_show_nat: "read_digits (show_nat n) = n"
proof (induction n rule: show_nat.induct)
  case (1 n)
  then show ?case by (subst show_nat.simps) (auto simp: read_digits_def)
qed

lemma show_nat_inj: "show_nat m = show_nat n \<longleftrightarrow> m = n"
  by (metis read_show_nat)

text \<open>No superfluous leading zero.\<close>

lemma show_nat_hd: "hd (show_nat n) = CHR ''0'' \<longleftrightarrow> n = 0"
proof (induction n rule: show_nat.induct)
  case (1 n)
  have z: "CHR ''0'' = digit_char 0" by code_simp
  show ?case
  proof (cases "n < 10")
    case True
    then have "digit_char n = digit_char 0 \<longleftrightarrow> n = 0"
      by (metis digit_val_char zero_less_numeral)
    with True z show ?thesis by (subst show_nat.simps) simp
  next
    case False
    with 1 show ?thesis by (subst show_nat.simps) (simp add: hd_append)
  qed
qed

lemma show_nat_zero: "show_nat 0 = ''0''"
  by code_simp

lemma show_int_chars: "c \<in> set (show_int i) \<Longrightarrow> c = CHR ''-'' \<or> is_digit c"
  using show_nat_digits by (auto simp: show_int_def split: if_splits)

section \<open>UTF-8\<close>

definition cont :: "char \<Rightarrow> bool" where
  "cont c \<longleftrightarrow> 128 \<le> (of_char c :: nat) \<and> (of_char c :: nat) \<le> 191"

definition between :: "nat \<Rightarrow> nat \<Rightarrow> char \<Rightarrow> bool" where
  "between lo hi c \<longleftrightarrow> lo \<le> (of_char c :: nat) \<and> (of_char c :: nat) \<le> hi"

text \<open>
  How many bytes the code point at the start of the text has, or 0 when the bytes there are no
  code point (overlong forms, surrogates and values above U+10FFFF are refused).
\<close>

definition utf8_len :: "string \<Rightarrow> nat" where
  "utf8_len s =
     (case s of
        [] \<Rightarrow> 0
      | a # r \<Rightarrow>
          if between 0 127 a then 1
          else if between 194 223 a then (case r of b # _ \<Rightarrow> if cont b then 2 else 0 | _ \<Rightarrow> 0)
          else if between 224 239 a then
            (case r of
               b # c # _ \<Rightarrow>
                 if between (if a = CHR 0xE0 then 160 else 128) (if a = CHR 0xED then 159 else 191) b \<and> cont c
                 then 3 else 0
             | _ \<Rightarrow> 0)
          else if between 240 244 a then
            (case r of
               b # c # d # _ \<Rightarrow>
                 if between (if a = CHR 0xF0 then 144 else 128) (if a = CHR 0xF4 then 143 else 191) b
                    \<and> cont c \<and> cont d
                 then 4 else 0
             | _ \<Rightarrow> 0)
          else 0)"

function utf8_ok :: "string \<Rightarrow> bool" where
  "utf8_ok s =
     (if s = [] then True
      else if utf8_len s = 0 then False
      else utf8_ok (drop (utf8_len s) s))"
  by pat_completeness auto
termination
  by (relation "measure length") auto

declare utf8_ok.simps [simp del]

text \<open>An ASCII text is UTF-8.\<close>

lemma utf8_ascii_prefix: "\<forall>c\<in>set s. between 0 127 c \<Longrightarrow> utf8_ok (s @ t) = utf8_ok t"
proof (induction s)
  case Nil
  then show ?case by simp
next
  case (Cons a s)
  then show ?case by (subst utf8_ok.simps) (simp add: utf8_len_def)
qed

lemma utf8_ascii: "\<forall>c\<in>set s. between 0 127 c \<Longrightarrow> utf8_ok s"
  using utf8_ascii_prefix [of s "[]"] by (simp add: utf8_ok.simps)

text \<open>
  The default \<open>ensure_ascii=True\<close> of \<open>json.dumps\<close>: a code point beyond ASCII, read from its bytes (a
  lone surrogate from its three), becomes one escape of four digits, or two for a surrogate pair.
\<close>

definition lead_len :: "char \<Rightarrow> nat" where
  "lead_len c =
     (let n = of_char c :: nat in if n < 192 then 1 else if n < 224 then 2 else if n < 240 then 3 else 4)"

definition code_point :: "string \<Rightarrow> nat" where
  "code_point s =
     (case s of
        [] \<Rightarrow> 0
      | c # r \<Rightarrow>
          let n = of_char c :: nat;
              lead = (if n < 192 then n else if n < 224 then n - 192 else if n < 240 then n - 224 else n - 240)
          in fold (\<lambda>d acc. acc * 64 + (of_char d - 128)) (take (lead_len c - 1) r) lead)"

definition hex_digit :: "nat \<Rightarrow> char" where
  "hex_digit d = (if d < 10 then char_of (48 + d) else char_of (87 + d))"

definition u_escape :: "nat \<Rightarrow> string" where
  "u_escape n = [CHR 0x5C, CHR ''u'', hex_digit (n div 4096 mod 16), hex_digit (n div 256 mod 16),
     hex_digit (n div 16 mod 16), hex_digit (n mod 16)]"

function ascii_escape :: "string \<Rightarrow> string" where
  "ascii_escape s =
     (case s of
        [] \<Rightarrow> []
      | c # r \<Rightarrow>
          if between 0 127 c then c # ascii_escape r
          else (let n = code_point s in
                (if n < 65536 then u_escape n
                 else u_escape (55296 + (n - 65536) div 1024) @ u_escape (56320 + (n - 65536) mod 1024))
                @ ascii_escape (drop (lead_len c - 1) r)))"
  by pat_completeness auto
termination
  by (relation "measure length") auto

declare ascii_escape.simps [simp del]

lemma ascii_escape_id: "\<forall>c\<in>set s. between 0 127 c \<Longrightarrow> ascii_escape s = s"
proof (induction s)
  case Nil
  then show ?case by (simp add: ascii_escape.simps)
next
  case (Cons a s)
  then show ?case by (subst ascii_escape.simps) simp
qed

end
