(* ===== verification/Json.thy ===== *)
theory Json
  imports PyText
begin

text \<open>
  JSON as the scripts use it through Python's \<open>json\<close> module: the values, \<open>json.dumps\<close> with the
  options the scripts pass, and \<open>json.loads\<close> with the three ways it fails: a decode error, the
  interpreter's recursion limit on nested containers, and its limit on the digits of an integer
  literal (a plain \<open>ValueError\<close>, of which \<open>JSONDecodeError\<close> is only a subclass).
  A dictionary is its list of items in insertion order; a number with a fraction or an exponent
  (or \<open>NaN\<close>, \<open>Infinity\<close>) is kept as its literal, since no script computes with one.
\<close>

datatype json =
    JNull
  | JBool bool
  | JInt int
  | JFloat string
  | JStr string
  | JArr "json list"
  | JObj "(string \<times> json) list"

type_synonym members = "(string \<times> json) list"

section \<open>Dictionaries\<close>

text \<open>\<open>d[k] = v\<close>: a present key keeps its place and gets the new value.\<close>

fun obj_set :: "string \<Rightarrow> json \<Rightarrow> members \<Rightarrow> members" where
  "obj_set k v [] = [(k, v)]"
| "obj_set k v ((k', v') # kvs) = (if k' = k then (k, v) # kvs else (k', v') # obj_set k v kvs)"

text \<open>\<open>{**d, **e}\<close>\<close>

fun obj_merge :: "members \<Rightarrow> members \<Rightarrow> members" where
  "obj_merge d [] = d"
| "obj_merge d ((k, v) # e) = obj_merge (obj_set k v d) e"

lemma map_of_obj_set: "map_of (obj_set k v d) = (map_of d)(k \<mapsto> v)"
  by (induction d) auto

lemma keys_obj_set:
  "map fst (obj_set k v d) = (if k \<in> set (map fst d) then map fst d else map fst d @ [k])"
  by (induction d) force+

lemma distinct_obj_set: "distinct (map fst d) \<Longrightarrow> distinct (map fst (obj_set k v d))"
  by (simp add: keys_obj_set)

lemma obj_set_new: "k \<notin> fst ` set d \<Longrightarrow> obj_set k v d = d @ [(k, v)]"
  by (induction d) auto

lemma map_of_obj_merge: "distinct (map fst e) \<Longrightarrow> map_of (obj_merge d e) = map_of d ++ map_of e"
proof (induction d e rule: obj_merge.induct)
  case (1 d)
  then show ?case by simp
next
  case (2 d k v e)
  then have "map_of e k = None" by (auto simp: map_of_eq_None_iff)
  with 2 show ?case by (auto simp: map_of_obj_set map_add_def fun_eq_iff split: option.splits)
qed

section \<open>Printing\<close>

definition hex_char :: "nat \<Rightarrow> char" where
  "hex_char d = (if d < 10 then char_of (48 + d) else char_of (87 + d))"

text \<open>The escapes of \<open>json.dumps(..., ensure_ascii=False)\<close>.\<close>

definition esc_char :: "char \<Rightarrow> string" where
  "esc_char c =
     (if c = CHR 0x22 then [CHR 0x5C, CHR 0x22]
      else if c = CHR 0x5C then [CHR 0x5C, CHR 0x5C]
      else if c = CHR 0x08 then [CHR 0x5C, CHR ''b'']
      else if c = CHR 0x0C then [CHR 0x5C, CHR ''f'']
      else if c = CHR 0x0A then [CHR 0x5C, CHR ''n'']
      else if c = CHR 0x0D then [CHR 0x5C, CHR ''r'']
      else if c = CHR 0x09 then [CHR 0x5C, CHR ''t'']
      else if (of_char c :: nat) < 32
        then [CHR 0x5C, CHR ''u'', CHR ''0'', CHR ''0'',
              hex_char (of_char c div 16), hex_char (of_char c mod 16)]
      else [c])"

definition quote :: "string \<Rightarrow> string" where
  "quote s = CHR 0x22 # concat (map esc_char s) @ [CHR 0x22]"

text \<open>
  \<open>dumps sp v\<close> has the item separator \<open>','\<close> and the key separator \<open>':'\<close>, each followed by
  \<open>sp\<close>: nothing for \<open>separators=(',', ':')\<close>, one blank for the default separators.
\<close>

fun dumps :: "string \<Rightarrow> json \<Rightarrow> string"
  and dumps_items :: "string \<Rightarrow> json list \<Rightarrow> string"
  and dumps_members :: "string \<Rightarrow> members \<Rightarrow> string" where
  "dumps sp JNull = ''null''"
| "dumps sp (JBool b) = (if b then ''true'' else ''false'')"
| "dumps sp (JInt i) = show_int i"
| "dumps sp (JFloat lit) = lit"
| "dumps sp (JStr s) = quote s"
| "dumps sp (JArr vs) = CHR ''['' # dumps_items sp vs @ '']''"
| "dumps sp (JObj kvs) = CHR ''{'' # dumps_members sp kvs @ ''}''"
| "dumps_items sp [] = []"
| "dumps_items sp [v] = dumps sp v"
| "dumps_items sp (v # w # vs) = dumps sp v @ CHR '','' # sp @ dumps_items sp (w # vs)"
| "dumps_members sp [] = []"
| "dumps_members sp [(k, v)] = quote k @ CHR '':'' # sp @ dumps sp v"
| "dumps_members sp ((k, v) # m # kvs) =
     quote k @ CHR '':'' # sp @ dumps sp v @ CHR '','' # sp @ dumps_members sp (m # kvs)"

text \<open>\<open>sort_keys=True\<close> sorts the items of every dictionary by key.\<close>

fun insert_by_key :: "(string \<times> json) \<Rightarrow> members \<Rightarrow> members" where
  "insert_by_key kv [] = [kv]"
| "insert_by_key kv (m # ms) = (if fst kv \<le> fst m then kv # m # ms else m # insert_by_key kv ms)"

fun sort_by_key :: "members \<Rightarrow> members" where
  "sort_by_key [] = []"
| "sort_by_key (kv # kvs) = insert_by_key kv (sort_by_key kvs)"

fun sort_keys :: "json \<Rightarrow> json"
  and sort_keys_items :: "json list \<Rightarrow> json list"
  and sort_keys_members :: "members \<Rightarrow> members" where
  "sort_keys (JArr vs) = JArr (sort_keys_items vs)"
| "sort_keys (JObj kvs) = JObj (sort_by_key (sort_keys_members kvs))"
| "sort_keys v = v"
| "sort_keys_items [] = []"
| "sort_keys_items (v # vs) = sort_keys v # sort_keys_items vs"
| "sort_keys_members [] = []"
| "sort_keys_members ((k, v) # kvs) = (k, sort_keys v) # sort_keys_members kvs"

section \<open>Parsing\<close>

definition jws :: "char \<Rightarrow> bool" where
  "jws c \<longleftrightarrow> c = CHR 0x20 \<or> c = CHR 0x09 \<or> c = CHR 0x0A \<or> c = CHR 0x0D"

definition skip_ws :: "string \<Rightarrow> string" where
  "skip_ws s = dropWhile jws s"

definition hex_val :: "char \<Rightarrow> nat option" where
  "hex_val c =
     (let n = of_char c :: nat in
      if 48 \<le> n \<and> n \<le> 57 then Some (n - 48)
      else if 97 \<le> n \<and> n \<le> 102 then Some (n - 87)
      else if 65 \<le> n \<and> n \<le> 70 then Some (n - 55)
      else None)"

fun hex4 :: "string \<Rightarrow> nat option" where
  "hex4 (a # b # c # d # _) =
     (case (hex_val a, hex_val b, hex_val c, hex_val d) of
        (Some w, Some x, Some y, Some z) \<Rightarrow> Some (w * 4096 + x * 256 + y * 16 + z)
      | _ \<Rightarrow> None)"
| "hex4 _ = None"

definition utf8_encode :: "nat \<Rightarrow> string" where
  "utf8_encode n =
     (if n < 128 then [char_of n]
      else if n < 2048 then [char_of (192 + n div 64), char_of (128 + n mod 64)]
      else if n < 65536
        then [char_of (224 + n div 4096), char_of (128 + n div 64 mod 64), char_of (128 + n mod 64)]
      else [char_of (240 + n div 262144), char_of (128 + n div 4096 mod 64),
            char_of (128 + n div 64 mod 64), char_of (128 + n mod 64)])"

definition simple_escape :: "char \<Rightarrow> char option" where
  "simple_escape c =
     (if c = CHR 0x22 \<or> c = CHR 0x5C \<or> c = CHR ''/'' then Some c
      else if c = CHR ''b'' then Some (CHR 0x08)
      else if c = CHR ''f'' then Some (CHR 0x0C)
      else if c = CHR ''n'' then Some (CHR 0x0A)
      else if c = CHR ''r'' then Some (CHR 0x0D)
      else if c = CHR ''t'' then Some (CHR 0x09)
      else None)"

text \<open>
  The code point of an escape whose four digits begin the text, and what follows it: a high
  surrogate joins the low surrogate escaped right after it.
\<close>

definition unicode_escape :: "string \<Rightarrow> (nat \<times> string) option" where
  "unicode_escape r =
     (case hex4 r of
        None \<Rightarrow> None
      | Some u \<Rightarrow>
          let r' = drop 4 r in
          if 0xD800 \<le> u \<and> u \<le> 0xDBFF \<and> starts_with [CHR 0x5C, CHR ''u''] r' then
            (case hex4 (drop 2 r') of
               None \<Rightarrow> None
             | Some l \<Rightarrow>
                 if 0xDC00 \<le> l \<and> l \<le> 0xDFFF
                 then Some (0x10000 + (u - 0xD800) * 1024 + (l - 0xDC00), drop 6 r')
                 else Some (u, r'))
          else Some (u, r'))"

lemma unicode_escape_length: "unicode_escape r = Some (u, r') \<Longrightarrow> length r' \<le> length r"
  by (auto simp: unicode_escape_def Let_def split: option.splits if_splits)

text \<open>The text of a string literal after its opening quote, up to the closing one.\<close>

function scan_string :: "string \<Rightarrow> (string \<times> string) option" where
  "scan_string s =
     (case s of
        [] \<Rightarrow> None
      | c # r \<Rightarrow>
          if c = CHR 0x22 then Some ([], r)
          else if c = CHR 0x5C then
            (case r of
               [] \<Rightarrow> None
             | e # r' \<Rightarrow>
                 if e = CHR ''u'' then
                   (case unicode_escape r' of
                      None \<Rightarrow> None
                    | Some (u, r'') \<Rightarrow>
                        map_option (\<lambda>(t, q). (utf8_encode u @ t, q)) (scan_string r''))
                 else
                   (case simple_escape e of
                      None \<Rightarrow> None
                    | Some d \<Rightarrow> map_option (\<lambda>(t, q). (d # t, q)) (scan_string r')))
          else if (of_char c :: nat) < 32 then None
          else map_option (\<lambda>(t, q). (c # t, q)) (scan_string r))"
  by pat_completeness auto
termination
  by (relation "measure length") (auto dest: unicode_escape_length)

declare scan_string.simps [simp del]

lemma scan_Nil [simp]: "scan_string [] = None"
  by (subst scan_string.simps) simp

lemma scan_quote [simp]: "scan_string (CHR 0x22 # r) = Some ([], r)"
  by (subst scan_string.simps) simp

lemma scan_backslash_end [simp]: "scan_string [CHR 0x5C] = None"
  by (subst scan_string.simps) simp

lemma scan_unicode:
  "scan_string (CHR 0x5C # CHR ''u'' # r) =
     (case unicode_escape r of
        None \<Rightarrow> None
      | Some (u, r') \<Rightarrow> map_option (\<lambda>(t, q). (utf8_encode u @ t, q)) (scan_string r'))"
  by (subst scan_string.simps) simp

lemma scan_simple:
  "e \<noteq> CHR ''u'' \<Longrightarrow> scan_string (CHR 0x5C # e # r) =
     (case simple_escape e of
        None \<Rightarrow> None
      | Some d \<Rightarrow> map_option (\<lambda>(t, q). (d # t, q)) (scan_string r))"
  by (subst scan_string.simps) simp

lemma scan_plain:
  "c \<noteq> CHR 0x22 \<Longrightarrow> c \<noteq> CHR 0x5C \<Longrightarrow> scan_string (c # r) =
     (if (of_char c :: nat) < 32 then None else map_option (\<lambda>(t, q). (c # t, q)) (scan_string r))"
  by (subst scan_string.simps) simp

lemma scan_string_length: "scan_string s = Some (t, r) \<Longrightarrow> length r < length s"
proof (induction s arbitrary: t r rule: scan_string.induct)
  case (1 s)
  show ?case
  proof (cases s)
    case Nil
    with "1.prems" show ?thesis by simp
  next
    case (Cons c q)
    consider "c = CHR 0x22" | "c = CHR 0x5C" | "c \<noteq> CHR 0x22" "c \<noteq> CHR 0x5C" by blast
    then show ?thesis
    proof cases
      case 1
      with Cons "1.prems" show ?thesis by simp
    next
      case 2
      with Cons "1.prems" obtain e q' where q: "q = e # q'"
        by (cases q) simp_all
      show ?thesis
      proof (cases "e = CHR ''u''")
        case True
        with 2 Cons q "1.prems" obtain u q'' t' where
          u: "unicode_escape q' = Some (u, q'')" and t': "scan_string q'' = Some (t', r)"
          by (auto simp: scan_unicode split: option.splits)
        have "length r < length q''"
          using "1.IH"(1) [OF Cons _ _ q True u refl t'] 2 by simp
        with unicode_escape_length [OF u] q Cons show ?thesis by simp
      next
        case False
        with 2 Cons q "1.prems" obtain d t' where
          d: "simple_escape e = Some d" and t': "scan_string q' = Some (t', r)"
          by (auto simp: scan_simple split: option.splits)
        have "length r < length q'"
          using "1.IH"(2) [OF Cons _ _ q False d t'] 2 by simp
        with q Cons show ?thesis by simp
      qed
    next
      case 3
      with Cons "1.prems" obtain t' where
        n: "\<not> (of_char c :: nat) < 32" and t': "scan_string q = Some (t', r)"
        by (auto simp: scan_plain split: if_splits)
      have "length r < length q" using "1.IH"(3) [OF Cons 3 n t'] .
      with Cons show ?thesis by simp
    qed
  qed
qed

text \<open>The grammar of a number: \<open>-?(0|[1-9][0-9]*)\<close>, a fraction, an exponent.\<close>

definition digits_of :: "string \<Rightarrow> string" where
  "digits_of s = takeWhile is_digit s"

definition scan_int :: "string \<Rightarrow> string option" where
  "scan_int s =
     (case digits_of s of
        [] \<Rightarrow> None
      | d # ds \<Rightarrow> Some (if d = CHR ''0'' then [d] else d # ds))"

definition scan_frac :: "string \<Rightarrow> string" where
  "scan_frac s =
     (case s of
        c # r \<Rightarrow> if c = CHR ''.'' \<and> digits_of r \<noteq> [] then c # digits_of r else []
      | [] \<Rightarrow> [])"

definition scan_exp :: "string \<Rightarrow> string" where
  "scan_exp s =
     (case s of
        c # r \<Rightarrow>
          if c = CHR ''e'' \<or> c = CHR ''E'' then
            (let sg = (case r of d # _ \<Rightarrow> if d = CHR ''+'' \<or> d = CHR ''-'' then [d] else [] | [] \<Rightarrow> []);
                 ds = digits_of (drop (length sg) r)
             in if ds \<noteq> [] then c # sg @ ds else [])
          else []
      | [] \<Rightarrow> [])"

definition bad_json :: "exn" where
  "bad_json = JSONDecodeError ''Expecting value''"

text \<open>\<open>L\<close> is the interpreter's limit on the digits of an integer literal.\<close>

definition p_number :: "nat \<Rightarrow> string \<Rightarrow> exn + json \<times> string" where
  "p_number L s =
     (let neg = starts_with ''-'' s; m = (if neg then drop 1 s else s)
      in case scan_int m of
           None \<Rightarrow>
             if starts_with ''NaN'' s then Inr (JFloat ''NaN'', drop 3 s)
             else if starts_with ''Infinity'' s then Inr (JFloat ''Infinity'', drop 8 s)
             else if starts_with ''-Infinity'' s then Inr (JFloat ''-Infinity'', drop 9 s)
             else Inl bad_json
         | Some ds \<Rightarrow>
             let r = drop (length ds) m; fr = scan_frac r;
                 ex = scan_exp (drop (length fr) r);
                 rest = drop (length fr + length ex) r
             in if fr = [] \<and> ex = []
                then (if length ds > L
                      then Inl (ValueError ''Exceeds the limit for integer string conversion'')
                      else Inr (JInt (if neg then - int (read_digits ds) else int (read_digits ds)), rest))
                else Inr (JFloat ((if neg then ''-'' else '''') @ ds @ fr @ ex), rest))"

lemma p_number_length: "p_number L s = Inr (v, r) \<Longrightarrow> length r < length s"
proof -
  have i: "ds \<noteq> [] \<and> length ds \<le> length m" if "scan_int m = Some ds" for m ds
  proof -
    have l: "length (digits_of m) \<le> length m" by (simp add: digits_of_def length_takeWhile_le)
    from that obtain d ds' where d: "digits_of m = d # ds'"
      by (auto simp: scan_int_def split: list.splits)
    with that have "ds = (if d = CHR ''0'' then [d] else d # ds')" by (simp add: scan_int_def)
    with d l show ?thesis by (auto split: if_splits)
  qed
  assume "p_number L s = Inr (v, r)"
  then show ?thesis
    by (cases s) (auto simp: p_number_def Let_def split: option.splits if_splits dest!: i)
qed

text \<open>
  \<open>n\<close> is how many more containers may be open. The tests of the lengths are always true (see
  \<open>p_value_length\<close>); they only let the recursion be accepted.
\<close>

function (sequential) p_value :: "nat \<Rightarrow> nat \<Rightarrow> string \<Rightarrow> exn + json \<times> string"
  and p_elems :: "nat \<Rightarrow> nat \<Rightarrow> json list \<Rightarrow> string \<Rightarrow> exn + json \<times> string"
  and p_members :: "nat \<Rightarrow> nat \<Rightarrow> members \<Rightarrow> string \<Rightarrow> exn + json \<times> string" where
  "p_value L n s =
     (case s of
        [] \<Rightarrow> Inl bad_json
      | c # r \<Rightarrow>
          if c = CHR 0x22 then
            (case scan_string r of None \<Rightarrow> Inl bad_json | Some (t, q) \<Rightarrow> Inr (JStr t, q))
          else if c = CHR ''{'' then
            (if n = 0 then Inl RecursionError
             else if starts_with ''}'' (skip_ws r) then Inr (JObj [], drop 1 (skip_ws r))
             else p_members L (n - 1) [] (skip_ws r))
          else if c = CHR ''['' then
            (if n = 0 then Inl RecursionError
             else if starts_with '']'' (skip_ws r) then Inr (JArr [], drop 1 (skip_ws r))
             else p_elems L (n - 1) [] (skip_ws r))
          else if starts_with ''null'' s then Inr (JNull, drop 4 s)
          else if starts_with ''true'' s then Inr (JBool True, drop 4 s)
          else if starts_with ''false'' s then Inr (JBool False, drop 5 s)
          else p_number L s)"
| "p_elems L n acc s =
     (case p_value L n s of
        Inl e \<Rightarrow> Inl e
      | Inr (v, r) \<Rightarrow>
          (case skip_ws r of
             [] \<Rightarrow> Inl bad_json
           | c # q \<Rightarrow>
               if c = CHR '','' then
                 (if length (skip_ws q) < length s then p_elems L n (acc @ [v]) (skip_ws q)
                  else Inl bad_json)
               else if c = CHR '']'' then Inr (JArr (acc @ [v]), q)
               else Inl bad_json))"
| "p_members L n acc s =
     (case s of
        [] \<Rightarrow> Inl bad_json
      | d # s' \<Rightarrow>
          if d \<noteq> CHR 0x22 then Inl bad_json
          else (case scan_string s' of
             None \<Rightarrow> Inl bad_json
           | Some (k, r) \<Rightarrow>
               if \<not> starts_with '':'' (skip_ws r) then Inl bad_json
               else if \<not> length (skip_ws (drop 1 (skip_ws r))) < length s then Inl bad_json
               else (case p_value L n (skip_ws (drop 1 (skip_ws r))) of
                  Inl e \<Rightarrow> Inl e
                | Inr (v, r') \<Rightarrow>
                    (case skip_ws r' of
                       [] \<Rightarrow> Inl bad_json
                     | c # q \<Rightarrow>
                         if c = CHR '','' then
                           (if length (skip_ws q) < length s then p_members L n (obj_set k v acc) (skip_ws q)
                            else Inl bad_json)
                         else if c = CHR ''}'' then Inr (JObj (obj_set k v acc), q)
                         else Inl bad_json))))"
  by pat_completeness auto
termination
  by (relation "measures
        [\<lambda>x. case x of Inl (L, n, s) \<Rightarrow> n | Inr (Inl (L, n, acc, s)) \<Rightarrow> n | Inr (Inr (L, n, acc, s)) \<Rightarrow> n,
         \<lambda>x. case x of Inl (L, n, s) \<Rightarrow> 2 * length s | Inr (Inl (L, n, acc, s)) \<Rightarrow> Suc (2 * length s)
                     | Inr (Inr (L, n, acc, s)) \<Rightarrow> Suc (2 * length s)]") auto

declare p_value.simps [simp del] p_elems.simps [simp del] p_members.simps [simp del]

text \<open>\<open>json.loads(text)\<close> under a recursion limit \<open>D\<close> and a digit limit \<open>L\<close>.\<close>

definition loads :: "nat \<Rightarrow> nat \<Rightarrow> string \<Rightarrow> exn + json" where
  "loads L D s =
     (case p_value L D (skip_ws s) of
        Inl e \<Rightarrow> Inl e
      | Inr (v, r) \<Rightarrow> if skip_ws r = [] then Inr v else Inl (JSONDecodeError ''Extra data''))"

end
