(* ===== verification/JsonRoundtrip.thy ===== *)
theory JsonRoundtrip
  imports Json "HOL-Library.Multiset"
begin

text \<open>
  \<open>json.loads\<close> after \<open>json.dumps\<close>: a value without floating-point numbers, whose integers are
  within the interpreter's digit limit and whose nesting is within its recursion limit, comes back
  unchanged. The canonical form (sorted keys, compact separators) therefore identifies a value up
  to the order of the items of its dictionaries.
\<close>

section \<open>Strings\<close>

lemma hex_val_char: "d < 16 \<Longrightarrow> hex_val (hex_char d) = Some d"
  by (auto simp: hex_val_def hex_char_def Let_def)

lemma hex_val_zero: "hex_val (CHR ''0'') = Some 0"
  by code_simp

lemma scan_control:
  assumes "(of_char c :: nat) < 32"
  shows "scan_string ([CHR 0x5C, CHR ''u'', CHR ''0'', CHR ''0'',
           hex_char (of_char c div 16), hex_char (of_char c mod 16)] @ r)
         = map_option (\<lambda>(t, q). (c # t, q)) (scan_string r)"
proof -
  let ?n = "of_char c :: nat"
  have "hex4 ([CHR ''0'', CHR ''0'', hex_char (?n div 16), hex_char (?n mod 16)] @ r) = Some ?n"
    using assms by (simp add: hex_val_char hex_val_zero)
  then have "unicode_escape ([CHR ''0'', CHR ''0'', hex_char (?n div 16), hex_char (?n mod 16)] @ r)
      = Some (?n, r)"
    using assms by (simp add: unicode_escape_def del: hex4.simps)
  moreover have "utf8_encode ?n = [c]" using assms by (simp add: utf8_encode_def)
  ultimately show ?thesis by (simp add: scan_unicode)
qed

lemma scan_esc: "scan_string (esc_char c @ r) = map_option (\<lambda>(t, q). (c # t, q)) (scan_string r)"
proof -
  consider "c = CHR 0x22" | "c = CHR 0x5C" | "c = CHR 0x08" | "c = CHR 0x0C" | "c = CHR 0x0A"
    | "c = CHR 0x0D" | "c = CHR 0x09"
    | (control) "c \<notin> {CHR 0x08, CHR 0x0C, CHR 0x0A, CHR 0x0D, CHR 0x09}" "c \<noteq> CHR 0x22"
        "c \<noteq> CHR 0x5C" "(of_char c :: nat) < 32"
    | (plain) "c \<notin> {CHR 0x08, CHR 0x0C, CHR 0x0A, CHR 0x0D, CHR 0x09}" "c \<noteq> CHR 0x22"
        "c \<noteq> CHR 0x5C" "\<not> (of_char c :: nat) < 32"
    by blast
  then show ?thesis
  proof cases
    case control
    then have "esc_char c = [CHR 0x5C, CHR ''u'', CHR ''0'', CHR ''0'',
           hex_char (of_char c div 16), hex_char (of_char c mod 16)]"
      by (simp add: esc_char_def)
    with control(4) show ?thesis using scan_control [of c r] by simp
  next
    case plain
    then show ?thesis by (simp add: esc_char_def scan_plain)
  qed (simp_all add: esc_char_def scan_simple simple_escape_def)
qed

lemma scan_quoted: "scan_string (concat (map esc_char s) @ CHR 0x22 # r) = Some (s, r)"
  by (induction s) (simp_all add: scan_esc)

section \<open>Numbers\<close>

text \<open>What may follow a value inside a larger text.\<close>

definition stops :: "string \<Rightarrow> bool" where
  "stops r \<longleftrightarrow> (case r of [] \<Rightarrow> True | c # _ \<Rightarrow> c = CHR '','' \<or> c = CHR '']'' \<or> c = CHR ''}'')"

lemma stops_digits: "stops r \<Longrightarrow> digits_of (ds @ r) = digits_of ds"
proof -
  assume "stops r"
  then have "takeWhile is_digit r = []"
    by (cases r) (auto simp: stops_def is_digit_def)
  then show ?thesis
    by (metis append_Nil2 digits_of_def takeWhile_append takeWhile_eq_all_conv)
qed

lemma digits_of_show_nat: "digits_of (show_nat n) = show_nat n"
  using show_nat_digits by (simp add: digits_of_def takeWhile_eq_all_conv)

lemma stops_no_frac: "stops r \<Longrightarrow> scan_frac r = [] \<and> scan_exp r = []"
  by (cases r) (auto simp: stops_def scan_frac_def scan_exp_def)

lemma scan_int_show:
  assumes "stops r"
  shows "scan_int (show_nat n @ r) = Some (show_nat n)"
proof -
  obtain d ds where d: "show_nat n = d # ds" using show_nat_nonempty [of n] by (cases "show_nat n") auto
  have "d = CHR ''0'' \<Longrightarrow> ds = []"
    using show_nat_hd [of n] show_nat_zero d by auto
  with d stops_digits [OF assms, of "show_nat n"] digits_of_show_nat [of n]
  show ?thesis by (auto simp: scan_int_def)
qed

lemma show_nat_not_minus: "\<not> starts_with ''-'' (show_nat n @ r)"
proof -
  obtain d ds where d: "show_nat n = d # ds" using show_nat_nonempty [of n] by (cases "show_nat n") auto
  with show_nat_digits [of n] have "is_digit d" by simp
  with d show ?thesis by (auto simp: is_digit_def)
qed

definition int_digits :: "int \<Rightarrow> nat" where
  "int_digits i = length (show_nat (nat \<bar>i\<bar>))"

lemma p_number_show:
  assumes "stops r" and "int_digits i \<le> L"
  shows "p_number L (show_int i @ r) = Inr (JInt i, r)"
proof (cases "i < 0")
  case True
  then have "show_int i @ r = CHR ''-'' # show_nat (nat (- i)) @ r"
    and "int_digits i = length (show_nat (nat (- i)))"
    by (simp_all add: show_int_def int_digits_def)
  with True assms show ?thesis
    by (simp add: p_number_def scan_int_show stops_no_frac read_show_nat)
next
  case False
  then have "show_int i = show_nat (nat i)" and "int_digits i = length (show_nat (nat i))"
    by (simp_all add: show_int_def int_digits_def)
  with False assms show ?thesis
    by (simp add: p_number_def scan_int_show stops_no_frac read_show_nat show_nat_not_minus)
qed

section \<open>Values\<close>

fun depth :: "json \<Rightarrow> nat"
  and depth_items :: "json list \<Rightarrow> nat"
  and depth_members :: "members \<Rightarrow> nat" where
  "depth (JArr vs) = Suc (depth_items vs)"
| "depth (JObj kvs) = Suc (depth_members kvs)"
| "depth v = 0"
| "depth_items [] = 0"
| "depth_items (v # vs) = max (depth v) (depth_items vs)"
| "depth_members [] = 0"
| "depth_members ((k, v) # kvs) = max (depth v) (depth_members kvs)"

text \<open>Values a Python dictionary can hold, with integers of at most \<open>L\<close> digits and no float.\<close>

fun plain_json :: "nat \<Rightarrow> json \<Rightarrow> bool"
  and plain_items :: "nat \<Rightarrow> json list \<Rightarrow> bool"
  and plain_members :: "nat \<Rightarrow> members \<Rightarrow> bool" where
  "plain_json L (JArr vs) = plain_items L vs"
| "plain_json L (JObj kvs) = (distinct (map fst kvs) \<and> plain_members L kvs)"
| "plain_json L (JInt i) = (int_digits i \<le> L)"
| "plain_json L (JFloat f) = False"
| "plain_json L v = True"
| "plain_items L [] = True"
| "plain_items L (v # vs) = (plain_json L v \<and> plain_items L vs)"
| "plain_members L [] = True"
| "plain_members L ((k, v) # kvs) = (plain_json L v \<and> plain_members L kvs)"

lemma show_int_start:
  "\<exists>c t. show_int i = c # t \<and> (c = CHR ''-'' \<or> is_digit c)"
proof -
  have "show_int i \<noteq> []" by (simp add: show_int_def)
  then obtain c t where c: "show_int i = c # t" by (cases "show_int i") auto
  then have "c = CHR ''-'' \<or> is_digit c" using show_int_chars [of c i] by simp
  with c show ?thesis by blast
qed

lemma dumps_start:
  assumes "plain_json L v"
  shows "\<exists>c t. dumps sp v = c # t \<and> \<not> jws c \<and> c \<noteq> CHR '']'' \<and> c \<noteq> CHR ''}''"
proof (cases v)
  case (JInt i)
  then show ?thesis using show_int_start [of i] by (auto simp: jws_def is_digit_def)
qed (use assms in \<open>auto simp: jws_def quote_def\<close>)

lemma skip_ws_dumps:
  assumes "plain_json L v"
  shows "skip_ws (dumps sp v @ r) = dumps sp v @ r"
  using dumps_start [OF assms, of sp] by (auto simp: skip_ws_def)

lemma skip_ws_blank: "set sp \<subseteq> {CHR 0x20} \<Longrightarrow> skip_ws (sp @ s) = skip_ws s"
  by (auto simp: skip_ws_def dropWhile_append jws_def)

lemma skip_ws_quote [simp]: "skip_ws (quote k @ r) = quote k @ r"
  by (simp add: skip_ws_def quote_def jws_def)

lemma skip_ws_nonblank: "\<not> jws c \<Longrightarrow> skip_ws (c # r) = c # r"
  by (simp add: skip_ws_def)

lemma p_value_int:
  assumes "stops r" and "int_digits i \<le> L"
  shows "p_value L n (show_int i @ r) = Inr (JInt i, r)"
proof -
  obtain c t where c: "show_int i = c # t" "c = CHR ''-'' \<or> is_digit c"
    using show_int_start by blast
  then have "c \<noteq> CHR 0x22" "c \<noteq> CHR ''{''" "c \<noteq> CHR ''[''" "c \<noteq> CHR ''n''" "c \<noteq> CHR ''t''" "c \<noteq> CHR ''f''"
    by (auto simp: is_digit_def)
  with c have "p_value L n (show_int i @ r) = p_number L (show_int i @ r)"
    by (simp add: p_value.simps)
  then show ?thesis using assms by (simp add: p_number_show)
qed

lemma p_value_quote: "p_value L n (quote s @ r) = Inr (JStr s, r)"
  by (simp add: p_value.simps quote_def scan_quoted)

lemma dumps_items_start:
  assumes "plain_items L vs" and "vs \<noteq> []"
  shows "skip_ws (dumps_items sp vs @ r) = dumps_items sp vs @ r
     \<and> \<not> starts_with '']'' (dumps_items sp vs @ r)"
proof -
  obtain v ws where vs: "vs = v # ws" using assms(2) by (cases vs) auto
  with assms(1) obtain c t where "dumps sp v = c # t" "\<not> jws c" "c \<noteq> CHR '']''"
    using dumps_start by (metis plain_items.simps(2))
  with vs show ?thesis by (cases ws) (auto simp: skip_ws_def)
qed

lemma dumps_members_start:
  assumes "kvs \<noteq> []"
  shows "\<exists>t. dumps_members sp kvs = CHR 0x22 # t"
proof -
  obtain k v ms where "kvs = (k, v) # ms" using assms by (cases kvs) auto
  then show ?thesis by (cases ms) (auto simp: quote_def)
qed

text \<open>One step of each loop, on the printed text of the next item.\<close>

lemma p_elems_last:
  assumes "p_value L n (s @ CHR '']'' # r) = Inr (v, CHR '']'' # r)"
  shows "p_elems L n acc (s @ CHR '']'' # r) = Inr (JArr (acc @ [v]), r)"
  using assms by (simp add: p_elems.simps skip_ws_nonblank jws_def)

lemma p_elems_next:
  assumes "p_value L n (s @ CHR '','' # sp @ q) = Inr (v, CHR '','' # sp @ q)"
    and "set sp \<subseteq> {CHR 0x20}" and "skip_ws q = q"
  shows "p_elems L n acc (s @ CHR '','' # sp @ q) = p_elems L n (acc @ [v]) q"
  using assms
  by (subst p_elems.simps) (simp add: skip_ws_nonblank skip_ws_blank jws_def)

lemma p_members_last:
  assumes "p_value L n (s @ CHR ''}'' # r) = Inr (v, CHR ''}'' # r)"
    and "set sp \<subseteq> {CHR 0x20}" and "skip_ws (s @ CHR ''}'' # r) = s @ CHR ''}'' # r"
  shows "p_members L n acc (quote k @ CHR '':'' # sp @ s @ CHR ''}'' # r)
    = Inr (JObj (obj_set k v acc), r)"
  using assms
  by (subst p_members.simps)
    (simp add: quote_def scan_quoted skip_ws_nonblank skip_ws_blank jws_def)

lemma p_members_next:
  assumes "p_value L n (s @ CHR '','' # sp @ q) = Inr (v, CHR '','' # sp @ q)"
    and "set sp \<subseteq> {CHR 0x20}" and "skip_ws q = q"
    and "skip_ws (s @ CHR '','' # sp @ q) = s @ CHR '','' # sp @ q"
  shows "p_members L n acc (quote k @ CHR '':'' # sp @ s @ CHR '','' # sp @ q)
    = p_members L n (obj_set k v acc) q"
  using assms
  by (subst p_members.simps)
    (simp add: quote_def scan_quoted skip_ws_nonblank skip_ws_blank jws_def)

lemma stops_simps [simp]:
  "stops (CHR '','' # r)" "stops (CHR '']'' # r)" "stops (CHR ''}'' # r)" "stops []"
  by (simp_all add: stops_def)

lemma parse_dumps:
  assumes sp: "set sp \<subseteq> {CHR 0x20}"
  shows "plain_json L v \<Longrightarrow> depth v \<le> n \<Longrightarrow> stops r
      \<Longrightarrow> p_value L n (dumps sp v @ r) = Inr (v, r)"
    and "plain_items L vs \<Longrightarrow> depth_items vs \<le> n \<Longrightarrow> vs \<noteq> []
      \<Longrightarrow> p_elems L n acc (dumps_items sp vs @ CHR '']'' # r) = Inr (JArr (acc @ vs), r)"
    and "plain_members L kvs \<Longrightarrow> depth_members kvs \<le> n \<Longrightarrow> kvs \<noteq> []
      \<Longrightarrow> distinct (map fst (mem @ kvs))
      \<Longrightarrow> p_members L n mem (dumps_members sp kvs @ CHR ''}'' # r) = Inr (JObj (mem @ kvs), r)"
  using sp
proof (induction sp v and sp vs and sp kvs arbitrary: n r and n r acc and n r mem
    rule: dumps_dumps_items_dumps_members.induct)
  case (6 sp vs)
  obtain m where m: "n = Suc m" using 6 by (cases n) auto
  show ?case
  proof (cases "vs = []")
    case True
    with m show ?thesis by (simp add: p_value.simps skip_ws_nonblank jws_def)
  next
    case False
    have "p_elems L m [] (dumps_items sp vs @ CHR '']'' # r) = Inr (JArr ([] @ vs), r)"
      using 6 m False by (intro "6.IH") simp_all
    with 6 m False show ?thesis
      using dumps_items_start [of L vs sp "CHR '']'' # r"] by (simp add: p_value.simps)
  qed
next
  case (7 sp kvs)
  obtain m where m: "n = Suc m" using 7 by (cases n) auto
  show ?case
  proof (cases "kvs = []")
    case True
    with m show ?thesis by (simp add: p_value.simps skip_ws_nonblank jws_def)
  next
    case False
    have "p_members L m [] (dumps_members sp kvs @ CHR ''}'' # r) = Inr (JObj ([] @ kvs), r)"
      using 7 m False by (intro "7.IH") simp_all
    moreover obtain t where "dumps_members sp kvs = CHR 0x22 # t"
      using dumps_members_start [OF False] by blast
    ultimately show ?thesis using m
      by (simp add: p_value.simps skip_ws_nonblank jws_def)
  qed
next
  case (10 sp v w vs)
  then have "skip_ws (dumps_items sp (w # vs) @ CHR '']'' # r) = dumps_items sp (w # vs) @ CHR '']'' # r"
    using dumps_items_start [of L "w # vs" sp] by simp
  with 10 show ?case
    by (simp add: p_elems_next)
next
  case (9 sp v)
  then show ?case by (simp add: p_elems_last)
next
  case (12 sp k v)
  then have "k \<notin> fst ` set mem" by auto
  with 12 show ?case by (simp add: p_members_last skip_ws_dumps obj_set_new)
next
  case (13 sp k v m kvs)
  then have k: "k \<notin> fst ` set mem" by auto
  obtain t where "dumps_members sp (m # kvs) = CHR 0x22 # t"
    using dumps_members_start [of "m # kvs" sp] by blast
  then have "skip_ws (dumps_members sp (m # kvs) @ CHR ''}'' # r) = dumps_members sp (m # kvs) @ CHR ''}'' # r"
    by (simp add: skip_ws_nonblank jws_def)
  moreover have "p_value L n (dumps sp v @ CHR '','' # sp @ q) = Inr (v, CHR '','' # sp @ q)"
    and "skip_ws (dumps sp v @ CHR '','' # sp @ q) = dumps sp v @ CHR '','' # sp @ q" for q
    using 13 by (simp_all add: skip_ws_dumps [of L])
  ultimately have "p_members L n mem (dumps_members sp ((k, v) # m # kvs) @ CHR ''}'' # r)
      = p_members L n (mem @ [(k, v)]) (dumps_members sp (m # kvs) @ CHR ''}'' # r)"
    using p_members_next [of L n "dumps sp v" sp _ v mem k] 13 k by (simp add: obj_set_new)
  also have "\<dots> = Inr (JObj ((mem @ [(k, v)]) @ m # kvs), r)"
    using 13 by (intro "13.IH"(2)) auto
  finally show ?case by simp
qed (simp_all add: p_value_int p_value_quote, simp_all add: p_value.simps)

theorem loads_dumps:
  assumes "set sp \<subseteq> {CHR 0x20}" and "plain_json L v" and "depth v \<le> D"
  shows "loads L D (dumps sp v) = Inr v"
proof -
  have "p_value L D (dumps sp v) = Inr (v, [])"
    using parse_dumps(1) [OF assms(1,2,3), of "[]"] by simp
  moreover have "skip_ws (dumps sp v) = dumps sp v"
    using skip_ws_dumps [OF assms(2), of sp "[]"] by simp
  ultimately show ?thesis by (simp add: loads_def skip_ws_def)
qed

section \<open>Sorted keys\<close>

lemma mset_insert_by_key: "mset (insert_by_key kv ms) = add_mset kv (mset ms)"
  by (induction ms) auto

lemma mset_sort_by_key: "mset (sort_by_key kvs) = mset kvs"
  by (induction kvs) (simp_all add: mset_insert_by_key)

lemma set_sort_by_key: "set (sort_by_key kvs) = set kvs"
  by (metis mset_sort_by_key set_mset_mset)

lemma sorted_insert_by_key:
  "sorted (map fst ms) \<Longrightarrow> sorted (map fst (insert_by_key kv ms))"
proof (induction ms)
  case Nil
  then show ?case by simp
next
  case (Cons m ms)
  have "set (insert_by_key kv ms) = insert kv (set ms)"
    by (metis mset_insert_by_key set_mset_add_mset_insert set_mset_mset)
  with Cons show ?case by auto
qed

lemma sorted_sort_by_key: "sorted (map fst (sort_by_key kvs))"
  by (induction kvs) (simp_all add: sorted_insert_by_key)

lemma distinct_fst_mset: "mset xs = mset ys \<Longrightarrow> distinct (map fst xs) = distinct (map fst ys)"
  by (metis mset_eq_imp_distinct_iff mset_map)

lemma sort_by_key_unique:
  assumes "mset xs = mset ys" and "distinct (map fst xs)"
  shows "sort_by_key xs = sort_by_key ys"
proof (rule map_sorted_distinct_set_unique [where f = fst])
  have m: "mset (sort_by_key xs) = mset xs" "mset (sort_by_key ys) = mset xs"
    using assms(1) by (simp_all add: mset_sort_by_key)
  then show "distinct (map fst (sort_by_key xs))" "distinct (map fst (sort_by_key ys))"
    using assms(2) distinct_fst_mset by blast+
  show s: "set (sort_by_key xs) = set (sort_by_key ys)"
    using m by (metis set_mset_mset)
  have "inj_on fst (set (sort_by_key xs))"
    using \<open>distinct (map fst (sort_by_key xs))\<close> by (simp add: distinct_map)
  then show "inj_on fst (set (sort_by_key xs) \<union> set (sort_by_key ys))"
    using s by simp
qed (simp_all add: sorted_sort_by_key)

lemma sort_keys_members_map: "sort_keys_members kvs = map (\<lambda>(k, v). (k, sort_keys v)) kvs"
  by (induction kvs) auto

lemma plain_members_all: "plain_members L kvs \<longleftrightarrow> (\<forall>kv\<in>set kvs. plain_json L (snd kv))"
  by (induction kvs) auto

lemma depth_members_le: "depth_members kvs \<le> n \<longleftrightarrow> (\<forall>kv\<in>set kvs. depth (snd kv) \<le> n)"
  by (induction kvs) auto

lemma fst_sort_keys_members [simp]: "map fst (sort_keys_members kvs) = map fst kvs"
  by (induction kvs) auto

lemma plain_sort_keys:
  "plain_json L v \<Longrightarrow> plain_json L (sort_keys v)"
  "plain_items L vs \<Longrightarrow> plain_items L (sort_keys_items vs)"
  "plain_members L kvs \<Longrightarrow> plain_members L (sort_keys_members kvs)"
proof (induction v and vs and kvs rule: sort_keys_sort_keys_items_sort_keys_members.induct)
  case (2 kvs)
  have "distinct (map fst (sort_by_key (sort_keys_members kvs)))"
    using 2 distinct_fst_mset [OF mset_sort_by_key] by (metis fst_sort_keys_members plain_json.simps(2))
  with 2 show ?case by (simp add: plain_members_all set_sort_by_key)
qed simp_all

lemma depth_sort_keys:
  "depth v \<le> n \<Longrightarrow> depth (sort_keys v) \<le> n"
  "depth_items vs \<le> n \<Longrightarrow> depth_items (sort_keys_items vs) \<le> n"
  "depth_members kvs \<le> n \<Longrightarrow> depth_members (sort_keys_members kvs) \<le> n"
proof (induction v and vs and kvs arbitrary: n and n and n
    rule: sort_keys_sort_keys_items_sort_keys_members.induct)
  case (1 vs)
  then show ?case by (cases n) auto
next
  case (2 kvs)
  then show ?case by (cases n) (auto simp: depth_members_le set_sort_by_key)
qed simp_all

text \<open>The canonical form determines the value up to the order of dictionary items.\<close>

theorem dumps_sorted_inj:
  assumes "plain_json L v" and "plain_json L w"
    and "dumps [] (sort_keys v) = dumps [] (sort_keys w)"
  shows "sort_keys v = sort_keys w"
proof -
  let ?D = "max (depth v) (depth w)"
  have "loads L ?D (dumps [] (sort_keys v)) = Inr (sort_keys v)"
    by (rule loads_dumps) (use assms(1) in \<open>simp_all add: plain_sort_keys(1) depth_sort_keys(1)\<close>)
  moreover have "loads L ?D (dumps [] (sort_keys w)) = Inr (sort_keys w)"
    by (rule loads_dumps) (use assms(2) in \<open>simp_all add: plain_sort_keys(1) depth_sort_keys(1)\<close>)
  ultimately show ?thesis using assms(3) by (metis sum.inject(2))
qed

theorem sort_keys_permuted:
  assumes "mset kvs = mset kvs'" and "distinct (map fst kvs)"
  shows "sort_keys (JObj kvs) = sort_keys (JObj kvs')"
proof -
  have "mset (sort_keys_members kvs) = mset (sort_keys_members kvs')"
    using assms(1) by (simp add: sort_keys_members_map mset_map)
  then show ?thesis
    using assms(2) by (simp add: sort_by_key_unique)
qed

section \<open>How parsing fails\<close>

definition digits_error :: exn where
  "digits_error = ValueError ''Exceeds the limit for integer string conversion''"

definition parse_error :: "exn \<Rightarrow> bool" where
  "parse_error e \<longleftrightarrow> e = bad_json \<or> e = RecursionError \<or> e = digits_error"

lemma p_number_error: "p_number L s = Inl e \<Longrightarrow> parse_error e"
  by (auto simp: p_number_def Let_def parse_error_def digits_error_def split: option.splits if_splits)

lemma p_value_error:
  "p_value L n s = Inl e \<Longrightarrow> parse_error e"
  "p_elems L n acc s = Inl e \<Longrightarrow> parse_error e"
  "p_members L n ms s = Inl e \<Longrightarrow> parse_error e"
proof (induction L n s and L n acc s and L n ms s rule: p_value_p_elems_p_members.induct)
  case (1 L n s)
  then show ?case
    unfolding p_value.simps [of L n s]
    by (auto simp: parse_error_def split: list.splits if_splits option.splits dest: p_number_error)
next
  case (2 L n acc s)
  then show ?case
    unfolding p_elems.simps [of L n acc s]
    by (auto simp: parse_error_def split: sum.splits list.splits if_splits)
next
  case (3 L n acc s)
  then show ?case
    unfolding p_members.simps [of L n acc s]
    by (auto simp: parse_error_def split: sum.splits list.splits if_splits option.splits)
qed

lemma loads_error:
  "loads L D s = Inl e \<Longrightarrow> parse_error e \<or> e = JSONDecodeError ''Extra data''"
  by (auto simp: loads_def split: sum.splits if_splits dest: p_value_error)

section \<open>ASCII text\<close>

definition ascii :: "string \<Rightarrow> bool" where
  "ascii s \<longleftrightarrow> (\<forall>c\<in>set s. between 0 127 c)"

lemma ascii_simps [simp]:
  "ascii []" "ascii (c # s) \<longleftrightarrow> between 0 127 c \<and> ascii s" "ascii (s @ t) \<longleftrightarrow> ascii s \<and> ascii t"
  by (auto simp: ascii_def)

lemma ascii_hex: "d < 16 \<Longrightarrow> between 0 127 (hex_char d)"
  by (simp add: hex_char_def between_def)

lemma ascii_esc: "between 0 127 c \<Longrightarrow> ascii (esc_char c)"
  using ascii_hex [of "of_char c div 16"] ascii_hex [of "of_char c mod 16"]
  by (simp add: esc_char_def) (simp add: between_def)

lemma ascii_quote: "ascii s \<Longrightarrow> ascii (quote s)"
  by (induction s) (simp_all add: quote_def ascii_esc, simp_all add: between_def)

end
