(* ===== verification/Host.thy ===== *)
theory Host
  imports Json
begin

text \<open>
  The machine a script runs on: its files, the environment of the process, the clock, the lines the
  operator types, a counter for generated identifiers and a log of what the script did. Programs
  the scripts start (docker, git, openssl, other scripts) are not under src/: they are one
  parameter, a function from the command line, the standard input and the environment to an exit
  status and output, which may also change the files and the rest of the world (\<open>ext\<close>).
\<close>

type_synonym path = "string list"

datatype node = Dir nat | File nat string

text \<open>The octal modes the scripts use: 0600, 0644, 0700 and 0755.\<close>

definition mode_600 :: nat where "mode_600 = 6 * 64"
definition mode_644 :: nat where "mode_644 = 6 * 64 + 4 * 8 + 4"
definition mode_700 :: nat where "mode_700 = 7 * 64"
definition mode_755 :: nat where "mode_755 = 7 * 64 + 5 * 8 + 5"

text \<open>The first entry of a path counts.\<close>

type_synonym files = "(path \<times> node) list"

text \<open>
  What the log records: a command with the Compose project its environment selects, a line
  printed, a file written, a tree removed, a change of mode, a pause, an HTTP call (method, URL) with
  the status of its answer, and a method call that Playwright carries out.
\<close>

text \<open>
  Playwright, the library of the browser scripts, sees objects and method calls: \<open>Root\<close> is what
  \<open>sync_playwright()\<close> gives, a \<open>Handle\<close> an object it answered (a browser, a context, a page), and
  \<open>Found l m args\<close> the locator that the method \<open>m\<close> of \<open>l\<close> makes without looking at the page. An argument
  has its keyword, the empty name when it is positional; \<open>Pattern\<close> is a compiled regular expression.
\<close>

datatype locator = Root | Handle json | Found locator string "(string \<times> argument) list"
  and argument = Value json | Target locator | Pattern string

datatype event =
    Ran "string list" "string option"
  | Printed string
  | Wrote path
  | Removed path
  | Chmod path nat
  | Slept int
  | Called string string int
  | Browsed locator string "(string \<times> argument) list"

record 'x host =
  fs :: files
  env :: "string \<rightharpoonup> string"
  now :: int
  typed :: "string list"
  fresh :: nat
  page_errors :: "string list"
  trace :: "event list"
  ext :: 'x

record proc =
  returncode :: int
  stdout :: string
  stderr :: string
  took :: nat

text \<open>\<open>Inl\<close> is the exception of a program that cannot be started.\<close>

type_synonym 'x exec =
  "string list \<Rightarrow> string option \<Rightarrow> (string \<rightharpoonup> string) \<Rightarrow> files \<times> 'x \<Rightarrow> (exn + proc) \<times> files \<times> 'x"

definition project_var :: string where
  "project_var = ''COMPOSE_PROJECT_NAME''"

definition log_event :: "event \<Rightarrow> ('x host, unit) py" where
  "log_event e = modify (\<lambda>h. h\<lparr>trace := trace h @ [e]\<rparr>)"

definition print_py :: "string \<Rightarrow> ('x host, unit) py" where
  "print_py s = log_event (Printed s)"

lemma log_event_run: "log_event e h = (Inr (), h\<lparr>trace := trace h @ [e]\<rparr>)"
  by (simp add: log_event_def)

lemma print_run: "print_py s h = (Inr (), h\<lparr>trace := trace h @ [Printed s]\<rparr>)"
  by (simp add: print_py_def log_event_run)

lemmas host_run = py_run print_run log_event_run

section \<open>Processes\<close>

definition elapsed :: "exn + proc \<Rightarrow> int" where
  "elapsed r = (case r of Inl e \<Rightarrow> 0 | Inr p \<Rightarrow> int (took p))"

text \<open>\<open>subprocess.run(args, capture_output=True)\<close> without \<open>check\<close>.\<close>

definition run_io :: "'x exec \<Rightarrow> string list \<Rightarrow> string option \<Rightarrow> ('x host, proc) py" where
  "run_io X args inp h =
     (case X args inp (env h) (fs h, ext h) of
        (r, f, x) \<Rightarrow>
          (r, h\<lparr>fs := f, ext := x, now := now h + elapsed r,
                 trace := trace h @ [Ran args (env h project_var)]\<rparr>))"

text \<open>\<open>subprocess.run(args, check=True)\<close> and \<open>check_output\<close>.\<close>

definition run_check :: "'x exec \<Rightarrow> string list \<Rightarrow> string option \<Rightarrow> ('x host, proc) py" where
  "run_check X args inp =
     bind_py (run_io X args inp)
       (\<lambda>p. if returncode p = 0 then ret p else raise (CalledProcessError args (returncode p)))"

text \<open>\<open>time.sleep(n)\<close>\<close>

definition sleep :: "int \<Rightarrow> ('x host, unit) py" where
  "sleep n = modify (\<lambda>h. h\<lparr>now := now h + n, trace := trace h @ [Slept n]\<rparr>)"

section \<open>Files\<close>

definition fget :: "files \<Rightarrow> path \<Rightarrow> node option" where
  "fget f p = map_of f p"

definition fput :: "path \<Rightarrow> node \<Rightarrow> files \<Rightarrow> files" where
  "fput p n f = (p, n) # filter (\<lambda>(q, m). q \<noteq> p) f"

lemma fget_fput: "fget (fput p n f) q = (if q = p then Some n else fget f q)"
  by (induction f) (auto simp: fget_def fput_def)

definition exists_path :: "files \<Rightarrow> path \<Rightarrow> bool" where
  "exists_path f p \<longleftrightarrow> fget f p \<noteq> None"

definition is_dir :: "files \<Rightarrow> path \<Rightarrow> bool" where
  "is_dir f p = (case fget f p of Some (Dir m) \<Rightarrow> True | _ \<Rightarrow> False)"

definition is_file :: "files \<Rightarrow> path \<Rightarrow> bool" where
  "is_file f p = (case fget f p of Some (File m c) \<Rightarrow> True | _ \<Rightarrow> False)"

definition path_text :: "path \<Rightarrow> string" where
  "path_text p = CHR ''/'' # join ''/'' p"

definition read_text :: "path \<Rightarrow> ('x host, string) py" where
  "read_text p = bind_py (asks fs)
     (\<lambda>f. case fget f p of Some (File m c) \<Rightarrow> ret c | _ \<Rightarrow> raise (FileNotFoundError (path_text p)))"

text \<open>\<open>write_text\<close>: an existing file keeps its mode, a new one gets the default 0644.\<close>

definition write_text :: "path \<Rightarrow> string \<Rightarrow> ('x host, unit) py" where
  "write_text p c = modify (\<lambda>h.
     h\<lparr>fs := fput p (File (case fget (fs h) p of Some (File m _) \<Rightarrow> m | _ \<Rightarrow> mode_644) c) (fs h),
        trace := trace h @ [Wrote p]\<rparr>)"

definition chmod :: "path \<Rightarrow> nat \<Rightarrow> ('x host, unit) py" where
  "chmod p m = bind_py (asks fs)
     (\<lambda>f. case fget f p of
            None \<Rightarrow> raise (FileNotFoundError (path_text p))
          | Some n \<Rightarrow> modify (\<lambda>h.
              h\<lparr>fs := fput p (case n of Dir _ \<Rightarrow> Dir m | File _ c \<Rightarrow> File m c) (fs h),
                 trace := trace h @ [Chmod p m]\<rparr>))"

text \<open>\<open>mkdir(parents=True, exist_ok=True)\<close>: every missing directory on the way is made.\<close>

fun prefixes_of :: "path \<Rightarrow> path list" where
  "prefixes_of [] = [[]]"
| "prefixes_of (c # cs) = [] # map (\<lambda>p. c # p) (prefixes_of cs)"

definition mkdirs :: "path \<Rightarrow> ('x host, unit) py" where
  "mkdirs p = modify (\<lambda>h.
     h\<lparr>fs := fold (\<lambda>q f. if exists_path f q then f else fput q (Dir mode_755) f) (prefixes_of p) (fs h)\<rparr>)"

text \<open>\<open>shutil.rmtree\<close>: the directory and everything below it.\<close>

definition below :: "path \<Rightarrow> path \<Rightarrow> bool" where
  "below p q \<longleftrightarrow> take (length p) q = p"

definition rmtree :: "path \<Rightarrow> ('x host, unit) py" where
  "rmtree p = modify (\<lambda>h.
     h\<lparr>fs := filter (\<lambda>(q, n). \<not> below p q) (fs h), trace := trace h @ [Removed p]\<rparr>)"

lemma fget_filter: "fget (filter (\<lambda>(q, n). P q) f) q = (if P q then fget f q else None)"
  by (induction f) (auto simp: fget_def)

text \<open>The names in a directory, and those of its subdirectories.\<close>

definition children :: "files \<Rightarrow> path \<Rightarrow> string list" where
  "children f d =
     remdups (map (\<lambda>(q, n). last q) (filter (\<lambda>(q, n). q \<noteq> [] \<and> butlast q = d) f))"

definition subdirs :: "files \<Rightarrow> path \<Rightarrow> string list" where
  "subdirs f d = filter (\<lambda>n. is_dir f (d @ [n])) (children f d)"

lemma set_children: "n \<in> set (children f d) \<longleftrightarrow> exists_path f (d @ [n])"
proof -
  have "n \<in> set (children f d) \<longleftrightarrow> (\<exists>q m. (q, m) \<in> set f \<and> q \<noteq> [] \<and> butlast q = d \<and> last q = n)"
    by (force simp: children_def)
  also have "\<dots> \<longleftrightarrow> (\<exists>m. (d @ [n], m) \<in> set f)"
    by (metis append_butlast_last_id butlast_snoc last_snoc snoc_eq_iff_butlast)
  also have "\<dots> \<longleftrightarrow> exists_path f (d @ [n])"
    by (force simp: exists_path_def fget_def map_of_eq_None_iff)
  finally show ?thesis .
qed

lemma set_subdirs: "n \<in> set (subdirs f d) \<longleftrightarrow> is_dir f (d @ [n])"
  by (auto simp: subdirs_def set_children exists_path_def is_dir_def split: option.splits)

lemma distinct_subdirs [simp]: "distinct (subdirs f d)"
  by (simp add: subdirs_def children_def)

text \<open>\<open>open('wb')\<close> as the standard output of a command: the file is emptied before it starts.\<close>

definition set_content :: "path \<Rightarrow> string \<Rightarrow> ('x host, unit) py" where
  "set_content p c = modify (\<lambda>h.
     h\<lparr>fs := fput p (File (case fget (fs h) p of Some (File m _) \<Rightarrow> m | _ \<Rightarrow> mode_644) c) (fs h)\<rparr>)"

definition run_to_file :: "'x exec \<Rightarrow> string list \<Rightarrow> path \<Rightarrow> ('x host, unit) py" where
  "run_to_file X args p =
     then_py (write_text p [])
       (bind_py (run_io X args None)
          (\<lambda>r. then_py (set_content p (stdout r))
             (if returncode r = 0 then ret () else raise (CalledProcessError args (returncode r)))))"

section \<open>Runs of the log\<close>

text \<open>Everything below only appends to the log.\<close>

lemma below_append: "below p q \<longleftrightarrow> (\<exists>r. q = p @ r)"
  by (metis append_eq_conv_conj append_take_drop_id below_def)

lemma run_io_state:
  "run_io X args inp h = (r, h') \<Longrightarrow>
     trace h' = trace h @ [Ran args (env h project_var)] \<and> env h' = env h
     \<and> typed h' = typed h \<and> fresh h' = fresh h \<and> now h \<le> now h'"
  by (auto simp: run_io_def elapsed_def split: prod.splits sum.splits)

lemma run_check_ok:
  "run_check X args inp h = (Inr p, h') \<longleftrightarrow> run_io X args inp h = (Inr p, h') \<and> returncode p = 0"
  by (auto simp: run_check_def bind_ok split: if_splits)

lemma run_check_state:
  "run_check X args inp h = (r, h') \<Longrightarrow>
     trace h' = trace h @ [Ran args (env h project_var)] \<and> env h' = env h
     \<and> typed h' = typed h \<and> fresh h' = fresh h \<and> now h \<le> now h'"
  using run_io_state [of X args inp h]
  by (auto simp: run_check_def bind_py_def ret_def raise_def split: prod.splits sum.splits if_splits)

text \<open>
  \<open>logs P m\<close>: every event that \<open>m\<close> adds to the log satisfies \<open>P\<close>, whatever \<open>m\<close> ends with, and
  \<open>m\<close> removes none.
\<close>

definition logs :: "(event \<Rightarrow> bool) \<Rightarrow> ('x host, 'a) py \<Rightarrow> bool" where
  "logs P m \<longleftrightarrow> (\<forall>h. \<exists>es. trace (snd (m h)) = trace h @ es \<and> list_all P es)"

named_theorems py_logs \<open>operations whose log entries satisfy a predicate\<close>

lemma logsI: "(\<And>h. \<exists>es. trace (snd (m h)) = trace h @ es \<and> list_all P es) \<Longrightarrow> logs P m"
  by (simp add: logs_def)

lemma logsE:
  assumes "logs P m" and "m h = (r, h')"
  obtains es where "trace h' = trace h @ es" and "list_all P es"
  using assms by (metis logs_def snd_conv)

lemma logs_ret [py_logs]: "logs P (ret x)"
  by (simp add: logs_def ret_def)

lemma logs_raise [py_logs]: "logs P (raise e)"
  by (simp add: logs_def raise_def)

lemma logs_asks [py_logs]: "logs P (asks f)"
  by (simp add: logs_def)

lemma logs_lift [py_logs]: "logs P (lift_py r)"
  by (simp add: logs_def lift_py_def)

lemma logs_bind [py_logs]:
  assumes "logs P m" and "\<And>x. logs P (f x)"
  shows "logs P (bind_py m f)"
proof (rule logsI)
  fix h
  obtain r h' where m: "m h = (r, h')" by (cases "m h")
  with assms(1) obtain es where es: "trace h' = trace h @ es" "list_all P es" by (rule logsE)
  show "\<exists>es. trace (snd (bind_py m f h)) = trace h @ es \<and> list_all P es"
  proof (cases r)
    case (Inl e)
    with m es show ?thesis by (simp add: bind_py_def)
  next
    case (Inr x)
    obtain r' h'' where f: "f x h' = (r', h'')" by (cases "f x h'")
    with assms(2) obtain es' where "trace h'' = trace h' @ es'" "list_all P es'" by (rule logsE)
    with m es f Inr show ?thesis by (simp add: bind_py_def)
  qed
qed

lemma logs_bind_value:
  assumes "logs P m" and "ensures (\<lambda>x s. V x) m" and "\<And>x. V x \<Longrightarrow> logs P (f x)"
  shows "logs P (bind_py m f)"
proof (rule logsI)
  fix h
  obtain r h' where m: "m h = (r, h')" by (cases "m h")
  with assms(1) obtain es where es: "trace h' = trace h @ es" "list_all P es" by (rule logsE)
  show "\<exists>es. trace (snd (bind_py m f h)) = trace h @ es \<and> list_all P es"
  proof (cases r)
    case (Inl e)
    with m es show ?thesis by (simp add: bind_py_def)
  next
    case (Inr x)
    with m assms(2,3) have "logs P (f x)" by (auto dest: ensuresD)
    then obtain es' where "trace (snd (f x h')) = trace h' @ es'" "list_all P es'" unfolding logs_def by metis
    with m es Inr show ?thesis by (intro exI [of _ "es @ es'"]) (simp add: bind_py_def)
  qed
qed

lemma logs_then [py_logs]: "logs P m \<Longrightarrow> logs P n \<Longrightarrow> logs P (then_py m n)"
  by (simp add: then_py_def logs_bind)

lemma logs_when [py_logs]: "logs P m \<Longrightarrow> logs P (when_py b m)"
  by (simp add: when_py_def logs_ret)

lemma logs_assert [py_logs]: "logs P (assert_py b msg)"
  by (simp add: assert_py_def logs_ret logs_raise)

lemma logs_if [py_logs]: "logs P m \<Longrightarrow> logs P n \<Longrightarrow> logs P (if b then m else n)"
  by simp

lemma logs_for [py_logs]: "(\<And>x. x \<in> set xs \<Longrightarrow> logs P (f x)) \<Longrightarrow> logs P (for_py f xs)"
  by (induction xs) (auto intro!: logs_ret logs_then)

lemma logs_map [py_logs]: "(\<And>x. x \<in> set xs \<Longrightarrow> logs P (f x)) \<Longrightarrow> logs P (map_py f xs)"
  by (induction xs) (auto intro!: logs_ret logs_bind)

lemma logs_event: "P e \<Longrightarrow> logs P (log_event e)"
  by (simp add: logs_def log_event_def)

lemma logs_print [py_logs]: "P (Printed s) \<Longrightarrow> logs P (print_py s)"
  by (simp add: print_py_def logs_event)

lemma logs_run_io: "(\<And>prj. P (Ran args prj)) \<Longrightarrow> logs P (run_io X args inp)"
  by (rule logsI) (auto simp: run_io_def split: prod.splits)

lemma logs_run_check: "(\<And>prj. P (Ran args prj)) \<Longrightarrow> logs P (run_check X args inp)"
  unfolding run_check_def by (intro logs_bind logs_run_io logs_if logs_ret logs_raise)

lemma logs_sleep: "P (Slept n) \<Longrightarrow> logs P (sleep n)"
  by (simp add: logs_def sleep_def)

lemma logs_read [py_logs]: "logs P (read_text p)"
  unfolding read_text_def by (intro logs_bind) (auto intro: py_logs split: option.splits node.splits)

lemma logs_write: "P (Wrote p) \<Longrightarrow> logs P (write_text p c)"
  by (simp add: logs_def write_text_def)

lemma logs_mkdirs [py_logs]: "logs P (mkdirs p)"
  by (simp add: logs_def mkdirs_def)

lemma logs_chmod: "P (Chmod p m) \<Longrightarrow> logs P (chmod p m)"
  unfolding chmod_def by (intro logs_bind logs_asks) (auto simp: logs_def raise_def split: option.splits)

lemma logs_set_content [py_logs]: "logs P (set_content p c)"
  by (simp add: logs_def set_content_def)

lemma logs_run_to_file:
  "P (Wrote p) \<Longrightarrow> (\<And>prj. P (Ran args prj)) \<Longrightarrow> logs P (run_to_file X args p)"
  unfolding run_to_file_def by (intro logs_then logs_bind logs_write logs_run_io logs_if py_logs)

lemma logs_rmtree: "P (Removed p) \<Longrightarrow> logs P (rmtree p)"
  by (simp add: logs_def rmtree_def)

text \<open>An event once logged stays.\<close>

lemma logs_keeps: "logs P m \<Longrightarrow> keeps (\<lambda>h. S \<subseteq> set (trace h)) m"
  unfolding logs_def keeps_def by (metis Un_iff set_append subset_iff)

lemma logs_extends:
  fixes m :: "('x host, 'a) py"
  assumes "logs P m"
  shows "keeps (\<lambda>h :: 'x host. \<exists>es. trace h = old @ es \<and> list_all P es) m"
proof (rule keepsI, elim exE conjE)
  fix h :: "'x host" and es
  assume "trace h = old @ es" and "list_all P es"
  moreover obtain es' where "trace (snd (m h)) = trace h @ es'" "list_all P es'"
    using assms unfolding logs_def by blast
  ultimately show "\<exists>es. trace (snd (m h)) = old @ es \<and> list_all P es"
    by (intro exI [of _ "es @ es'"]) simp
qed

lemma logs_mono: "logs P m \<Longrightarrow> (\<And>e. P e \<Longrightarrow> Q e) \<Longrightarrow> logs Q m"
  unfolding logs_def by (metis list_all_iff)

section \<open>Plans\<close>

text \<open>
  \<open>follows ps m\<close>: what \<open>m\<close> does to the outside (the commands it runs, the HTTP calls it makes)
  matches the plan \<open>ps\<close>, a list of predicates on events, in order; all of it when \<open>m\<close> succeeds, a
  first part of it when \<open>m\<close> raises.
\<close>

definition visible :: "event \<Rightarrow> bool" where
  "visible e = (case e of Ran args prj \<Rightarrow> True | Called m u n \<Rightarrow> True | _ \<Rightarrow> False)"

definition shown :: "event list \<Rightarrow> event list" where
  "shown es = filter visible es"

lemma shown_simps [simp]:
  "shown [] = []" "shown (es @ es') = shown es @ shown es'"
  "shown (Ran args prj # es) = Ran args prj # shown es" "shown (Called a b c # es) = Called a b c # shown es"
  "shown (Printed s # es) = shown es" "shown (Wrote p # es) = shown es" "shown (Removed p # es) = shown es"
  "shown (Chmod p m # es) = shown es" "shown (Slept n # es) = shown es"
  "shown (Browsed l k as # es) = shown es"
  by (simp_all add: shown_def visible_def)

text \<open>The event of a command, under whatever Compose project.\<close>

fun runs :: "string list \<Rightarrow> event \<Rightarrow> bool" where
  "runs args (Ran a prj) = (a = args)"
| "runs args _ = False"

lemma runs_Ran: "runs args e \<longleftrightarrow> (\<exists>prj. e = Ran args prj)"
  by (cases e) auto

fun_cases runsE: "runs args e"

type_synonym plan = "(event \<Rightarrow> bool) list"

definition follows :: "plan \<Rightarrow> ('x host, 'a) py \<Rightarrow> bool" where
  "follows ps m \<longleftrightarrow>
     (\<forall>h. \<exists>cs qs. shown (trace (snd (m h))) = shown (trace h) @ cs \<and> list_all2 (\<lambda>p c. p c) qs cs
        \<and> (if isl (fst (m h)) then \<exists>rest. ps = qs @ rest else qs = ps))"

named_theorems py_plan \<open>the commands an operation runs\<close>

lemma followsD:
  assumes "follows ps m" and "m h = (r, h')"
  obtains cs qs where "shown (trace h') = shown (trace h) @ cs" "list_all2 (\<lambda>p c. p c) qs cs"
    "if isl r then \<exists>rest. ps = qs @ rest else qs = ps"
  using assms unfolding follows_def by (metis fst_conv snd_conv)

lemma followsI:
  assumes "\<And>h r h'. m h = (r, h') \<Longrightarrow> \<exists>cs qs. shown (trace h') = shown (trace h) @ cs
    \<and> list_all2 (\<lambda>p c. p c) qs cs \<and> (if isl r then \<exists>rest. ps = qs @ rest else qs = ps)"
  shows "follows ps m"
  unfolding follows_def
proof
  fix h
  show "\<exists>cs qs. shown (trace (snd (m h))) = shown (trace h) @ cs \<and> list_all2 (\<lambda>p c. p c) qs cs
        \<and> (if isl (fst (m h)) then \<exists>rest. ps = qs @ rest else qs = ps)"
    using assms [of h "fst (m h)" "snd (m h)"] by simp
qed

lemma follows_quiet:
  assumes "\<And>h. shown (trace (snd (m h))) = shown (trace h)"
  shows "follows [] m"
  unfolding follows_def using assms by (auto intro!: exI [of _ "[]"])

lemma follows_ret [py_plan]: "follows [] (ret x)"
  by (rule follows_quiet) (simp add: ret_def)

lemma follows_raise [py_plan]: "follows ps (raise e)"
  unfolding follows_def raise_def by (auto intro!: exI [of _ "[]"])

lemma follows_asks [py_plan]: "follows [] (asks f)"
  by (rule follows_quiet) simp

lemma follows_lift [py_plan]: "follows [] (lift_py r)"
  by (rule follows_quiet) (simp add: lift_py_def)

lemma follows_print [py_plan]: "follows [] (print_py s)"
  by (rule follows_quiet) (simp add: print_run)

lemma follows_sleep [py_plan]: "follows [] (sleep n)"
  by (rule follows_quiet) (simp add: sleep_def)

lemma follows_write [py_plan]: "follows [] (write_text p c)"
  by (rule follows_quiet) (simp add: write_text_def)

lemma follows_set [py_plan]: "follows [] (set_content p c)"
  by (rule follows_quiet) (simp add: set_content_def)

lemma follows_mkdirs [py_plan]: "follows [] (mkdirs p)"
  by (rule follows_quiet) (simp add: mkdirs_def)

lemma follows_rmtree [py_plan]: "follows [] (rmtree p)"
  by (rule follows_quiet) (simp add: rmtree_def)

lemma follows_read [py_plan]: "follows [] (read_text p)"
  by (rule follows_quiet) (auto simp: read_text_def py_run split: option.splits node.splits)

lemma follows_chmod [py_plan]: "follows [] (chmod p m)"
  by (rule follows_quiet) (auto simp: chmod_def py_run split: option.splits)

lemma follows_run_io: "(\<And>prj. p (Ran args prj)) \<Longrightarrow> follows [p] (run_io X args inp)"
proof (rule followsI)
  fix h r h'
  assume "\<And>prj. p (Ran args prj)" and "run_io X args inp h = (r, h')"
  then show "\<exists>cs qs. shown (trace h') = shown (trace h) @ cs \<and> list_all2 (\<lambda>p c. p c) qs cs
    \<and> (if isl r then \<exists>rest. [p] = qs @ rest else qs = [p])"
    using run_io_state [of X args inp h r h']
    by (intro exI [of _ "[Ran args (env h project_var)]"] exI [of _ "[p]"]) auto
qed

lemma follows_bind [py_plan]:
  assumes m: "follows ps m" and f: "\<And>x. follows qs (f x)"
  shows "follows (ps @ qs) (bind_py m f)"
proof (rule followsI)
  fix h r h''
  assume run: "bind_py m f h = (r, h'')"
  obtain r' h' where mh: "m h = (r', h')" by (cases "m h")
  with m obtain cs us where a: "shown (trace h') = shown (trace h) @ cs" "list_all2 (\<lambda>p c. p c) us cs"
    "if isl r' then \<exists>rest. ps = us @ rest else us = ps" by (rule followsD)
  show "\<exists>cs us. shown (trace h'') = shown (trace h) @ cs \<and> list_all2 (\<lambda>p c. p c) us cs
    \<and> (if isl r then \<exists>rest. ps @ qs = us @ rest else us = ps @ qs)"
  proof (cases r')
    case (Inl e)
    with mh run have "r = Inl e" "h'' = h'" by (simp_all add: bind_py_def)
    with a Inl show ?thesis by auto
  next
    case (Inr x)
    with mh run have "f x h' = (r, h'')" by (simp add: bind_py_def)
    with f obtain ds vs where b: "shown (trace h'') = shown (trace h') @ ds" "list_all2 (\<lambda>p c. p c) vs ds"
      "if isl r then \<exists>rest. qs = vs @ rest else vs = qs" by (rule followsD)
    have "list_all2 (\<lambda>p c. p c) (us @ vs) (cs @ ds)" using a(2) b(2) by (rule list_all2_appendI)
    with a b Inr show ?thesis by (intro exI [of _ "cs @ ds"] exI [of _ "us @ vs"]) (auto split: if_splits)
  qed
qed

lemma follows_then [py_plan]: "follows ps m \<Longrightarrow> follows qs n \<Longrightarrow> follows (ps @ qs) (then_py m n)"
  by (simp add: then_py_def follows_bind)

lemma follows_if [py_plan]: "follows ps m \<Longrightarrow> follows ps n \<Longrightarrow> follows ps (if b then m else n)"
  by simp

lemma follows_when_quiet [py_plan]: "follows [] m \<Longrightarrow> follows [] (when_py b m)"
  by (simp add: when_py_def follows_ret)

lemma follows_assert [py_plan]: "follows [] (assert_py b s)"
  by (simp add: assert_py_def follows_ret follows_raise)

lemma follows_bind_quiet: "follows [] m \<Longrightarrow> (\<And>x. follows ps (f x)) \<Longrightarrow> follows ps (bind_py m f)"
  using follows_bind [of "[]" m ps f] by simp

lemma follows_then_quiet: "follows [] m \<Longrightarrow> follows ps n \<Longrightarrow> follows ps (then_py m n)"
  using follows_then [of "[]" m ps n] by simp

lemma follows_bind_cons: "follows [p] m \<Longrightarrow> (\<And>x. follows ps (f x)) \<Longrightarrow> follows (p # ps) (bind_py m f)"
  using follows_bind [of "[p]" m ps f] by simp

lemma follows_then_cons: "follows [p] m \<Longrightarrow> follows ps n \<Longrightarrow> follows (p # ps) (then_py m n)"
  using follows_then [of "[p]" m ps n] by simp

lemma follows_for: "(\<And>x. x \<in> set xs \<Longrightarrow> follows (g x) (f x)) \<Longrightarrow> follows (concat (map g xs)) (for_py f xs)"
  by (induction xs) (auto intro: follows_ret follows_then)

lemma follows_quiet_for [py_plan]: "(\<And>x. x \<in> set xs \<Longrightarrow> follows [] (f x)) \<Longrightarrow> follows [] (for_py f xs)"
  by (induction xs) (auto intro!: follows_ret follows_then_quiet)

lemma follows_run_check: "(\<And>prj. p (Ran args prj)) \<Longrightarrow> follows [p] (run_check X args inp)"
  unfolding run_check_def by (intro follows_bind_cons follows_run_io follows_if follows_ret follows_raise)

lemma follows_run_to_file: "(\<And>prj. q (Ran args prj)) \<Longrightarrow> follows [q] (run_to_file X args p)"
  unfolding run_to_file_def
  by (intro follows_then_quiet [OF follows_write] follows_bind_cons follows_run_io
      follows_then_quiet [OF follows_set] follows_if follows_ret follows_raise)

text \<open>The conclusion for a whole run.\<close>

lemma follows_success:
  assumes "follows ps m" and "m h = (Inr x, h')"
  shows "\<exists>cs. shown (trace h') = shown (trace h) @ cs \<and> list_all2 (\<lambda>p c. p c) ps cs"
  using assms by (auto elim!: followsD)

section \<open>Exceptions of commands\<close>

text \<open>A program that cannot be started raises \<open>FileNotFoundError\<close>, and nothing else does.\<close>

definition missing_program :: "exn \<Rightarrow> bool" where
  "missing_program e \<longleftrightarrow> (\<exists>p. e = FileNotFoundError p)"

definition sane :: "'x exec \<Rightarrow> bool" where
  "sane X \<longleftrightarrow> (\<forall>args inp v w e w'. X args inp v w = (Inl e, w') \<longrightarrow> missing_program e)"

lemma raises_run_io: "sane X \<Longrightarrow> (\<And>e. missing_program e \<Longrightarrow> Q e) \<Longrightarrow> raises Q (run_io X args inp)"
  by (auto simp: raises_def run_io_def split: prod.splits) (metis sane_def)

lemma raises_run_check:
  "sane X \<Longrightarrow> (\<And>e. missing_program e \<Longrightarrow> Q e) \<Longrightarrow> (\<And>c. Q (CalledProcessError args c))
     \<Longrightarrow> raises Q (run_check X args inp)"
  unfolding run_check_def by (intro raises_bind raises_run_io raises_if raises_ret raises_raise)

lemma raises_print [py_raises]: "raises Q (print_py s)"
  by (simp add: print_py_def log_event_def raises_modify)

lemma raises_sleep [py_raises]: "raises Q (sleep n)"
  by (simp add: sleep_def raises_modify)

section \<open>The keyboard\<close>

text \<open>\<open>input(prompt)\<close>: the next line typed, or \<open>EOFError\<close> at the end of the input.\<close>

definition input_py :: "string \<Rightarrow> ('x host, string) py" where
  "input_py prompt =
     then_py (print_py prompt)
       (bind_py (asks typed)
          (\<lambda>t. case t of
             [] \<Rightarrow> raise EOFError
           | line # rest \<Rightarrow> then_py (modify (\<lambda>h. h\<lparr>typed := rest\<rparr>)) (ret line)))"

lemma follows_input [py_plan]: "follows [] (input_py s)"
  by (rule follows_quiet) (auto simp: input_py_def host_run split: list.splits)

lemma logs_input [py_logs]: "P (Printed s) \<Longrightarrow> logs P (input_py s)"
  by (rule logsI) (auto simp: input_py_def host_run split: list.splits)

section \<open>The environment of the commands\<close>

text \<open>Every command a script runs sees the environment the script started with.\<close>

definition same_env :: "(string \<rightharpoonup> string) \<Rightarrow> event list \<Rightarrow> 'x host \<Rightarrow> bool" where
  "same_env E old h \<longleftrightarrow>
     env h = E \<and> (\<forall>a p. Ran a p \<in> set (trace h) \<longrightarrow> Ran a p \<in> set old \<or> p = E project_var)"

lemma env_run_io [py_keeps]: "keeps (same_env E old) (run_io X args inp)"
  by (rule keepsI) (auto simp: same_env_def run_io_def split: prod.splits)

lemma env_run_check [py_keeps]: "keeps (same_env E old) (run_check X args inp)"
  unfolding run_check_def by (intro py_keeps)

lemma env_print [py_keeps]: "keeps (same_env E old) (print_py s)"
  by (rule keepsI) (auto simp: same_env_def print_run)

lemma env_sleep [py_keeps]: "keeps (same_env E old) (sleep n)"
  by (rule keepsI) (auto simp: same_env_def sleep_def)

lemma env_read [py_keeps]: "keeps (same_env E old) (read_text p)"
  by (rule keepsI) (auto simp: read_text_def py_run split: option.splits node.splits)

lemma env_write [py_keeps]: "keeps (same_env E old) (write_text p c)"
  by (rule keepsI) (auto simp: same_env_def write_text_def)

lemma env_input [py_keeps]: "keeps (same_env E old) (input_py s)"
  by (rule keepsI) (auto simp: same_env_def input_py_def host_run split: list.splits)

lemma same_env_start: "same_env (env h) (trace h) h"
  by (simp add: same_env_def)

lemma ran_project:
  assumes "keeps (same_env (env h) (trace h)) m" and "m h = (r, h')"
    and "Ran c p \<in> set (trace h')" and "Ran c p \<notin> set (trace h)"
  shows "p = env h project_var"
proof -
  have "same_env (env h) (trace h) h'" using assms(1,2) same_env_start by (metis keepsE)
  with assms(3,4) show ?thesis unfolding same_env_def by blast
qed

section \<open>Files that stay\<close>

text \<open>
  \<open>holds p c h\<close>: the file \<open>p\<close> has the content \<open>c\<close>, whatever its mode; \<open>spares X p\<close>: no program of
  \<open>X\<close> touches it.
\<close>

definition holds :: "path \<Rightarrow> string \<Rightarrow> 'x host \<Rightarrow> bool" where
  "holds p c h \<longleftrightarrow> (\<exists>m. fget (fs h) p = Some (File m c))"

definition spares :: "'x exec \<Rightarrow> path \<Rightarrow> bool" where
  "spares X p \<longleftrightarrow> (\<forall>args inp v f x. fget (fst (snd (X args inp v (f, x)))) p = fget f p)"

lemma spares_fget: "spares X p \<Longrightarrow> X args inp v (f, x) = (r, f', x') \<Longrightarrow> fget f' p = fget f p"
  unfolding spares_def by (metis fst_conv snd_conv)

lemma holds_exists: "holds p c h \<Longrightarrow> exists_path (fs h) p"
  by (auto simp: holds_def exists_path_def)

lemma holds_run_io: "spares X p \<Longrightarrow> keeps (holds p c) (run_io X args inp)"
  by (rule keepsI) (auto simp: holds_def run_io_def spares_def split: prod.splits, metis fst_conv snd_conv)

lemma holds_run_check: "spares X p \<Longrightarrow> keeps (holds p c) (run_check X args inp)"
  unfolding run_check_def by (intro keeps_bind holds_run_io keeps_if keeps_ret keeps_raise)

lemma holds_chmod: "keeps (holds p c) (chmod q m)"
  by (rule keepsI) (auto simp: holds_def chmod_def py_run fget_fput split: option.splits node.splits)

lemma fold_mkdirs:
  "fget (fold (\<lambda>q f. if exists_path f q then f else fput q (Dir mode_755) f) qs f) p =
     (if fget f p = None \<and> p \<in> set qs then Some (Dir mode_755) else fget f p)"
proof (induction qs arbitrary: f)
  case (Cons q qs)
  then show ?case by (auto simp: exists_path_def fget_fput)
qed simp

lemma holds_mkdirs: "keeps (holds p c) (mkdirs q)"
  by (rule keepsI) (auto simp: holds_def mkdirs_def py_run fold_mkdirs)

lemma holds_print: "keeps (holds p c) (print_py s)"
  by (rule keepsI) (auto simp: holds_def print_run)

lemma holds_read: "keeps (holds p c) (read_text q)"
  by (rule keepsI) (auto simp: read_text_def py_run split: option.splits node.splits)

section \<open>Polling\<close>

text \<open>
  The contract of a wait with a deadline: while the clock has not reached it, check, stop on success
  or on an exception, else pause and check again. A check makes one visible step and never turns the
  clock back.
\<close>

locale polling =
  fixes check :: "('x host, bool) py"
    and loop :: "int \<Rightarrow> ('x host, bool) py"
    and pause :: int
  assumes unfold: "loop d h =
      (if now h < d then
         (case check h of
            (Inl e, h') \<Rightarrow> (Inl e, h')
          | (Inr ok, h') \<Rightarrow> if ok then (Inr True, h') else loop d (snd (sleep pause h')))
       else (Inr False, h))"
    and clock: "check h = (r, h') \<Longrightarrow> now h \<le> now h'"
    and one_step: "check h = (r, h') \<Longrightarrow> length (shown (trace h')) = Suc (length (shown (trace h)))"
    and pause_pos: "0 < pause"
begin

lemma loop_result:
  "loop d h = (r, h') \<Longrightarrow>
     (case r of
        Inl e \<Rightarrow> \<exists>h1. check h1 = (Inl e, h')
      | Inr ok \<Rightarrow> if ok then \<exists>h1. now h1 < d \<and> check h1 = (Inr True, h') else d \<le> now h')"
proof (induction "nat (d - now h)" arbitrary: h rule: less_induct)
  case less
  show ?case
  proof (cases "now h < d")
    case False
    then have "loop d h = (Inr False, h)" by (subst unfold) simp
    with less.prems False show ?thesis by auto
  next
    case True
    obtain c h1 where c: "check h = (c, h1)" by (cases "check h")
    consider e where "c = Inl e" | "c = Inr True" | "c = Inr False"
      by (metis (full_types) sumE)
    then show ?thesis
    proof cases
      case 3
      let ?h = "snd (sleep pause h1)"
      have "nat (d - now ?h) < nat (d - now h)"
        using clock [OF c] pause_pos True by (simp add: sleep_def)
      moreover have "loop d ?h = (r, h')"
        using less.prems True c 3 by (subst (asm) unfold) simp
      ultimately show ?thesis by (rule less.hyps)
    qed (use less.prems True c in \<open>subst (asm) unfold, auto\<close>)+
  qed
qed

lemma loop_keeps:
  assumes "keeps I check" and "keeps I (sleep pause)"
  shows "keeps I (loop d)"
proof (rule keepsI)
  fix h
  show "I h \<Longrightarrow> I (snd (loop d h))"
  proof (induction "nat (d - now h)" arbitrary: h rule: less_induct)
    case less
    show ?case
    proof (cases "now h < d")
      case False
      with less.prems show ?thesis by (subst unfold) simp
    next
      case True
      obtain c h1 where c: "check h = (c, h1)" by (cases "check h")
      with assms(1) less.prems have i: "I h1" by (rule keepsE)
      show ?thesis
      proof (cases "c = Inr False")
        case False
        with True c i show ?thesis by (subst unfold) (auto split: sum.splits)
      next
        case stop: True
        have "nat (d - now (snd (sleep pause h1))) < nat (d - now h)"
          using clock [OF c] pause_pos True by (simp add: sleep_def)
        moreover have "I (snd (sleep pause h1))" using assms(2) i by (rule keepsD)
        ultimately have "I (snd (loop d (snd (sleep pause h1))))" by (rule less.hyps)
        with True c stop show ?thesis by (subst unfold) simp
      qed
    qed
  qed
qed

lemma loop_logs:
  assumes "logs P check" and "P (Slept pause)"
  shows "logs P (loop d)"
proof (rule logsI)
  fix h :: "'x host"
  let ?I = "\<lambda>g :: 'x host. \<exists>es. trace g = trace h @ es \<and> list_all P es"
  have "keeps ?I check" using assms(1) by (rule logs_extends)
  moreover have "keeps ?I (sleep pause)" using assms(2) by (intro logs_extends logs_sleep)
  ultimately have "keeps ?I (loop d)" by (rule loop_keeps)
  then show "?I (snd (loop d h))" by (rule keepsD) simp
qed

text \<open>How many checks fit: one per started pause before the deadline.\<close>

lemma loop_steps:
  "loop d h = (r, h') \<Longrightarrow>
     length (shown (trace h')) \<le> length (shown (trace h)) + nat ((d - now h + pause - 1) div pause)"
proof (induction "nat (d - now h)" arbitrary: h rule: less_induct)
  case less
  show ?case
  proof (cases "now h < d")
    case False
    then have "loop d h = (Inr False, h)" by (subst unfold) simp
    with less.prems show ?thesis by simp
  next
    case True
    obtain c h1 where c: "check h = (c, h1)" by (cases "check h")
    let ?h = "snd (sleep pause h1)"
    have n: "1 \<le> (d - now h + pause - 1) div pause"
      using True pause_pos by (simp add: pos_imp_zdiv_pos_iff zdiv_mono1 int_one_le_iff_zero_less)
    show ?thesis
    proof (cases "c = Inr False")
      case False
      with less.prems True c have "h' = h1" by (subst (asm) unfold) (auto split: sum.splits if_splits)
      with one_step [OF c] n show ?thesis by simp
    next
      case False': True
      have l: "loop d ?h = (r, h')" using less.prems True c False' by (subst (asm) unfold) simp
      have m: "nat (d - now ?h) < nat (d - now h)"
        using clock [OF c] pause_pos True by (simp add: sleep_def)
      have "(d - now ?h + pause - 1) div pause \<le> (d - now h + pause - 1 - pause) div pause"
        using clock [OF c] pause_pos by (intro zdiv_mono1) (simp_all add: sleep_def)
      also have "\<dots> = (d - now h + pause - 1) div pause - 1"
        using pause_pos div_mult_self2 [of pause "d - now h + pause - 1 - pause" 1] by (simp add: algebra_simps)
      finally have "nat ((d - now ?h + pause - 1) div pause) + 1 \<le> nat ((d - now h + pause - 1) div pause)"
        using n by linarith
      moreover have "length (shown (trace ?h)) = Suc (length (shown (trace h)))"
        using one_step [OF c] by (simp add: sleep_def)
      ultimately show ?thesis using less.hyps [OF m l] by linarith
    qed
  qed
qed

end

end
