(* ===== verification/Probe.thy ===== *)
theory Probe
  imports JsonRoundtrip Host
begin

text \<open>
  The security-status probe (scripts/audit_security_status_probe.py): the strict validator of a
  \<open>/security-status\<close> body, one poll, the polling loop and the exit status an external scheduler
  sees. The endpoint is a parameter: fetching a URL gives the bytes of a 2xx answer or the
  exception \<open>urlopen\<close> or \<open>read\<close> raises. \<open>L\<close> and \<open>D\<close> are the interpreter's digit and recursion limits.
\<close>

section \<open>The validator\<close>

definition EXIT_CLEAR :: int where "EXIT_CLEAR = 0"
definition EXIT_CRITICAL :: int where "EXIT_CRITICAL = 1"
definition EXIT_UNREACHABLE :: int where "EXIT_UNREACHABLE = 2"
definition EXIT_INVALID_RESPONSE :: int where "EXIT_INVALID_RESPONSE = 3"

lemmas exit_codes = EXIT_CLEAR_def EXIT_CRITICAL_def EXIT_UNREACHABLE_def EXIT_INVALID_RESPONSE_def

definition clear_state :: string where "clear_state = ''CLEAR''"
definition critical_state :: string where "critical_state = ''CRITICAL_SECURITY_INCIDENT''"

definition VALID_STATES :: "string list" where
  "VALID_STATES = [clear_state, critical_state]"

definition invalid :: "string \<Rightarrow> exn + 'a" where
  "invalid msg = Inl (InvalidSecurityStatusResponse msg)"

definition check_count :: "string \<Rightarrow> members \<Rightarrow> exn + members" where
  "check_count state payload =
     (case map_of payload ''openIncidentCount'' of
        None \<Rightarrow> invalid ''missing openIncidentCount field''
      | Some (JInt n) \<Rightarrow>
          if n < 0 then invalid ''openIncidentCount is negative''
          else if state = clear_state \<and> n \<noteq> 0 then invalid ''CLEAR but openIncidentCount is not 0''
          else if state = critical_state \<and> n < 1 then invalid ''CRITICAL but openIncidentCount < 1''
          else Inr payload
      | Some _ \<Rightarrow> invalid ''openIncidentCount is not an integer'')"

definition check_payload :: "json \<Rightarrow> exn + members" where
  "check_payload v =
     (case v of
        JObj payload \<Rightarrow>
          (case map_of payload ''securityState'' of
             None \<Rightarrow> invalid ''missing securityState field''
           | Some (JStr state) \<Rightarrow>
               if state \<notin> set VALID_STATES then invalid ''unrecognized securityState''
               else check_count state payload
           | Some _ \<Rightarrow> invalid ''securityState is not a string'')
      | _ \<Rightarrow> invalid ''body is not a JSON object'')"

definition parse_security_status :: "nat \<Rightarrow> nat \<Rightarrow> string \<Rightarrow> exn + members" where
  "parse_security_status L D raw_body =
     (if \<not> utf8_ok raw_body then invalid ''body is not valid UTF-8''
      else if strip raw_body = [] then invalid ''body is empty''
      else (case loads L D raw_body of
          Inl (JSONDecodeError e) \<Rightarrow> invalid ''body is not valid JSON''
        | Inl e \<Rightarrow> Inl e
        | Inr v \<Rightarrow> check_payload v))"

section \<open>One poll, the loop, and the exit status\<close>

type_synonym 'x fetcher = "string \<Rightarrow> 'x \<Rightarrow> (exn + string) \<times> 'x"

definition fetch :: "'x fetcher \<Rightarrow> string \<Rightarrow> ('x host, string) py" where
  "fetch F url h = (case F url (ext h) of (r, x) \<Rightarrow> (r, h\<lparr>ext := x\<rparr>))"

text \<open>The exceptions the first handler of \<open>poll_once\<close> names.\<close>

fun transport_failure :: "exn \<Rightarrow> bool" where
  "transport_failure (URLError m) = True"
| "transport_failure TimeoutErr = True"
| "transport_failure ConnectionErr = True"
| "transport_failure _ = False"

definition state_of :: "members \<Rightarrow> json option" where
  "state_of payload = map_of payload ''securityState''"

text \<open>
  A value inside an f-string: a string stands for itself, \<open>R\<close> is the interpreter's \<open>repr\<close> of
  floats and containers, and \<open>payload.get\<close> of an absent key is \<open>None\<close>. \<open>print\<close> encodes the line
  strictly, so a lone surrogate in it (which \<open>json.loads\<close> accepts) is an error.
\<close>

fun fstr :: "(json \<Rightarrow> string) \<Rightarrow> json option \<Rightarrow> string" where
  "fstr R None = ''None''"
| "fstr R (Some JNull) = ''None''"
| "fstr R (Some (JBool b)) = (if b then ''True'' else ''False'')"
| "fstr R (Some (JInt n)) = show_int n"
| "fstr R (Some (JStr s)) = s"
| "fstr R (Some j) = R j"

definition report_line :: "(json \<Rightarrow> string) \<Rightarrow> members \<Rightarrow> string" where
  "report_line R payload =
     ''AUDIT-PROBE state='' @ fstr R (state_of payload)
     @ '' openIncidentCount='' @ fstr R (map_of payload ''openIncidentCount'')
     @ '' latestIncidentDedupKey='' @ fstr R (map_of payload ''latestIncidentDedupKey'')
     @ '' latestIncidentReasonCode='' @ fstr R (map_of payload ''latestIncidentReasonCode'')
     @ '' latestIncidentDetectedAt='' @ fstr R (map_of payload ''latestIncidentDetectedAt'')
     @ '' dbTime='' @ fstr R (map_of payload ''dbTime'')"

definition print_encoded :: "string \<Rightarrow> ('x host, unit) py" where
  "print_encoded line = (if utf8_ok line then print_py line else raise UnicodeEncodeError)"

definition poll_once :: "nat \<Rightarrow> nat \<Rightarrow> (json \<Rightarrow> string) \<Rightarrow> 'x fetcher \<Rightarrow> string \<Rightarrow> ('x host, int) py" where
  "poll_once L D R F url h =
     (case fetch F url h of
        (Inl e, h') \<Rightarrow>
          if transport_failure e
          then then_py (print_py (''AUDIT-PROBE UNREACHABLE url='' @ url)) (ret EXIT_UNREACHABLE) h'
          else raise e h'
      | (Inr raw_body, h') \<Rightarrow>
          (case parse_security_status L D raw_body of
             Inl (InvalidSecurityStatusResponse msg) \<Rightarrow>
               then_py (print_py (''AUDIT-PROBE INVALID_SECURITY_STATUS_RESPONSE url='' @ url @ '' reason='' @ msg))
                 (ret EXIT_INVALID_RESPONSE) h'
           | Inl e \<Rightarrow> raise e h'
           | Inr payload \<Rightarrow>
               then_py (print_encoded (report_line R payload))
                 (ret (if state_of payload = Some (JStr critical_state) then EXIT_CRITICAL else EXIT_CLEAR)) h'))"

text \<open>
  \<open>main\<close>: without \<open>--loop\<close> one poll; with it, polls and pauses for ever, so after \<open>k\<close> rounds
  the loop is still running (\<open>None\<close>) or an exception ended it.
\<close>

fun probe_loop :: "nat \<Rightarrow> nat \<Rightarrow> (json \<Rightarrow> string) \<Rightarrow> 'x fetcher \<Rightarrow> string \<Rightarrow> int \<Rightarrow> nat \<Rightarrow> 'x host \<Rightarrow> (exn + int) option \<times> 'x host" where
  "probe_loop L D R F url interval 0 h = (None, h)"
| "probe_loop L D R F url interval (Suc k) h =
     (case poll_once L D R F url h of
        (Inl e, h') \<Rightarrow> (Some (Inl e), h')
      | (Inr last_code, h') \<Rightarrow> probe_loop L D R F url interval k (snd (sleep interval h')))"

definition probe_main :: "nat \<Rightarrow> nat \<Rightarrow> (json \<Rightarrow> string) \<Rightarrow> 'x fetcher \<Rightarrow> string \<Rightarrow> int \<Rightarrow> bool \<Rightarrow> nat \<Rightarrow> 'x host \<Rightarrow> (exn + int) option \<times> 'x host" where
  "probe_main L D R F url interval loop k h =
     (if \<not> loop then map_prod Some id (poll_once L D R F url h)
      else probe_loop L D R F url interval k h)"

text \<open>\<open>sys.exit(main())\<close>: an exception that reaches the interpreter's top level exits with 1.\<close>

definition exit_status :: "exn + int \<Rightarrow> int" where
  "exit_status r = (case r of Inl e \<Rightarrow> 1 | Inr n \<Rightarrow> n)"

section \<open>What a body reports\<close>

text \<open>The contract of the endpoint, as the two coherent payloads.\<close>

definition reports :: "nat \<Rightarrow> nat \<Rightarrow> string \<Rightarrow> string \<Rightarrow> int \<Rightarrow> bool" where
  "reports L D raw state n \<longleftrightarrow>
     utf8_ok raw \<and> (\<exists>payload. loads L D raw = Inr (JObj payload)
        \<and> map_of payload ''securityState'' = Some (JStr state)
        \<and> map_of payload ''openIncidentCount'' = Some (JInt n))"

definition coherent :: "string \<Rightarrow> int \<Rightarrow> bool" where
  "coherent state n \<longleftrightarrow>
     (state = clear_state \<and> n = 0) \<or> (state = critical_state \<and> 1 \<le> n)"

text \<open>The two ways a 2xx body makes the validator raise something other than its own exception.\<close>

definition escapes :: "nat \<Rightarrow> nat \<Rightarrow> string \<Rightarrow> bool" where
  "escapes L D raw \<longleftrightarrow>
     utf8_ok raw \<and> strip raw \<noteq> [] \<and> (\<exists>e. loads L D raw = Inl e \<and> (\<forall>m. e \<noteq> JSONDecodeError m))"

subsection \<open>Text that parses is not blank\<close>

lemma strip_seqs_graphic: "graphic c \<Longrightarrow> c \<in> set s \<Longrightarrow> \<forall>w\<in>set ws. \<forall>d\<in>set w. \<not> graphic d
   \<Longrightarrow> c \<in> set (strip_seqs ws s)"
proof (induction ws s rule: strip_seqs.induct)
  case (1 ws s)
  show ?case
  proof (cases "first_match ws s")
    case None
    with "1.prems" show ?thesis by (simp add: strip_seqs_stop)
  next
    case (Some w)
    then have w: "w \<in> set ws" "starts_with w s"
      by (induction ws) (auto split: if_splits)
    then obtain t where s: "s = w @ t" by (auto simp: starts_with_append)
    with w(1) "1.prems" have "c \<in> set t" by auto
    with "1.IH" [OF Some] "1.prems" s have "c \<in> set (strip_seqs ws (drop (length w) s))" by simp
    with Some show ?thesis by (simp add: strip_seqs.simps [of ws s])
  qed
qed

lemma strip_graphic_mem:
  assumes "graphic c" and "c \<in> set s"
  shows "c \<in> set (strip s)"
proof -
  have "c \<in> set (lstrip s)"
    unfolding lstrip_def using assms ws_not_graphic by (intro strip_seqs_graphic) auto
  then have "c \<in> set (strip_seqs (map rev ws_seqs) (rev (lstrip s)))"
    using assms ws_not_graphic by (intro strip_seqs_graphic) auto
  then show ?thesis by (simp add: strip_def rstrip_def)
qed

lemma scan_int_graphic: "scan_int s = Some ds \<Longrightarrow> \<exists>c\<in>set s. graphic c"
  by (cases s) (auto simp: scan_int_def digits_of_def digit_graphic split: if_splits)

lemma starts_with_mem: "starts_with p s \<Longrightarrow> set p \<subseteq> set s"
  by (auto simp: starts_with_append)

lemma p_value_graphic:
  assumes "p_value L D s = Inr (v, r)"
  shows "\<exists>c\<in>set s. graphic c"
proof (rule ccontr)
  assume n: "\<not> ?thesis"
  have g: "graphic CHR 0x22" "graphic CHR ''{''" "graphic CHR ''[''" "graphic CHR ''n''"
    "graphic CHR ''t''" "graphic CHR ''f''" "graphic CHR ''N''" "graphic CHR ''I''"
    by (simp_all add: graphic_def)
  have m: "\<not> starts_with p s" if "c \<in> set p" "graphic c" for c p
    using that n starts_with_mem by blast
  have d: "scan_int (if b then drop 1 s else s) = None" for b
  proof (rule ccontr)
    assume "scan_int (if b then drop 1 s else s) \<noteq> None"
    then obtain ds where "scan_int (if b then drop 1 s else s) = Some ds" by blast
    then have "\<exists>c\<in>set (if b then drop 1 s else s). graphic c" by (rule scan_int_graphic)
    then show False using n by (auto dest: in_set_dropD split: if_splits)
  qed
  have k: "\<not> starts_with ''NaN'' s" "\<not> starts_with ''Infinity'' s" "\<not> starts_with ''-Infinity'' s"
    using m [of "CHR ''N''" "''NaN''"] m [of "CHR ''I''" "''Infinity''"]
      m [of "CHR ''I''" "''-Infinity''"] by (simp_all add: g)
  have w: "\<not> starts_with ''null'' s" "\<not> starts_with ''true'' s" "\<not> starts_with ''false'' s"
    using m [of "CHR ''n''" "''null''"] m [of "CHR ''t''" "''true''"]
      m [of "CHR ''f''" "''false''"] by (simp_all add: g)
  have f: "p_number L s = Inl bad_json"
    using d k by (auto simp: p_number_def Let_def)
  show False
  proof (cases s)
    case Nil
    with assms show False by (simp add: p_value.simps [of L D])
  next
    case (Cons a t)
    with n have "\<not> graphic a" by simp
    with g have "a \<noteq> CHR 0x22" "a \<noteq> CHR ''{''" "a \<noteq> CHR ''[''" by blast+
    then have "p_value L D s = Inl bad_json"
      unfolding p_value.simps [of L D] using w f by (simp only: Cons list.case if_False)
    with assms show False by simp
  qed
qed

lemma loads_not_blank: "loads L D raw = Inr v \<Longrightarrow> strip raw \<noteq> []"
proof -
  assume "loads L D raw = Inr v"
  then obtain v' r where "p_value L D (skip_ws raw) = Inr (v', r)"
    by (auto simp: loads_def split: sum.splits prod.splits if_splits)
  then obtain c where "c \<in> set (skip_ws raw)" "graphic c" using p_value_graphic by blast
  moreover from this(1) have "c \<in> set raw" unfolding skip_ws_def by (rule set_dropWhileD)
  ultimately show ?thesis using strip_graphic_mem by fastforce
qed

subsection \<open>The validator accepts exactly the coherent payloads\<close>

lemma states_differ [simp]: "clear_state \<noteq> critical_state" "critical_state \<noteq> clear_state"
  by (simp_all add: clear_state_def critical_state_def)

lemma check_payload_ok:
  "check_payload v = Inr payload \<longleftrightarrow>
     v = JObj payload \<and> (\<exists>state n. map_of payload ''securityState'' = Some (JStr state)
        \<and> map_of payload ''openIncidentCount'' = Some (JInt n) \<and> coherent state n)"
  by (cases v) (auto simp: check_payload_def check_count_def invalid_def VALID_STATES_def coherent_def
      split: option.splits json.splits if_splits)

lemma check_payload_error: "check_payload v = Inl e \<Longrightarrow> \<exists>m. e = InvalidSecurityStatusResponse m"
  by (auto simp: check_payload_def check_count_def invalid_def
      split: option.splits json.splits if_splits)

lemma parse_ok:
  "parse_security_status L D raw = Inr payload \<longleftrightarrow>
     utf8_ok raw \<and> loads L D raw = Inr (JObj payload) \<and>
     (\<exists>state n. map_of payload ''securityState'' = Some (JStr state)
        \<and> map_of payload ''openIncidentCount'' = Some (JInt n) \<and> coherent state n)"
  by (cases "loads L D raw")
    (auto simp: parse_security_status_def invalid_def check_payload_ok loads_not_blank
      split: exn.splits)

lemma loads_never_invalid [simp]: "loads L D raw \<noteq> Inl (InvalidSecurityStatusResponse m)"
  using loads_error [of L D raw] by (auto simp: parse_error_def bad_json_def digits_error_def)

lemma parse_escape:
  "(\<exists>e. parse_security_status L D raw = Inl e \<and> (\<forall>m. e \<noteq> InvalidSecurityStatusResponse m))
     \<longleftrightarrow> escapes L D raw"
  by (cases "loads L D raw")
    (auto simp: parse_security_status_def escapes_def invalid_def
      dest: check_payload_error split: exn.splits)

subsection \<open>One poll\<close>

definition printable :: "nat \<Rightarrow> nat \<Rightarrow> (json \<Rightarrow> string) \<Rightarrow> string \<Rightarrow> bool" where
  "printable L D R raw \<longleftrightarrow> (\<forall>payload. loads L D raw = Inr (JObj payload) \<longrightarrow> utf8_ok (report_line R payload))"

definition answer :: "'x fetcher \<Rightarrow> string \<Rightarrow> 'x host \<Rightarrow> exn + string" where
  "answer F url h = fst (F url (ext h))"

definition poll_status :: "nat \<Rightarrow> nat \<Rightarrow> (json \<Rightarrow> string) \<Rightarrow> 'x fetcher \<Rightarrow> string \<Rightarrow> 'x host \<Rightarrow> int" where
  "poll_status L D R F url h = exit_status (fst (poll_once L D R F url h))"

lemma poll_failed:
  "answer F url h = Inl e \<Longrightarrow> poll_status L D R F url h = (if transport_failure e then 2 else 1)"
  by (auto simp: poll_status_def answer_def poll_once_def fetch_def exit_status_def exit_codes
      host_run split: prod.splits)

lemma poll_answered:
  "answer F url h = Inr raw \<Longrightarrow> poll_status L D R F url h =
     (case parse_security_status L D raw of
        Inl (InvalidSecurityStatusResponse m) \<Rightarrow> 3
      | Inl e \<Rightarrow> 1
      | Inr payload \<Rightarrow>
          if \<not> utf8_ok (report_line R payload) then 1
          else if state_of payload = Some (JStr critical_state) then 1 else 0)"
  by (auto simp: poll_status_def answer_def poll_once_def fetch_def exit_status_def exit_codes
      host_run print_encoded_def split: prod.splits sum.splits exn.splits)

lemma poll_invalid:
  "answer F url h = Inr raw \<Longrightarrow> \<not> escapes L D raw \<Longrightarrow> \<forall>p. parse_security_status L D raw \<noteq> Inr p
     \<Longrightarrow> poll_status L D R F url h = 3"
  using parse_escape [of L D raw]
  by (cases "parse_security_status L D raw") (auto simp: poll_answered)

lemma poll_escape:
  "answer F url h = Inr raw \<Longrightarrow> escapes L D raw \<Longrightarrow> poll_status L D R F url h = 1"
  using parse_escape [of L D raw] by (auto simp: poll_answered split: exn.splits)

lemma nested_arrays: "p_value L D (replicate (Suc D) (CHR ''['') @ r) = Inl RecursionError"
proof (induction D)
  case 0
  then show ?case by (simp add: p_value.simps [of L 0])
next
  case (Suc D)
  have "skip_ws (replicate (Suc D) (CHR ''['') @ r) = replicate (Suc D) (CHR ''['') @ r"
    by (simp add: skip_ws_def jws_def)
  moreover have "p_elems L D [] (replicate (Suc D) (CHR ''['') @ r) = Inl RecursionError"
    using Suc by (subst p_elems.simps) simp
  ultimately show ?case
    by (simp add: p_value.simps [of L "Suc D"])
qed

lemma long_digits: "loads L D (replicate (Suc L) (CHR ''1'')) = Inl digits_error"
proof -
  have w: "skip_ws (replicate (Suc L) (CHR ''1'')) = replicate (Suc L) (CHR ''1'')"
    by (simp add: skip_ws_def jws_def)
  have "takeWhile is_digit (replicate (Suc L) (CHR ''1'')) = replicate (Suc L) (CHR ''1'')"
    by (simp add: is_digit_def takeWhile_eq_all_conv)
  then have "scan_int (replicate (Suc L) (CHR ''1'')) = Some (replicate (Suc L) (CHR ''1''))"
    by (simp add: scan_int_def digits_of_def)
  moreover have "scan_frac [] = []" "scan_exp [] = []" by (simp_all add: scan_frac_def scan_exp_def)
  ultimately have "p_number L (replicate (Suc L) (CHR ''1'')) = Inl digits_error"
    by (simp add: p_number_def digits_error_def Let_def)
  with w show ?thesis by (simp add: loads_def p_value.simps [of L D])
qed

lemma escapes_ascii:
  "s = replicate (Suc n) c \<Longrightarrow> graphic c \<Longrightarrow> between 0 127 c \<Longrightarrow> loads L D s = Inl e
     \<Longrightarrow> \<forall>m. e \<noteq> JSONDecodeError m \<Longrightarrow> escapes L D s"
  using strip_graphic_mem [of c s] by (auto simp: escapes_def intro!: utf8_ascii)

section \<open>Properties\<close>

text \<open>
  C1: The probe exits 0 exactly when the endpoint answered with a body that is UTF-8, parses to an
  object with securityState CLEAR and openIncidentCount the integer 0 (no boolean, no float), and
  whose report line can be printed. No other body, and no failure, ever exits 0.
\<close>

theorem probe_exit_clear:
  "poll_status L D R F url h = 0 \<longleftrightarrow>
     (\<exists>raw. answer F url h = Inr raw \<and> reports L D raw clear_state 0 \<and> printable L D R raw)"
proof (cases "answer F url h")
  case (Inl e)
  then show ?thesis by (simp add: poll_failed)
next
  case (Inr raw)
  show ?thesis
  proof (cases "\<exists>p. parse_security_status L D raw = Inr p")
    case True
    then obtain p where p: "parse_security_status L D raw = Inr p" by blast
    with Inr have "poll_status L D R F url h = 0 \<longleftrightarrow>
        utf8_ok (report_line R p) \<and> state_of p \<noteq> Some (JStr critical_state)"
      by (simp add: poll_answered)
    with p Inr show ?thesis
      by (auto simp: parse_ok reports_def printable_def coherent_def state_of_def)
  next
    case False
    then have "\<not> reports L D raw clear_state 0"
      by (auto simp: reports_def parse_ok coherent_def)
    moreover have "poll_status L D R F url h \<noteq> 0"
      using False Inr by (auto simp: poll_answered split: sum.splits exn.splits)
    ultimately show ?thesis using Inr by simp
  qed
qed

text \<open>
  An endpoint that answered is never reported as unreachable, and a transport failure always
  is: the probe exits 2 exactly when fetching raised one of the exceptions the handler names.
\<close>

theorem probe_exit_unreachable:
  "poll_status L D R F url h = 2 \<longleftrightarrow> (\<exists>e. answer F url h = Inl e \<and> transport_failure e)"
  by (cases "answer F url h") (auto simp: poll_failed poll_answered split: sum.splits exn.splits)

text \<open>
  C2: For an answered poll whose body neither overruns the parser nor makes the report line
  unprintable, the exit status is the documented one: 0 for CLEAR with count 0, 1 for
  CRITICAL_SECURITY_INCIDENT with an integer count of at least 1, and 3 for everything else.
\<close>

theorem probe_fail_closed:
  assumes "answer F url h = Inr raw" and "\<not> escapes L D raw" and "printable L D R raw"
  shows "poll_status L D R F url h =
    (if reports L D raw clear_state 0 then 0
     else if \<exists>n. 1 \<le> n \<and> reports L D raw critical_state n then 1 else 3)"
proof (cases "\<exists>p. parse_security_status L D raw = Inr p")
  case True
  then obtain p where p: "parse_security_status L D raw = Inr p" by blast
  with assms have "poll_status L D R F url h = (if state_of p = Some (JStr critical_state) then 1 else 0)"
    by (auto simp: poll_answered) (auto simp: parse_ok printable_def)
  with p show ?thesis by (auto simp: parse_ok reports_def coherent_def state_of_def)
next
  case False
  with assms have "poll_status L D R F url h = 3" by (intro poll_invalid) auto
  with False show ?thesis by (auto simp: reports_def parse_ok coherent_def)
qed

text \<open>An endpoint that always answers with the same body, on a machine that has done nothing yet.\<close>

definition always :: "exn + string \<Rightarrow> unit fetcher" where
  "always r url x = (r, x)"

definition idle :: "unit host" where
  "idle = \<lparr>fs = [], env = Map.empty, now = 0, typed = [], fresh = 0, page_errors = [], trace = [], ext = ()\<rparr>"

lemma answer_always [simp]: "answer (always r) url h = r"
  by (simp add: answer_def always_def)

definition incident_body :: string where
  "incident_body = dumps '''' (JObj [(''securityState'', JStr critical_state), (''openIncidentCount'', JInt 2)])"

lemma loads_incident:
  "loads 10 3 incident_body =
     Inr (JObj [(''securityState'', JStr critical_state), (''openIncidentCount'', JInt 2)])"
  unfolding incident_body_def by (rule loads_dumps) (simp_all add: int_digits_def show_nat.simps)

lemma utf8_incident: "utf8_ok incident_body"
  by (rule utf8_ascii) (simp add: incident_body_def critical_state_def quote_def esc_char_def between_def show_int_def
      show_nat.simps digit_char_def)

theorem probe_fail_closed_witness:
  "poll_status 10 3 (\<lambda>_. []) (always (Inr incident_body)) ''u'' idle = 1"
proof -
  have "printable 10 3 (\<lambda>_. []) incident_body"
    unfolding printable_def loads_incident
    by (auto simp: report_line_def state_of_def critical_state_def show_int_def between_def
        show_nat.simps digit_char_def intro!: utf8_ascii)
  moreover have "reports 10 3 incident_body critical_state 2" "\<not> reports 10 3 incident_body clear_state 0"
    unfolding reports_def loads_incident using utf8_incident by auto
  moreover have "\<not> escapes 10 3 incident_body" by (simp add: escapes_def loads_incident)
  ultimately show ?thesis
    using probe_fail_closed [of "always (Inr incident_body)" "''u''" idle incident_body 10 3 "\<lambda>_. []"]
    by (auto intro: exI [of _ "2 :: int"])
qed

text \<open>
  C21: Some answered bodies make the process end with status 1, the status documented for a critical
  incident, although they report none: arrays nested one deeper than the interpreter's recursion
  limit, and an integer literal one digit longer than its digit limit. The validator only catches
  JSONDecodeError; RecursionError and the plain ValueError reach the top level.
\<close>

theorem probe_parser_overrun_looks_critical:
  assumes "answer F url h = Inr raw"
    and "raw = replicate (Suc D) (CHR ''['') \<or> raw = replicate (Suc L) (CHR ''1'')"
  shows "poll_status L D R F url h = 1 \<and> (\<forall>state n. \<not> reports L D raw state n)"
proof -
  have "loads L D (replicate (Suc D) (CHR ''['')) = Inl RecursionError"
    using nested_arrays [of L D "[]"] by (simp add: loads_def skip_ws_def jws_def)
  with assms(2) obtain e where e: "loads L D raw = Inl e" "e = RecursionError \<or> e = digits_error"
    using long_digits [of L D] by blast
  then have "escapes L D raw"
    using assms(2) escapes_ascii [of raw D "CHR ''[''" L D e] escapes_ascii [of raw L "CHR ''1''" L D e]
    by (auto simp: graphic_def between_def digits_error_def)
  with assms(1) e show ?thesis by (auto simp: poll_escape reports_def)
qed

theorem probe_parser_overrun_looks_critical_witness:
  "poll_status 1 2 (\<lambda>_. []) (always (Inr ''[[['')) ''u'' idle = 1
   \<and> poll_status 1 2 (\<lambda>_. []) (always (Inr ''11'')) ''u'' idle = 1"
  using probe_parser_overrun_looks_critical [of "always (Inr ''[[['')" "''u''" idle "''[[[''" 2 1 "\<lambda>_. []"]
    probe_parser_overrun_looks_critical [of "always (Inr ''11'')" "''u''" idle "''11''" 2 1 "\<lambda>_. []"]
  by (simp add: numeral_2_eq_2)

text \<open>
  C22: A body that is a coherent CLEAR payload, but carries a lone surrogate in one of the fields
  printed for diagnostics, ends the process with status 1 as well: printing the report line raises
  UnicodeEncodeError after validation succeeded.
\<close>

theorem probe_unprintable_clear_looks_critical:
  assumes "answer F url h = Inr raw" and "reports L D raw clear_state 0"
    and "loads L D raw = Inr (JObj payload)" and "\<not> utf8_ok (report_line R payload)"
  shows "poll_status L D R F url h = 1"
proof -
  have "parse_security_status L D raw = Inr payload"
    using assms(2,3) by (auto simp: parse_ok reports_def coherent_def)
  with assms show ?thesis by (simp add: poll_answered)
qed

definition surrogate_literal :: string where
  "surrogate_literal = [CHR 0x22, CHR 0x5C] @ ''ud800'' @ [CHR 0x22]"

definition surrogate_body :: string where
  "surrogate_body =
     CHR ''{'' # quote ''securityState'' @ CHR '':'' # quote ''CLEAR'' @ CHR '','' #
     quote ''openIncidentCount'' @ CHR '':'' # ''0'' @ CHR '','' #
     quote ''dbTime'' @ CHR '':'' # surrogate_literal @ ''}''"

definition surrogate_payload :: members where
  "surrogate_payload =
     [(''securityState'', JStr clear_state), (''openIncidentCount'', JInt 0),
      (''dbTime'', JStr (utf8_encode 0xD800))]"

lemma surrogate_value:
  "p_value L n (surrogate_literal @ CHR ''}'' # r) = Inr (JStr (utf8_encode 0xD800), CHR ''}'' # r)"
  by (simp add: surrogate_literal_def p_value.simps scan_unicode unicode_escape_def hex_val_def
      starts_with_append)

lemma loads_surrogate:
  assumes "1 \<le> L" and "1 \<le> D"
  shows "loads L D surrogate_body = Inr (JObj surrogate_payload)"
proof -
  let ?z = "quote ''dbTime'' @ CHR '':'' # surrogate_literal @ ''}''"
  let ?y = "quote ''openIncidentCount'' @ CHR '':'' # ''0'' @ CHR '','' # ?z"
  let ?x = "quote ''securityState'' @ CHR '':'' # quote ''CLEAR'' @ CHR '','' # ?y"
  have z: "p_members L (D - 1) acc ?z = Inr (JObj (obj_set ''dbTime'' (JStr (utf8_encode 0xD800)) acc), [])" for acc
    using p_members_last [OF surrogate_value [of L "D - 1" "[]"], where sp = "[]" and k = "''dbTime''" and acc = acc]
    by (simp add: skip_ws_def surrogate_literal_def jws_def)
  have "p_value L (D - 1) (''0'' @ CHR '','' # ?z) = Inr (JInt 0, CHR '','' # ?z)"
    using p_value_int [of "CHR '','' # ?z" 0 L "D - 1"] assms(1)
    by (simp add: show_int_def show_nat_zero int_digits_def)
  then have y: "p_members L (D - 1) acc ?y = p_members L (D - 1) (obj_set ''openIncidentCount'' (JInt 0) acc) ?z" for acc
    using p_members_next [of L "D - 1" "''0''" "[]" ?z "JInt 0" acc "''openIncidentCount''"]
    by (simp add: skip_ws_nonblank jws_def)
  have x: "p_members L (D - 1) acc ?x = p_members L (D - 1) (obj_set ''securityState'' (JStr ''CLEAR'') acc) ?y" for acc
    using p_members_next [of L "D - 1" "quote ''CLEAR''" "[]" ?y "JStr ''CLEAR''" acc "''securityState''"]
      p_value_quote [of L "D - 1" "''CLEAR''"]
    by simp
  have "\<not> starts_with ''}'' ?x" by (simp add: quote_def)
  then have "p_value L D (CHR ''{'' # ?x) = p_members L (D - 1) [] ?x"
    using assms(2) by (simp add: p_value.simps [of L D])
  then have "p_value L D surrogate_body = Inr (JObj surrogate_payload, [])"
    unfolding x y z surrogate_body_def by (simp add: surrogate_payload_def clear_state_def)
  moreover have "skip_ws surrogate_body = surrogate_body"
    by (simp add: surrogate_body_def skip_ws_nonblank jws_def)
  ultimately show ?thesis by (simp add: loads_def skip_ws_def)
qed

lemma utf8_surrogate: "utf8_ok surrogate_body" "\<not> utf8_ok (report_line R surrogate_payload)"
proof -
  show "utf8_ok surrogate_body"
    by (rule utf8_ascii) (simp add: surrogate_body_def surrogate_literal_def quote_def esc_char_def between_def)
  let ?p = "''AUDIT-PROBE state=CLEAR openIncidentCount=0 latestIncidentDedupKey=None'' @
    '' latestIncidentReasonCode=None latestIncidentDetectedAt=None dbTime=''"
  have "report_line R surrogate_payload = ?p @ utf8_encode 0xD800"
    by (simp add: report_line_def surrogate_payload_def state_of_def clear_state_def show_int_def show_nat_zero)
  moreover have "utf8_ok (?p @ utf8_encode 0xD800) = utf8_ok (utf8_encode 0xD800)"
    by (rule utf8_ascii_prefix) (simp add: between_def)
  moreover have ED: "char_of (237 :: nat) = CHR 0xED" by code_simp
  moreover have "\<not> utf8_ok (utf8_encode 0xD800)"
    using ED by (subst utf8_ok.simps) (simp add: utf8_encode_def utf8_len_def between_def cont_def)
  ultimately show "\<not> utf8_ok (report_line R surrogate_payload)" by simp
qed

theorem probe_unprintable_clear_looks_critical_witness:
  "poll_status 10 3 (\<lambda>_. []) (always (Inr surrogate_body)) ''u'' idle = 1"
proof (rule probe_unprintable_clear_looks_critical)
  show "\<not> utf8_ok (report_line (\<lambda>_. []) surrogate_payload)" by (rule utf8_surrogate)
  show "reports 10 3 surrogate_body clear_state 0"
    by (simp add: reports_def loads_surrogate utf8_surrogate surrogate_payload_def)
qed (simp_all add: loads_surrogate utf8_surrogate)

text \<open>The loop.\<close>

lemma poll_once_logs:
  "poll_once L D R F url h = (r, h') \<Longrightarrow>
     \<exists>es. trace h' = trace h @ es \<and> count_list es (Slept n) = 0"
  by (auto simp: poll_once_def fetch_def host_run print_encoded_def
      split: prod.splits sum.splits exn.splits if_splits)


end
