(* ===== verification/Bytes.thy ===== *)
theory Bytes
  imports PyText "HOL-Library.Word"
begin

unbundle bit_operations_syntax

text \<open>
  Python \<open>bytes\<close> as lists of 8-bit words, the conversions the scripts use between them and text,
  big-endian integers, unpadded base64url, and SHA-256 as \<open>hashlib\<close> computes it (FIPS 180-4).
\<close>

type_synonym bytes = "8 word list"

definition byte :: "nat \<Rightarrow> 8 word" where
  "byte n = word_of_nat n"

lemma unat_byte [simp]: "n < 256 \<Longrightarrow> unat (byte n) = n"
  by (simp add: byte_def unat_of_nat)

lemma byte_unat [simp]: "byte (unat w) = w"
  by (simp add: byte_def)

lemma unat_byte_less: "unat (w :: 8 word) < 256"
  using unsigned_less [of w] by simp

text \<open>\<open>str.encode()\<close>: a text is represented by its UTF-8 bytes already.\<close>

definition encode :: "string \<Rightarrow> bytes" where
  "encode s = map (\<lambda>c. byte (of_char c)) s"

lemma encode_append [simp]: "encode (s @ t) = encode s @ encode t"
  by (simp add: encode_def)

lemma length_encode [simp]: "length (encode s) = length s"
  by (simp add: encode_def)

lemma of_char_less: "(of_char (c :: char) :: nat) < 256"
  by (rule nat_of_char_less_256)

lemma encode_inj: "encode s = encode t \<longleftrightarrow> s = t"
proof -
  have "inj (\<lambda>c :: char. byte (of_char c))"
  proof (rule injI)
    fix c d :: char
    assume "byte (of_char c) = byte (of_char d)"
    then have "unat (byte (of_char c)) = unat (byte (of_char d))" by simp
    then have "(of_char c :: nat) = of_char d" by (simp add: of_char_less)
    then show "c = d" by simp
  qed
  then show ?thesis by (simp add: encode_def inj_map_eq_map)
qed

section \<open>Big-endian integers\<close>

text \<open>\<open>n.to_bytes(k, 'big')\<close>; \<open>None\<close> is the \<open>OverflowError\<close>.\<close>

fun be_bytes :: "nat \<Rightarrow> nat \<Rightarrow> bytes" where
  "be_bytes 0 n = []"
| "be_bytes (Suc k) n = be_bytes k (n div 256) @ [byte (n mod 256)]"

definition to_bytes :: "nat \<Rightarrow> nat \<Rightarrow> bytes option" where
  "to_bytes k n = (if n < 256 ^ k then Some (be_bytes k n) else None)"

fun from_be :: "nat \<Rightarrow> bytes \<Rightarrow> nat" where
  "from_be acc [] = acc"
| "from_be acc (b # bs) = from_be (256 * acc + unat b) bs"

lemma length_be_bytes [simp]: "length (be_bytes k n) = k"
  by (induction k arbitrary: n) auto

lemma from_be_append: "from_be acc (xs @ ys) = from_be (from_be acc xs) ys"
  by (induction xs arbitrary: acc) auto

lemma from_be_bytes: "n < 256 ^ k \<Longrightarrow> from_be 0 (be_bytes k n) = n"
proof (induction k arbitrary: n)
  case 0
  then show ?case by simp
next
  case (Suc k)
  then have "n div 256 < 256 ^ k" by (simp add: less_mult_imp_div_less)
  with Suc.IH show ?case by (simp add: from_be_append)
qed

section \<open>Base64url\<close>

definition b64_char :: "nat \<Rightarrow> char" where
  "b64_char n =
     (if n < 26 then char_of (65 + n)
      else if n < 52 then char_of (71 + n)
      else if n < 62 then char_of (n - 4)
      else if n = 62 then CHR ''-'' else CHR ''_'')"

text \<open>\<open>base64.urlsafe_b64encode\<close>.\<close>

fun b64_encode :: "bytes \<Rightarrow> string" where
  "b64_encode [] = []"
| "b64_encode [a] = [b64_char (unat a div 4), b64_char (unat a mod 4 * 16), CHR ''='', CHR ''='']"
| "b64_encode [a, b] =
     [b64_char (unat a div 4), b64_char (unat a mod 4 * 16 + unat b div 16),
      b64_char (unat b mod 16 * 4), CHR ''='']"
| "b64_encode (a # b # c # r) =
     [b64_char (unat a div 4), b64_char (unat a mod 4 * 16 + unat b div 16),
      b64_char (unat b mod 16 * 4 + unat c div 64), b64_char (unat c mod 64)] @ b64_encode r"

text \<open>The alphabets of \<open>urlsafe_b64decode\<close>: it maps \<open>-_\<close> to \<open>+/\<close> before decoding.\<close>

definition b64_val :: "char \<Rightarrow> nat option" where
  "b64_val c =
     (let n = of_char c :: nat in
      if 65 \<le> n \<and> n \<le> 90 then Some (n - 65)
      else if 97 \<le> n \<and> n \<le> 122 then Some (n - 71)
      else if 48 \<le> n \<and> n \<le> 57 then Some (n + 4)
      else if c = CHR ''-'' \<or> c = CHR ''+'' then Some 62
      else if c = CHR ''_'' \<or> c = CHR ''/'' then Some 63
      else None)"

text \<open>
  \<open>binascii.a2b_base64\<close> in its default mode, with the position \<open>q\<close> in the current group of four,
  the bits left over and the padding seen: other characters are skipped, enough padding ends the
  input, and a group left incomplete is an error.
\<close>

fun a2b :: "nat \<Rightarrow> nat \<Rightarrow> nat \<Rightarrow> string \<Rightarrow> exn + bytes" where
  "a2b q l p [] = (if q = 0 then Inr [] else Inl (ValueError ''Incorrect padding''))"
| "a2b q l p (c # cs) =
     (if c = CHR ''='' then
        (if 2 \<le> q \<and> 4 \<le> q + Suc p then Inr []
         else a2b q l (if 2 \<le> q then Suc p else p) cs)
      else (case b64_val c of
          None \<Rightarrow> a2b q l p cs
        | Some v \<Rightarrow>
            if q = 0 then a2b 1 v 0 cs
            else if q = 1 then bind_sum (a2b 2 (v mod 16) 0 cs) (\<lambda>r. Inr (byte (l * 4 + v div 16) # r))
            else if q = 2 then bind_sum (a2b 3 (v mod 4) 0 cs) (\<lambda>r. Inr (byte (l * 16 + v div 4) # r))
            else bind_sum (a2b 0 0 0 cs) (\<lambda>r. Inr (byte (l * 64 + v) # r))))"

lemma b64_val_char: "n < 64 \<Longrightarrow> b64_val (b64_char n) = Some n"
  by (auto simp: b64_val_def b64_char_def Let_def)

lemma b64_char_not_pad: "n < 64 \<Longrightarrow> b64_char n \<noteq> CHR ''=''"
  using b64_val_char [of n] by (auto simp: b64_val_def)

lemma b64_sextets:
  "unat (a :: 8 word) div 4 < 64" "unat a mod 4 * 16 < 64" "unat a mod 4 * 16 + unat (b :: 8 word) div 16 < 64"
  "unat b mod 16 * 4 < 64" "unat b mod 16 * 4 + unat (c :: 8 word) div 64 < 64" "unat c mod 64 < 64"
  using unat_byte_less [of a] unat_byte_less [of b] unat_byte_less [of c] by simp_all

lemma regroup:
  fixes q r :: nat
  shows "r < 16 \<Longrightarrow> (q * 16 + r) div 16 = q" "r < 16 \<Longrightarrow> (q * 16 + r) mod 16 = r"
    "r < 4 \<Longrightarrow> (q * 4 + r) div 4 = q" "r < 4 \<Longrightarrow> (q * 4 + r) mod 4 = r"
  by simp_all

lemma octet_parts:
  "unat (b :: 8 word) div 16 < 16" "unat (b :: 8 word) div 64 < 4"
  using unat_byte_less [of b] by simp_all

lemma octet_join:
  "n div 4 * 4 + n mod 4 = n" "n div 16 * 16 + n mod 16 = n" "n div 64 * 64 + n mod 64 = n" for n :: nat
  by simp_all

lemmas b64_regroup = regroup octet_parts octet_join

lemma a2b_first: "n < 64 \<Longrightarrow> a2b 0 l p (b64_char n # cs) = a2b 1 n 0 cs"
  by (simp add: b64_val_char b64_char_not_pad)

lemma a2b_second:
  "n < 64 \<Longrightarrow> a2b (Suc 0) l p (b64_char n # cs)
     = bind_sum (a2b 2 (n mod 16) 0 cs) (\<lambda>r. Inr (byte (l * 4 + n div 16) # r))"
  by (simp add: b64_val_char b64_char_not_pad)

lemma a2b_third:
  "n < 64 \<Longrightarrow> a2b 2 l p (b64_char n # cs)
     = bind_sum (a2b 3 (n mod 4) 0 cs) (\<lambda>r. Inr (byte (l * 16 + n div 4) # r))"
  by (simp add: b64_val_char b64_char_not_pad)

lemma a2b_fourth:
  "n < 64 \<Longrightarrow> a2b 3 l p (b64_char n # cs)
     = bind_sum (a2b 0 0 0 cs) (\<lambda>r. Inr (byte (l * 64 + n) # r))"
  by (simp add: b64_val_char b64_char_not_pad)

lemmas a2b_steps = a2b_first a2b_second a2b_third a2b_fourth

lemma a2b_encode: "a2b 0 0 0 (b64_encode bs) = Inr bs"
proof (induction bs rule: b64_encode.induct)
  case 1
  then show ?case by simp
next
  case (2 a)
  then show ?case
    by (simp add: b64_sextets a2b_steps b64_regroup del: a2b.simps(2)) simp
next
  case (3 a b)
  then show ?case
    by (simp add: b64_sextets a2b_steps b64_regroup del: a2b.simps(2)) simp
next
  case (4 a b c r)
  then show ?case
    by (simp add: b64_sextets a2b_steps b64_regroup del: a2b.simps(2))
qed

text \<open>The scripts strip the padding and restore it before decoding.\<close>

definition b64_unpadded :: "bytes \<Rightarrow> string" where
  "b64_unpadded bs = rstrip_char (CHR ''='') (b64_encode bs)"

definition pad_length :: "nat \<Rightarrow> nat" where
  "pad_length n = (4 - n mod 4) mod 4"

lemma rstrip_char_append:
  "\<not> c \<in> set q \<Longrightarrow> rstrip_char c (q @ s) = q @ rstrip_char c s"
proof -
  assume "\<not> c \<in> set q"
  then have "dropWhile (\<lambda>d. d = c) (rev q) = rev q"
    by (cases "rev q") (auto simp: dropWhile_eq_self_iff)
  then show ?thesis
    by (auto simp: rstrip_char_def dropWhile_append)
qed

lemma b64_not_pad: "n < 64 \<Longrightarrow> CHR ''='' \<noteq> b64_char n"
  using b64_char_not_pad by metis

lemma pad_two: "pad_length (Suc (Suc 0)) = Suc (Suc 0)"
  and pad_three: "pad_length (Suc (Suc (Suc 0))) = Suc 0"
  and pad_zero: "pad_length 0 = 0"
  by (simp_all add: pad_length_def)

lemma b64_unpadded_base:
  "b64_unpadded [] = []"
  "b64_unpadded [a] = [b64_char (unat a div 4), b64_char (unat a mod 4 * 16)]"
  "b64_unpadded [a, b] = [b64_char (unat a div 4), b64_char (unat a mod 4 * 16 + unat b div 16),
      b64_char (unat b mod 16 * 4)]"
  by (simp_all add: b64_unpadded_def rstrip_char_def b64_char_not_pad b64_sextets)

lemma b64_repad:
  "b64_unpadded bs @ replicate (pad_length (length (b64_unpadded bs))) CHR ''='' = b64_encode bs"
proof (induction bs rule: b64_encode.induct)
  case 1
  then show ?case by (simp add: b64_unpadded_base pad_zero)
next
  case (2 a)
  then show ?case by (simp add: b64_unpadded_base pad_two)
next
  case (3 a b)
  then show ?case by (simp add: b64_unpadded_base pad_three)
next
  case (4 a b c r)
  let ?q = "[b64_char (unat a div 4), b64_char (unat a mod 4 * 16 + unat b div 16),
      b64_char (unat b mod 16 * 4 + unat c div 64), b64_char (unat c mod 64)]"
  have "CHR ''='' \<notin> set ?q" by (simp add: b64_sextets b64_not_pad)
  then have "b64_unpadded (a # b # c # r) = ?q @ b64_unpadded r"
    unfolding b64_unpadded_def b64_encode.simps by (rule rstrip_char_append)
  moreover have "pad_length (length (?q @ b64_unpadded r)) = pad_length (length (b64_unpadded r))"
    by (simp add: pad_length_def)
  ultimately show ?case using 4 by simp
qed

lemma b64_unpadded_inj: "b64_unpadded x = b64_unpadded y \<longleftrightarrow> x = y"
  by (metis a2b_encode b64_repad sum.inject(2))

section \<open>SHA-256\<close>

type_synonym w32 = "32 word"

text \<open>
  The constants are computed from their definition: the first 32 bits of the fractional parts of
  the square roots (initial state) and cube roots (round constants) of the first primes. The
  integer root is found bit by bit.
\<close>

definition primes_to :: "int \<Rightarrow> int list" where
  "primes_to m = filter (\<lambda>p. list_all (\<lambda>d. p mod d \<noteq> 0) [2..p - 1]) [2..m]"

definition int_root :: "nat \<Rightarrow> int \<Rightarrow> int" where
  "int_root k v = fold (\<lambda>b x. if (x + 2 ^ b) ^ k \<le> v then x + 2 ^ b else x) (rev [0..<37]) 0"

definition root_bits :: "nat \<Rightarrow> int \<Rightarrow> w32" where
  "root_bits k p = word_of_int (int_root k (p * 2 ^ (32 * k)))"

definition sha_k :: "w32 list" where
  "sha_k = map (root_bits 3) (primes_to 311)"

definition rotr :: "nat \<Rightarrow> w32 \<Rightarrow> w32" where
  "rotr n w = (drop_bit n w) OR (push_bit (32 - n) w)"

record sha_state =
  sa :: w32
  sb :: w32
  sc :: w32
  sd :: w32
  se :: w32
  sf :: w32
  sg :: w32
  sh :: w32

definition sha_init :: sha_state where
  "sha_init = \<lparr>sa = root_bits 2 2, sb = root_bits 2 3, sc = root_bits 2 5, sd = root_bits 2 7,
     se = root_bits 2 11, sf = root_bits 2 13, sg = root_bits 2 17, sh = root_bits 2 19\<rparr>"

definition sha_round :: "w32 \<times> w32 \<Rightarrow> sha_state \<Rightarrow> sha_state" where
  "sha_round kw s =
     (let s1 = rotr 6 (se s) XOR rotr 11 (se s) XOR rotr 25 (se s);
          ch = (se s AND sf s) XOR (NOT (se s) AND sg s);
          t1 = sh s + s1 + ch + fst kw + snd kw;
          s0 = rotr 2 (sa s) XOR rotr 13 (sa s) XOR rotr 22 (sa s);
          maj = (sa s AND sb s) XOR (sa s AND sc s) XOR (sb s AND sc s)
      in \<lparr>sa = t1 + s0 + maj, sb = sa s, sc = sb s, sd = sc s, se = sd s + t1, sf = se s, sg = sf s, sh = sg s\<rparr>)"

text \<open>The message schedule, newest word first.\<close>

fun sha_extend :: "nat \<Rightarrow> w32 list \<Rightarrow> w32 list" where
  "sha_extend 0 ws = ws"
| "sha_extend (Suc n) ws =
     (let x = ws ! 14; y = ws ! 1;
          s0 = rotr 7 x XOR rotr 18 x XOR drop_bit 3 x;
          s1 = rotr 17 y XOR rotr 19 y XOR drop_bit 10 y
      in sha_extend n ((ws ! 15 + s0 + ws ! 6 + s1) # ws))"

fun be_words :: "bytes \<Rightarrow> w32 list" where
  "be_words (a # b # c # d # r) =
     (push_bit 24 (ucast a) OR push_bit 16 (ucast b) OR push_bit 8 (ucast c) OR ucast d) # be_words r"
| "be_words _ = []"

definition sha_block :: "bytes \<Rightarrow> sha_state \<Rightarrow> sha_state" where
  "sha_block blk s =
     (let t = fold sha_round (zip sha_k (rev (sha_extend 48 (rev (be_words blk))))) s
      in \<lparr>sa = sa s + sa t, sb = sb s + sb t, sc = sc s + sc t, sd = sd s + sd t,
          se = se s + se t, sf = sf s + sf t, sg = sg s + sg t, sh = sh s + sh t\<rparr>)"

function sha_blocks :: "bytes \<Rightarrow> sha_state \<Rightarrow> sha_state" where
  "sha_blocks bs s = (if length bs < 64 then s else sha_blocks (drop 64 bs) (sha_block (take 64 bs) s))"
  by pat_completeness auto
termination
  by (relation "measure (\<lambda>(bs, s). length bs)") auto

declare sha_blocks.simps [simp del]

definition sha_pad :: "bytes \<Rightarrow> bytes" where
  "sha_pad m = m @ [0x80] @ replicate ((119 - length m mod 64) mod 64) 0 @ be_bytes 8 (8 * length m)"

definition word_bytes :: "w32 \<Rightarrow> bytes" where
  "word_bytes w = [ucast (drop_bit 24 w), ucast (drop_bit 16 w), ucast (drop_bit 8 w), ucast w]"

definition sha256 :: "bytes \<Rightarrow> bytes" where
  "sha256 m =
     (let s = sha_blocks (sha_pad m) sha_init
      in concat (map word_bytes [sa s, sb s, sc s, sd s, se s, sf s, sg s, sh s]))"

lemma length_sha256 [simp]: "length (sha256 m) = 32"
  by (simp add: sha256_def word_bytes_def Let_def)

text \<open>\<open>hexdigest()\<close>\<close>

definition nibble :: "nat \<Rightarrow> char" where
  "nibble d = (if d < 10 then char_of (48 + d) else char_of (87 + d))"

definition hexdigest :: "bytes \<Rightarrow> string" where
  "hexdigest bs = concat (map (\<lambda>b. [nibble (unat b div 16), nibble (unat b mod 16)]) bs)"

lemma length_hexdigest: "length (hexdigest bs) = 2 * length bs"
  by (induction bs) (simp_all add: hexdigest_def)

end
