(* ===== verification/Codec.thy ===== *)
theory Codec
  imports Prelude
begin

text \<open>
  The contract of an encoding that has a decoder. A \<open>codec\<close> decodes what it encoded; a
  \<open>prefix_codec\<close> also says where the encoding ends, so encodings can be put one after another.
  The clients are the canonical JSON text, base64url, CBOR items and HTTP chunks.
\<close>

locale codec =
  fixes enc :: "'a \<Rightarrow> 'b list"
    and dec :: "'b list \<Rightarrow> 'a option"
    and valid :: "'a \<Rightarrow> bool"
  assumes dec_enc: "valid x \<Longrightarrow> dec (enc x) = Some x"
begin

lemma enc_inj: "valid x \<Longrightarrow> valid y \<Longrightarrow> enc x = enc y \<longleftrightarrow> x = y"
  by (metis dec_enc option.inject)

lemma dec_only: "valid x \<Longrightarrow> dec (enc x) = Some y \<Longrightarrow> y = x"
  by (simp add: dec_enc)

end

text \<open>Decoding \<open>n\<close> items one after another.\<close>

fun dec_many :: "('b list \<Rightarrow> ('a \<times> 'b list) option) \<Rightarrow> nat \<Rightarrow> 'b list \<Rightarrow> ('a list \<times> 'b list) option" where
  "dec_many d 0 s = Some ([], s)"
| "dec_many d (Suc n) s =
     (case d s of
        None \<Rightarrow> None
      | Some (x, r) \<Rightarrow> map_option (\<lambda>(xs, q). (x # xs, q)) (dec_many d n r))"

text \<open>The decoder of a whole text from the decoder of a prefix.\<close>

definition whole :: "('b list \<Rightarrow> ('a \<times> 'b list) option) \<Rightarrow> 'b list \<Rightarrow> 'a option" where
  "whole d s = (case d s of Some (x, []) \<Rightarrow> Some x | _ \<Rightarrow> None)"

locale prefix_codec =
  fixes enc :: "'a \<Rightarrow> 'b list"
    and dec :: "'b list \<Rightarrow> ('a \<times> 'b list) option"
    and valid :: "'a \<Rightarrow> bool"
  assumes dec_prefix: "valid x \<Longrightarrow> dec (enc x @ r) = Some (x, r)"
begin

lemma enc_append_inj:
  assumes "valid x" and "valid y" and "enc x @ r = enc y @ q"
  shows "x = y \<and> r = q"
proof -
  have "Some (x, r) = dec (enc x @ r)" using assms(1) by (rule dec_prefix [symmetric])
  also have "\<dots> = dec (enc y @ q)" by (simp only: assms(3))
  also have "\<dots> = Some (y, q)" using assms(2) by (rule dec_prefix)
  finally show ?thesis by simp
qed

lemma dec_many_enc:
  "\<forall>x\<in>set xs. valid x \<Longrightarrow> dec_many dec (length xs) (concat (map enc xs) @ r) = Some (xs, r)"
  by (induction xs) (simp_all add: dec_prefix)

lemma concat_inj:
  assumes "\<forall>x\<in>set xs. valid x" and "\<forall>y\<in>set ys. valid y" and "length xs = length ys"
    and "concat (map enc xs) @ r = concat (map enc ys) @ q"
  shows "xs = ys \<and> r = q"
proof -
  have "Some (xs, r) = dec_many dec (length xs) (concat (map enc xs) @ r)"
    using assms(1) by (rule dec_many_enc [symmetric])
  also have "\<dots> = dec_many dec (length ys) (concat (map enc ys) @ q)" by (simp only: assms(3,4))
  also have "\<dots> = Some (ys, q)" using assms(2) by (rule dec_many_enc)
  finally show ?thesis by simp
qed

end

sublocale prefix_codec \<subseteq> whole: codec enc "whole dec" valid
proof unfold_locales
  fix x
  assume "valid x"
  then have "dec (enc x @ []) = Some (x, [])" by (rule dec_prefix)
  then show "whole dec (enc x) = Some x" by (simp add: whole_def)
qed

text \<open>
  The contract of a transition system with an invariant: what holds at the start and is kept by
  every step holds in every reachable state.
\<close>

locale transition_system =
  fixes start :: "'c \<Rightarrow> bool"
    and step :: "'c \<Rightarrow> 'c \<Rightarrow> bool"
    and inv :: "'c \<Rightarrow> bool"
  assumes inv_start: "start c \<Longrightarrow> inv c"
    and inv_step: "inv c \<Longrightarrow> step c d \<Longrightarrow> inv d"
begin

lemma inv_steps:
  assumes "step\<^sup>*\<^sup>* c d" and "inv c"
  shows "inv d"
  using assms by (induction rule: rtranclp_induct) (auto intro: inv_step)

lemma inv_reachable: "start c \<Longrightarrow> step\<^sup>*\<^sup>* c d \<Longrightarrow> inv d"
  using inv_start inv_steps by blast

end

end
