(* ===== verification/Signing.thy ===== *)
theory Signing
  imports JsonRoundtrip Bytes Codec
begin

text \<open>
  The signing helpers the end-to-end scripts share (scripts/market_integrity_e2e.py,
  scripts/webauthn_hardware_custody_e2e.py, scripts/economic_exchange_e2e.py): the canonical JSON
  bytes of a payload, its digest, unpadded base64url, and the domain-separated message an Ed25519
  key signs. The \<open>cryptography\<close> package is a parameter: a record of its key generation, public
  key bytes and signature functions.
\<close>

record 'k crypto =
  keygen :: "nat \<Rightarrow> 'k"
  public_raw :: "'k \<Rightarrow> bytes"
  ed_sign :: "'k \<Rightarrow> bytes \<Rightarrow> bytes"
  ec_x :: "'k \<Rightarrow> nat"
  ec_y :: "'k \<Rightarrow> nat"
  es_sign :: "'k \<Rightarrow> bytes \<Rightarrow> bytes"

section \<open>Domains\<close>

definition DOMAIN :: string where "DOMAIN = ''STIR:MARKET:CONSTITUTION:V1''"
definition GUARDIAN :: string where "GUARDIAN = ''STIR:MARKET:GUARDIAN:V1''"
definition POSSESSION :: string where "POSSESSION = ''STIR:MARKET:POSSESSION:V1''"
definition BOOTSTRAP :: string where "BOOTSTRAP = ''STIR:MARKET:BOOTSTRAP:V1''"
definition AUTHORIZATION :: string where "AUTHORIZATION = ''OSTRIS:TX:AUTH:V1''"

lemmas domain_defs = DOMAIN_def GUARDIAN_def POSSESSION_def BOOTSTRAP_def AUTHORIZATION_def

section \<open>Canonical bytes and digests\<close>

definition canonical_text :: "json \<Rightarrow> string" where
  "canonical_text v = dumps [] (sort_keys v)"

definition canonical :: "json \<Rightarrow> bytes" where
  "canonical v = encode (canonical_text v)"

definition digest :: "json \<Rightarrow> string" where
  "digest v = hexdigest (sha256 (canonical v))"

section \<open>Base64url without padding\<close>

definition b64url :: "bytes \<Rightarrow> string" where
  "b64url b = rstrip_char (CHR ''='') (b64_encode b)"

definition b64url_decode :: "string \<Rightarrow> exn + bytes" where
  "b64url_decode s = a2b 0 0 0 (s @ replicate (pad_length (length s)) (CHR ''=''))"

section \<open>Keys and signatures\<close>

definition rawkey :: "'k crypto \<Rightarrow> 'k \<Rightarrow> string" where
  "rawkey C key = b64url (public_raw C key)"

definition domain_message :: "string \<Rightarrow> bytes \<Rightarrow> bytes" where
  "domain_message domain body = encode domain @ [0] @ body"

definition sign :: "'k crypto \<Rightarrow> 'k \<Rightarrow> string \<Rightarrow> json \<Rightarrow> string" where
  "sign C key domain payload = b64url (ed_sign C key (domain_message domain (canonical payload)))"

definition new_keypair :: "'k crypto \<Rightarrow> nat \<Rightarrow> 'k \<times> string" where
  "new_keypair C n = (keygen C n, b64url (public_raw C (keygen C n)))"

definition sign_authorization :: "'k crypto \<Rightarrow> 'k \<Rightarrow> string \<Rightarrow> string" where
  "sign_authorization C key text = b64url (ed_sign C key (domain_message AUTHORIZATION (encode text)))"

section \<open>Base64url and canonical JSON as codecs\<close>

definition sum_option :: "exn + 'a \<Rightarrow> 'a option" where
  "sum_option r = (case r of Inl e \<Rightarrow> None | Inr x \<Rightarrow> Some x)"

lemma sum_option_simps [simp]: "sum_option (Inr x) = Some x" "sum_option (Inl e) = None"
  by (simp_all add: sum_option_def)

lemma b64url_unpadded: "b64url b = b64_unpadded b"
  by (simp add: b64url_def b64_unpadded_def)

lemma b64url_decode_encode: "b64url_decode (b64url b) = Inr b"
  by (simp add: b64url_decode_def b64url_unpadded b64_repad a2b_encode)

interpretation b64: codec b64url "\<lambda>s. sum_option (b64url_decode s)" "\<lambda>_. True"
  by unfold_locales (simp add: b64url_decode_encode)

text \<open>A payload already in key order is read back from its canonical text.\<close>

definition canonical_form :: "nat \<Rightarrow> nat \<Rightarrow> json \<Rightarrow> bool" where
  "canonical_form L D v \<longleftrightarrow> plain_json L v \<and> depth v \<le> D \<and> sort_keys v = v"

interpretation canon: codec canonical_text "\<lambda>s. sum_option (loads L D s)" "canonical_form L D"
  for L D
  by unfold_locales (simp add: canonical_form_def canonical_text_def loads_dumps)

lemma canonical_inj:
  assumes "plain_json L p" and "plain_json L q" and "canonical p = canonical q"
  shows "sort_keys p = sort_keys q"
  using assms dumps_sorted_inj [of L p q] by (simp add: canonical_def canonical_text_def encode_inj)

section \<open>The separator of the domain\<close>

lemma unat_byte_char: "(byte (of_char c) = 0) = (of_char c = (0 :: nat))"
  by (metis byte_unat of_char_less unat_0 unat_byte unat_eq_0)

lemma nul_in_encode: "0 \<in> set (encode s) \<longleftrightarrow> CHR 0x00 \<in> set s"
proof -
  have "of_char c = (0 :: nat) \<longleftrightarrow> c = CHR 0x00" for c
    by (cases c) (auto simp: of_char_def horner_sum_simps)
  then show ?thesis by (induction s) (auto simp: encode_def unat_byte_char)
qed

lemma split_at_nul:
  assumes "0 \<notin> set (a :: bytes)" and "0 \<notin> set b" and "a @ 0 # x = b @ 0 # y"
  shows "a = b \<and> x = y"
  using assms
proof (induction a arbitrary: b)
  case Nil
  then show ?case by (cases b) auto
next
  case (Cons w a)
  then show ?case by (cases b) auto
qed

lemma domain_message_inj:
  assumes "CHR 0x00 \<notin> set d" and "CHR 0x00 \<notin> set e" and "domain_message d x = domain_message e y"
  shows "d = e \<and> x = y"
  using assms split_at_nul [of "encode d" "encode e" x y]
  by (simp add: domain_message_def nul_in_encode encode_inj)

section \<open>Properties\<close>

text \<open>
  The canonical bytes of a payload do not depend on the order in which a script (or the server)
  wrote the keys of the dictionary: permuting its items gives the same bytes, so the same digest
  and the same message to sign.
\<close>

theorem canonical_permuted:
  assumes "mset kvs = mset kvs'" and "distinct (map fst kvs)"
  shows "canonical (JObj kvs) = canonical (JObj kvs') \<and> digest (JObj kvs) = digest (JObj kvs')"
  using assms sort_keys_permuted [of kvs kvs'] by (simp add: canonical_def canonical_text_def digest_def)

theorem canonical_permuted_witness:
  "canonical (JObj [(''b'', JInt 1), (''a'', JNull)]) = canonical (JObj [(''a'', JNull), (''b'', JInt 1)])"
  using canonical_permuted [of "[(''b'', JInt 1), (''a'', JNull)]" "[(''a'', JNull), (''b'', JInt 1)]"]
  by simp

text \<open>
  C17: The bytes an Ed25519 seat signs determine both the domain and the payload: two messages are
  equal only when the domains are the same and the payloads are equal up to the order of their
  keys. A signature made under one domain, or over another payload, is over other bytes.
\<close>

theorem signed_message_determines:
  assumes "CHR 0x00 \<notin> set d" and "CHR 0x00 \<notin> set e"
    and "plain_json L p" and "plain_json L q"
    and "domain_message d (canonical p) = domain_message e (canonical q)"
  shows "d = e \<and> sort_keys p = sort_keys q"
  using domain_message_inj [OF assms(1,2,5)] canonical_inj [OF assms(3,4)] by blast

theorem signed_message_determines_witness:
  "domain_message DOMAIN (canonical (JObj [(''b'', JInt 1), (''a'', JNull)]))
     = domain_message DOMAIN (canonical (JObj [(''a'', JNull), (''b'', JInt 1)]))
   \<and> domain_message DOMAIN (canonical JNull) \<noteq> domain_message GUARDIAN (canonical JNull)
   \<and> sort_keys (JObj [(''b'', JInt 1), (''a'', JNull)]) = sort_keys (JObj [(''a'', JNull), (''b'', JInt 1)])"
proof -
  let ?p = "JObj [(''b'', JInt 1), (''a'', JNull)]" and ?q = "JObj [(''a'', JNull), (''b'', JInt 1)]"
  have n: "CHR 0x00 \<notin> set DOMAIN" "CHR 0x00 \<notin> set GUARDIAN" by (simp_all add: domain_defs)
  have same: "domain_message DOMAIN (canonical ?p) = domain_message DOMAIN (canonical ?q)"
    by (simp add: canonical_def canonical_text_def)
  moreover have "sort_keys ?p = sort_keys ?q"
    using signed_message_determines [OF n(1,1), of 5 ?p ?q] same
    by (simp add: int_digits_def show_nat.simps)
  moreover have "domain_message DOMAIN (canonical JNull) \<noteq> domain_message GUARDIAN (canonical JNull)"
    using signed_message_determines [OF n, of 5 JNull JNull] by (auto simp: domain_defs)
  ultimately show ?thesis by blast
qed

text \<open>
  Unpadded base64url is lossless: decoding what \<open>b64url\<close> printed gives the bytes back, whatever
  their number (the padding the decoder restores is the one the encoder dropped), so a challenge
  round-trips through the registration endpoints unchanged.
\<close>

theorem b64url_roundtrip: "b64url_decode (b64url b) = Inr b"
  using b64.dec_enc [of b] by (simp add: sum_option_def split: sum.splits)

end
