(* ===== verification/Webauthn.thy ===== *)
theory Webauthn
  imports Signing
begin

text \<open>
  The WebAuthn ceremony of scripts/webauthn_hardware_custody_e2e.py: its CBOR encoder, the COSE key,
  authenticator data, attestation object and client data it assembles, and the registration and
  assertion bodies. A decoder of the CBOR subset is the specification the encoder is proved against.
\<close>

unbundle bit_operations_syntax

definition RP_ID :: string where "RP_ID = ''localhost''"
definition ORIGIN :: string where "ORIGIN = ''http://localhost:8089''"

section \<open>The CBOR encoder\<close>

text \<open>\<open>bytes([...])\<close>: every number must be a byte.\<close>

definition py_bytes :: "nat list \<Rightarrow> exn + bytes" where
  "py_bytes ns = (if list_all (\<lambda>n. n < 256) ns then Inr (map byte ns)
                  else Inl (ValueError ''bytes must be in range(0, 256)''))"

definition int_bytes :: "nat \<Rightarrow> nat \<Rightarrow> exn + bytes" where
  "int_bytes k n = need OverflowError (to_bytes k n)"

definition cbor_uint :: "nat \<Rightarrow> nat \<Rightarrow> exn + bytes" where
  "cbor_uint major n =
     (if n < 24 then py_bytes [push_bit 5 major OR n]
      else if n < 256 then py_bytes [push_bit 5 major OR 24, n]
      else if n < 65536 then
        bind_sum (py_bytes [push_bit 5 major OR 25]) (\<lambda>h. bind_sum (int_bytes 2 n) (\<lambda>b. Inr (h @ b)))
      else
        bind_sum (py_bytes [push_bit 5 major OR 26]) (\<lambda>h. bind_sum (int_bytes 4 n) (\<lambda>b. Inr (h @ b))))"

definition cbor_int :: "int \<Rightarrow> exn + bytes" where
  "cbor_int n = (if n \<ge> 0 then cbor_uint 0 (nat n) else cbor_uint 1 (nat (- n - 1)))"

definition cbor_bytes :: "bytes \<Rightarrow> exn + bytes" where
  "cbor_bytes b = bind_sum (cbor_uint 2 (length b)) (\<lambda>h. Inr (h @ b))"

definition cbor_text :: "string \<Rightarrow> exn + bytes" where
  "cbor_text s = bind_sum (cbor_uint 3 (length (encode s))) (\<lambda>h. Inr (h @ encode s))"

definition cbor_map :: "(bytes \<times> bytes) list \<Rightarrow> exn + bytes" where
  "cbor_map pairs = bind_sum (cbor_uint 5 (length pairs)) (\<lambda>h. Inr (h @ concat (map (\<lambda>(k, v). k @ v) pairs)))"

text \<open>The literal list of pairs a caller writes: its items are computed from left to right.\<close>

fun eval_pairs :: "((exn + bytes) \<times> (exn + bytes)) list \<Rightarrow> exn + (bytes \<times> bytes) list" where
  "eval_pairs [] = Inr []"
| "eval_pairs ((k, v) # ps) =
     bind_sum k (\<lambda>kb. bind_sum v (\<lambda>vb. bind_sum (eval_pairs ps) (\<lambda>rest. Inr ((kb, vb) # rest))))"

definition cbor_pairs :: "((exn + bytes) \<times> (exn + bytes)) list \<Rightarrow> exn + bytes" where
  "cbor_pairs ps = bind_sum (eval_pairs ps) cbor_map"

section \<open>The structures of the ceremony\<close>

definition cose_key_es256 :: "'k crypto \<Rightarrow> 'k \<Rightarrow> exn + bytes" where
  "cose_key_es256 C key =
     bind_sum (int_bytes 32 (ec_x C key)) (\<lambda>x. bind_sum (int_bytes 32 (ec_y C key)) (\<lambda>y.
       cbor_pairs [(cbor_int 1, cbor_int 2), (cbor_int 3, cbor_int (- 7)), (cbor_int (- 1), cbor_int 1),
         (cbor_int (- 2), cbor_bytes x), (cbor_int (- 3), cbor_bytes y)]))"

definition auth_flags :: "bool \<Rightarrow> bool \<Rightarrow> nat" where
  "auth_flags uv at = 1 OR (if uv then 4 else 0) OR (if at then 64 else 0)"

text \<open>\<open>None\<close> for the credential or its key is the default argument; using it is a \<open>TypeError\<close>.\<close>

definition authenticator_data ::
  "string \<Rightarrow> nat \<Rightarrow> bytes option \<Rightarrow> bytes option \<Rightarrow> bool \<Rightarrow> bool \<Rightarrow> exn + bytes" where
  "authenticator_data rp_id sign_count credential_id cose_key uv at =
     bind_sum (py_bytes [auth_flags uv at]) (\<lambda>flags. bind_sum (int_bytes 4 sign_count) (\<lambda>cnt.
       let out = sha256 (encode rp_id) @ flags @ cnt in
       if \<not> at then Inr out
       else (case credential_id of
           None \<Rightarrow> Inl (TypeError ''len() of None'')
         | Some cid \<Rightarrow> bind_sum (int_bytes 2 (length cid)) (\<lambda>len.
             case cose_key of
               None \<Rightarrow> Inl (TypeError ''can't concat NoneType to bytes'')
             | Some k \<Rightarrow> Inr (out @ replicate 16 0 @ len @ cid @ k)))))"

definition attestation_object :: "bytes \<Rightarrow> exn + bytes" where
  "attestation_object auth_data =
     cbor_pairs [(cbor_text ''fmt'', cbor_text ''none''), (cbor_text ''attStmt'', cbor_map []),
       (cbor_text ''authData'', cbor_bytes auth_data)]"

definition client_data_json :: "string \<Rightarrow> bytes \<Rightarrow> string \<Rightarrow> bytes" where
  "client_data_json ty challenge_bytes origin =
     encode (ascii_escape (dumps '' ''
       (JObj [(''type'', JStr ty), (''challenge'', JStr (b64url challenge_bytes)), (''origin'', JStr origin)])))"

definition webauthn_registration :: "'k crypto \<Rightarrow> 'k \<Rightarrow> bytes \<Rightarrow> bytes \<Rightarrow> bool \<Rightarrow> exn + members" where
  "webauthn_registration C key credential_id challenge uv =
     bind_sum (cose_key_es256 C key) (\<lambda>cose_key.
     bind_sum (authenticator_data RP_ID 0 (Some credential_id) (Some cose_key) uv True) (\<lambda>auth_data.
     bind_sum (attestation_object auth_data) (\<lambda>att.
       Inr [(''attestationObject'', JStr (b64url att)),
            (''clientDataJson'', JStr (b64url (client_data_json ''webauthn.create'' challenge ORIGIN))),
            (''webauthnCredentialId'', JStr (b64url credential_id)),
            (''userVerificationRequired'', JBool uv)])))"

definition webauthn_assertion :: "'k crypto \<Rightarrow> 'k \<Rightarrow> nat \<Rightarrow> bytes \<Rightarrow> string \<Rightarrow> string \<Rightarrow> bool \<Rightarrow> exn + members" where
  "webauthn_assertion C key sign_count message rp_id origin uv =
     bind_sum (authenticator_data rp_id sign_count None None uv False) (\<lambda>auth_data.
       let challenge = sha256 message;
           client_data = client_data_json ''webauthn.get'' challenge origin;
           signed = auth_data @ sha256 client_data;
           signature = es_sign C key signed
       in Inr [(''credentialType'', JStr ''WEBAUTHN''), (''algorithm'', JStr ''ES256''),
               (''signature'', JStr (b64url signature)),
               (''clientDataJson'', JStr (b64url client_data)),
               (''authenticatorData'', JStr (b64url auth_data))])"

section \<open>A decoder for the subset\<close>

text \<open>The head of an item (RFC 8949): its major type and argument.\<close>

definition cbor_head :: "bytes \<Rightarrow> ((nat \<times> nat) \<times> bytes) option" where
  "cbor_head s =
     (case s of
        [] \<Rightarrow> None
      | a # r \<Rightarrow>
          let major = unat a div 32; info = unat a mod 32 in
          if info < 24 then Some ((major, info), r)
          else if info = 24 \<and> 1 \<le> length r then Some ((major, from_be 0 (take 1 r)), drop 1 r)
          else if info = 25 \<and> 2 \<le> length r then Some ((major, from_be 0 (take 2 r)), drop 2 r)
          else if info = 26 \<and> 4 \<le> length r then Some ((major, from_be 0 (take 4 r)), drop 4 r)
          else None)"

definition enc_head :: "nat \<times> nat \<Rightarrow> bytes" where
  "enc_head mn = (case cbor_uint (fst mn) (snd mn) of Inl e \<Rightarrow> [] | Inr b \<Rightarrow> b)"

definition head_ok :: "nat \<times> nat \<Rightarrow> bool" where
  "head_ok mn \<longleftrightarrow> fst mn < 8 \<and> snd mn < 2 ^ 32"

lemma major_or:
  assumes "k < 32"
  shows "push_bit 5 major OR k = major * 32 + (k :: nat)"
proof -
  have t: "take_bit 5 k = k" using assms by (simp add: take_bit_nat_eq_self)
  have "push_bit 5 major AND k = 0"
    by (subst t [symmetric]) (auto simp: bit_eq_iff bit_simps)
  then have "push_bit 5 major OR k = push_bit 5 major + k"
    by (simp add: disjunctive_add_eq_or)
  then show ?thesis by (simp add: push_bit_eq_mult)
qed

lemma py_bytes_head: "m < 8 \<Longrightarrow> k < 32 \<Longrightarrow> py_bytes [push_bit 5 m OR k] = Inr [byte (m * 32 + k)]"
  by (simp add: py_bytes_def major_or)

lemma unat_head [simp]:
  assumes "m < 8" and "k < 32"
  shows "unat (byte (m * 32 + k)) div 32 = m" and "unat (byte (m * 32 + k)) mod 32 = k"
proof -
  have "m * 32 + k < 256" using assms by linarith
  then show "unat (byte (m * 32 + k)) div 32 = m" and "unat (byte (m * 32 + k)) mod 32 = k"
    using assms(2) by simp_all
qed

lemma cbor_uint_run:
  assumes "m < 8"
  shows "cbor_uint m n =
    (if n < 24 then Inr [byte (m * 32 + n)]
     else if n < 256 then Inr [byte (m * 32 + 24), byte n]
     else if n < 65536 then Inr (byte (m * 32 + 25) # be_bytes 2 n)
     else if n < 2 ^ 32 then Inr (byte (m * 32 + 26) # be_bytes 4 n)
     else Inl OverflowError)"
proof -
  have "py_bytes [push_bit 5 m OR 24, n] = Inr [byte (m * 32 + 24), byte n]" if "n < 256"
    using assms that by (simp add: py_bytes_def major_or)
  then show ?thesis
    using assms by (simp add: cbor_uint_def py_bytes_head int_bytes_def to_bytes_def)
qed

lemma cbor_uint_enc: "head_ok (m, n) \<Longrightarrow> cbor_uint m n = Inr (enc_head (m, n))"
  by (simp add: enc_head_def cbor_uint_run head_ok_def)

lemma cbor_uint_inv: "m < 8 \<Longrightarrow> cbor_uint m n = Inr b \<longleftrightarrow> n < 2 ^ 32 \<and> b = enc_head (m, n)"
  by (auto simp: enc_head_def cbor_uint_run)

lemma take_be: "take k (be_bytes k n @ r) = be_bytes k n" "drop k (be_bytes k n @ r) = r"
  by (simp_all add: append_eq_conv_conj [symmetric])

lemma from_be_two: "n < 65536 \<Longrightarrow> from_be 0 (be_bytes 2 n) = n"
  using from_be_bytes [of n 2] by simp

lemma from_be_four: "n < 2 ^ 32 \<Longrightarrow> from_be 0 (be_bytes 4 n) = n"
  using from_be_bytes [of n 4] by simp

lemma cbor_head_enc:
  assumes "head_ok mn"
  shows "cbor_head (enc_head mn @ r) = Some (mn, r)"
proof -
  obtain m n where mn: "mn = (m, n)" by (cases mn)
  with assms have m: "m < 8" and n: "n < 2 ^ 32" by (simp_all add: head_ok_def)
  consider "n < 24" | "24 \<le> n" "n < 256" | "256 \<le> n" "n < 65536" | "65536 \<le> n" by linarith
  then show ?thesis
  proof cases
    case 1
    with m show ?thesis by (simp add: mn enc_head_def cbor_uint_run cbor_head_def)
  next
    case 2
    with m show ?thesis by (simp add: mn enc_head_def cbor_uint_run cbor_head_def)
  next
    case 3
    with m show ?thesis
      by (simp add: mn enc_head_def cbor_uint_run cbor_head_def take_be from_be_two)
  next
    case 4
    with m n show ?thesis
      by (simp add: mn enc_head_def cbor_uint_run cbor_head_def take_be from_be_four)
  qed
qed

interpretation head: prefix_codec enc_head cbor_head head_ok
  by unfold_locales (rule cbor_head_enc)

section \<open>Items\<close>

datatype cbor = CInt int | CBytes bytes | CText string | CMap "(cbor \<times> cbor) list"

fun pair_up :: "'a list \<Rightarrow> ('a \<times> 'a) list" where
  "pair_up (x # y # r) = (x, y) # pair_up r"
| "pair_up _ = []"

definition flat :: "('a \<times> 'a) list \<Rightarrow> 'a list" where
  "flat ps = concat (map (\<lambda>(x, y). [x, y]) ps)"

lemma flat_simps [simp]: "flat [] = []" "flat ((x, y) # ps) = x # y # flat ps"
  by (simp_all add: flat_def)

lemma pair_up_flat [simp]: "pair_up (flat ps) = ps"
  by (induction ps) auto

lemma length_flat [simp]: "length (flat ps) = 2 * length ps"
  by (induction ps) auto

text \<open>\<open>f\<close> bounds how deep maps nest; text is kept as the characters its bytes encode.\<close>

fun cbor_item :: "nat \<Rightarrow> bytes \<Rightarrow> (cbor \<times> bytes) option" where
  "cbor_item 0 s = None"
| "cbor_item (Suc f) s =
     (case cbor_head s of
        None \<Rightarrow> None
      | Some ((major, n), r) \<Rightarrow>
          if major = 0 then Some (CInt (int n), r)
          else if major = 1 then Some (CInt (- int n - 1), r)
          else if major = 2 \<and> n \<le> length r then Some (CBytes (take n r), drop n r)
          else if major = 3 \<and> n \<le> length r
            then Some (CText (map (\<lambda>b. char_of (unat b)) (take n r)), drop n r)
          else if major = 5 then
            map_option (\<lambda>(vs, q). (CMap (pair_up vs), q)) (dec_many (cbor_item f) (2 * n) r)
          else None)"

text \<open>The encoder of the script, applied to an item.\<close>

function enc_item :: "cbor \<Rightarrow> exn + bytes"
  and enc_pairs :: "(cbor \<times> cbor) list \<Rightarrow> ((exn + bytes) \<times> (exn + bytes)) list" where
  "enc_item (CInt i) = cbor_int i"
| "enc_item (CBytes b) = cbor_bytes b"
| "enc_item (CText s) = cbor_text s"
| "enc_item (CMap kvs) = cbor_pairs (enc_pairs kvs)"
| "enc_pairs [] = []"
| "enc_pairs ((k, v) # kvs) = (enc_item k, enc_item v) # enc_pairs kvs"
  by pat_completeness auto
termination
  by (relation "measure (case_sum size (size_list (size_prod size size)))") auto


text \<open>Items nested less than \<open>f\<close> deep whose encoding does not overflow.\<close>

function item_depth :: "cbor \<Rightarrow> nat"
  and pairs_depth :: "(cbor \<times> cbor) list \<Rightarrow> nat" where
  "item_depth (CMap kvs) = Suc (pairs_depth kvs)"
| "item_depth (CInt i) = 1"
| "item_depth (CBytes b) = 1"
| "item_depth (CText s) = 1"
| "pairs_depth [] = 0"
| "pairs_depth ((k, v) # kvs) = max (max (item_depth k) (item_depth v)) (pairs_depth kvs)"
  by pat_completeness auto
termination
  by (relation "measure (case_sum size (size_list (size_prod size size)))") auto

definition item_bytes :: "cbor \<Rightarrow> bytes" where
  "item_bytes c = (case enc_item c of Inl e \<Rightarrow> [] | Inr b \<Rightarrow> b)"

definition item_ok :: "nat \<Rightarrow> cbor \<Rightarrow> bool" where
  "item_ok f c \<longleftrightarrow> item_depth c \<le> f \<and> (\<exists>b. enc_item c = Inr b)"

lemma decode_chars: "map (\<lambda>b. char_of (unat b)) (encode s) = s"
  by (induction s) (simp_all add: encode_def of_char_less)

lemma pairs_depth_le: "pairs_depth kvs \<le> f \<longleftrightarrow> (\<forall>c\<in>set (flat kvs). item_depth c \<le> f)"
  by (induction kvs) auto

lemma eval_enc_pairs:
  "eval_pairs (enc_pairs kvs) = Inr bs \<Longrightarrow>
     (\<forall>c\<in>set (flat kvs). \<exists>b. enc_item c = Inr b) \<and> length bs = length kvs
     \<and> concat (map (\<lambda>(k, v). k @ v) bs) = concat (map item_bytes (flat kvs))"
  by (induction kvs arbitrary: bs) (auto simp: bind_sum_ok item_bytes_def)

lemma item_step:
  assumes IH: "prefix_codec item_bytes (cbor_item f) (item_ok f)" and ok: "item_ok (Suc f) c"
  shows "cbor_item (Suc f) (item_bytes c @ r) = Some (c, r)"
proof (cases c)
  case (CInt i)
  with ok show ?thesis
    by (cases "0 \<le> i")
      (auto simp: item_ok_def item_bytes_def cbor_int_def cbor_uint_inv cbor_uint_enc cbor_head_enc head_ok_def)
next
  case (CBytes b)
  with ok show ?thesis
    by (auto simp: item_ok_def item_bytes_def cbor_bytes_def bind_sum_ok cbor_uint_inv cbor_uint_enc cbor_head_enc head_ok_def)
next
  case (CText s)
  with ok show ?thesis
    by (auto simp: item_ok_def item_bytes_def cbor_text_def bind_sum_ok cbor_uint_inv cbor_uint_enc cbor_head_enc
        head_ok_def decode_chars)
next
  case (CMap kvs)
  with ok obtain b where b: "cbor_pairs (enc_pairs kvs) = Inr b" by (auto simp: item_ok_def)
  then obtain bs where bs: "eval_pairs (enc_pairs kvs) = Inr bs" and m: "cbor_map bs = Inr b"
    by (auto simp: cbor_pairs_def bind_sum_ok)
  note e = eval_enc_pairs [OF bs]
  from m e have n: "length kvs < 2 ^ 32"
    and bb: "b = enc_head (5, length kvs) @ concat (map item_bytes (flat kvs))"
    by (auto simp: cbor_map_def bind_sum_ok cbor_uint_inv)
  have "\<forall>c\<in>set (flat kvs). item_ok f c"
    using ok CMap e by (simp add: item_ok_def pairs_depth_le)
  then have "dec_many (cbor_item f) (2 * length kvs) (concat (map item_bytes (flat kvs)) @ r)
      = Some (flat kvs, r)"
    using prefix_codec.dec_many_enc [OF IH, of "flat kvs" r] by simp
  moreover have "item_bytes c = b" using CMap b by (simp add: item_bytes_def)
  ultimately show ?thesis
    using n by (simp add: bb cbor_head_enc head_ok_def CMap)
qed

lemma item_codec: "prefix_codec item_bytes (cbor_item f) (item_ok f)"
proof (induction f)
  case 0
  have "1 \<le> item_depth c" for c by (cases c) auto
  then show ?case by unfold_locales (metis item_ok_def not_one_le_zero le_trans)
next
  case (Suc f)
  show ?case by unfold_locales (rule item_step [OF Suc])
qed

interpretation item: prefix_codec item_bytes "cbor_item f" "item_ok f"
  for f
  by (rule item_codec)

lemma enc_item_bytes: "enc_item c = Inr b \<Longrightarrow> item_bytes c = b"
  by (simp add: item_bytes_def)

lemma item_read:
  assumes "enc_item c = Inr b" and "item_depth c \<le> f"
  shows "cbor_item f b = Some (c, [])"
  using item.dec_prefix [of f c "[]"] assms by (simp add: item_ok_def enc_item_bytes)

text \<open>What the script assembles are encodings of items.\<close>

definition cose_item :: "bytes \<Rightarrow> bytes \<Rightarrow> cbor" where
  "cose_item x y = CMap [(CInt 1, CInt 2), (CInt 3, CInt (- 7)), (CInt (- 1), CInt 1),
     (CInt (- 2), CBytes x), (CInt (- 3), CBytes y)]"

definition attestation_item :: "bytes \<Rightarrow> cbor" where
  "attestation_item a = CMap [(CText ''fmt'', CText ''none''), (CText ''attStmt'', CMap []),
     (CText ''authData'', CBytes a)]"

lemma attestation_enc: "attestation_object a = enc_item (attestation_item a)"
  by (simp add: attestation_object_def attestation_item_def cbor_pairs_def)

lemma cose_enc:
  "cose_key_es256 C key =
     bind_sum (int_bytes 32 (ec_x C key)) (\<lambda>x. bind_sum (int_bytes 32 (ec_y C key)) (\<lambda>y.
       enc_item (cose_item x y)))"
  by (simp add: cose_key_es256_def cose_item_def)

section \<open>What a relying party reads\<close>

record auth_fields =
  rp_hash :: bytes
  flags :: nat
  count_of :: nat
  attested :: bytes

definition read_auth :: "bytes \<Rightarrow> auth_fields" where
  "read_auth a = \<lparr>rp_hash = take 32 a, flags = unat (a ! 32), count_of = from_be 0 (take 4 (drop 33 a)),
     attested = drop 37 a\<rparr>"

definition read_credential :: "bytes \<Rightarrow> bytes \<times> bytes" where
  "read_credential a =
     (let n = from_be 0 (take 2 (drop 16 a)) in (take n (drop 18 a), drop (18 + n) a))"

definition text_field :: "members \<Rightarrow> string \<Rightarrow> bytes option" where
  "text_field body k =
     (case map_of body k of Some (JStr s) \<Rightarrow> sum_option (b64url_decode s) | _ \<Rightarrow> None)"

text \<open>The fields of a registration body: the authenticator data, the credential and its key.\<close>

definition read_registration :: "members \<Rightarrow> (auth_fields \<times> bytes \<times> cbor) option" where
  "read_registration body =
     (case text_field body ''attestationObject'' of
        None \<Rightarrow> None
      | Some att \<Rightarrow>
          (case cbor_item 2 att of
             Some (CMap [(CText f, CText n), (CText s, CMap []), (CText k, CBytes a)], []) \<Rightarrow>
               if f = ''fmt'' \<and> n = ''none'' \<and> s = ''attStmt'' \<and> k = ''authData'' then
                 (case cbor_item 2 (snd (read_credential (attested (read_auth a)))) of
                    Some (key, []) \<Rightarrow> Some (read_auth a, fst (read_credential (attested (read_auth a))), key)
                  | _ \<Rightarrow> None)
               else None
           | _ \<Rightarrow> None))"

lemma auth_flags_byte: "auth_flags uv at < 256"
  by (simp add: auth_flags_def)

lemma int_bytes_ok: "int_bytes k n = Inr b \<longleftrightarrow> n < 256 ^ k \<and> b = be_bytes k n"
  by (auto simp: int_bytes_def to_bytes_def)

lemma authenticator_data_ok:
  "authenticator_data rp n cid k uv at = Inr a \<longleftrightarrow>
     n < 2 ^ 32 \<and>
     (if \<not> at then a = sha256 (encode rp) @ [byte (auth_flags uv at)] @ be_bytes 4 n
      else \<exists>c key. cid = Some c \<and> k = Some key \<and> length c < 65536 \<and>
        a = sha256 (encode rp) @ [byte (auth_flags uv at)] @ be_bytes 4 n
            @ replicate 16 0 @ be_bytes 2 (length c) @ c @ key)"
  using auth_flags_byte [of uv at]
  by (auto simp: authenticator_data_def py_bytes_def bind_sum_ok int_bytes_ok Let_def split: option.splits)

lemma read_auth_layout:
  assumes "n < 2 ^ 32" and "f < 256" and "length h = 32"
  shows "read_auth (h @ [byte f] @ be_bytes 4 n @ r) = \<lparr>rp_hash = h, flags = f, count_of = n, attested = r\<rparr>"
  using assms by (simp add: read_auth_def nth_append take_be from_be_four)

lemma read_credential_layout:
  "length c < 65536 \<Longrightarrow> read_credential (replicate 16 0 @ be_bytes 2 (length c) @ c @ k) = (c, k)"
  by (simp add: read_credential_def take_be from_be_two drop_append)

lemma cose_read:
  assumes "cose_key_es256 C key = Inr b"
  shows "cbor_item 2 b = Some (cose_item (be_bytes 32 (ec_x C key)) (be_bytes 32 (ec_y C key)), [])"
    and "ec_x C key < 256 ^ 32" and "ec_y C key < 256 ^ 32"
proof -
  from assms have e: "enc_item (cose_item (be_bytes 32 (ec_x C key)) (be_bytes 32 (ec_y C key))) = Inr b"
    and x: "ec_x C key < 256 ^ 32" and y: "ec_y C key < 256 ^ 32"
    by (auto simp only: cose_enc bind_sum_ok int_bytes_ok)
  show "cbor_item 2 b = Some (cose_item (be_bytes 32 (ec_x C key)) (be_bytes 32 (ec_y C key)), [])"
    using e by (rule item_read) (simp add: cose_item_def)
  show "ec_x C key < 256 ^ 32" and "ec_y C key < 256 ^ 32" by (rule x y)+
qed

lemma attestation_read: "attestation_object a = Inr b \<Longrightarrow> cbor_item 2 b = Some (attestation_item a, [])"
  by (auto simp: attestation_enc intro!: item_read) (simp add: attestation_item_def)

section \<open>Client data\<close>

lemma b64url_ascii: "ascii (b64url b)"
proof -
  have c: "between 0 127 (b64_char n)" if "n < 64" for n
    using that by (simp add: b64_char_def between_def) linarith
  have e: "ascii (b64_encode b)"
    by (induction b rule: b64_encode.induct) (simp_all add: c b64_sextets, simp_all add: between_def)
  then show ?thesis
    by (auto simp: b64url_def rstrip_char_def ascii_def dest: set_dropWhileD)
qed

definition client_data :: "string \<Rightarrow> bytes \<Rightarrow> string \<Rightarrow> json" where
  "client_data ty chal origin =
     JObj [(''type'', JStr ty), (''challenge'', JStr (b64url chal)), (''origin'', JStr origin)]"

lemma client_data_text:
  assumes "ascii ty" and "ascii origin"
  shows "client_data_json ty chal origin = encode (dumps '' '' (client_data ty chal origin))"
proof -
  have k: "ascii ''type''" "ascii ''challenge''" "ascii ''origin''" by (simp_all add: between_def)
  have "ascii (dumps '' '' (client_data ty chal origin))"
    using assms k b64url_ascii [of chal] by (simp add: client_data_def ascii_quote) (simp add: between_def)
  then show ?thesis by (simp add: client_data_json_def client_data_def ascii_def ascii_escape_id)
qed

lemma client_data_loads: "loads L 1 (dumps '' '' (client_data ty chal origin)) = Inr (client_data ty chal origin)"
  by (rule loads_dumps) (simp_all add: client_data_def)

section \<open>Properties\<close>

text \<open>
  C15: The CBOR encoder of the script is lossless on every item it can encode: integers and maps
  nested to any depth, byte strings and texts below 2^32 bytes are read back by a decoder of
  RFC 8949 heads, and what follows them is left untouched.
\<close>

theorem cbor_roundtrip:
  assumes "item_depth c \<le> f" and "enc_item c = Inr b"
  shows "cbor_item f (b @ r) = Some (c, r)"
  using item.dec_prefix [of f c r] assms by (auto simp: item_ok_def enc_item_bytes)

theorem cbor_roundtrip_witness:
  "cbor_item 2 [0xA1, 0x61, 0x61, 0x26, 0x01] = Some (CMap [(CText ''a'', CInt (- 7))], [1])"
proof -
  have "enc_item (CMap [(CText ''a'', CInt (- 7))]) = Inr [0xA1, 0x61, 0x61, 0x26]"
    by code_simp
  then show ?thesis
    using cbor_roundtrip [of "CMap [(CText ''a'', CInt (- 7))]" 2 "[0xA1, 0x61, 0x61, 0x26]" "[1]"] by simp
qed

text \<open>The bytes of the key, and when a registration can be assembled at all.\<close>

lemma cose_key_bytes:
  assumes "ec_x C key < 256 ^ 32" and "ec_y C key < 256 ^ 32"
  shows "cose_key_es256 C key =
    Inr ([0xA5, 0x01, 0x02, 0x03, 0x26, 0x20, 0x01, 0x21, 0x58, 0x20] @ be_bytes 32 (ec_x C key)
      @ [0x22, 0x58, 0x20] @ be_bytes 32 (ec_y C key))"
proof -
  have "int_bytes 32 (ec_x C key) = Inr (be_bytes 32 (ec_x C key))"
    and "int_bytes 32 (ec_y C key) = Inr (be_bytes 32 (ec_y C key))"
    using assms by (simp_all only: int_bytes_ok simp_thms)
  then show ?thesis
    by (simp add: cose_key_es256_def cbor_pairs_def cbor_int_def cbor_bytes_def cbor_map_def
        cbor_uint_run byte_def)
qed

lemma attestation_total:
  assumes "length a < 2 ^ 32"
  shows "\<exists>b. attestation_object a = Inr b"
  using assms
  by (simp add: attestation_object_def cbor_pairs_def cbor_text_def cbor_bytes_def cbor_map_def cbor_uint_run)

lemma registration_total:
  assumes "ec_x C key < 256 ^ 32" and "ec_y C key < 256 ^ 32" and "length cid < 65536"
  shows "\<exists>body. webauthn_registration C key cid chal uv = Inr body"
proof -
  obtain k where k: "cose_key_es256 C key = Inr k" and lk: "length k = 77"
    using cose_key_bytes [OF assms(1,2)] by simp
  obtain a where a: "authenticator_data RP_ID 0 (Some cid) (Some k) uv True = Inr a"
    and la: "length a = 132 + length cid"
    using assms(3) lk by (auto simp: authenticator_data_ok)
  then have "length a < 2 ^ 32" using assms(3) by simp
  then obtain att where "attestation_object a = Inr att" using attestation_total by blast
  with k a show ?thesis by (simp add: webauthn_registration_def)
qed

lemma registration_read:
  assumes "webauthn_registration C key cid chal uv = Inr body"
  shows "\<exists>x y. from_be 0 x = ec_x C key \<and> from_be 0 y = ec_y C key \<and> length x = 32 \<and> length y = 32
    \<and> text_field body ''webauthnCredentialId'' = Some cid
    \<and> (\<exists>a. read_registration body = Some (a, cid, cose_item x y)
        \<and> rp_hash a = sha256 (encode RP_ID) \<and> flags a = auth_flags uv True \<and> count_of a = 0)"
proof -
  obtain k a att where k: "cose_key_es256 C key = Inr k"
    and a: "authenticator_data RP_ID 0 (Some cid) (Some k) uv True = Inr a"
    and att: "attestation_object a = Inr att"
    and body: "body = [(''attestationObject'', JStr (b64url att)),
      (''clientDataJson'', JStr (b64url (client_data_json ''webauthn.create'' chal ORIGIN))),
      (''webauthnCredentialId'', JStr (b64url cid)), (''userVerificationRequired'', JBool uv)]"
    using assms by (auto simp: webauthn_registration_def bind_sum_ok)
  let ?x = "be_bytes 32 (ec_x C key)" and ?y = "be_bytes 32 (ec_y C key)"
  note key = cose_read [OF k]
  from a have c: "length cid < 65536"
    and lay: "a = sha256 (encode RP_ID) @ [byte (auth_flags uv True)] @ be_bytes 4 0
       @ replicate 16 0 @ be_bytes 2 (length cid) @ cid @ k"
    by (auto simp: authenticator_data_ok)
  have ra: "read_auth a = \<lparr>rp_hash = sha256 (encode RP_ID), flags = auth_flags uv True, count_of = 0,
      attested = replicate 16 0 @ be_bytes 2 (length cid) @ cid @ k\<rparr>"
    unfolding lay by (rule read_auth_layout) (simp_all add: auth_flags_byte)
  have "read_registration body = Some (read_auth a, cid, cose_item ?x ?y)"
    using attestation_read [OF att] key ra c
    by (simp add: read_registration_def text_field_def body b64url_decode_encode attestation_item_def
        read_credential_layout)
  then show ?thesis
    using key ra from_be_bytes [of "ec_x C key" 32] from_be_bytes [of "ec_y C key" 32]
    by (intro exI [of _ ?x] exI [of _ ?y]) (simp add: body text_field_def b64url_decode_encode)
qed

text \<open>
  C14: A relying party reads from the registration body exactly what the authenticator put there: the
  SHA-256 of the relying party id, the flags (user present, attested credential, user verified as
  asked), a signature counter of 0, the credential id, and a COSE key map with kty 2, algorithm -7,
  curve 1 and the two 32-byte coordinates of the public key.
\<close>

theorem registration_read_back:
  assumes "ec_x C key < 256 ^ 32" and "ec_y C key < 256 ^ 32" and "length cid < 65536"
  shows "\<exists>body a x y. webauthn_registration C key cid chal uv = Inr body
    \<and> text_field body ''webauthnCredentialId'' = Some cid
    \<and> read_registration body = Some (a, cid, cose_item x y)
    \<and> rp_hash a = sha256 (encode RP_ID) \<and> flags a = auth_flags uv True \<and> count_of a = 0
    \<and> from_be 0 x = ec_x C key \<and> from_be 0 y = ec_y C key \<and> length x = 32 \<and> length y = 32"
  using registration_total [OF assms] registration_read by metis

definition toy_crypto :: "nat crypto" where
  "toy_crypto = \<lparr>keygen = id, public_raw = (\<lambda>k. be_bytes 32 k), ed_sign = (\<lambda>k m. byte k # sha256 m),
     ec_x = (\<lambda>k. k), ec_y = (\<lambda>k. k + 1), es_sign = (\<lambda>k m. byte k # sha256 m)\<rparr>"

theorem registration_read_back_witness:
  "\<exists>body a x y. webauthn_registration toy_crypto 7 [1, 2, 3] [9] True = Inr body
    \<and> text_field body ''webauthnCredentialId'' = Some [1, 2, 3]
    \<and> read_registration body = Some (a, [1, 2, 3], cose_item x y)
    \<and> flags a = 69 \<and> from_be 0 x = 7 \<and> from_be 0 y = 8"
proof -
  have "auth_flags True True = 69" by (simp add: auth_flags_def)
  then show ?thesis
    using registration_read_back [of toy_crypto 7 "[1, 2, 3]" "[9]" True]
    by (simp add: toy_crypto_def) blast
qed

text \<open>
  C16: An assertion binds the message, the relying party and the counter: its client data parses to the
  type \<open>webauthn.get\<close>, the origin and the base64url SHA-256 of exactly that message, its
  authenticator data carries the SHA-256 of the relying party id, the flags and the sign count, and
  its signature is the key's signature over those authenticator data followed by the SHA-256 of
  those client data.
\<close>

theorem assertion_binds_message:
  assumes "n < 2 ^ 32" and "ascii origin"
  shows "\<exists>body client auth. webauthn_assertion C key n msg rp origin uv = Inr body
    \<and> text_field body ''clientDataJson'' = Some (encode client)
    \<and> loads L 1 client = Inr (client_data ''webauthn.get'' (sha256 msg) origin)
    \<and> text_field body ''authenticatorData'' = Some auth
    \<and> read_auth auth = \<lparr>rp_hash = sha256 (encode rp), flags = auth_flags uv False, count_of = n, attested = []\<rparr>
    \<and> text_field body ''signature'' = Some (es_sign C key (auth @ sha256 (encode client)))"
proof -
  let ?client = "dumps '' '' (client_data ''webauthn.get'' (sha256 msg) origin)"
  let ?auth = "sha256 (encode rp) @ [byte (auth_flags uv False)] @ be_bytes 4 n @ []"
  have a: "authenticator_data rp n None None uv False = Inr ?auth"
    using assms(1) by (simp add: authenticator_data_ok)
  have c: "client_data_json ''webauthn.get'' (sha256 msg) origin = encode ?client"
    using assms(2) by (intro client_data_text) (simp_all add: between_def)
  have r: "read_auth ?auth = \<lparr>rp_hash = sha256 (encode rp), flags = auth_flags uv False, count_of = n, attested = []\<rparr>"
    using assms(1) by (intro read_auth_layout) (simp_all add: auth_flags_byte)
  show ?thesis
    using a c r client_data_loads [of L "''webauthn.get''" "sha256 msg" origin]
    by (intro exI [of _ ?client] exI [of _ ?auth] exI)
      (auto simp: webauthn_assertion_def text_field_def b64url_decode_encode Let_def)
qed

theorem assertion_binds_message_witness:
  "\<exists>body client. webauthn_assertion toy_crypto 7 3 [1, 2] RP_ID ORIGIN True = Inr body
    \<and> text_field body ''clientDataJson'' = Some (encode client)
    \<and> loads 9 1 client = Inr (client_data ''webauthn.get'' (sha256 [1, 2]) ORIGIN)"
proof -
  have "ascii ORIGIN" by (simp add: ORIGIN_def between_def)
  then show ?thesis
    using assertion_binds_message [of 3 ORIGIN toy_crypto 7 "[1, 2]" RP_ID True 9] by auto
qed

end
