(* ===== verification/PyInt.thy ===== *)
theory PyInt
  imports PyText
begin

text \<open>
  Python's \<open>int\<close> of a text, in base 10 or 16: white space around it, one sign, single underscores
  between the digits. ASCII digits only, and no limit on their number. Also \<open>lower()\<close>.
\<close>

text \<open>\<open>bytes.strip()\<close>\<close>

definition bws :: "char \<Rightarrow> bool" where
  "bws c \<longleftrightarrow> c = CHR 0x20 \<or> (9 \<le> (of_char c :: nat) \<and> (of_char c :: nat) \<le> 13)"

definition bstrip :: "string \<Rightarrow> string" where
  "bstrip s = rev (dropWhile bws (rev (dropWhile bws s)))"

text \<open>\<open>int(s, base)\<close>: a sign, the prefix \<open>0x\<close> for base 16, digits with single underscores between.\<close>

definition digit_in :: "nat \<Rightarrow> char \<Rightarrow> nat option" where
  "digit_in base c =
     (let n = of_char c :: nat;
          d = (if 48 \<le> n \<and> n \<le> 57 then n - 48
               else if 97 \<le> n \<and> n \<le> 122 then n - 87
               else if 65 \<le> n \<and> n \<le> 90 then n - 55 else base)
      in if d < base then Some d else None)"

fun digits_value :: "nat \<Rightarrow> nat \<Rightarrow> bool \<Rightarrow> string \<Rightarrow> nat option" where
  "digits_value base acc gap [] = (if gap then None else Some acc)"
| "digits_value base acc gap (c # s) =
     (if c = CHR ''_'' then (if gap then None else digits_value base acc True s)
      else (case digit_in base c of
          None \<Rightarrow> None
        | Some d \<Rightarrow> digits_value base (acc * base + d) False s))"

definition unsigned_value :: "nat \<Rightarrow> string \<Rightarrow> nat option" where
  "unsigned_value base s =
     (if base = 16 \<and> (starts_with ''0x'' s \<or> starts_with ''0X'' s)
      then digits_value base 0 True (if starts_with ''_'' (drop 2 s) then drop 3 s else drop 2 s)
      else digits_value base 0 True s)"

definition py_int :: "nat \<Rightarrow> string \<Rightarrow> exn + int" where
  "py_int base t =
     (let s = bstrip t;
          r = (if starts_with ''-'' s \<or> starts_with ''+'' s then drop 1 s else s)
      in case unsigned_value base r of
           None \<Rightarrow> Inl (ValueError (''invalid literal for int()''))
         | Some n \<Rightarrow> Inr (if starts_with ''-'' s then - int n else int n))"

text \<open>\<open>lower()\<close> on ASCII.\<close>

definition lower_char :: "char \<Rightarrow> char" where
  "lower_char c = (if between 65 90 c then char_of ((of_char c :: nat) + 32) else c)"

definition lower :: "string \<Rightarrow> string" where
  "lower s = map lower_char s"

end
