(* ===== verification/FaultProxy.thy ===== *)
theory FaultProxy
  imports PyInt Codec
begin

text \<open>
  The fault-injecting HTTP proxy (scripts/audit_ostris_fault_proxy.py): the mode shared by the
  handler threads under a lock, the handlers of GET and POST, and the forwarding of a request with
  its body, framed by Content-Length or chunked. The upstream service is a parameter. Bytes are
  characters here; \<open>rfile\<close> holds everything the client will send.
\<close>

section \<open>Reading a request body\<close>

definition lf :: char where "lf = CHR 0x0A"
definition crlf :: string where "crlf = [CHR 0x0D, CHR 0x0A]"

text \<open>\<open>rfile.readline()\<close> and \<open>rfile.read(n)\<close>, with what is left to read.\<close>

fun readline :: "string \<Rightarrow> string \<times> string" where
  "readline [] = ([], [])"
| "readline (c # s) = (if c = lf then ([c], s) else (case readline s of (l, r) \<Rightarrow> (c # l, r)))"

definition read_n :: "int \<Rightarrow> string \<Rightarrow> exn + string \<times> string" where
  "read_n n s =
     (if n = - 1 then Inr (s, [])
      else if n < 0 then Inl (ValueError ''read length must be non-negative or -1'')
      else Inr (take (nat n) s, drop (nat n) s))"

lemma readline_length: "readline s = (l, r) \<Longrightarrow> length l + length r = length s \<and> (s \<noteq> [] \<longrightarrow> l \<noteq> [])"
  by (induction s arbitrary: l r) (auto split: if_splits prod.splits)

lemma readline_rest: "length (snd (readline s)) \<le> length s"
  using readline_length [of s] by (cases "readline s") auto

lemma readline_shorter: "s \<noteq> [] \<Longrightarrow> length (snd (readline s)) < length s"
  using readline_length [of s] by (cases "readline s"; cases "fst (readline s)") auto

text \<open>\<open>while self.rfile.readline().strip(): pass\<close>\<close>

function skip_trailers :: "string \<Rightarrow> string" where
  "skip_trailers s =
     (if bstrip (fst (readline s)) = [] then snd (readline s) else skip_trailers (snd (readline s)))"
  by pat_completeness auto
termination
proof (relation "measure length", simp)
  fix s
  assume "bstrip (fst (readline s)) \<noteq> []"
  then have "s \<noteq> []" by (auto simp: bstrip_def)
  then show "(snd (readline s), s) \<in> measure length" by (simp add: readline_shorter)
qed

declare skip_trailers.simps [simp del]

text \<open>The size a chunk's first line states: what precedes a semicolon, in base 16.\<close>

definition chunk_size :: "string \<Rightarrow> exn + int" where
  "chunk_size line = py_int 16 (bstrip (case cut_at (CHR '';'') line of None \<Rightarrow> line | Some (a, b) \<Rightarrow> a))"

lemma chunk_size_blank: "chunk_size [] = Inl (ValueError (''invalid literal for int()''))"
  by (simp add: chunk_size_def py_int_def bstrip_def unsigned_value_def)

lemma read_n_length: "read_n n s = Inr (t, r) \<Longrightarrow> length r \<le> length s"
  by (auto simp: read_n_def split: if_splits)

function read_chunks :: "string \<Rightarrow> exn + string \<times> string" where
  "read_chunks s =
     (case chunk_size (fst (readline s)) of
        Inl e \<Rightarrow> Inl e
      | Inr sz \<Rightarrow>
          if sz = 0 then Inr ([], skip_trailers (snd (readline s)))
          else (case read_n sz (snd (readline s)) of
              Inl e \<Rightarrow> Inl e
            | Inr (chunk, r) \<Rightarrow>
                (case read_chunks (drop 2 r) of
                   Inl e \<Rightarrow> Inl e
                 | Inr (body, q) \<Rightarrow> Inr (chunk @ body, q))))"
  by pat_completeness auto
termination
proof (relation "measure length", simp)
  fix s sz x chunk r
  assume c: "chunk_size (fst (readline s)) = Inr sz" and rd: "read_n sz (snd (readline s)) = Inr x"
    and x: "(chunk, r) = x"
  from c have "s \<noteq> []" by (auto simp: chunk_size_blank)
  then have "length (snd (readline s)) < length s" by (rule readline_shorter)
  moreover have "length r \<le> length (snd (readline s))" using rd x read_n_length by blast
  ultimately show "(drop 2 r, s) \<in> measure length" by simp
qed

declare read_chunks.simps [simp del]

section \<open>Requests and the state of the proxy\<close>

record request =
  command :: string
  rpath :: string
  rheaders :: "(string \<times> string) list"
  rfile :: string

record reply =
  reply_status :: nat
  reply_body :: string
  reply_type :: "string option"

text \<open>
  \<open>urlopen\<close> of the forwarded request: a reply (of any status: an \<open>HTTPError\<close> is one too) or the
  exception of an upstream that could not be reached.
\<close>

type_synonym 'x upstream =
  "string \<Rightarrow> string \<Rightarrow> (string \<times> string) list \<Rightarrow> string option \<Rightarrow> 'x \<Rightarrow> (exn + reply) \<times> 'x"

record 'x proxy =
  next_mode :: string
  upstream_state :: 'x
  slept :: nat
  relayed :: nat

text \<open>What the client of the proxy sees.\<close>

datatype outcome =
    Respond nat string string
  | ErrorPage nat
  | Dropped
  | Crashed exn

definition json_type :: string where "json_type = ''application/json''"
definition normal :: string where "normal = ''normal''"
definition unavailable_once :: string where "unavailable_once = ''unavailable_once''"
definition timeout_once :: string where "timeout_once = ''timeout_once''"
definition drop_after_once :: string where "drop_after_once = ''drop_after_once''"

lemmas mode_defs = normal_def unavailable_once_def timeout_once_def drop_after_once_def

definition MODES :: "string list" where
  "MODES = [normal, unavailable_once, timeout_once, drop_after_once]"

definition header :: "(string \<times> string) list \<Rightarrow> string \<Rightarrow> string option" where
  "header hs name = map_of (map (\<lambda>(k, v). (lower k, v)) hs) (lower name)"

definition header_or :: "(string \<times> string) list \<Rightarrow> string \<Rightarrow> string \<Rightarrow> string" where
  "header_or hs name d = (case header hs name of None \<Rightarrow> d | Some v \<Rightarrow> v)"

section \<open>The handlers\<close>

text \<open>The body of a request: \<open>None\<close> when there is none.\<close>

definition read_body :: "request \<Rightarrow> exn + string option" where
  "read_body rq =
     bind_sum (py_int 10 (header_or (rheaders rq) ''Content-Length'' ''0'')) (\<lambda>len.
       if lower (header_or (rheaders rq) ''Transfer-Encoding'' []) = ''chunked''
       then bind_sum (read_chunks (rfile rq)) (\<lambda>(body, rest). Inr (Some body))
       else if len = 0 then Inr None
       else bind_sum (read_n len (rfile rq)) (\<lambda>(body, rest). Inr (Some body)))"

text \<open>The dictionary of the headers passed on: a repeated key keeps its place and its last value.\<close>

fun dict_put :: "string \<times> string \<Rightarrow> (string \<times> string) list \<Rightarrow> (string \<times> string) list" where
  "dict_put kv [] = [kv]"
| "dict_put kv (e # d) = (if fst e = fst kv then kv # d else e # dict_put kv d)"

definition kept_headers :: "(string \<times> string) list \<Rightarrow> (string \<times> string) list" where
  "kept_headers hs =
     fold dict_put
       (filter (\<lambda>(k, v). lower k \<in> {''authorization'', ''x-tenant'', ''content-type''}) hs) []"

definition forward :: "'x upstream \<Rightarrow> string \<Rightarrow> bool \<Rightarrow> request \<Rightarrow> 'x proxy \<Rightarrow> outcome \<times> 'x proxy" where
  "forward U UPSTREAM drop_response rq s =
     (case read_body rq of
        Inl e \<Rightarrow> (Crashed e, s)
      | Inr body \<Rightarrow>
          (case U (command rq) (UPSTREAM @ rpath rq) (kept_headers (rheaders rq)) body (upstream_state s) of
             (r, x) \<Rightarrow>
               let s' = s\<lparr>upstream_state := x, relayed := Suc (relayed s)\<rparr> in
               (case r of
                  Inl e \<Rightarrow> (Crashed e, s')
                | Inr p \<Rightarrow>
                    if drop_response then (Dropped, s')
                    else (Respond (reply_status p) (reply_body p)
                            (case reply_type p of None \<Rightarrow> json_type | Some t \<Rightarrow> t), s'))))"

definition do_GET :: "'x upstream \<Rightarrow> string \<Rightarrow> request \<Rightarrow> 'x proxy \<Rightarrow> outcome \<times> 'x proxy" where
  "do_GET U UPSTREAM rq s = forward U UPSTREAM False rq s"

definition unavailable_body :: string where
  "unavailable_body = ''{\"code\":\"AUDIT_UNAVAILABLE\",\"message\":\"Injected before upstream processing\"}''"

definition timeout_body :: string where
  "timeout_body = ''{\"code\":\"AUDIT_TIMEOUT\",\"message\":\"Injected before upstream processing\"}''"

text \<open>The critical section of a commit: \<open>mode, next_mode = next_mode, "normal"\<close> under the lock.\<close>

definition take_mode :: "request \<Rightarrow> 'x proxy \<Rightarrow> string \<times> 'x proxy" where
  "take_mode rq s =
     (if ends_with ''/commit'' (rpath rq) then (next_mode s, s\<lparr>next_mode := normal\<rparr>) else (normal, s))"

definition serve :: "'x upstream \<Rightarrow> string \<Rightarrow> string \<Rightarrow> request \<Rightarrow> 'x proxy \<Rightarrow> outcome \<times> 'x proxy" where
  "serve U UPSTREAM mode rq s =
     (if mode = unavailable_once then (Respond 503 unavailable_body json_type, s)
      else if mode = timeout_once then (Respond 503 timeout_body json_type, s\<lparr>slept := slept s + 25\<rparr>)
      else forward U UPSTREAM (mode = drop_after_once) rq s)"

definition is_arm :: "request \<Rightarrow> bool" where
  "is_arm rq \<longleftrightarrow> starts_with ''/__audit/mode/'' (rpath rq)"

definition do_POST :: "'x upstream \<Rightarrow> string \<Rightarrow> request \<Rightarrow> 'x proxy \<Rightarrow> outcome \<times> 'x proxy" where
  "do_POST U UPSTREAM rq s =
     (if is_arm rq then
        (let mode = after_last (CHR ''/'') (rpath rq) in
         if mode \<notin> set MODES then (ErrorPage 400, s)
         else (Respond 204 [] json_type, s\<lparr>next_mode := mode\<rparr>))
      else (case take_mode rq s of (mode, s') \<Rightarrow> serve U UPSTREAM mode rq s'))"

definition initial_proxy :: "'x \<Rightarrow> 'x proxy" where
  "initial_proxy x = \<lparr>next_mode = normal, upstream_state = x, slept = 0, relayed = 0\<rparr>"

text \<open>\<open>BaseHTTPRequestHandler\<close> dispatches on the method; one without a handler is a 501.\<close>

definition handle :: "'x upstream \<Rightarrow> string \<Rightarrow> request \<Rightarrow> 'x proxy \<Rightarrow> outcome \<times> 'x proxy" where
  "handle U UPSTREAM rq s =
     (if command rq = ''GET'' then do_GET U UPSTREAM rq s
      else if command rq = ''POST'' then do_POST U UPSTREAM rq s
      else (ErrorPage 501, s))"

definition is_commit :: "request \<Rightarrow> bool" where
  "is_commit rq \<longleftrightarrow> command rq = ''POST'' \<and> \<not> is_arm rq \<and> ends_with ''/commit'' (rpath rq)"

section \<open>Frames\<close>

lemma forward_frame:
  "forward U up d rq s = (out, s') \<Longrightarrow> next_mode s' = next_mode s \<and> slept s' = slept s \<and> relayed s \<le> relayed s'"
  by (auto simp: forward_def Let_def split: sum.splits prod.splits if_splits)

lemma serve_frame: "serve U up m rq s = (out, s') \<Longrightarrow> next_mode s' = next_mode s"
  by (auto simp: serve_def dest: forward_frame split: if_splits)

lemma modes_distinct [simp]:
  "unavailable_once \<noteq> normal" "timeout_once \<noteq> normal" "drop_after_once \<noteq> normal"
  "normal \<noteq> unavailable_once" "normal \<noteq> timeout_once" "normal \<noteq> drop_after_once"
  "unavailable_once \<noteq> timeout_once" "unavailable_once \<noteq> drop_after_once" "timeout_once \<noteq> drop_after_once"
  "timeout_once \<noteq> unavailable_once" "drop_after_once \<noteq> unavailable_once" "drop_after_once \<noteq> timeout_once"
  by (simp_all add: mode_defs)

text \<open>A request that neither arms nor commits is forwarded and leaves the mode alone.\<close>

lemma handle_other:
  assumes "\<not> is_commit rq" and "\<not> (command rq = ''POST'' \<and> is_arm rq)"
  shows "handle U up rq s = (if command rq \<in> {''GET'', ''POST''} then forward U up False rq s else (ErrorPage 501, s))"
  using assms
  by (auto simp: handle_def do_GET_def do_POST_def is_commit_def take_mode_def serve_def)

lemma handle_other_mode:
  assumes "\<not> is_commit rq" and "\<not> (command rq = ''POST'' \<and> is_arm rq)"
  shows "next_mode (snd (handle U up rq s)) = next_mode s"
  using forward_frame [of U up False rq s]
  by (cases "forward U up False rq s") (auto simp: handle_other [OF assms])

definition after :: "'x upstream \<Rightarrow> string \<Rightarrow> request list \<Rightarrow> 'x proxy \<Rightarrow> 'x proxy" where
  "after U UPSTREAM rqs s = fold (\<lambda>rq s. snd (handle U UPSTREAM rq s)) rqs s"

lemma after_mode:
  "\<forall>rq\<in>set rqs. \<not> is_commit rq \<and> \<not> (command rq = ''POST'' \<and> is_arm rq)
     \<Longrightarrow> next_mode (after U up rqs s) = next_mode s"
  by (induction rqs arbitrary: s) (simp_all add: after_def handle_other_mode)

lemma handle_commit:
  "is_commit rq \<Longrightarrow> handle U up rq s = serve U up (next_mode s) rq (s\<lparr>next_mode := normal\<rparr>)"
  by (auto simp: is_commit_def handle_def do_POST_def take_mode_def)

section \<open>Interleaved handler threads\<close>

text \<open>
  Each handler thread takes its mode in the critical section and serves the request later, in any
  order with the other threads. The two counters are history: how often a fault was armed, and how
  many requests were served with one.
\<close>

record 'x config =
  shared :: "'x proxy"
  pending :: "(request \<times> string) list"
  arms :: nat
  faults :: nat

inductive proxy_step :: "'x upstream \<Rightarrow> string \<Rightarrow> 'x config \<Rightarrow> 'x config \<Rightarrow> bool"
  for U UPSTREAM where
  Arm: "\<lbrakk>command rq = ''POST''; is_arm rq; do_POST U UPSTREAM rq (shared c) = (out, s)\<rbrakk>
    \<Longrightarrow> proxy_step U UPSTREAM c
          (c\<lparr>shared := s, arms := arms c + (if next_mode s \<noteq> normal \<and> out = Respond 204 [] json_type then 1 else 0)\<rparr>)"
| Take: "\<lbrakk>command rq = ''POST''; \<not> is_arm rq; take_mode rq (shared c) = (m, s)\<rbrakk>
    \<Longrightarrow> proxy_step U UPSTREAM c (c\<lparr>shared := s, pending := (rq, m) # pending c\<rparr>)"
| Get: "command rq = ''GET'' \<Longrightarrow> proxy_step U UPSTREAM c (c\<lparr>pending := (rq, normal) # pending c\<rparr>)"
| Serve: "\<lbrakk>pending c = xs @ (rq, m) # ys; serve U UPSTREAM m rq (shared c) = (out, s)\<rbrakk>
    \<Longrightarrow> proxy_step U UPSTREAM c
          (c\<lparr>shared := s, pending := xs @ ys, faults := faults c + (if m \<noteq> normal then 1 else 0)\<rparr>)"

definition faulty :: "(request \<times> string) list \<Rightarrow> nat" where
  "faulty ps = length (filter (\<lambda>(rq, m). m \<noteq> normal) ps)"

lemma faulty_simps [simp]:
  "faulty [] = 0" "faulty ((rq, m) # ps) = (if m \<noteq> normal then Suc (faulty ps) else faulty ps)"
  "faulty (ps @ qs) = faulty ps + faulty qs"
  by (simp_all add: faulty_def)

definition proxy_inv :: "'x config \<Rightarrow> bool" where
  "proxy_inv c \<longleftrightarrow>
     faults c + faulty (pending c) + (if next_mode (shared c) \<noteq> normal then 1 else 0) \<le> arms c
     \<and> (\<forall>(rq, m)\<in>set (pending c). m \<noteq> normal \<longrightarrow> is_commit rq)
     \<and> next_mode (shared c) \<in> set MODES"

definition proxy_start :: "'x config \<Rightarrow> bool" where
  "proxy_start c \<longleftrightarrow> next_mode (shared c) = normal \<and> pending c = [] \<and> arms c = 0 \<and> faults c = 0"

inductive_cases proxy_stepE: "proxy_step U UPSTREAM c d"

lemma do_POST_arm:
  assumes "is_arm rq" and "do_POST U up rq s = (out, s')"
  shows "(s' = s \<and> out = ErrorPage 400)
    \<or> (\<exists>m\<in>set MODES. s' = s\<lparr>next_mode := m\<rparr> \<and> out = Respond 204 [] json_type)"
  using assms by (auto simp: do_POST_def Let_def split: if_splits)

lemma normal_in_modes [simp]: "normal \<in> set MODES"
  by (simp add: MODES_def)

lemma proxy_inv_step:
  assumes "proxy_inv c" and "proxy_step U up c d"
  shows "proxy_inv d"
  using assms(2,1)
proof (cases rule: proxy_step.cases)
  case (Arm rq out s)
  with do_POST_arm [OF Arm(3,4)] assms(1) show ?thesis
    by (auto simp: proxy_inv_def)
next
  case (Take rq m s)
  with assms(1) show ?thesis
    by (auto simp: proxy_inv_def take_mode_def is_commit_def split: if_splits)
next
  case (Get rq)
  with assms(1) show ?thesis by (auto simp: proxy_inv_def)
next
  case (Serve xs rq m ys out s)
  with assms(1) serve_frame [OF Serve(3)] show ?thesis
    by (auto simp: proxy_inv_def split: if_splits)
qed

interpretation proxy: transition_system proxy_start "proxy_step U UPSTREAM" proxy_inv
  for U UPSTREAM
  by unfold_locales (simp add: proxy_start_def proxy_inv_def, rule proxy_inv_step)

section \<open>Chunked framing\<close>

fun show_hex :: "nat \<Rightarrow> string" where
  "show_hex n = (if n < 16 then [hex_digit n] else show_hex (n div 16) @ [hex_digit (n mod 16)])"

declare show_hex.simps [simp del]

text \<open>A chunk as a client sends it, with an extension or none.\<close>

definition enc_chunk :: "string \<times> string \<Rightarrow> string" where
  "enc_chunk c = show_hex (length (snd c)) @ (if fst c = [] then [] else CHR '';'' # fst c) @ crlf @ snd c @ crlf"

definition chunk_ok :: "string \<times> string \<Rightarrow> bool" where
  "chunk_ok c \<longleftrightarrow> snd c \<noteq> [] \<and> lf \<notin> set (fst c)"

definition trailer_ok :: "string \<Rightarrow> bool" where
  "trailer_ok t \<longleftrightarrow> lf \<notin> set t \<and> bstrip (t @ crlf) \<noteq> []"

definition is_hex :: "char \<Rightarrow> bool" where
  "is_hex c \<longleftrightarrow> (\<exists>d<16. c = hex_digit d)"

lemma digit_in_hex: "d < 16 \<Longrightarrow> digit_in 16 (hex_digit d) = Some d"
  by (simp add: digit_in_def hex_digit_def)

lemma hex_facts:
  assumes "is_hex c"
  shows "c \<noteq> CHR ''_''" "c \<noteq> CHR ''x''" "c \<noteq> CHR ''X''" "c \<noteq> CHR ''-''" "c \<noteq> CHR ''+''"
    "c \<noteq> CHR '';''" "c \<noteq> lf" "\<not> bws c"
proof -
  from assms obtain d where d: "d < 16" "c = hex_digit d" by (auto simp: is_hex_def)
  have n: "(of_char c :: nat) = (if d < 10 then 48 + d else 87 + d)"
    using d by (simp add: hex_digit_def)
  show "c \<noteq> CHR ''_''" "c \<noteq> CHR ''x''" "c \<noteq> CHR ''X''" "c \<noteq> CHR ''-''" "c \<noteq> CHR ''+''"
    "c \<noteq> CHR '';''" "c \<noteq> lf" "\<not> bws c"
    using n d(1) by (auto simp: lf_def bws_def split: if_splits)
qed

lemma is_hexI: "d < 16 \<Longrightarrow> is_hex (hex_digit d)"
  by (auto simp: is_hex_def)

lemma show_hex_chars: "c \<in> set (show_hex n) \<Longrightarrow> is_hex c"
proof (induction n rule: show_hex.induct)
  case (1 n)
  then show ?case
    by (subst (asm) (2) show_hex.simps) (auto intro: is_hexI split: if_splits)
qed

lemma show_hex_nonempty [simp]: "show_hex n \<noteq> []"
  by (subst show_hex.simps) simp

definition hex_fold :: "nat \<Rightarrow> string \<Rightarrow> nat" where
  "hex_fold acc s = foldl (\<lambda>a c. a * 16 + the (digit_in 16 c)) acc s"

lemma digits_value_hex:
  "\<forall>c\<in>set s. is_hex c \<Longrightarrow> s \<noteq> [] \<or> \<not> gap \<Longrightarrow> digits_value 16 acc gap s = Some (hex_fold acc s)"
proof (induction s arbitrary: acc gap)
  case Nil
  then show ?case by (simp add: hex_fold_def)
next
  case (Cons c s)
  then obtain d where "d < 16" "c = hex_digit d" by (auto simp: is_hex_def)
  with Cons hex_facts(1) [of c] show ?case by (simp add: hex_fold_def digit_in_hex)
qed

lemma hex_fold_show: "hex_fold 0 (show_hex n) = n"
proof (induction n rule: show_hex.induct)
  case (1 n)
  then show ?case
    by (subst show_hex.simps) (auto simp: hex_fold_def digit_in_hex)
qed

lemma solid_drop: "\<forall>c\<in>set s. \<not> bws c \<Longrightarrow> dropWhile bws s = s"
  by (cases s) auto

lemma bstrip_solid: "\<forall>c\<in>set s. \<not> bws c \<Longrightarrow> bstrip s = s"
  by (simp add: bstrip_def solid_drop)

lemma bstrip_crlf:
  assumes "s \<noteq> []" and "\<forall>c\<in>set s. \<not> bws c"
  shows "bstrip (s @ crlf) = s"
proof -
  have "dropWhile bws (s @ crlf) = s @ crlf" using assms by (cases s) auto
  moreover have "bws CHR 0x0A" "bws CHR 0x0D" by (simp_all add: bws_def)
  ultimately show ?thesis using assms(2) by (simp add: bstrip_def crlf_def solid_drop)
qed

lemma not_starts_hex:
  assumes "c \<in> set p" and "\<not> is_hex c"
  shows "\<not> starts_with p (show_hex n)"
proof
  assume "starts_with p (show_hex n)"
  then obtain t where "show_hex n = p @ t" by (auto simp: starts_with_append)
  with assms(1) have "c \<in> set (show_hex n)" by simp
  with assms(2) show False by (blast dest: show_hex_chars)
qed

lemma py_int_hex: "py_int 16 (show_hex n) = Inr (int n)"
proof -
  have b: "bstrip (show_hex n) = show_hex n"
    using show_hex_chars hex_facts(8) by (intro bstrip_solid) blast
  have no: "\<not> is_hex CHR ''-''" "\<not> is_hex CHR ''+''" "\<not> is_hex CHR ''x''" "\<not> is_hex CHR ''X''"
    using hex_facts(2-5) by blast+
  have "\<not> starts_with ''-'' (show_hex n)" "\<not> starts_with ''+'' (show_hex n)"
    "\<not> starts_with ''0x'' (show_hex n)" "\<not> starts_with ''0X'' (show_hex n)"
    by (rule not_starts_hex [OF _ no(1)], simp, rule not_starts_hex [OF _ no(2)], simp,
        rule not_starts_hex [OF _ no(3)], simp, rule not_starts_hex [OF _ no(4)], simp)
  moreover have "digits_value 16 0 True (show_hex n) = Some n"
    using digits_value_hex [of "show_hex n" True 0] show_hex_chars hex_fold_show by simp
  ultimately show ?thesis by (simp add: py_int_def unsigned_value_def b)
qed

lemma chunk_size_line:
  assumes "line = show_hex n @ (if x = [] then [] else CHR '';'' # x) @ crlf"
  shows "chunk_size line = Inr (int n)"
proof -
  have h: "CHR '';'' \<notin> set (show_hex n)" and b: "\<forall>c\<in>set (show_hex n). \<not> bws c"
    using show_hex_chars hex_facts(6,8) by blast+
  show ?thesis
  proof (cases "x = []")
    case True
    with assms h have "cut_at (CHR '';'') line = None" by (simp add: cut_at_None crlf_def)
    with True assms b show ?thesis by (simp add: chunk_size_def bstrip_crlf py_int_hex)
  next
    case False
    with assms h have "cut_at (CHR '';'') line = Some (show_hex n, x @ crlf)" by (simp add: cut_at_Some)
    with b show ?thesis by (simp add: chunk_size_def bstrip_solid py_int_hex)
  qed
qed

lemma readline_split: "lf \<notin> set l \<Longrightarrow> readline (l @ lf # r) = (l @ [lf], r)"
  by (induction l) auto

lemma readline_crlf: "lf \<notin> set l \<Longrightarrow> readline (l @ crlf @ r) = (l @ crlf, r)"
  using readline_split [of "l @ [CHR 0x0D]" r] by (simp add: crlf_def lf_def)

lemma read_chunk_step:
  assumes "chunk_ok c"
  shows "read_chunks (enc_chunk c @ s) =
    (case read_chunks s of Inl e \<Rightarrow> Inl e | Inr (body, q) \<Rightarrow> Inr (snd c @ body, q))"
proof -
  obtain x d where c: "c = (x, d)" by (cases c)
  let ?l = "show_hex (length d) @ (if x = [] then [] else CHR '';'' # x)"
  have "lf \<notin> set ?l"
    using assms show_hex_chars hex_facts(7) by (auto simp: c chunk_ok_def lf_def)
  then have rl: "readline (enc_chunk c @ s) = (?l @ crlf, d @ crlf @ s)"
    using readline_crlf [of ?l "d @ crlf @ s"] unfolding c enc_chunk_def fst_conv snd_conv append_assoc
    by blast
  have sz: "chunk_size (?l @ crlf) = Inr (int (length d))"
    by (rule chunk_size_line [of _ _ x]) simp
  have "d \<noteq> []" using assms by (simp add: c chunk_ok_def)
  moreover have "read_n (int (length d)) (d @ crlf @ s) = Inr (d, crlf @ s)"
    by (simp add: read_n_def)
  moreover have "drop 2 (crlf @ s) = s" "snd c = d" by (simp_all add: crlf_def c)
  ultimately show ?thesis
    by (subst read_chunks.simps) (simp only: rl sz fst_conv snd_conv sum.case prod.case, simp)
qed

lemma skip_trailers_read:
  "\<forall>t\<in>set ts. trailer_ok t \<Longrightarrow> skip_trailers (concat (map (\<lambda>t. t @ crlf) ts) @ crlf @ rest) = rest"
proof (induction ts)
  case Nil
  have "readline (crlf @ rest) = (crlf, rest)" using readline_crlf [of "[]" rest] by simp
  then show ?case by (subst skip_trailers.simps) (simp add: bstrip_def crlf_def bws_def)
next
  case (Cons t ts)
  let ?q = "concat (map (\<lambda>t. t @ crlf) ts) @ crlf @ rest"
  from Cons have "readline (t @ crlf @ ?q) = (t @ crlf, ?q)"
    by (intro readline_crlf) (simp add: trailer_ok_def)
  with Cons show ?case by (subst skip_trailers.simps) (simp add: trailer_ok_def)
qed

lemma read_chunks_all:
  assumes "\<forall>c\<in>set cs. chunk_ok c" and "\<forall>t\<in>set ts. trailer_ok t"
  shows "read_chunks (concat (map enc_chunk cs) @ ''0'' @ crlf @ concat (map (\<lambda>t. t @ crlf) ts) @ crlf @ rest)
    = Inr (concat (map snd cs), rest)"
  using assms(1)
proof (induction cs)
  case Nil
  let ?q = "concat (map (\<lambda>t. t @ crlf) ts) @ crlf @ rest"
  have z: "''0'' = show_hex 0" by code_simp
  have "readline (''0'' @ crlf @ ?q) = (''0'' @ crlf, ?q)" by (rule readline_crlf) (simp add: lf_def)
  moreover have "chunk_size (''0'' @ crlf) = Inr (int 0)"
    unfolding z by (rule chunk_size_line [of _ _ "[]"]) simp
  ultimately show ?case
    by (subst read_chunks.simps) (simp add: skip_trailers_read [OF assms(2)])
next
  case (Cons c cs)
  then show ?case by (simp add: read_chunk_step)
qed

section \<open>Properties\<close>

text \<open>
  C10: Under every interleaving of handler threads, no more requests are served with a fault than
  faults were armed, and only a POST to a path ending in \<open>/commit\<close> ever holds one: a thread takes
  the mode and resets it in one critical section, so two commits never share a fault.
\<close>

theorem faults_at_most_arms:
  assumes "proxy_start c" and "(proxy_step U UPSTREAM)\<^sup>*\<^sup>* c d"
  shows "faults d \<le> arms d \<and> list_all (\<lambda>(rq, m). m = normal \<or> is_commit rq) (pending d)"
proof -
  have "proxy_inv d" using assms by (rule proxy.inv_reachable)
  then show ?thesis by (auto simp: proxy_inv_def list_all_iff)
qed

definition arm_request :: "string \<Rightarrow> request" where
  "arm_request m = \<lparr>command = ''POST'', rpath = ''/__audit/mode/'' @ m, rheaders = [], rfile = []\<rparr>"

definition commit_request :: request where
  "commit_request = \<lparr>command = ''POST'', rpath = ''/trade/commit'', rheaders = [], rfile = []\<rparr>"

definition ok_upstream :: "unit upstream" where
  "ok_upstream method url hs body x = (Inr \<lparr>reply_status = 200, reply_body = ''{}'', reply_type = None\<rparr>, x)"

definition quiet :: "unit config" where
  "quiet = \<lparr>shared = initial_proxy (), pending = [], arms = 0, faults = 0\<rparr>"

lemma not_arm_commit: "\<not> is_arm commit_request"
  by (simp add: is_arm_def commit_request_def)

lemma commit_is_commit: "is_commit commit_request"
  using not_arm_commit by (simp add: is_commit_def commit_request_def ends_with_def)

text \<open>A run: arm a fault, take it for a commit, serve that commit.\<close>

lemma armed_run:
  "(proxy_step ok_upstream [])\<^sup>*\<^sup>* quiet
     (quiet\<lparr>arms := 1, faults := 1\<rparr>)"
proof -
  let ?s = "(initial_proxy ())\<lparr>next_mode := unavailable_once\<rparr>"
  let ?c1 = "quiet\<lparr>shared := ?s, arms := 1\<rparr>"
  let ?c2 = "quiet\<lparr>arms := 1, pending := [(commit_request, unavailable_once)]\<rparr>"
  have a: "do_POST ok_upstream [] (arm_request unavailable_once) (shared quiet) = (Respond 204 [] json_type, ?s)"
    by (simp add: do_POST_def is_arm_def arm_request_def quiet_def MODES_def mode_defs after_last_def)
  have "proxy_step ok_upstream [] quiet ?c1"
    using proxy_step.Arm [OF _ _ a] by (simp add: arm_request_def is_arm_def quiet_def initial_proxy_def)
  moreover have "proxy_step ok_upstream [] ?c1 ?c2"
    using proxy_step.Take [OF _ not_arm_commit, of ?c1 unavailable_once "initial_proxy ()" ok_upstream "[]"]
    by (simp add: take_mode_def commit_request_def ends_with_def quiet_def initial_proxy_def)
  moreover have "proxy_step ok_upstream [] ?c2 (quiet\<lparr>arms := 1, faults := 1\<rparr>)"
    using proxy_step.Serve [of ?c2 "[]" commit_request unavailable_once "[]" ok_upstream "[]"]
    by (simp add: serve_def quiet_def)
  ultimately show ?thesis by (meson converse_rtranclp_into_rtranclp rtranclp.rtrancl_refl)
qed

theorem faults_at_most_arms_witness:
  "(1 :: nat) \<le> 1 \<and> faults (quiet\<lparr>arms := 1, faults := 1\<rparr>) \<le> arms (quiet\<lparr>arms := 1, faults := 1\<rparr>)"
  using faults_at_most_arms [OF _ armed_run] by (simp add: proxy_start_def quiet_def initial_proxy_def)

text \<open>
  C11: An armed fault is one-shot and hits the next commit, whatever other requests come between:
  the commit is answered 503 without reaching the upstream (for the two faults injected before it),
  and the mode is back to normal, so the commit after it is forwarded.
\<close>

theorem armed_fault_is_one_shot:
  assumes "next_mode s = unavailable_once \<or> next_mode s = timeout_once"
    and "\<forall>rq\<in>set rqs. \<not> is_commit rq \<and> \<not> (command rq = ''POST'' \<and> is_arm rq)"
    and "is_commit c" and "is_commit c'"
  shows "\<exists>body s'. handle U up c (after U up rqs s) = (Respond 503 body json_type, s')
    \<and> upstream_state s' = upstream_state (after U up rqs s) \<and> relayed s' = relayed (after U up rqs s)
    \<and> handle U up c' s' = forward U up False c' s'"
proof -
  let ?t = "after U up rqs s"
  have m: "next_mode ?t = unavailable_once \<or> next_mode ?t = timeout_once"
    using assms(1) by (simp add: after_mode [OF assms(2)])
  obtain body s' where h: "handle U up c ?t = (Respond 503 body json_type, s')"
    and k: "next_mode s' = normal" "upstream_state s' = upstream_state ?t" "relayed s' = relayed ?t"
    using m by (auto simp: handle_commit [OF assms(3)] serve_def)
  have e: "s'\<lparr>next_mode := normal\<rparr> = s'" using k(1) by simp
  have "handle U up c' s' = forward U up False c' s'"
    unfolding handle_commit [OF assms(4)] k(1) e serve_def by simp
  with h k show ?thesis by blast
qed

definition get_request :: request where
  "get_request = \<lparr>command = ''GET'', rpath = ''/trade/commit'', rheaders = [], rfile = []\<rparr>"

theorem armed_fault_is_one_shot_witness:
  "\<exists>body s'. handle ok_upstream [] commit_request
      (after ok_upstream [] [get_request] ((initial_proxy ())\<lparr>next_mode := timeout_once\<rparr>))
    = (Respond 503 body json_type, s')"
  using armed_fault_is_one_shot [of "(initial_proxy ())\<lparr>next_mode := timeout_once\<rparr>" "[get_request]"
      commit_request commit_request ok_upstream "[]"] commit_is_commit
  by (simp add: get_request_def is_commit_def) blast

text \<open>
  The fault \<open>drop_after_once\<close> loses only the answer: the commit reaches the upstream exactly once,
  with the upstream's state as the commit left it, and the client gets no response at all.
\<close>

theorem dropped_commit_was_processed:
  assumes "is_commit c" and "next_mode s = drop_after_once" and "read_body c = Inr body"
    and "U (command c) (up @ rpath c) (kept_headers (rheaders c)) body (upstream_state s) = (Inr p, x)"
  shows "handle U up c s = (Dropped, s\<lparr>next_mode := normal, upstream_state := x, relayed := Suc (relayed s)\<rparr>)"
  using assms by (simp add: handle_commit serve_def forward_def)

theorem dropped_commit_was_processed_witness:
  "handle ok_upstream [] commit_request ((initial_proxy ())\<lparr>next_mode := drop_after_once\<rparr>)
     = (Dropped, (initial_proxy ())\<lparr>relayed := 1\<rparr>)"
proof -
  have "read_body commit_request = Inr None"
    by (simp add: read_body_def commit_request_def header_or_def header_def py_int_def unsigned_value_def
        bstrip_def bws_def digit_in_def lower_def)
  then show ?thesis
    using dropped_commit_was_processed [OF commit_is_commit, of "(initial_proxy ())\<lparr>next_mode := drop_after_once\<rparr>"
        None ok_upstream "[]" "\<lparr>reply_status = 200, reply_body = ''{}'', reply_type = None\<rparr>" "()"]
    by (simp add: ok_upstream_def initial_proxy_def)
qed

text \<open>
  C12: Without an armed fault the proxy is transparent: a GET, or a POST that is no arming request, is
  answered with the upstream's status and body and its content type (application/json when it names
  none), and an armed fault does not touch GETs or POSTs to other paths.
\<close>

theorem unarmed_proxy_is_transparent:
  assumes "command rq = ''GET'' \<or> (command rq = ''POST'' \<and> \<not> is_arm rq)"
    and "next_mode s = normal \<or> \<not> is_commit rq"
    and "read_body rq = Inr body"
    and "U (command rq) (up @ rpath rq) (kept_headers (rheaders rq)) body (upstream_state s) = (Inr p, x)"
  shows "handle U up rq s =
    (Respond (reply_status p) (reply_body p) (case reply_type p of None \<Rightarrow> json_type | Some t \<Rightarrow> t),
     s\<lparr>upstream_state := x, relayed := Suc (relayed s)\<rparr>)"
proof (cases "is_commit rq")
  case True
  with assms(2) have "next_mode s = normal" by simp
  then have "s\<lparr>next_mode := normal\<rparr> = s" by simp
  with True assms \<open>next_mode s = normal\<close> show ?thesis by (simp add: handle_commit serve_def forward_def)
next
  case False
  with assms have "handle U up rq s = forward U up False rq s" by (auto simp: handle_other)
  with assms show ?thesis by (simp add: forward_def)
qed

theorem unarmed_proxy_is_transparent_witness:
  "handle ok_upstream [] get_request (initial_proxy ())
     = (Respond 200 ''{}'' json_type, (initial_proxy ())\<lparr>relayed := 1\<rparr>)"
proof -
  have "read_body get_request = Inr None"
    by (simp add: read_body_def get_request_def header_or_def header_def py_int_def unsigned_value_def
        bstrip_def bws_def digit_in_def lower_def)
  then show ?thesis
    using unarmed_proxy_is_transparent [of get_request "initial_proxy ()" None ok_upstream "[]"
        "\<lparr>reply_status = 200, reply_body = ''{}'', reply_type = None\<rparr>" "()"]
    by (simp add: get_request_def ok_upstream_def initial_proxy_def)
qed

text \<open>
  C13: The chunked decoder reassembles exactly the body a client framed: for any list of nonempty
  chunks, with or without extensions, followed by the last chunk and any trailer lines, it returns
  the concatenation of the chunks and leaves the bytes after the message unread.
\<close>

theorem chunked_body_reassembled:
  assumes "\<forall>c\<in>set cs. chunk_ok c" and "\<forall>t\<in>set ts. trailer_ok t"
  shows "read_chunks (concat (map enc_chunk cs) @ ''0'' @ crlf @ concat (map (\<lambda>t. t @ crlf) ts) @ crlf @ rest)
    = Inr (concat (map snd cs), rest)"
  using assms by (rule read_chunks_all)

theorem chunked_body_reassembled_witness:
  "read_chunks (concat (map enc_chunk [([], ''ab''), (''x=1'', ''c'')]) @ ''0'' @ crlf @ (''T: 1'' @ crlf) @ crlf @ ''GET'')
     = Inr (''abc'', ''GET'')"
  using chunked_body_reassembled [of "[([], ''ab''), (''x=1'', ''c'')]" "[''T: 1'']" "''GET''"]
  by (simp add: chunk_ok_def trailer_ok_def lf_def bstrip_def bws_def)

end
