(* ===== verification/Backup.thy ===== *)
theory Backup
  imports Host
begin

text \<open>
  Backup and restore of the stack (scripts/backup.py, scripts/restore.py): the dump of PostgreSQL and
  the archive of the object-storage volume, the retention of old runs, and the confirmed,
  destructive restore. \<open>root\<close> is the directory of the repository; docker is the parameter \<open>X\<close>.
\<close>

section \<open>Shared constants of the scripts\<close>

definition production_marker :: "path \<Rightarrow> path" where
  "production_marker root = root @ [''.local'', ''production'']"

definition IS_PRODUCTION :: "path \<Rightarrow> 'x host \<Rightarrow> bool" where
  "IS_PRODUCTION root h = exists_path (fs h) (production_marker root)"

definition COMPOSE :: "bool \<Rightarrow> string list" where
  "COMPOSE live =
     [''docker'', ''compose''] @ (if live then [''-f'', ''compose.yml'', ''-f'', ''compose.production.yml''] else [])"

definition secret_file :: "path \<Rightarrow> string \<Rightarrow> path" where
  "secret_file root name = root @ [''.local'', ''secrets'', name]"

definition backups_dir :: "path \<Rightarrow> path" where
  "backups_dir root = root @ [''.local'', ''backups'']"

definition volume_prefix :: "bool \<Rightarrow> string" where
  "volume_prefix live = (if live then ''stir-prod'' else ''stir-dev'')"

section \<open>backup.py\<close>

text \<open>Names of runs are UTC times; \<open>strftime('%Y%m%dT%H%M%SZ')\<close> of a broken-down time.\<close>

record utc_time =
  year :: nat
  month :: nat
  day :: nat
  hour :: nat
  minute :: nat
  second :: nat

fun pad :: "nat \<Rightarrow> nat \<Rightarrow> string" where
  "pad 0 n = []"
| "pad (Suc k) n = pad k (n div 10) @ [digit_char (n mod 10)]"

definition stamp :: "utc_time \<Rightarrow> string" where
  "stamp t = pad 4 (year t) @ pad 2 (month t) @ pad 2 (day t) @ ''T''
     @ pad 2 (hour t) @ pad 2 (minute t) @ pad 2 (second t) @ ''Z''"

text \<open>\<open>runs[:-keep]\<close> of the runs sorted by name.\<close>

definition stale_runs :: "files \<Rightarrow> path \<Rightarrow> int \<Rightarrow> string list" where
  "stale_runs f d keep = (if keep > 0 then all_but_last (nat keep) (sort (subdirs f d)) else [])"

definition prune :: "path \<Rightarrow> int \<Rightarrow> ('x host, unit) py" where
  "prune root keep =
     bind_py (asks fs) (\<lambda>f.
       if \<not> is_dir f (backups_dir root) then raise (FileNotFoundError (path_text (backups_dir root)))
       else for_py (\<lambda>n. then_py (rmtree (backups_dir root @ [n]))
                              (print_py (''Pruned old backup: '' @ path_text (backups_dir root @ [n]))))
              (stale_runs f (backups_dir root) keep))"

definition dump_args :: "bool \<Rightarrow> string \<Rightarrow> string list" where
  "dump_args live password =
     COMPOSE live @ [''exec'', ''-T'', ''-e'', ''PGPASSWORD='' @ password, ''postgres'',
       ''pg_dump'', ''-U'', ''postgres'', ''-d'', ''idax'']"

definition archive_args :: "bool \<Rightarrow> path \<Rightarrow> string list" where
  "archive_args live out =
     [''docker'', ''run'', ''--rm'', ''-v'', volume_prefix live @ ''_minio_data:/data:ro'',
      ''-v'', path_text out @ '':/backup'', ''alpine'', ''tar'', ''czf'', ''/backup/minio_data.tar.gz'',
      ''-C'', ''/data'', ''.'']"

definition backup_main :: "'x exec \<Rightarrow> (int \<Rightarrow> utc_time) \<Rightarrow> path \<Rightarrow> int \<Rightarrow> ('x host, unit) py" where
  "backup_main X utc root keep =
     bind_py (asks (IS_PRODUCTION root)) (\<lambda>live.
     bind_py (asks (\<lambda>h. backups_dir root @ [stamp (utc (now h))])) (\<lambda>out.
     then_py (mkdirs out)
     (bind_py (read_text (secret_file root ''postgres_password'')) (\<lambda>secret.
     then_py (run_to_file X (dump_args live (strip secret)) (out @ [''postgres.sql'']))
     (then_py (print_py (''PostgreSQL dump: '' @ path_text (out @ [''postgres.sql''])))
     (then_py (run_check X (archive_args live out) None)
     (then_py (print_py (''Object storage archive: '' @ path_text (out @ [''minio_data.tar.gz''])))
     (then_py (print_py (''Backup complete: '' @ path_text out))
     (prune root keep)))))))))"

section \<open>restore.py\<close>

text \<open>\<open>Path(s)\<close>: absolute or not, and its components.\<close>

fun split_on :: "char \<Rightarrow> string \<Rightarrow> string \<Rightarrow> string list" where
  "split_on c acc [] = [acc]"
| "split_on c acc (d # s) = (if d = c then acc # split_on c [] s else split_on c (acc @ [d]) s)"

definition path_of :: "string \<Rightarrow> path" where
  "path_of s = filter (\<lambda>c. c \<noteq> [] \<and> c \<noteq> ''.'') (split_on (CHR ''/'') [] s)"

definition resolve_under :: "path \<Rightarrow> string \<Rightarrow> path" where
  "resolve_under root s = (if starts_with ''/'' s then path_of s else root @ path_of s)"

definition stop_args :: "bool \<Rightarrow> string list" where
  "stop_args live = COMPOSE live @
     [''stop'', ''stir'', ''ostris'', ''ledger'', ''shell'', ''stir-ui'', ''ostris-ui'', ''ledger-ui'', ''proxy'']"

definition psql_args :: "bool \<Rightarrow> string \<Rightarrow> string list" where
  "psql_args live password = COMPOSE live @ [''exec'', ''-T'', ''-e'', ''PGPASSWORD='' @ password, ''postgres'',
     ''psql'', ''-U'', ''postgres'', ''-d'', ''idax'']"

definition drop_args :: "bool \<Rightarrow> string \<Rightarrow> string list" where
  "drop_args live password = psql_args live password @
     [''-c'', ''drop schema if exists idax_core, idax_shell, stir, ostris, idax_ledger cascade;'']"

definition extract_args :: "bool \<Rightarrow> path \<Rightarrow> string list" where
  "extract_args live dir =
     [''docker'', ''run'', ''--rm'', ''-v'', volume_prefix live @ ''_minio_data:/data'',
      ''-v'', path_text dir @ '':/backup'', ''alpine'', ''sh'', ''-c'',
      ''rm -rf /data/* /data/..?* /data/.[!.]* 2>/dev/null; tar xzf /backup/minio_data.tar.gz -C /data'']"

definition confirm :: "bool \<Rightarrow> string list \<Rightarrow> path \<Rightarrow> ('x host, unit) py" where
  "confirm live argv dir =
     (if live then
        then_py (print_py ''*** THIS IS THE PRODUCTION DEPLOYMENT (.local/production marker present). ***'')
        (bind_py (input_py (''This REPLACES ALL LIVE PRODUCTION DATA with the backup at '' @ path_text dir @ ''.''
                            @ nl @ ''Type the compose project name (stir-prod) to continue: ''))
          (\<lambda>answer. if strip answer \<noteq> ''stir-prod'' then raise (SystemExit ''Aborted.'') else ret ()))
      else if ''--yes'' \<notin> set argv then
        bind_py (input_py (''This REPLACES all current data with the backup at '' @ path_text dir
                           @ ''. Type \"yes\" to continue: ''))
          (\<lambda>answer. if strip answer \<noteq> ''yes'' then raise (SystemExit ''Aborted.'') else ret ())
      else ret ())"

definition replace_data :: "'x exec \<Rightarrow> path \<Rightarrow> bool \<Rightarrow> path \<Rightarrow> ('x host, unit) py" where
  "replace_data X root live dir =
     then_py (run_check X (stop_args live) None)
     (bind_py (read_text (secret_file root ''postgres_password'')) (\<lambda>secret.
      then_py (run_check X (drop_args live (strip secret)) None)
      (bind_py (read_text (dir @ [''postgres.sql''])) (\<lambda>dump.
      then_py (run_check X (psql_args live (strip secret)) (Some dump))
      (then_py (print_py ''PostgreSQL restored.'')
      (then_py (run_check X (extract_args live dir) None)
      (then_py (print_py ''Object storage restored.'')
      (then_py (run_check X (COMPOSE live @ [''up'', ''-d'']) None)
      (then_py (run_check X (COMPOSE live @ [''restart'', ''minio'']) None)
      (print_py ''Restarted. Wait for health checks, then verify.''))))))))))"

text \<open>\<open>argv\<close> is \<open>sys.argv[1:]\<close>.\<close>

definition restore_main :: "'x exec \<Rightarrow> path \<Rightarrow> string list \<Rightarrow> ('x host, unit) py" where
  "restore_main X root argv =
     bind_py (asks (IS_PRODUCTION root)) (\<lambda>live.
     (case argv of
        [] \<Rightarrow> raise (SystemExit ''Usage: python scripts/restore.py <backup-directory> [--yes]'')
      | a # rest \<Rightarrow>
          let dir = resolve_under root a in
          bind_py (asks fs) (\<lambda>f.
            if \<not> exists_path f (dir @ [''postgres.sql'']) \<or> \<not> exists_path f (dir @ [''minio_data.tar.gz''])
            then raise (SystemExit (path_text dir @ '' is missing postgres.sql or minio_data.tar.gz''))
            else then_py (confirm live argv dir) (replace_data X root live dir))))"

section \<open>Names of runs sort by age\<close>

definition times :: "utc_time \<Rightarrow> nat list" where
  "times t = [year t, month t, day t, hour t, minute t, second t]"

definition calendar :: "utc_time \<Rightarrow> bool" where
  "calendar t \<longleftrightarrow> year t < 10000 \<and> month t < 100 \<and> day t < 100 \<and> hour t < 100 \<and> minute t < 100 \<and> second t < 100"

lemma lex_append:
  "length xs = length ys \<Longrightarrow> (xs @ a < ys @ b) = (xs < ys \<or> (xs = ys \<and> a < b))" for xs ys a b :: "'a :: linorder list"
  by (induction xs ys rule: list_induct2) auto

lemma length_pad [simp]: "length (pad k n) = k"
  by (induction k n rule: pad.induct) auto

lemma digit_char_less: "m < 10 \<Longrightarrow> n < 10 \<Longrightarrow> digit_char m < digit_char n \<longleftrightarrow> m < n"
  by (simp add: less_char_def)

lemma digit_char_eq:
  assumes "m < 10" and "n < 10"
  shows "digit_char m = digit_char n \<longleftrightarrow> m = n"
proof
  assume "digit_char m = digit_char n"
  then have "(of_char (digit_char m) :: nat) = of_char (digit_char n)" by simp
  with assms show "m = n" by simp
qed simp

lemma ten_order: "b < 10 \<Longrightarrow> d < 10 \<Longrightarrow> a < c \<or> (a = c \<and> b < d) \<longleftrightarrow> 10 * a + b < 10 * c + d"
  for a b c d :: nat
  by auto

lemma div_mod_order: "m div 10 < n div 10 \<or> (m div 10 = n div 10 \<and> m mod 10 < n mod 10) \<longleftrightarrow> m < n" for m n :: nat
  using ten_order [of "m mod 10" "n mod 10" "m div 10" "n div 10"] by simp

lemma pad_order:
  "m < 10 ^ k \<Longrightarrow> n < 10 ^ k \<Longrightarrow> (pad k m = pad k n \<longleftrightarrow> m = n) \<and> (pad k m < pad k n \<longleftrightarrow> m < n)"
proof (induction k arbitrary: m n)
  case 0
  then show ?case by simp
next
  case (Suc k)
  then have "m div 10 < 10 ^ k" "n div 10 < 10 ^ k" by (simp_all add: less_mult_imp_div_less)
  note IH = Suc.IH [OF this]
  have "m = n \<longleftrightarrow> m div 10 = n div 10 \<and> m mod 10 = n mod 10" by (metis div_mult_mod_eq)
  with IH show ?case
    using div_mod_order [of m n] by (simp add: lex_append digit_char_less digit_char_eq)
qed

lemma stamp_times_less:
  assumes "calendar t" and "calendar u"
  shows "stamp t < stamp u \<longleftrightarrow> times t < times u"
  using assms pad_order [of "year t" 4 "year u"] pad_order [of "month t" 2 "month u"]
    pad_order [of "day t" 2 "day u"] pad_order [of "hour t" 2 "hour u"]
    pad_order [of "minute t" 2 "minute u"] pad_order [of "second t" 2 "second u"]
  by (simp add: calendar_def stamp_def times_def lex_append)

section \<open>Pruning\<close>

lemma below_child: "below (d @ [m]) (d @ [n]) \<longleftrightarrow> m = n"
  by (auto simp: below_def)

lemma prune_loop:
  "\<exists>h'. for_py (\<lambda>n. then_py (rmtree (d @ [n])) (print_py (msg n))) ns h = (Inr (), h')
     \<and> fs h' = filter (\<lambda>(q, n). \<forall>m\<in>set ns. \<not> below (d @ [m]) q) (fs h)"
proof (induction ns arbitrary: h)
  case Nil
  then show ?case by (simp add: ret_def)
next
  case (Cons n ns)
  let ?h = "h\<lparr>fs := filter (\<lambda>(q, m). \<not> below (d @ [n]) q) (fs h),
    trace := (trace h @ [Removed (d @ [n])]) @ [Printed (msg n)]\<rparr>"
  have "then_py (rmtree (d @ [n])) (print_py (msg n)) h = (Inr (), ?h)"
    by (simp add: host_run rmtree_def)
  then have step: "for_py (\<lambda>n. then_py (rmtree (d @ [n])) (print_py (msg n))) (n # ns) h
    = for_py (\<lambda>n. then_py (rmtree (d @ [n])) (print_py (msg n))) ns ?h"
    by (simp add: then_py_def [of "then_py _ _"] bind_py_def [of "then_py _ _"])
  obtain h' where "for_py (\<lambda>n. then_py (rmtree (d @ [n])) (print_py (msg n))) ns ?h = (Inr (), h')"
    and "fs h' = filter (\<lambda>(q, n). \<forall>m\<in>set ns. \<not> below (d @ [m]) q) (fs ?h)"
    using Cons [of ?h] by blast
  then show ?case unfolding step by (auto simp: case_prod_beta conj_commute intro!: filter_cong)
qed

lemma subdirs_filter:
  "n \<in> set (subdirs (filter (\<lambda>(q, m). \<forall>k\<in>set ns. \<not> below (d @ [k]) q) f) d)
     \<longleftrightarrow> n \<in> set (subdirs f d) \<and> n \<notin> set ns"
  by (auto simp: set_subdirs is_dir_def fget_filter below_child)

lemma set_last_n:
  assumes "distinct xs"
  shows "set (last_n k xs) = set xs - set (all_but_last k xs)"
proof -
  have "distinct (all_but_last k xs @ last_n k xs)"
    and "set xs = set (all_but_last k xs) \<union> set (last_n k xs)"
    using assms all_but_last_append_last_n [of k xs] by (simp_all flip: set_append)
  then show ?thesis by auto
qed

lemma prune_run:
  "prune root keep h =
     (if \<not> is_dir (fs h) (backups_dir root)
      then (Inl (FileNotFoundError (path_text (backups_dir root))), h)
      else for_py (\<lambda>n. then_py (rmtree (backups_dir root @ [n]))
                              (print_py (''Pruned old backup: '' @ path_text (backups_dir root @ [n]))))
              (stale_runs (fs h) (backups_dir root) keep) h)"
  unfolding prune_def bind_asks by (simp add: raise_def)

lemma prune_result:
  assumes "is_dir (fs h) (backups_dir root)"
  shows "\<exists>h'. prune root keep h = (Inr (), h')
    \<and> fs h' = filter (\<lambda>(q, n). \<forall>m\<in>set (stale_runs (fs h) (backups_dir root) keep).
        \<not> below (backups_dir root @ [m]) q) (fs h)"
  using assms prune_loop [of "backups_dir root" _ "stale_runs (fs h) (backups_dir root) keep" h]
  by (simp add: prune_run)

text \<open>A run that raises removed nothing.\<close>

definition not_removed :: "event \<Rightarrow> bool" where
  "not_removed e = (case e of Removed p \<Rightarrow> False | _ \<Rightarrow> True)"

definition fails_clean :: "('x host, 'a) py \<Rightarrow> bool" where
  "fails_clean m \<longleftrightarrow>
     (\<forall>h e h'. m h = (Inl e, h') \<longrightarrow> (\<exists>es. trace h' = trace h @ es \<and> list_all not_removed es))"

lemma fails_clean_bind:
  assumes "logs not_removed m" and "\<And>x. fails_clean (f x)"
  shows "fails_clean (bind_py m f)"
  unfolding fails_clean_def
proof (intro allI impI)
  fix h e h''
  assume r: "bind_py m f h = (Inl e, h'')"
  obtain x h' where m: "m h = (x, h')" by (cases "m h")
  with assms(1) obtain es where es: "trace h' = trace h @ es" "list_all not_removed es" by (rule logsE)
  show "\<exists>es. trace h'' = trace h @ es \<and> list_all not_removed es"
  proof (cases x)
    case (Inl a)
    with m r es show ?thesis by (simp add: bind_py_def)
  next
    case (Inr a)
    with m r have "f a h' = (Inl e, h'')" by (simp add: bind_py_def)
    with assms(2) [of a] obtain es' where "trace h'' = trace h' @ es'" "list_all not_removed es'"
      unfolding fails_clean_def by blast
    with es show ?thesis by simp
  qed
qed

lemma fails_clean_then: "logs not_removed m \<Longrightarrow> fails_clean n \<Longrightarrow> fails_clean (then_py m n)"
  by (simp add: then_py_def fails_clean_bind)

lemma fails_clean_prune: "fails_clean (prune root keep)"
  unfolding fails_clean_def
proof (intro allI impI)
  fix h e h'
  assume "prune root keep h = (Inl e, h')"
  then have "h' = h"
    using prune_result [of h root keep]
    by (cases "is_dir (fs h) (backups_dir root)") (auto simp: prune_run)
  then show "\<exists>es. trace h' = trace h @ es \<and> list_all not_removed es" by simp
qed

lemma backup_fails_clean: "fails_clean (backup_main X utc root keep)"
  unfolding backup_main_def
  by (intro fails_clean_bind fails_clean_then fails_clean_prune logs_run_to_file logs_run_check py_logs)
    (simp_all add: not_removed_def)

section \<open>The commands\<close>

definition is_dump :: "event \<Rightarrow> bool" where
  "is_dump e \<longleftrightarrow> (\<exists>live pw. runs (dump_args live pw) e)"

definition is_archive :: "event \<Rightarrow> bool" where
  "is_archive e \<longleftrightarrow> (\<exists>live out. runs (archive_args live out) e)"

lemma prune_follows [py_plan]: "follows [] (prune root keep)"
  unfolding prune_def
  by (intro follows_bind_quiet follows_if follows_quiet_for follows_then_quiet py_plan)

lemma backup_follows: "follows [is_dump, is_archive] (backup_main X utc root keep)"
proof -
  have d: "is_dump (Ran (dump_args live pw) prj)" and a: "is_archive (Ran (archive_args live out) prj)"
    for live pw out prj
    by (auto simp: is_dump_def is_archive_def)
  show ?thesis
    unfolding backup_main_def
    by (intro follows_bind_quiet follows_then_quiet follows_then_cons follows_run_to_file
        follows_run_check d a py_plan)
qed

definition restore_plan :: "bool \<Rightarrow> path \<Rightarrow> plan" where
  "restore_plan live dir =
     [runs (stop_args live), \<lambda>e. \<exists>pw. runs (drop_args live pw) e, \<lambda>e. \<exists>pw. runs (psql_args live pw) e,
      runs (extract_args live dir), runs (COMPOSE live @ [''up'', ''-d'']),
      runs (COMPOSE live @ [''restart'', ''minio''])]"

lemma replace_follows: "follows (restore_plan live dir) (replace_data X root live dir)"
  unfolding replace_data_def restore_plan_def
  by (intro follows_bind_quiet follows_then_quiet follows_then_cons follows_run_check py_plan) auto

lemma confirm_follows [py_plan]: "follows [] (confirm live argv dir)"
  unfolding confirm_def
  by (intro follows_if follows_then_quiet follows_bind_quiet py_plan)

text \<open>Who confirmed a restore.\<close>

definition confirmed :: "path \<Rightarrow> string list \<Rightarrow> 'x host \<Rightarrow> bool" where
  "confirmed root argv h =
     (let typed_is = (\<lambda>w. case typed h of [] \<Rightarrow> False | l # ls \<Rightarrow> strip l = w) in
      if IS_PRODUCTION root h then typed_is ''stir-prod''
      else ''--yes'' \<in> set argv \<or> typed_is ''yes'')"

lemma confirm_refused:
  assumes "\<not> confirmed root argv h" and "live = IS_PRODUCTION root h"
  shows "\<exists>e h'. confirm live argv dir h = (Inl e, h') \<and> fs h' = fs h \<and> shown (trace h') = shown (trace h)"
  using assms
  by (auto simp: confirm_def confirmed_def input_py_def host_run Let_def split: list.splits)

lemma confirm_accepted:
  assumes "confirmed root argv h" and "live = IS_PRODUCTION root h"
  shows "\<exists>h'. confirm live argv dir h = (Inr (), h')"
  using assms
  by (auto simp: confirm_def confirmed_def input_py_def host_run Let_def split: list.splits)

lemma restore_body:
  assumes "restore_main X root (a # rest) h = (r, h')"
  shows "\<exists>cs ran_part todo. shown (trace h') = shown (trace h) @ cs
    \<and> restore_plan (IS_PRODUCTION root h) (resolve_under root a) = ran_part @ todo
    \<and> list_all2 (\<lambda>p c. p c) ran_part cs \<and> (isl r \<or> todo = [])"
proof -
  let ?live = "IS_PRODUCTION root h" and ?dir = "resolve_under root a"
  let ?m = "if \<not> exists_path (fs h) (?dir @ [''postgres.sql'']) \<or> \<not> exists_path (fs h) (?dir @ [''minio_data.tar.gz''])
      then raise (SystemExit (path_text ?dir @ '' is missing postgres.sql or minio_data.tar.gz''))
      else then_py (confirm ?live (a # rest) ?dir) (replace_data X root ?live ?dir)"
  have m: "?m h = (r, h')"
    using assms by (simp only: restore_main_def bind_py_def Let_def asks_run list.case prod.case sum.case)
  have "follows (restore_plan ?live ?dir) ?m"
    by (intro follows_if follows_raise follows_then_quiet confirm_follows replace_follows)
  then obtain cs qs where "shown (trace h') = shown (trace h) @ cs" "list_all2 (\<lambda>p c. p c) qs cs"
    and "if isl r then \<exists>todo. restore_plan ?live ?dir = qs @ todo else qs = restore_plan ?live ?dir"
    using m by (rule followsD)
  then show ?thesis by (metis append_Nil2)
qed

lemma restore_env: "keeps (same_env E old) (restore_main X root argv)"
proof -
  have "keeps (same_env E old) (confirm live argv dir)" for live argv dir
    unfolding confirm_def by (intro py_keeps)
  moreover have "keeps (same_env E old) (replace_data X root live dir)" for live dir
    unfolding replace_data_def by (intro py_keeps)
  ultimately show ?thesis
    unfolding restore_main_def Let_def
    by (cases argv) (auto intro!: keeps_bind keeps_asks keeps_raise keeps_if keeps_then)
qed

section \<open>Properties\<close>

text \<open>
  C8: Retention keeps exactly the newest runs: with a positive \<open>keep\<close>, pruning succeeds, the runs
  left are the last \<open>keep\<close> of the runs in order of name (all of them when there are fewer), and no
  path outside a pruned run changes.
\<close>

theorem prune_keeps_newest:
  assumes "is_dir (fs h) (backups_dir root)" and "0 < keep"
  shows "\<exists>h'. prune root keep h = (Inr (), h')
    \<and> sort (subdirs (fs h') (backups_dir root)) = last_n (nat keep) (sort (subdirs (fs h) (backups_dir root)))
    \<and> (\<forall>q. (\<forall>n\<in>set (all_but_last (nat keep) (sort (subdirs (fs h) (backups_dir root)))).
              \<not> below (backups_dir root @ [n]) q) \<longrightarrow> fget (fs h') q = fget (fs h) q)"
proof -
  let ?B = "backups_dir root" and ?runs = "sort (subdirs (fs h) (backups_dir root))"
  have stale: "stale_runs (fs h) ?B keep = all_but_last (nat keep) ?runs"
    using assms(2) by (simp add: stale_runs_def)
  then obtain h' where h': "prune root keep h = (Inr (), h')"
    and f: "fs h' = filter (\<lambda>(q, n). \<forall>m\<in>set (all_but_last (nat keep) ?runs). \<not> below (?B @ [m]) q) (fs h)"
    using prune_result [OF assms(1), of keep] by auto
  have "sort (subdirs (fs h') ?B) = last_n (nat keep) ?runs"
  proof (rule sorted_distinct_set_unique)
    show "sorted (last_n (nat keep) ?runs)" "distinct (last_n (nat keep) ?runs)"
      by (simp_all add: last_n_def sorted_wrt_drop)
    show "set (sort (subdirs (fs h') ?B)) = set (last_n (nat keep) ?runs)"
      using subdirs_filter [of _ "all_but_last (nat keep) ?runs" ?B "fs h"]
      by (auto simp: f set_last_n)
  qed simp_all
  with h' show ?thesis by (auto simp: f fget_filter)
qed

definition sample_files :: files where
  "sample_files =
     [([''.local'', ''backups''], Dir mode_755),
      ([''.local'', ''backups'', ''20260102T000000Z''], Dir mode_755),
      ([''.local'', ''backups'', ''20260101T000000Z''], Dir mode_755),
      ([''.local'', ''backups'', ''20260101T000000Z'', ''postgres.sql''], File mode_644 ''x''),
      ([''.local'', ''backups'', ''20260102T000000Z'', ''postgres.sql''], File mode_644 ''y''),
      ([''.local'', ''backups'', ''20260102T000000Z'', ''minio_data.tar.gz''], File mode_644 ''z''),
      ([''.local'', ''secrets'', ''postgres_password''], File mode_644 ''pw'')]"

definition sample_host :: "unit host" where
  "sample_host = \<lparr>fs = sample_files, env = Map.empty, now = 0, typed = [''no''], fresh = 0, page_errors = [], trace = [], ext = ()\<rparr>"

definition all_ok :: "unit exec" where
  "all_ok args inp e w = (Inr \<lparr>returncode = 0, stdout = [], stderr = [], took = 0\<rparr>, w)"

definition failing :: "unit exec" where
  "failing args inp e w = (Inr \<lparr>returncode = 1, stdout = [], stderr = [], took = 0\<rparr>, w)"

lemma sample_runs: "sort (subdirs sample_files (backups_dir [])) = [''20260101T000000Z'', ''20260102T000000Z'']"
  by (simp add: subdirs_def children_def sample_files_def backups_dir_def is_dir_def fget_def less_char_def)

theorem prune_keeps_newest_witness:
  "\<exists>h'. prune [] 1 sample_host = (Inr (), h')
     \<and> sort (subdirs (fs h') (backups_dir [])) = [''20260102T000000Z'']"
proof -
  have "is_dir (fs sample_host) (backups_dir [])"
    by (simp add: sample_host_def sample_files_def backups_dir_def is_dir_def fget_def)
  then show ?thesis
    using prune_keeps_newest [of sample_host "[]" 1]
    by (auto simp: sample_host_def sample_runs last_n_def)
qed

text \<open>
  The order of names the retention goes by is the order of time: for two UTC times with a
  four-digit year, the directory names compare as the times do.
\<close>

theorem stamp_order:
  assumes "calendar t" and "calendar u"
  shows "stamp t < stamp u \<longleftrightarrow> times t < times u"
  using assms by (rule stamp_times_less)

theorem stamp_order_witness:
  "stamp \<lparr>year = 2026, month = 9, day = 30, hour = 23, minute = 59, second = 59\<rparr>
     < stamp \<lparr>year = 2026, month = 10, day = 1, hour = 0, minute = 0, second = 0\<rparr>"
  by (subst stamp_order) (simp_all add: calendar_def times_def)


definition new_year :: utc_time where
  "new_year = \<lparr>year = 2026, month = 1, day = 1, hour = 0, minute = 0, second = 0\<rparr>"

lemma failing_backup: "\<exists>e h'. backup_main failing (\<lambda>_. new_year) [] 1 sample_host = (Inl e, h')"
proof -
  have n: "never (run_to_file failing args p :: (unit host, unit) py)" for args p
    unfolding never_def by (simp add: run_to_file_def run_io_def failing_def write_text_def set_content_def py_run)
  have "never (backup_main failing (\<lambda>_. new_year) [] 1)"
    unfolding backup_main_def
    by (rule never_later, rule never_later, rule never_later, rule never_later, rule never_first, rule n)
  then show ?thesis by (rule neverD)
qed


text \<open>
  C6: No command runs before the operator confirmed: on a production host that is typing the Compose
  project name \<open>stir-prod\<close> (\<open>--yes\<close> does not help), elsewhere \<open>--yes\<close> or typing \<open>yes\<close>. Without it, or
  with a file of the backup missing, restore raises, runs nothing and changes no file.
\<close>

theorem restore_needs_confirmation:
  assumes "\<not> confirmed root (a # rest) h
    \<or> \<not> (exists_path (fs h) (resolve_under root a @ [''postgres.sql''])
          \<and> exists_path (fs h) (resolve_under root a @ [''minio_data.tar.gz'']))"
  shows "\<exists>e h'. restore_main X root (a # rest) h = (Inl e, h')
    \<and> fs h' = fs h \<and> shown (trace h') = shown (trace h)"
proof -
  let ?live = "IS_PRODUCTION root h" and ?dir = "resolve_under root a"
  show ?thesis
  proof (cases "exists_path (fs h) (?dir @ [''postgres.sql'']) \<and> exists_path (fs h) (?dir @ [''minio_data.tar.gz''])")
    case True
    with assms have "\<not> confirmed root (a # rest) h" by simp
    then obtain e h' where "confirm ?live (a # rest) ?dir h = (Inl e, h')" "fs h' = fs h"
      "shown (trace h') = shown (trace h)"
      using confirm_refused [OF _ refl] by blast
    with True show ?thesis by (auto simp: restore_main_def host_run Let_def)
  next
    case False
    then show ?thesis by (auto simp: restore_main_def host_run Let_def)
  qed
qed

theorem restore_needs_confirmation_witness:
  "\<exists>e h'. restore_main all_ok [] [''.local/backups/20260102T000000Z''] sample_host = (Inl e, h')
     \<and> shown (trace h') = []"
proof -
  have "\<not> confirmed [] [''.local/backups/20260102T000000Z''] sample_host"
    by (simp add: confirmed_def IS_PRODUCTION_def exists_path_def fget_def sample_host_def sample_files_def
        production_marker_def Let_def strip_graphic graphic_def)
  then show ?thesis
    using restore_needs_confirmation [of "[]" "''.local/backups/20260102T000000Z''" "[]" sample_host all_ok]
    by (auto simp: sample_host_def)
qed


text \<open>
  C19: The volume a restore wipes is fixed by the production marker alone: on a host without it, a
  completed restore ran, under the Compose project the environment selected for every other command,
  the extraction that deletes and refills the volume of the project \<open>stir-dev\<close>.
\<close>

theorem restore_ignores_project:
  assumes "restore_main X root (a # rest) h = (Inr (), h')" and "\<not> IS_PRODUCTION root h"
    and "env h project_var = Some project" and "project \<noteq> ''stir-dev''" and "trace h = []"
  shows "\<exists>cmd. Ran cmd (Some project) \<in> set (trace h') \<and> cmd = extract_args False (resolve_under root a)
    \<and> ''stir-dev_minio_data:/data'' \<in> set cmd"
proof -
  let ?c = "extract_args False (resolve_under root a)"
  obtain cs where cs: "shown (trace h') = shown (trace h) @ cs"
    and l: "list_all2 (\<lambda>p c. p c) (restore_plan False (resolve_under root a)) cs"
    using restore_body [OF assms(1)] assms(2) by auto
  from l have "\<exists>e\<in>set cs. runs ?c e" by (auto simp: restore_plan_def list_all2_Cons1)
  then obtain e where e: "e \<in> set cs" "runs ?c e" by blast
  then obtain prj where "e = Ran ?c prj" by (auto simp: runs_Ran)
  with e(1) cs have new: "Ran ?c prj \<in> set (trace h')"
    by (metis Un_iff filter_is_subset set_append shown_def subsetD)
  with ran_project [OF restore_env assms(1) new] assms(3,5) have "Ran ?c (Some project) \<in> set (trace h')"
    by simp
  then show ?thesis by (simp add: extract_args_def volume_prefix_def)
qed

definition isolated_host :: "unit host" where
  "isolated_host = sample_host\<lparr>env := [project_var \<mapsto> ''iso'']\<rparr>"

lemma isolated_restore:
  "\<exists>h'. restore_main all_ok [] [''.local/backups/20260102T000000Z'', ''--yes''] isolated_host = (Inr (), h')"
proof -
  have r: "resolve_under [] ''.local/backups/20260102T000000Z'' = [''.local'', ''backups'', ''20260102T000000Z'']"
    by (simp add: resolve_under_def path_of_def)
  have live: "IS_PRODUCTION [] isolated_host = False" and fi: "fs isolated_host = sample_files"
    by (simp_all add: IS_PRODUCTION_def exists_path_def fget_def isolated_host_def sample_host_def sample_files_def
        production_marker_def)
  have f: "fget sample_files [''.local'', ''secrets'', ''postgres_password''] = Some (File mode_644 ''pw'')"
    "fget sample_files [''.local'', ''backups'', ''20260102T000000Z'', ''postgres.sql''] = Some (File mode_644 ''y'')"
    "fget sample_files [''.local'', ''backups'', ''20260102T000000Z'', ''minio_data.tar.gz''] = Some (File mode_644 ''z'')"
    by (simp_all add: fget_def sample_files_def)
  have ok: "run_check all_ok args inp h =
      (Inr \<lparr>returncode = 0, stdout = [], stderr = [], took = 0\<rparr>, h\<lparr>trace := trace h @ [Ran args (env h project_var)]\<rparr>)"
    for args inp and h :: "unit host"
    by (simp add: run_check_def run_io_def all_ok_def py_run elapsed_def)
  show ?thesis
    by (simp add: restore_main_def r live replace_data_def confirm_def host_run ok read_text_def
        exists_path_def f fi secret_file_def Let_def)
qed


theorem restore_ignores_project_witness:
  "\<exists>h' cmd. restore_main all_ok [] [''.local/backups/20260102T000000Z'', ''--yes''] isolated_host = (Inr (), h')
     \<and> Ran cmd (Some ''iso'') \<in> set (trace h') \<and> ''stir-dev_minio_data:/data'' \<in> set cmd"
proof -
  obtain h' where h': "restore_main all_ok [] [''.local/backups/20260102T000000Z'', ''--yes''] isolated_host = (Inr (), h')"
    using isolated_restore by blast
  have "\<not> IS_PRODUCTION [] isolated_host" "env isolated_host project_var = Some ''iso''" "trace isolated_host = []"
    by (simp_all add: IS_PRODUCTION_def exists_path_def fget_def isolated_host_def sample_host_def sample_files_def
        production_marker_def)
  then show ?thesis using restore_ignores_project [OF h', of "''iso''"] h' by auto
qed

end
