(* ===== verification/Deploy.thy ===== *)
theory Deploy
  imports Backup
begin

text \<open>
  Deploying a version (scripts/deploy.py): tagging the running images, build, recreation, the health
  wait, the smoke check and the rollback. \<open>live\<close> is the script's PROD flag, \<open>python\<close> is
  \<open>sys.executable\<close>. The health wait runs until the clock of the host passes the deadline.
\<close>

section \<open>Helpers of the script\<close>

definition BUILT_SERVICES :: "string list" where
  "BUILT_SERVICES = [''shell'', ''stir'', ''stir-ui'', ''ostris'', ''ostris-ui'', ''ledger'', ''ledger-ui'']"

definition deploy_run :: "'x exec \<Rightarrow> string list \<Rightarrow> bool \<Rightarrow> ('x host, proc) py" where
  "deploy_run X args check = (if check then run_check X args None else run_io X args None)"

definition capture :: "'x exec \<Rightarrow> string list \<Rightarrow> ('x host, string) py" where
  "capture X args = bind_py (run_io X args None) (\<lambda>p. ret (strip (stdout p)))"

definition image_name :: "'x exec \<Rightarrow> bool \<Rightarrow> string \<Rightarrow> ('x host, string) py" where
  "image_name X live service = capture X (COMPOSE live @ [''images'', ''-q'', service])"

definition previous_tag :: "string \<Rightarrow> string" where
  "previous_tag service = ''stir-rollback/'' @ service @ '':previous''"

fun tag_services :: "'x exec \<Rightarrow> bool \<Rightarrow> string list \<Rightarrow> ('x host, (string \<times> string) list) py" where
  "tag_services X live [] = ret []"
| "tag_services X live (service # rest) =
     bind_py (image_name X live service) (\<lambda>image_id.
       if image_id = [] then tag_services X live rest
       else then_py (bind_py (deploy_run X [''docker'', ''tag'', image_id, previous_tag service] False) (\<lambda>_. ret ()))
              (bind_py (tag_services X live rest) (\<lambda>tags. ret ((service, previous_tag service) # tags))))"

definition tag_current_as_previous :: "'x exec \<Rightarrow> bool \<Rightarrow> ('x host, (string \<times> string) list) py" where
  "tag_current_as_previous X live = tag_services X live BUILT_SERVICES"

section \<open>Health\<close>

definition status_ok :: "string \<Rightarrow> bool" where
  "status_ok status \<longleftrightarrow>
     \<not> contains ''starting'' status \<and> \<not> contains ''unhealthy'' status \<and> \<not> contains ''Exit'' status"

text \<open>
  The lazy \<open>all(...)\<close> over the rows: a row without a tab cannot be unpacked, but only the rows up to the
  first bad status are looked at.
\<close>

fun all_rows_ok :: "string list \<Rightarrow> exn + bool" where
  "all_rows_ok [] = Inr True"
| "all_rows_ok (line # rest) =
     (case cut_at (CHR 0x09) line of
        None \<Rightarrow> Inl (ValueError ''not enough values to unpack (expected 2, got 1)'')
      | Some (name, status) \<Rightarrow> if status_ok status then all_rows_ok rest else Inr False)"

definition health_rows :: "string \<Rightarrow> string list" where
  "health_rows ps = filter (\<lambda>line. strip line \<noteq> []) (splitlines ps)"

definition ps_format :: string where
  "ps_format = ''{{.Name}}'' @ [CHR 0x09] @ ''{{.Status}}''"

definition healthy :: "'x exec \<Rightarrow> bool \<Rightarrow> ('x host, bool) py" where
  "healthy X live =
     bind_py (capture X (COMPOSE live @ [''ps'', ''--format'', ps_format])) (\<lambda>ps.
       if health_rows ps = [] then ret False else lift_py (all_rows_ok (health_rows ps)))"

lemma healthy_clock: "healthy X live h = (r, h') \<Longrightarrow> now h \<le> now h'"
  using run_io_state [of X "COMPOSE live @ [''ps'', ''--format'', ps_format]" None h]
  by (auto simp: healthy_def capture_def py_run split: prod.splits sum.splits if_splits)

function wait_loop :: "'x exec \<Rightarrow> bool \<Rightarrow> int \<Rightarrow> ('x host, bool) py" where
  "wait_loop X live deadline h =
     (if now h < deadline then
        (case healthy X live h of
           (Inl e, h') \<Rightarrow> (Inl e, h')
         | (Inr ok, h') \<Rightarrow>
             if ok then (Inr True, h')
             else wait_loop X live deadline (snd (sleep 5 h')))
      else (Inr False, h))"
  by pat_completeness auto
termination
  by (relation "measure (\<lambda>(X, live, deadline, h). nat (deadline - now h))")
    (auto simp: sleep_def dest!: sym [of _ "healthy _ _ _"] healthy_clock)

declare wait_loop.simps [simp del]

definition wait_healthy :: "'x exec \<Rightarrow> bool \<Rightarrow> int \<Rightarrow> ('x host, bool) py" where
  "wait_healthy X live timeout = bind_py (asks (\<lambda>h. now h + timeout)) (wait_loop X live)"

section \<open>Rollback and main\<close>

definition rollback_target :: "bool \<Rightarrow> string \<Rightarrow> string" where
  "rollback_target live service = (if \<not> live then ''stir-main-'' @ service else ''stir-prod-'' @ service)"

definition retag_args :: "bool \<Rightarrow> string \<times> string \<Rightarrow> string list" where
  "retag_args live st = [''docker'', ''tag'', snd st, rollback_target live (fst st)]"

definition no_build_args :: "bool \<Rightarrow> string list" where
  "no_build_args live = COMPOSE live @ [''up'', ''-d'', ''--no-build'']"

definition rollback :: "'x exec \<Rightarrow> bool \<Rightarrow> (string \<times> string) list \<Rightarrow> ('x host, unit) py" where
  "rollback X live previous_tags =
     then_py (print_py ''!!! Deploy unhealthy - rolling back to the previous images.'')
     (then_py (for_py (\<lambda>st. bind_py (deploy_run X (retag_args live st) False) (\<lambda>_. ret ())) previous_tags)
     (then_py (deploy_run X (no_build_args live) True)
     (bind_py (wait_healthy X live 300) (\<lambda>ok.
       if ok then print_py ''Rollback complete - previous version is healthy again.''
       else print_py ''Rollback did not reach healthy either - manual intervention required. See `python scripts/status.py`.''))))"

definition build_args :: "bool \<Rightarrow> string list" where
  "build_args live = COMPOSE live @ [''build'']"

definition up_args :: "bool \<Rightarrow> string list" where
  "up_args live = COMPOSE live @ [''up'', ''-d'']"

definition unhealthy_exit :: exn where
  "unhealthy_exit = SystemExit ''Deploy FAILED: services did not reach healthy. Rolled back where possible.''"

definition smoke_exit :: exn where
  "smoke_exit = SystemExit ''Deploy FAILED: post-deploy smoke check failed. Rolled back where possible.''"

definition check_release :: "'x exec \<Rightarrow> string \<Rightarrow> bool \<Rightarrow> (string \<times> string) list \<Rightarrow> ('x host, unit) py" where
  "check_release X python live previous_tags =
     then_py (print_py ''Waiting for health...'')
     (bind_py (wait_healthy X live 300) (\<lambda>ok.
       if \<not> ok then then_py (rollback X live previous_tags) (raise unhealthy_exit)
       else
         then_py (print_py ''Healthy. Running a non-destructive smoke check...'')
         (bind_py (run_io X [python, ''scripts/smoke.py''] None) (\<lambda>smoke.
           if returncode smoke \<noteq> 0 then then_py (rollback X live previous_tags) (raise smoke_exit)
           else print_py ''Deploy PASSED: services healthy, smoke check green.''))))"

text \<open>Everything before the release check, up to the recreated services; the result is the tags to roll back to.\<close>

definition release :: "'x exec \<Rightarrow> bool \<Rightarrow> ('x host, (string \<times> string) list) py" where
  "release X live =
     then_py (print_py (''Deploying to '' @ (if live then ''PRODUCTION'' else ''development'') @ ''...''))
     (bind_py (tag_current_as_previous X live) (\<lambda>previous_tags.
     then_py (print_py ''Building...'')
     (then_py (deploy_run X (build_args live) True)
     (then_py (print_py ''Recreating services (migrations run automatically as part of the dependency chain)...'')
     (then_py (deploy_run X (up_args live) True) (ret previous_tags))))))"

definition deploy_main :: "'x exec \<Rightarrow> string \<Rightarrow> path \<Rightarrow> bool \<Rightarrow> ('x host, unit) py" where
  "deploy_main X python root live =
     bind_py (asks (IS_PRODUCTION root)) (\<lambda>marker.
       if live \<and> \<not> marker
       then raise (SystemExit ''--prod was passed but .local/production does not exist on this host - refusing.'')
       else bind_py (release X live) (check_release X python live))"

section \<open>The wait\<close>

lemma healthy_step: "healthy X live h = (r, h') \<Longrightarrow> length (shown (trace h')) = Suc (length (shown (trace h)))"
  using run_io_state [of X "COMPOSE live @ [''ps'', ''--format'', ps_format]" None h]
  by (auto simp: healthy_def capture_def py_run split: prod.splits sum.splits if_splits)

interpretation wait: polling "healthy X live" "wait_loop X live" 5
  for X live
  by unfold_locales (rule wait_loop.simps, rule healthy_clock, assumption, rule healthy_step, assumption, simp)

lemma wait_healthy_run: "wait_healthy X live t h = wait_loop X live (now h + t) h"
  by (simp add: wait_healthy_def bind_asks)

text \<open>What the rows say.\<close>

lemma all_rows_ok_table:
  "\<forall>(n, s)\<in>set rows. CHR 0x09 \<notin> set n \<Longrightarrow>
     all_rows_ok (map (\<lambda>(n, s). n @ CHR 0x09 # s) rows) = Inr (\<forall>(n, s)\<in>set rows. status_ok s)"
proof (induction rows)
  case Nil
  then show ?case by simp
next
  case (Cons row rows)
  obtain n s where row: "row = (n, s)" by (cases row)
  with Cons.prems have "cut_at (CHR 0x09) (n @ CHR 0x09 # s) = Some (n, s)" by (simp add: cut_at_Some)
  with Cons row show ?case by auto
qed

section \<open>Which commands run\<close>

definition not_no_build :: "bool \<Rightarrow> event \<Rightarrow> bool" where
  "not_no_build live e \<longleftrightarrow> \<not> runs (no_build_args live) e"

lemma no_build_other:
  "no_build_args live \<noteq> build_args live" "no_build_args live \<noteq> up_args live"
  "no_build_args live \<noteq> COMPOSE live @ [''images'', ''-q'', s]"
  "no_build_args live \<noteq> COMPOSE live @ [''ps'', ''--format'', f]"
  "no_build_args live \<noteq> [''docker'', ''tag'', i, t]" "no_build_args live \<noteq> [python, script]"
  by (auto simp: no_build_args_def build_args_def up_args_def COMPOSE_def)

lemma logs_tag_services: "logs (not_no_build live) (tag_services X live ss)"
proof (induction ss)
  case Nil
  then show ?case by (simp add: logs_ret)
next
  case (Cons s ss)
  then show ?case
    unfolding tag_services.simps image_name_def capture_def deploy_run_def if_False
    by (intro logs_bind logs_if logs_then logs_run_io py_logs)
      (auto simp: not_no_build_def no_build_other dest!: no_build_other [THEN not_sym, THEN notE])
qed

lemma not_no_build_args:
  "args \<noteq> no_build_args live \<Longrightarrow> not_no_build live (Ran args prj)"
  "not_no_build live (Printed s)" "not_no_build live (Slept n)"
  by (auto simp: not_no_build_def)

lemma logs_release: "logs (not_no_build live) (release X live)"
  unfolding release_def tag_current_as_previous_def deploy_run_def if_True
  by (intro logs_then logs_bind logs_tag_services logs_run_check py_logs not_no_build_args no_build_other [THEN not_sym])

definition release_error :: "bool \<Rightarrow> exn \<Rightarrow> bool" where
  "release_error live e \<longleftrightarrow> missing_program e
     \<or> (\<exists>c. e = CalledProcessError (build_args live) c \<or> e = CalledProcessError (up_args live) c)"

definition check_error :: "bool \<Rightarrow> exn \<Rightarrow> bool" where
  "check_error live e \<longleftrightarrow> missing_program e \<or> (\<exists>m. e = ValueError m)
     \<or> (\<exists>c. e = CalledProcessError (no_build_args live) c)"

lemma raises_tag_services: "sane X \<Longrightarrow> raises missing_program (tag_services X live ss)"
proof (induction ss)
  case Nil
  then show ?case by (simp add: raises_ret)
next
  case (Cons s ss)
  then show ?case
    unfolding tag_services.simps image_name_def capture_def deploy_run_def if_False
    by (intro py_raises raises_run_io) auto
qed

lemma raises_release:
  assumes "sane X"
  shows "raises (release_error live) (release X live)"
proof -
  have t: "raises (release_error live) (tag_services X live BUILT_SERVICES)"
    using raises_tag_services [OF assms] unfolding raises_def release_error_def by blast
  show ?thesis
    unfolding release_def tag_current_as_previous_def deploy_run_def if_True
    by (intro py_raises t raises_run_check assms) (auto simp: release_error_def)
qed

lemma all_rows_error: "all_rows_ok rows = Inl e \<Longrightarrow> \<exists>m. e = ValueError m"
  by (induction rows) (auto split: option.splits if_splits)

lemma raises_healthy: "sane X \<Longrightarrow> raises (check_error live) (healthy X live)"
  unfolding healthy_def capture_def
  by (intro py_raises raises_run_io) (auto simp: check_error_def raises_def lift_py_def dest: all_rows_error)

lemma raises_wait: "sane X \<Longrightarrow> raises (check_error live) (wait_healthy X live t)"
  using raises_healthy [of X live] wait.loop_result [of X live]
  unfolding raises_def wait_healthy_run by (fastforce split: sum.splits)

lemma raises_rollback:
  assumes "sane X"
  shows "raises (check_error live) (rollback X live tags)"
proof -
  have "raises (check_error live) (run_check X (no_build_args live) None)"
    using assms by (intro raises_run_check) (auto simp: check_error_def)
  moreover have "raises (check_error live) (run_io X args None)" for args
    using assms by (intro raises_run_io) (auto simp: check_error_def)
  ultimately show ?thesis
    unfolding rollback_def deploy_run_def if_True if_False
    by (intro py_raises raises_wait assms)
qed

text \<open>A rollback that ends well has run \<open>up\<close> without a build.\<close>

lemma logs_healthy: "(\<And>prj. P (Ran (COMPOSE live @ [''ps'', ''--format'', ps_format]) prj)) \<Longrightarrow> logs P (healthy X live)"
  unfolding healthy_def capture_def by (intro logs_bind logs_if logs_run_io py_logs)

lemma wait_appends:
  assumes "wait_healthy X live t h = (r, h')"
  shows "set (trace h) \<subseteq> set (trace h')"
proof -
  have "keeps (\<lambda>g. set (trace h) \<subseteq> set (trace g)) (healthy X live)"
    by (rule logs_keeps [OF logs_healthy [of "\<lambda>_. True"]]) simp
  moreover have "keeps (\<lambda>g. set (trace h) \<subseteq> set (trace g)) (sleep 5)"
    by (rule logs_keeps [OF logs_sleep [of "\<lambda>_. True"]]) simp
  ultimately have "keeps (\<lambda>g. set (trace h) \<subseteq> set (trace g)) (wait_loop X live d)" for d
    by (rule wait.loop_keeps)
  with assms show ?thesis unfolding wait_healthy_run by (metis keepsE subset_refl)
qed

lemma rollback_ran:
  assumes "rollback X live tags h = (Inr u, h')"
  shows "\<exists>e\<in>set (trace h'). runs (no_build_args live) e"
proof -
  from assms obtain h1 h2 p ok h3 where up: "run_check X (no_build_args live) None h1 = (Inr p, h2)"
    and w: "wait_healthy X live 300 h2 = (Inr ok, h3)"
    and l: "(if ok then print_py ''Rollback complete - previous version is healthy again.''
       else print_py ''Rollback did not reach healthy either - manual intervention required. See `python scripts/status.py`.'') h3 = (Inr u, h')"
    by (auto simp: rollback_def deploy_run_def run_ok)
  have "Ran (no_build_args live) (env h1 project_var) \<in> set (trace h2)"
    using run_check_state [OF up] by simp
  with wait_appends [OF w] l show ?thesis by (cases ok) (force simp: print_run)+
qed

section \<open>Properties\<close>

text \<open>
  C18: The health wait ends: in \<open>timeout\<close> seconds it makes at most one check per started pause of five
  seconds, it answers True only right after a check before the deadline that said healthy, and False
  only once the deadline has passed.
\<close>

theorem wait_healthy_bounded:
  assumes "wait_healthy X live timeout h = (r, h')"
  shows "length (shown (trace h')) \<le> length (shown (trace h)) + nat ((timeout + 4) div 5)
    \<and> (r = Inr True \<longrightarrow> (\<exists>h1. now h1 < now h + timeout \<and> healthy X live h1 = (Inr True, h')))
    \<and> (r = Inr False \<longrightarrow> now h + timeout \<le> now h')"
  using wait.loop_steps [of X live "now h + timeout" h r h'] wait.loop_result [of X live "now h + timeout" h r h'] assms
  unfolding wait_healthy_run by auto

definition all_up :: "unit exec" where
  "all_up args inp e w =
     (Inr \<lparr>returncode = 0,
           stdout = (if args = COMPOSE False @ [''ps'', ''--format'', ps_format] then ''stir'' @ CHR 0x09 # ''Up'' else []),
           stderr = [], took = 0\<rparr>, w)"

definition dev_host :: "unit host" where
  "dev_host = \<lparr>fs = [], env = Map.empty, now = 0, typed = [], fresh = 0, page_errors = [], trace = [], ext = ()\<rparr>"

lemma all_up_healthy:
  "healthy all_up False h =
     (Inr True, h\<lparr>trace := trace h @ [Ran (COMPOSE False @ [''ps'', ''--format'', ps_format]) (env h project_var)]\<rparr>)"
proof -
  let ?row = "''stir'' @ CHR 0x09 # ''Up''"
  have r: "health_rows (strip ?row) = [?row]" by code_simp
  have ok: "all_rows_ok [?row] = Inr True" by code_simp
  show ?thesis using r ok
    by (simp add: healthy_def capture_def all_up_def run_io_def py_run elapsed_def)
qed

lemma all_up_wait:
  "0 < t \<Longrightarrow> wait_healthy all_up False t h =
     (Inr True, h\<lparr>trace := trace h @ [Ran (COMPOSE False @ [''ps'', ''--format'', ps_format]) (env h project_var)]\<rparr>)"
  by (simp add: wait_healthy_run wait_loop.simps all_up_healthy)

theorem wait_healthy_bounded_witness:
  "\<exists>h'. wait_healthy all_up False 300 dev_host = (Inr True, h') \<and> length (shown (trace h')) \<le> 60"
proof -
  obtain h' where w: "wait_healthy all_up False 300 dev_host = (Inr True, h')"
    using all_up_wait [of 300 dev_host] by auto
  from wait_healthy_bounded [OF w] w show ?thesis by (auto simp: dev_host_def)
qed

lemma deploy_main_run:
  assumes "deploy_main X python root live h = (r, h')" and "\<not> live \<or> IS_PRODUCTION root h"
  shows "bind_py (release X live) (check_release X python live) h = (r, h')"
  using assms by (simp add: deploy_main_def bind_asks split: if_splits)

lemma wait_logs: "logs (not_no_build live) (wait_healthy X live t)"
proof -
  have "logs (not_no_build live) (healthy X live)"
    by (intro logs_healthy not_no_build_args no_build_other [THEN not_sym])
  then have "logs (not_no_build live) (wait_loop X live d)" for d
    by (rule wait.loop_logs) (simp add: not_no_build_def)
  then show ?thesis unfolding logs_def wait_healthy_run by blast
qed


lemma all_up_deploy: "\<exists>h'. deploy_main all_up ''python'' [] False dev_host = (Inr (), h')"
proof -
  have run: "run_io all_up args inp h =
      (Inr \<lparr>returncode = 0,
         stdout = (if args = COMPOSE False @ [''ps'', ''--format'', ps_format] then ''stir'' @ CHR 0x09 # ''Up'' else []),
         stderr = [], took = 0\<rparr>, h\<lparr>trace := trace h @ [Ran args (env h project_var)]\<rparr>)"
    for args inp and h :: "unit host"
    by (simp add: run_io_def all_up_def elapsed_def)
  have tags: "\<exists>h'. tag_services all_up False ss h = (Inr [], h')" for ss h
  proof (induction ss arbitrary: h)
    case Nil
    then show ?case by (simp add: ret_def)
  next
    case (Cons s ss)
    have "strip [] = []" by code_simp
    with Cons show ?case by (simp add: image_name_def capture_def py_run run COMPOSE_def)
  qed
  from tags [of BUILT_SERVICES "dev_host\<lparr>trace := [Printed ''Deploying to development...'']\<rparr>"] show ?thesis
    by (auto simp: deploy_main_def release_def check_release_def tag_current_as_previous_def deploy_run_def
        run_check_def host_run run all_up_wait dev_host_def COMPOSE_def)
qed


text \<open>How a failure of the release check comes about.\<close>

lemma check_release_exit:
  assumes "sane X" and "check_release X python live tags h = (Inl (SystemExit m), h')"
  shows "\<exists>e\<in>set (trace h'). runs (no_build_args live) e"
proof -
  have q: "\<not> missing_program (SystemExit m)" "\<not> check_error live (SystemExit m)"
    by (auto simp: missing_program_def check_error_def)
  have nw: "wait_healthy X live 300 g \<noteq> (Inl (SystemExit m), g')" for g g'
    using raisesD [OF raises_wait [OF assms(1)]] q by blast
  have nr: "run_io X args None g \<noteq> (Inl (SystemExit m), g')" for args g g'
    using raisesD [OF raises_run_io [OF assms(1), of missing_program]] q by blast
  have rb: "\<exists>e\<in>set (trace g'). runs (no_build_args live) e"
    if "then_py (rollback X live tags) (raise x) g = (Inl (SystemExit m), g')" for x g g'
  proof (cases "rollback X live tags g")
    case (Pair r g1)
    show ?thesis
    proof (cases r)
      case (Inl e)
      with that Pair have "rollback X live tags g = (Inl (SystemExit m), g')" by (simp add: then_py_def bind_py_def)
      then show ?thesis using raisesD [OF raises_rollback [OF assms(1)]] q by blast
    next
      case (Inr u)
      with that Pair have "g' = g1" by (simp add: then_py_def bind_py_def raise_def)
      with Pair Inr show ?thesis using rollback_ran by blast
    qed
  qed
  from assms(2) show ?thesis
    unfolding check_release_def then_py_def [of "print_py _"]
    by (auto simp: bind_py_def print_run nw nr split: prod.splits sum.splits if_splits intro: rb)
qed

text \<open>
  C5: A deployment that started and ends with its own failure message (unhealthy services, or a
  failed smoke check) has run the rollback's \<open>up -d --no-build\<close>.
\<close>

theorem deploy_failure_rolls_back:
  assumes "sane X" and "\<not> live \<or> IS_PRODUCTION root h"
    and "deploy_main X python root live h = (Inl (SystemExit m), h')"
  shows "\<exists>e\<in>set (trace h'). runs (no_build_args live) e"
proof -
  from deploy_main_run [OF assms(3,2)]
  have b: "bind_py (release X live) (check_release X python live) h = (Inl (SystemExit m), h')" .
  have "release X live h \<noteq> (Inl (SystemExit m), h')"
    using raisesD [OF raises_release [OF assms(1)]] by (force simp: release_error_def missing_program_def)
  with b obtain tags h1 where "check_release X python live tags h1 = (Inl (SystemExit m), h')"
    by (auto simp: bind_py_def split: prod.splits sum.splits)
  with assms(1) show ?thesis by (rule check_release_exit)
qed

text \<open>
  A failed \<open>build\<close> or a failed \<open>up -d\<close> ends the deployment with CalledProcessError and no rollback:
  \<open>up -d --no-build\<close> never ran.
\<close>

theorem deploy_build_failure_keeps_broken_state:
  assumes "sane X" and "args = build_args live \<or> args = up_args live"
    and "deploy_main X python root live h = (Inl (CalledProcessError args c), h')"
  shows "\<exists>es. trace h' = trace h @ es \<and> list_all (not_no_build live) es"
proof -
  let ?e = "CalledProcessError args c"
  have live: "\<not> live \<or> IS_PRODUCTION root h"
    using assms(3) by (auto simp: deploy_main_def bind_asks raise_def split: if_splits)
  have "\<not> check_error live ?e"
    using assms(2) no_build_other(1,2) [of live] by (auto simp: check_error_def missing_program_def)
  moreover have "raises (\<lambda>e. check_error live e \<or> (\<exists>m. e = SystemExit m)) (check_release X python live tags)" for tags
  proof -
    have up: "raises (\<lambda>e. check_error live e \<or> (\<exists>m. e = SystemExit m)) m'"
      if "raises (check_error live) m'" for m' :: "('a host, 'b) py"
      using that unfolding raises_def by blast
    show ?thesis
      unfolding check_release_def unhealthy_exit_def smoke_exit_def
      by (intro py_raises raises_raise up raises_wait raises_rollback raises_run_io assms(1))
        (auto simp: check_error_def)
  qed
  ultimately have "check_release X python live tags g \<noteq> (Inl ?e, h')" for tags g
    using raisesD [of _ "check_release X python live tags" g ?e h'] by blast
  moreover have "bind_py (release X live) (check_release X python live) h = (Inl ?e, h')"
    using deploy_main_run [OF assms(3) live] .
  ultimately have "release X live h = (Inl ?e, h')"
    by (auto simp: bind_py_def split: prod.splits sum.splits)
  then obtain es where "trace h' = trace h @ es" "list_all (not_no_build live) es"
    by (rule logsE [OF logs_release])
  then show ?thesis by blast
qed

text \<open>A docker without services whose every command takes 400 seconds, and one whose build fails.\<close>

definition slow_docker :: "int \<Rightarrow> nat \<Rightarrow> unit exec" where
  "slow_docker build_status n args inp e w =
     (Inr \<lparr>returncode = (if args = build_args False then build_status else 0), stdout = [], stderr = [], took = n\<rparr>, w)"

lemma sane_slow: "sane (slow_docker c n)"
  by (simp add: sane_def slow_docker_def)

lemma slow_run:
  "run_io (slow_docker c n) args inp h =
     (Inr \<lparr>returncode = (if args = build_args False then c else 0), stdout = [], stderr = [], took = n\<rparr>,
      h\<lparr>now := now h + int n, trace := trace h @ [Ran args (env h project_var)]\<rparr>)"
  by (simp add: run_io_def slow_docker_def elapsed_def)

lemma slow_tags: "\<exists>h'. tag_services (slow_docker c n) False ss h = (Inr [], h')"
proof (induction ss arbitrary: h)
  case Nil
  then show ?case by (simp add: ret_def)
next
  case (Cons s ss)
  have "strip [] = []" by code_simp
  with Cons show ?case by (simp add: image_name_def capture_def py_run slow_run)
qed

lemma slow_healthy: "\<exists>h'. healthy (slow_docker c 400) False h = (Inr False, h') \<and> now h' = now h + 400"
proof -
  have "strip [] = []" "health_rows [] = []" by code_simp+
  then show ?thesis by (simp add: healthy_def capture_def py_run slow_run)
qed

lemma slow_wait: "\<exists>h'. wait_healthy (slow_docker c 400) False 300 h = (Inr False, h')"
proof -
  obtain h' where "healthy (slow_docker c 400) False h = (Inr False, h')" "now h' = now h + 400"
    using slow_healthy by blast
  then show ?thesis by (simp add: wait_healthy_run wait_loop.simps sleep_def)
qed

lemma slow_deploy: "\<exists>m h'. deploy_main (slow_docker 0 400) ''python'' [] False dev_host = (Inl (SystemExit m), h')"
proof -
  have r: "\<exists>h'. rollback (slow_docker 0 400) False [] h = (Inr (), h')" for h
    using slow_wait [of 0] by (auto simp: rollback_def deploy_run_def run_check_def host_run slow_run split: prod.splits sum.splits)
      (metis Inr_inject Inr_not_Inl prod.inject)+
  have k: "\<exists>m h'. check_release (slow_docker 0 400) ''python'' False [] h = (Inl (SystemExit m), h')" for h
  proof -
    obtain g where w: "wait_healthy (slow_docker 0 400) False 300 (h\<lparr>trace := trace h @ [Printed ''Waiting for health...'']\<rparr>) = (Inr False, g)"
      using slow_wait by blast
    obtain g' where "rollback (slow_docker 0 400) False [] g = (Inr (), g')" using r by blast
    with w show ?thesis by (simp add: check_release_def host_run unhealthy_exit_def)
  qed
  have rel: "\<exists>h'. release (slow_docker 0 400) False dev_host = (Inr [], h')"
    using slow_tags [of 0 400 BUILT_SERVICES "dev_host\<lparr>trace := [Printed ''Deploying to development...'']\<rparr>"]
    by (auto simp: release_def tag_current_as_previous_def deploy_run_def run_check_def host_run slow_run dev_host_def)
  then obtain h' where "release (slow_docker 0 400) False dev_host = (Inr [], h')" by blast
  with k [of h'] show ?thesis by (simp add: deploy_main_def bind_asks bind_run_Inr)
qed

theorem deploy_failure_rolls_back_witness:
  "\<exists>m h'. deploy_main (slow_docker 0 400) ''python'' [] False dev_host = (Inl (SystemExit m), h')
     \<and> (\<exists>e\<in>set (trace h'). runs (no_build_args False) e)"
proof -
  obtain m h' where d: "deploy_main (slow_docker 0 400) ''python'' [] False dev_host = (Inl (SystemExit m), h')"
    using slow_deploy by blast
  with deploy_failure_rolls_back [OF sane_slow _ d] show ?thesis by blast
qed

lemma failing_build:
  "\<exists>h'. deploy_main (slow_docker 1 0) ''python'' [] False dev_host = (Inl (CalledProcessError (build_args False) 1), h')"
  using slow_tags [of 1 0 BUILT_SERVICES "dev_host\<lparr>trace := [Printed ''Deploying to development...'']\<rparr>"]
  by (auto simp: deploy_main_def release_def tag_current_as_previous_def deploy_run_def run_check_def host_run slow_run
      dev_host_def)

theorem deploy_build_failure_keeps_broken_state_witness:
  "\<exists>h' es. deploy_main (slow_docker 1 0) ''python'' [] False dev_host = (Inl (CalledProcessError (build_args False) 1), h')
     \<and> trace h' = trace dev_host @ es \<and> list_all (not_no_build False) es"
proof -
  obtain h' where d: "deploy_main (slow_docker 1 0) ''python'' [] False dev_host
      = (Inl (CalledProcessError (build_args False) 1), h')"
    using failing_build by blast
  with deploy_build_failure_keeps_broken_state [OF sane_slow _ d] show ?thesis by blast
qed

end
