(* ===== verification/ComposeGuard.thy ===== *)
theory ComposeGuard
  imports Host
begin

text \<open>
  The guard of the test fixtures (scripts/multitenant.py): which Compose project the helpers may
  touch, the check of the container they would operate on, and the SQL helper behind them. A locale
  states what a guard promises the commands it precedes; the helpers of
  scripts/backup_restore_e2e.py use the same guard.
\<close>

section \<open>The contract of a guard\<close>

locale project_guard =
  fixes guard :: "('x host, string) py"
    and allowed :: "string \<Rightarrow> bool"
  assumes guard_allowed: "guard h = (Inr p, h') \<Longrightarrow> allowed p"
    and guard_quiet: "guard h = (r, h') \<Longrightarrow> shown (trace h') = shown (trace h)"
begin

text \<open>What runs behind a guard runs with an allowed project, or not at all.\<close>

lemma guarded_follows:
  assumes "\<And>p. allowed p \<Longrightarrow> follows (ps p) (body p)" and "bind_py guard body h = (r, h')"
  shows "\<exists>cs. shown (trace h') = shown (trace h) @ cs
    \<and> (cs = [] \<or> (\<exists>p qs rest. allowed p \<and> ps p = qs @ rest \<and> list_all2 (\<lambda>q c. q c) qs cs))"
proof -
  obtain g h1 where g: "guard h = (g, h1)" by (cases "guard h")
  note quiet = guard_quiet [OF g]
  show ?thesis
  proof (cases g)
    case (Inl e)
    with g assms(2) quiet show ?thesis by (auto simp: bind_py_def)
  next
    case (Inr p)
    with g assms(2) have b: "body p h1 = (r, h')" by (simp add: bind_py_def)
    have p: "allowed p" using g Inr guard_allowed by blast
    from assms(1) [OF p] b obtain cs qs where "shown (trace h') = shown (trace h1) @ cs"
      "list_all2 (\<lambda>q c. q c) qs cs" "if isl r then \<exists>rest. ps p = qs @ rest else qs = ps p"
      by (rule followsD)
    with p quiet show ?thesis by (cases "isl r") (force intro!: exI [of _ cs])+
  qed
qed

end

section \<open>compose_project\<close>

definition stir_project_var :: string where
  "stir_project_var = ''STIR_COMPOSE_PROJECT''"

definition getenv :: "string \<Rightarrow> string \<Rightarrow> 'x host \<Rightarrow> string" where
  "getenv k d h = (case env h k of None \<Rightarrow> d | Some v \<Rightarrow> v)"

definition setenv :: "string \<Rightarrow> string \<Rightarrow> ('x host, unit) py" where
  "setenv k v = modify (\<lambda>h. h\<lparr>env := (env h)(k \<mapsto> v)\<rparr>)"

definition compose_project :: "('x host, string) py" where
  "compose_project =
     bind_py (asks (\<lambda>h. strip (getenv stir_project_var [] h))) (\<lambda>project.
       if project = [] then raise (ComposeSafetyError ''STIR_COMPOSE_PROJECT is not set'')
       else if project = ''stir-dev'' then raise (ComposeSafetyError ''STIR_COMPOSE_PROJECT is set to stir-dev'')
       else then_py (setenv project_var project) (ret project))"

section \<open>verify_isolated_container\<close>

definition ps_args :: "string \<Rightarrow> string \<Rightarrow> string list" where
  "ps_args project service = [''docker'', ''compose'', ''-p'', project, ''ps'', ''-q'', service]"

definition inspect_args :: "string \<Rightarrow> string list" where
  "inspect_args cid = [''docker'', ''inspect'', cid, ''--format'',
     ''{{index .Config.Labels \"com.docker.compose.project\"}}'']"

definition verify_isolated_container :: "'x exec \<Rightarrow> string \<Rightarrow> string \<Rightarrow> ('x host, string) py" where
  "verify_isolated_container X project service =
     bind_py (run_io X (ps_args project service) None) (\<lambda>ps.
       let container_id = strip (stdout ps) in
       if container_id = [] \<or> CHR 0x0A \<in> set container_id
       then raise (ComposeSafetyError ''Expected exactly one running container'')
       else bind_py (run_io X (inspect_args container_id) None) (\<lambda>inspect.
         let actual_project = strip (stdout inspect) in
         if actual_project \<noteq> project then raise (ComposeSafetyError ''wrong compose project label'')
         else if actual_project = ''stir-dev'' then raise (ComposeSafetyError ''belongs to project stir-dev'')
         else ret container_id))"

section \<open>sql\<close>

definition runtime_secret :: "path \<Rightarrow> path" where
  "runtime_secret root = root @ [''.local'', ''secrets'', ''runtime_password'']"

definition sql_args :: "string \<Rightarrow> string option \<Rightarrow> string list" where
  "sql_args project password =
     [''docker'', ''compose'', ''-p'', project, ''exec'', ''-T'']
     @ (case password of None \<Rightarrow> [] | Some pw \<Rightarrow> [''-e'', ''PGPASSWORD='' @ pw])
     @ [''postgres'', ''psql'', ''-X'', ''-At'', ''-v'', ''ON_ERROR_STOP=1'', ''-U'',
        case password of None \<Rightarrow> ''postgres'' | Some pw \<Rightarrow> ''idax_backend'', ''-d'', ''idax'']
     @ (case password of None \<Rightarrow> [] | Some pw \<Rightarrow> [''-h'', ''postgres''])"

definition sql_body :: "'x exec \<Rightarrow> path \<Rightarrow> string \<Rightarrow> bool \<Rightarrow> string \<Rightarrow> ('x host, string) py" where
  "sql_body X root statement runtime project =
     then_py (verify_isolated_container X project ''postgres'')
     (bind_py (if runtime then bind_py (read_text (runtime_secret root)) (\<lambda>s. ret (Some (strip s))) else ret None)
       (\<lambda>password.
         bind_py (run_io X (sql_args project password) (Some statement)) (\<lambda>result.
           if returncode result \<noteq> 0
           then raise (AssertionError (''SQL fixture/proof failed: '' @ take 400 (stderr result)))
           else ret (strip (stdout result)))))"

definition sql :: "'x exec \<Rightarrow> path \<Rightarrow> string \<Rightarrow> bool \<Rightarrow> ('x host, string) py" where
  "sql X root statement runtime = bind_py compose_project (sql_body X root statement runtime)"

section \<open>Lemmas\<close>

definition isolated :: "string \<Rightarrow> bool" where
  "isolated p \<longleftrightarrow> p \<noteq> [] \<and> p \<noteq> ''stir-dev''"

lemma compose_project_run:
  "compose_project h =
     (let project = strip (getenv stir_project_var [] h) in
      if isolated project then (Inr project, h\<lparr>env := (env h)(project_var \<mapsto> project)\<rparr>)
      else (Inl (ComposeSafetyError (if project = [] then ''STIR_COMPOSE_PROJECT is not set''
               else ''STIR_COMPOSE_PROJECT is set to stir-dev'')), h))"
  by (simp add: compose_project_def bind_asks isolated_def setenv_def py_run Let_def)

interpretation compose: project_guard compose_project isolated
  by unfold_locales (auto simp: compose_project_run Let_def split: if_splits)

lemma verify_follows [py_plan]:
  "follows [runs (ps_args p s), \<lambda>e. \<exists>cid. runs (inspect_args cid) e] (verify_isolated_container X p s)"
  unfolding verify_isolated_container_def Let_def
  by (intro follows_bind_cons follows_if follows_run_io py_plan) auto

definition sql_plan :: "string \<Rightarrow> plan" where
  "sql_plan p = [runs (ps_args p ''postgres''), \<lambda>e. \<exists>cid. runs (inspect_args cid) e,
     \<lambda>e. \<exists>pw. runs (sql_args p pw) e]"

lemma sql_body_follows: "follows (sql_plan p) (sql_body X root st rt p)"
proof -
  have "follows [\<lambda>e. \<exists>pw. runs (sql_args p pw) e]
      (bind_py (if rt then bind_py (read_text (runtime_secret root)) (\<lambda>s. ret (Some (strip s))) else ret None)
       (\<lambda>password.
         bind_py (run_io X (sql_args p password) (Some st)) (\<lambda>result.
           if returncode result \<noteq> 0
           then raise (AssertionError (''SQL fixture/proof failed: '' @ take 400 (stderr result)))
           else ret (strip (stdout result)))))"
    by (intro follows_bind_quiet follows_bind_cons follows_if follows_run_io py_plan) auto
  from follows_then [OF verify_follows this] show ?thesis
    by (simp add: sql_plan_def sql_body_def)
qed

lemma verify_ok:
  assumes "verify_isolated_container X p s h = (Inr cid, h')"
  shows "cid \<noteq> [] \<and> CHR 0x0A \<notin> set cid \<and> p \<noteq> ''stir-dev''
    \<and> (\<exists>h1 ps ins. run_io X (ps_args p s) None h = (Inr ps, h1) \<and> strip (stdout ps) = cid
        \<and> run_io X (inspect_args cid) None h1 = (Inr ins, h') \<and> strip (stdout ins) = p)"
  using assms
  by (auto simp: verify_isolated_container_def bind_ok Let_def split: if_splits)

text \<open>What the guard, the check of the container and the SQL helper log.\<close>

lemma compose_isolated: "ensures (\<lambda>p h. isolated p) compose_project"
  unfolding ensures_def using compose.guard_allowed by blast

lemma logs_compose [py_logs]: "logs P compose_project"
  by (rule logsI) (simp add: compose_project_run Let_def)

lemma logs_verify:
  "(\<And>prj. P (Ran (ps_args p s) prj)) \<Longrightarrow> (\<And>cid prj. P (Ran (inspect_args cid) prj)) \<Longrightarrow> logs P (verify_isolated_container X p s)"
  unfolding verify_isolated_container_def Let_def by (intro py_logs logs_run_io)

lemma logs_sql:
  assumes "\<And>p prj. isolated p \<Longrightarrow> P (Ran (ps_args p ''postgres'') prj)" and "\<And>cid prj. P (Ran (inspect_args cid) prj)"
    and "\<And>p pw prj. isolated p \<Longrightarrow> P (Ran (sql_args p pw) prj)"
  shows "logs P (sql X root st rt)"
proof -
  have "logs P (sql_body X root st rt p)" if "isolated p" for p
    unfolding sql_body_def by (intro py_logs logs_verify logs_run_io assms that)
  then show ?thesis unfolding sql_def by (intro logs_bind_value [OF logs_compose compose_isolated])
qed

section \<open>Properties\<close>

text \<open>
  \<open>compose_project\<close> has no default and never answers \<open>stir-dev\<close>: it returns the stripped value of
  STIR_COMPOSE_PROJECT exactly when that is neither blank nor \<open>stir-dev\<close>, exporting it as
  COMPOSE_PROJECT_NAME and changing nothing else; otherwise it raises ComposeSafetyError and leaves
  the environment alone.
\<close>

theorem compose_project_spec:
  "(let p = strip (getenv stir_project_var [] h) in
    if isolated p then compose_project h = (Inr p, h\<lparr>env := (env h)(project_var \<mapsto> p)\<rparr>)
    else \<exists>m. compose_project h = (Inl (ComposeSafetyError m), h))"
  by (auto simp: compose_project_run Let_def)


text \<open>
  Psql runs only after the container was verified: when \<open>sql\<close> returns, docker named exactly one
  container for the project, and that container carries the project's own label.
\<close>

theorem sql_verified_container:
  assumes "sql X root st rt h = (Inr out, h')"
  shows "\<exists>p h1 h2 h3 cid ps ins. compose_project h = (Inr p, h1) \<and> isolated p
    \<and> run_io X (ps_args p ''postgres'') None h1 = (Inr ps, h2) \<and> strip (stdout ps) = cid
    \<and> cid \<noteq> [] \<and> CHR 0x0A \<notin> set cid
    \<and> run_io X (inspect_args cid) None h2 = (Inr ins, h3) \<and> strip (stdout ins) = p"
proof -
  from assms obtain p h1 cid h3 where p: "compose_project h = (Inr p, h1)"
    and v: "verify_isolated_container X p ''postgres'' h1 = (Inr cid, h3)"
    by (auto simp: sql_def sql_body_def run_ok)
  from verify_ok [OF v] compose.guard_allowed [OF p] p show ?thesis by blast
qed

text \<open>A docker that answers as one with a single container of the project \<open>iso\<close>.\<close>

definition iso_docker :: "unit exec" where
  "iso_docker args inp e w =
     (Inr \<lparr>returncode = 0,
           stdout = (if args = ps_args ''iso'' ''postgres'' then ''c1''
                     else if args = inspect_args ''c1'' then ''iso'' else ''7''),
           stderr = [], took = 0\<rparr>, w)"

definition iso_host :: "unit host" where
  "iso_host = \<lparr>fs = [], env = [stir_project_var \<mapsto> ''iso''], now = 0, typed = [], fresh = 0, page_errors = [], trace = [], ext = ()\<rparr>"

lemma strip_samples: "strip ''iso'' = ''iso''" "strip ''c1'' = ''c1''" "strip ''7'' = ''7''"
  by (simp_all add: strip_graphic graphic_def)

theorem sql_verified_container_witness:
  "\<exists>h' p. sql iso_docker [] ''select 7'' False iso_host = (Inr ''7'', h') \<and> isolated p"
proof -
  have "compose_project iso_host = (Inr ''iso'', iso_host\<lparr>env := (env iso_host)(project_var \<mapsto> ''iso'')\<rparr>)"
    by (simp add: compose_project_run getenv_def iso_host_def isolated_def strip_samples Let_def)
  then have "\<exists>h'. sql iso_docker [] ''select 7'' False iso_host = (Inr ''7'', h')"
    by (simp add: sql_def sql_body_def verify_isolated_container_def py_run run_io_def iso_docker_def
        strip_samples ps_args_def inspect_args_def sql_args_def Let_def)
  then show ?thesis using sql_verified_container [of iso_docker "[]" "''select 7''" False iso_host] by blast
qed

end
