(* ===== verification/Script.thy ===== *)
theory Script
  imports PyInt Signing ComposeGuard
begin

text \<open>
  The language of the end-to-end scripts: Python expressions over JSON values (a string, a number, a
  boolean, \<open>None\<close>, a list or a dictionary), whose evaluation may raise, and the effects the scripts
  share: the HTTP \<open>request\<close> of scripts/smoke.py, generated identifiers and passwords, keys, and SQL.
  The server, docker, the key operations and the generators are parameters, the fields of one record.
\<close>

section \<open>The services a script runs against\<close>

text \<open>
  A server answers a call (method, URL, body, headers) with a status and the bytes of its answer, or
  with the exception of a connection that fails. \<open>repr_json\<close> is the interpreter's \<open>repr\<close> of floats and
  containers, \<open>float_eq\<close> its equality when one side is a float, \<open>float_int\<close> the \<open>int\<close> of a
  float and \<open>to_float\<close> the \<open>float\<close> of a value; \<open>urandom\<close> is \<open>os.urandom\<close>, \<open>iso_millis\<close> is the ISO time in
  milliseconds and \<open>clock_millis\<close> the milliseconds since the epoch, of a clock reading;
  \<open>rsa_sign\<close> is the RSA signature of a generated key.
\<close>

type_synonym 'x server =
  "string \<Rightarrow> string \<Rightarrow> string option \<Rightarrow> (string \<times> string) list \<Rightarrow> 'x \<Rightarrow> (exn + int \<times> string) \<times> 'x"

text \<open>
  Playwright answers a method call with a value or an exception, the page errors reported meanwhile to
  a listener of the script, and what it changed; a failed expectation is an exception.
\<close>

type_synonym 'x driver =
  "locator \<Rightarrow> string \<Rightarrow> (string \<times> argument) list \<Rightarrow> files \<times> 'x \<Rightarrow> (exn + json) \<times> string list \<times> files \<times> 'x"

record ('k, 'x) services =
  server :: "'x server"
  docker :: "'x exec"
  keys_of :: "'k crypto"
  root_dir :: path
  base_url :: string
  digit_limit :: nat
  depth_limit :: nat
  repr_json :: "json \<Rightarrow> string"
  float_eq :: "json \<Rightarrow> json \<Rightarrow> bool"
  float_int :: "string \<Rightarrow> exn + int"
  to_float :: "json \<Rightarrow> exn + json"
  urandom :: "nat \<Rightarrow> nat \<Rightarrow> bytes"
  uuid_hex :: "nat \<Rightarrow> string"
  token_text :: "int \<Rightarrow> nat \<Rightarrow> string"
  iso_millis :: "int \<Rightarrow> string"
  clock_millis :: "int \<Rightarrow> int"
  rsa_sign :: "nat \<Rightarrow> bytes \<Rightarrow> bytes"
  playwright :: "'x driver"

section \<open>Expressions\<close>

type_synonym exp = "exn + json"
type_synonym test = "exn + bool"

abbreviation val :: "'a \<Rightarrow> exn + 'a" where "val x \<equiv> Inr x"
abbreviation str :: "string \<Rightarrow> exp" where "str s \<equiv> Inr (JStr s)"
abbreviation num :: "int \<Rightarrow> exp" where "num n \<equiv> Inr (JInt n)"
abbreviation none :: exp where "none \<equiv> Inr JNull"
abbreviation yes :: exp where "yes \<equiv> Inr (JBool True)"
abbreviation no :: exp where "no \<equiv> Inr (JBool False)"

fun eval_list :: "exp list \<Rightarrow> exn + json list" where
  "eval_list [] = Inr []"
| "eval_list (e # es) = bind_sum e (\<lambda>v. bind_sum (eval_list es) (\<lambda>vs. Inr (v # vs)))"

definition arr :: "exp list \<Rightarrow> exp" where
  "arr es = bind_sum (eval_list es) (\<lambda>vs. Inr (JArr vs))"

fun eval_members :: "(string \<times> exp) list \<Rightarrow> exn + members" where
  "eval_members [] = Inr []"
| "eval_members ((k, e) # ms) = bind_sum e (\<lambda>v. bind_sum (eval_members ms) (\<lambda>vs. Inr ((k, v) # vs)))"

text \<open>\<open>{k: e, ...}\<close> and \<open>{**d, k: e, ...}\<close>.\<close>

definition obj :: "(string \<times> exp) list \<Rightarrow> exp" where
  "obj ms = bind_sum (eval_members ms) (\<lambda>vs. Inr (JObj (obj_merge [] vs)))"

definition spread :: "exp \<Rightarrow> (string \<times> exp) list \<Rightarrow> exp" where
  "spread d ms = bind_sum d (\<lambda>v.
     case v of
       JObj kvs \<Rightarrow> bind_sum (eval_members ms) (\<lambda>vs. Inr (JObj (obj_merge kvs vs)))
     | _ \<Rightarrow> Inl (TypeError ''not a mapping''))"

text \<open>\<open>e['k']\<close> and \<open>e.get('k')\<close>.\<close>

fun item_of :: "json \<Rightarrow> string \<Rightarrow> exp" where
  "item_of (JObj kvs) k = need (KeyError k) (map_of kvs k)"
| "item_of (JArr vs) k = Inl (TypeError ''list indices must be integers or slices, not str'')"
| "item_of (JStr s) k = Inl (TypeError ''string indices must be integers, not str'')"
| "item_of v k = Inl (TypeError ''object is not subscriptable'')"

definition item :: "exp \<Rightarrow> string \<Rightarrow> exp" where
  "item e k = bind_sum e (\<lambda>v. item_of v k)"

definition get :: "exp \<Rightarrow> string \<Rightarrow> exp" where
  "get e k = bind_sum e (\<lambda>v.
     case v of JObj kvs \<Rightarrow> Inr (case map_of kvs k of None \<Rightarrow> JNull | Some x \<Rightarrow> x)
             | _ \<Rightarrow> Inl (TypeError ''object has no attribute get''))"

text \<open>A list at an index, which counts from the end when it is negative.\<close>

definition list_at :: "'a list \<Rightarrow> int \<Rightarrow> exn + 'a" where
  "list_at vs i =
     (let j = (if i < 0 then i + int (length vs) else i) in
      if 0 \<le> j \<and> j < int (length vs) then Inr (vs ! nat j) else Inl IndexError)"

fun at_of :: "json \<Rightarrow> int \<Rightarrow> exp" where
  "at_of (JArr vs) i = list_at vs i"
| "at_of (JObj kvs) i = Inl (KeyError (show_int i))"
| "at_of (JStr s) i = bind_sum (list_at s i) (\<lambda>c. Inr (JStr [c]))"
| "at_of v i = Inl (TypeError ''object is not subscriptable'')"

definition at :: "exp \<Rightarrow> int \<Rightarrow> exp" where
  "at e i = bind_sum e (\<lambda>v. at_of v i)"

text \<open>
  \<open>e[:n]\<close> for \<open>n \<ge> 0\<close>. A string is indexed by byte, which is by character for the ASCII strings (identifiers,
  tokens, statements) the scripts slice.
\<close>

definition upto :: "exp \<Rightarrow> nat \<Rightarrow> exp" where
  "upto e n = bind_sum e (\<lambda>v.
     case v of JArr vs \<Rightarrow> Inr (JArr (take n vs)) | JStr s \<Rightarrow> Inr (JStr (take n s))
             | _ \<Rightarrow> Inl (TypeError ''object is not subscriptable''))"

text \<open>\<open>e + f\<close>.\<close>

fun plus_of :: "json \<Rightarrow> json \<Rightarrow> exp" where
  "plus_of (JStr a) (JStr b) = Inr (JStr (a @ b))"
| "plus_of (JArr a) (JArr b) = Inr (JArr (a @ b))"
| "plus_of (JInt a) (JInt b) = Inr (JInt (a + b))"
| "plus_of a b = Inl (TypeError ''unsupported operand types for +'')"

definition plus :: "exp \<Rightarrow> exp \<Rightarrow> exp" where
  "plus e f = bind_sum e (\<lambda>a. bind_sum f (plus_of a))"

text \<open>\<open>str(e)\<close>, and an f-string as the list of its parts.\<close>

fun text_of :: "(json \<Rightarrow> string) \<Rightarrow> json \<Rightarrow> string" where
  "text_of R JNull = ''None''"
| "text_of R (JBool b) = (if b then ''True'' else ''False'')"
| "text_of R (JInt n) = show_int n"
| "text_of R (JStr s) = s"
| "text_of R j = R j"

definition show_e :: "('k, 'x) services \<Rightarrow> exp \<Rightarrow> exp" where
  "show_e A e = bind_sum e (\<lambda>v. Inr (JStr (text_of (repr_json A) v)))"

definition fmt :: "('k, 'x) services \<Rightarrow> exp list \<Rightarrow> exp" where
  "fmt A es = bind_sum (eval_list es) (\<lambda>vs. Inr (JStr (concat (map (text_of (repr_json A)) vs))))"

text \<open>\<open>len(e)\<close>; a string has the length of its code points.\<close>

definition len :: "exp \<Rightarrow> exp" where
  "len e = bind_sum e (\<lambda>v.
     case v of
       JArr vs \<Rightarrow> Inr (JInt (int (length vs)))
     | JObj kvs \<Rightarrow> Inr (JInt (int (length kvs)))
     | JStr s \<Rightarrow> Inr (JInt (int (length (filter (\<lambda>c. \<not> cont c) s))))
     | _ \<Rightarrow> Inl (TypeError ''object has no len()''))"

text \<open>\<open>json.loads(e)\<close>\<close>

definition loads_e :: "('k, 'x) services \<Rightarrow> exp \<Rightarrow> exp" where
  "loads_e A e = bind_sum e (\<lambda>v.
     case v of JStr s \<Rightarrow> loads (digit_limit A) (depth_limit A) s
             | _ \<Rightarrow> Inl (TypeError ''the JSON object must be str, bytes or bytearray''))"

text \<open>\<open>e.splitlines()[i]\<close>, of a string.\<close>

definition line_at :: "exp \<Rightarrow> int \<Rightarrow> exp" where
  "line_at e i = bind_sum e (\<lambda>v.
     case v of JStr s \<Rightarrow> bind_sum (list_at (splitlines s) i) (\<lambda>l. Inr (JStr l))
             | _ \<Rightarrow> Inl (TypeError ''object has no attribute splitlines''))"

text \<open>\<open>e - f\<close> of numbers, and \<open>int(e)\<close>.\<close>

fun minus_of :: "json \<Rightarrow> json \<Rightarrow> exp" where
  "minus_of (JInt a) (JInt b) = Inr (JInt (a - b))"
| "minus_of a b = Inl (TypeError ''unsupported operand types for -'')"

definition minus :: "exp \<Rightarrow> exp \<Rightarrow> exp" where
  "minus e f = bind_sum e (\<lambda>a. bind_sum f (minus_of a))"

fun int_of :: "('k, 'x) services \<Rightarrow> json \<Rightarrow> exp" where
  "int_of A (JInt n) = Inr (JInt n)"
| "int_of A (JBool b) = Inr (JInt (if b then 1 else 0))"
| "int_of A (JFloat lit) = bind_sum (float_int A lit) (\<lambda>n. Inr (JInt n))"
| "int_of A (JStr s) = bind_sum (py_int 10 (strip s)) (\<lambda>n. Inr (JInt n))"
| "int_of A v = Inl (TypeError ''int() argument must be a string or a real number'')"

definition int_e :: "('k, 'x) services \<Rightarrow> exp \<Rightarrow> exp" where
  "int_e A e = bind_sum e (int_of A)"

definition float_e :: "('k, 'x) services \<Rightarrow> exp \<Rightarrow> exp" where
  "float_e A e = bind_sum e (to_float A)"

text \<open>\<open>e.split(c)\<close> for a separator of one character.\<close>

fun pieces :: "char \<Rightarrow> string \<Rightarrow> string \<Rightarrow> string list" where
  "pieces c acc [] = [acc]"
| "pieces c acc (d # s) = (if d = c then acc # pieces c [] s else pieces c (acc @ [d]) s)"

definition split_e :: "exp \<Rightarrow> char \<Rightarrow> exp" where
  "split_e e c = bind_sum e (\<lambda>v.
     case v of JStr s \<Rightarrow> Inr (JArr (map JStr (pieces c [] s)))
             | _ \<Rightarrow> Inl (TypeError ''object has no attribute split''))"

text \<open>\<open>e[k]\<close> for a key held in a variable, and the single quote that SQL texts put around a value.\<close>

definition item_at :: "exp \<Rightarrow> exp \<Rightarrow> exp" where
  "item_at e k = bind_sum e (\<lambda>v. bind_sum k (\<lambda>i.
     case i of JStr s \<Rightarrow> item_of v s | JInt n \<Rightarrow> at_of v n | _ \<Rightarrow> Inl (TypeError ''unsupported index'')))"

abbreviation sq :: exp where "sq \<equiv> Inr (JStr [CHR 0x27])"

section \<open>Tests\<close>

text \<open>A number literal is zero when no digit before the exponent is.\<close>

definition float_zero :: "string \<Rightarrow> bool" where
  "float_zero lit \<longleftrightarrow> (\<forall>c\<in>set (takeWhile (\<lambda>c. c \<noteq> CHR ''e'' \<and> c \<noteq> CHR ''E'') lit). c \<in> set ''-0.'')"

fun truthy :: "json \<Rightarrow> bool" where
  "truthy JNull = False"
| "truthy (JBool b) = b"
| "truthy (JInt n) = (n \<noteq> 0)"
| "truthy (JFloat lit) = (\<not> float_zero lit)"
| "truthy (JStr s) = (s \<noteq> [])"
| "truthy (JArr vs) = (vs \<noteq> [])"
| "truthy (JObj kvs) = (kvs \<noteq> [])"

text \<open>
  \<open>==\<close>: a boolean is the number 0 or 1, dictionaries are equal whatever the order of their items,
  and \<open>F\<close> decides when a float is involved.
\<close>

fun whole_number :: "json \<Rightarrow> int option" where
  "whole_number (JBool b) = Some (if b then 1 else 0)"
| "whole_number (JInt n) = Some n"
| "whole_number v = None"

fun is_float :: "json \<Rightarrow> bool" where
  "is_float (JFloat lit) = True"
| "is_float v = False"

fun py_eq :: "(json \<Rightarrow> json \<Rightarrow> bool) \<Rightarrow> json \<Rightarrow> json \<Rightarrow> bool"
  and py_eq_items :: "(json \<Rightarrow> json \<Rightarrow> bool) \<Rightarrow> json list \<Rightarrow> json list \<Rightarrow> bool"
  and py_eq_members :: "(json \<Rightarrow> json \<Rightarrow> bool) \<Rightarrow> members \<Rightarrow> members \<Rightarrow> bool" where
  "py_eq F (JFloat x) b = F (JFloat x) b"
| "py_eq F JNull b = (b = JNull)"
| "py_eq F (JBool a) b = (if is_float b then F (JBool a) b else whole_number b = Some (if a then 1 else 0))"
| "py_eq F (JInt a) b = (if is_float b then F (JInt a) b else whole_number b = Some a)"
| "py_eq F (JStr a) b = (b = JStr a)"
| "py_eq F (JArr as) b = (case b of JArr bs \<Rightarrow> py_eq_items F as bs | _ \<Rightarrow> False)"
| "py_eq F (JObj ms) b = (case b of JObj ns \<Rightarrow> length ms = length ns \<and> py_eq_members F ms ns | _ \<Rightarrow> False)"
| "py_eq_items F [] bs = (bs = [])"
| "py_eq_items F (a # as) bs = (case bs of [] \<Rightarrow> False | b # bs' \<Rightarrow> py_eq F a b \<and> py_eq_items F as bs')"
| "py_eq_members F [] ns = True"
| "py_eq_members F ((k, a) # ms) ns =
     (case map_of ns k of None \<Rightarrow> False | Some b \<Rightarrow> py_eq F a b \<and> py_eq_members F ms ns)"

definition eq :: "('k, 'x) services \<Rightarrow> exp \<Rightarrow> exp \<Rightarrow> test" where
  "eq A e f = bind_sum e (\<lambda>a. bind_sum f (\<lambda>b. Inr (py_eq (float_eq A) a b)))"

definition is_val :: "exp \<Rightarrow> json \<Rightarrow> test" where
  "is_val e v = bind_sum e (\<lambda>a. Inr (a = v))"

definition truth :: "exp \<Rightarrow> test" where
  "truth e = bind_sum e (\<lambda>a. Inr (truthy a))"

definition negate :: "test \<Rightarrow> test" where
  "negate t = bind_sum t (\<lambda>b. Inr (\<not> b))"

definition both :: "test \<Rightarrow> test \<Rightarrow> test" where
  "both s t = bind_sum s (\<lambda>b. if b then t else Inr False)"

definition either_of :: "test \<Rightarrow> test \<Rightarrow> test" where
  "either_of s t = bind_sum s (\<lambda>b. if b then Inr True else t)"

text \<open>\<open>a > b\<close> of two integers.\<close>

definition greater :: "exp \<Rightarrow> exp \<Rightarrow> test" where
  "greater e f = bind_sum e (\<lambda>a. bind_sum f (\<lambda>b.
     case (whole_number a, whole_number b) of
       (Some m, Some n) \<Rightarrow> Inr (n < m)
     | _ \<Rightarrow> Inl (TypeError ''> not supported between these instances'')))"

text \<open>What a dictionary or a set can hold as a key: a list or a dictionary has no hash.\<close>

fun hashed :: "json \<Rightarrow> exp" where
  "hashed (JArr vs) = Inl (TypeError ''unhashable type: list'')"
| "hashed (JObj kvs) = Inl (TypeError ''unhashable type: dict'')"
| "hashed v = Inr v"

text \<open>\<open>e in f\<close>: a key of a dictionary, an element of a list, or a part of a string.\<close>

definition member :: "('k, 'x) services \<Rightarrow> exp \<Rightarrow> exp \<Rightarrow> test" where
  "member A e f = bind_sum e (\<lambda>a. bind_sum f (\<lambda>b.
     case b of
       JArr vs \<Rightarrow> Inr (list_ex (py_eq (float_eq A) a) vs)
     | JObj kvs \<Rightarrow> bind_sum (hashed a) (\<lambda>k. Inr (k \<in> JStr ` fst ` set kvs))
     | JStr s \<Rightarrow> (case a of JStr p \<Rightarrow> Inr (contains p s) | _ \<Rightarrow> Inl (TypeError ''in <string> requires string''))
     | _ \<Rightarrow> Inl (TypeError ''argument is not iterable'')))"

text \<open>Iterating over a value: the elements of a list, the keys of a dictionary.\<close>

definition elements :: "exp \<Rightarrow> exn + json list" where
  "elements e = bind_sum e (\<lambda>v.
     case v of
       JArr vs \<Rightarrow> Inr vs
     | JObj kvs \<Rightarrow> Inr (map (\<lambda>(k, v). JStr k) kvs)
     | _ \<Rightarrow> Inl (TypeError ''object is not iterable''))"

text \<open>\<open>e if t else f\<close>, \<open>e or f\<close>, \<open>isinstance\<close> of a list or a dictionary, and \<open>startswith\<close>.\<close>

definition if_e :: "test \<Rightarrow> exp \<Rightarrow> exp \<Rightarrow> exp" where
  "if_e t e f = bind_sum t (\<lambda>b. if b then e else f)"

definition or_e :: "exp \<Rightarrow> exp \<Rightarrow> exp" where
  "or_e e f = bind_sum e (\<lambda>v. if truthy v then Inr v else f)"

definition is_list :: "exp \<Rightarrow> test" where
  "is_list e = bind_sum e (\<lambda>v. Inr (case v of JArr vs \<Rightarrow> True | _ \<Rightarrow> False))"

definition is_dict :: "exp \<Rightarrow> test" where
  "is_dict e = bind_sum e (\<lambda>v. Inr (case v of JObj kvs \<Rightarrow> True | _ \<Rightarrow> False))"

definition begins :: "exp \<Rightarrow> exp \<Rightarrow> test" where
  "begins e f = bind_sum e (\<lambda>a. bind_sum f (\<lambda>b.
     case (a, b) of
       (JStr s, JStr p) \<Rightarrow> Inr (starts_with p s)
     | _ \<Rightarrow> Inl (TypeError ''startswith needs strings'')))"

fun ex_in :: "(json \<Rightarrow> test) \<Rightarrow> json list \<Rightarrow> test" where
  "ex_in p [] = Inr False"
| "ex_in p (v # vs) = bind_sum (p v) (\<lambda>b. if b then Inr True else ex_in p vs)"

fun all_in :: "(json \<Rightarrow> test) \<Rightarrow> json list \<Rightarrow> test" where
  "all_in p [] = Inr True"
| "all_in p (v # vs) = bind_sum (p v) (\<lambda>b. if b then all_in p vs else Inr False)"

fun filter_in :: "(json \<Rightarrow> test) \<Rightarrow> json list \<Rightarrow> exn + json list" where
  "filter_in p [] = Inr []"
| "filter_in p (v # vs) = bind_sum (p v) (\<lambda>b. bind_sum (filter_in p vs) (\<lambda>r. Inr (if b then v # r else r)))"

fun map_in :: "(json \<Rightarrow> exp) \<Rightarrow> json list \<Rightarrow> exn + json list" where
  "map_in f [] = Inr []"
| "map_in f (v # vs) = bind_sum (f v) (\<lambda>x. bind_sum (map_in f vs) (\<lambda>xs. Inr (x # xs)))"

text \<open>\<open>any\<close>, \<open>all\<close>, a filtering and a mapping comprehension, and \<open>next\<close> over \<open>for v in e\<close>.\<close>

definition any_e :: "exp \<Rightarrow> (json \<Rightarrow> test) \<Rightarrow> test" where
  "any_e e p = bind_sum (elements e) (ex_in p)"

definition all_e :: "exp \<Rightarrow> (json \<Rightarrow> test) \<Rightarrow> test" where
  "all_e e p = bind_sum (elements e) (all_in p)"

definition keep_e :: "exp \<Rightarrow> (json \<Rightarrow> test) \<Rightarrow> exp" where
  "keep_e e p = bind_sum (elements e) (\<lambda>vs. bind_sum (filter_in p vs) (\<lambda>r. Inr (JArr r)))"

definition each_e :: "exp \<Rightarrow> (json \<Rightarrow> exp) \<Rightarrow> exp" where
  "each_e e f = bind_sum (elements e) (\<lambda>vs. bind_sum (map_in f vs) (\<lambda>r. Inr (JArr r)))"

text \<open>
  A set is the list of the elements it was made from: \<open>{e, ...}\<close>, \<open>{f for v in e}\<close>, \<open>e in s\<close> and the
  equality of two sets.
\<close>

definition set_e :: "exp list \<Rightarrow> exp" where
  "set_e es = bind_sum (eval_list es) (\<lambda>vs. bind_sum (map_in hashed vs) (\<lambda>r. Inr (JArr r)))"

definition set_each :: "exp \<Rightarrow> (json \<Rightarrow> exp) \<Rightarrow> exp" where
  "set_each e f = each_e e (\<lambda>v. bind_sum (f v) hashed)"

definition in_set :: "('k, 'x) services \<Rightarrow> exp \<Rightarrow> exp \<Rightarrow> test" where
  "in_set A e f = bind_sum e (\<lambda>a. bind_sum f (\<lambda>b. bind_sum (hashed a) (\<lambda>x. member A (Inr x) (Inr b))))"

definition same_set :: "('k, 'x) services \<Rightarrow> exp \<Rightarrow> exp \<Rightarrow> test" where
  "same_set A e f = bind_sum (elements e) (\<lambda>as. bind_sum (elements f) (\<lambda>bs.
     let has = (\<lambda>vs v. list_ex (py_eq (float_eq A) v) vs) in
     Inr (list_all (has bs) as \<and> list_all (has as) bs)))"

fun next_in :: "(json \<Rightarrow> test) \<Rightarrow> json list \<Rightarrow> exp" where
  "next_in p [] = Inl StopIteration"
| "next_in p (v # vs) = bind_sum (p v) (\<lambda>b. if b then Inr v else next_in p vs)"

definition next_e :: "exp \<Rightarrow> (json \<Rightarrow> test) \<Rightarrow> exp" where
  "next_e e p = bind_sum (elements e) (next_in p)"

section \<open>Effects\<close>

definition eval :: "exn + 'a \<Rightarrow> ('x host, 'a) py" where
  "eval e = lift_py e"

text \<open>\<open>assert t, msg\<close>; the message of a failed assertion is a literal.\<close>

definition check :: "test \<Rightarrow> string \<Rightarrow> ('x host, unit) py" where
  "check t msg = bind_py (lift_py t) (\<lambda>b. assert_py b msg)"

definition print_e :: "exp \<Rightarrow> ('x host, unit) py" where
  "print_e e = bind_py (lift_py e) (\<lambda>v. print_py (case v of JStr s \<Rightarrow> s | _ \<Rightarrow> []))"

definition next_fresh :: "('x host, nat) py" where
  "next_fresh = bind_py (asks fresh) (\<lambda>n. then_py (modify (\<lambda>h. h\<lparr>fresh := Suc n\<rparr>)) (ret n))"

text \<open>\<open>uuid.uuid4().hex\<close>, \<open>str(uuid.uuid4())\<close> and \<open>secrets.token_urlsafe(n)\<close>.\<close>

definition uuid4_hex :: "('k, 'x) services \<Rightarrow> ('x host, json) py" where
  "uuid4_hex A = bind_py next_fresh (\<lambda>n. ret (JStr (uuid_hex A n)))"

definition dashed :: "string \<Rightarrow> string" where
  "dashed s = take 8 s @ ''-'' @ take 4 (drop 8 s) @ ''-'' @ take 4 (drop 12 s) @ ''-'' @ take 4 (drop 16 s) @ ''-'' @ drop 20 s"

definition uuid4_str :: "('k, 'x) services \<Rightarrow> ('x host, json) py" where
  "uuid4_str A = bind_py next_fresh (\<lambda>n. ret (JStr (dashed (uuid_hex A n))))"

definition token_urlsafe :: "('k, 'x) services \<Rightarrow> int \<Rightarrow> ('x host, json) py" where
  "token_urlsafe A k = bind_py next_fresh (\<lambda>n. ret (JStr (token_text A k n)))"

definition generate_key :: "('k, 'x) services \<Rightarrow> ('x host, 'k) py" where
  "generate_key A = bind_py next_fresh (\<lambda>n. ret (keygen (keys_of A) n))"

text \<open>\<open>(ROOT/'.local/secrets/...').read_text().strip()\<close>\<close>

definition read_secret :: "('k, 'x) services \<Rightarrow> string \<Rightarrow> ('x host, json) py" where
  "read_secret A name =
     bind_py (read_text (root_dir A @ [''.local'', ''secrets'', name])) (\<lambda>s. ret (JStr (strip s)))"

definition sql_e :: "('k, 'x) services \<Rightarrow> exp \<Rightarrow> bool \<Rightarrow> ('x host, json) py" where
  "sql_e A statement runtime = bind_py (lift_py statement) (\<lambda>v.
     case v of JStr s \<Rightarrow> bind_py (sql (docker A) (root_dir A) s runtime) (\<lambda>out. ret (JStr out))
             | _ \<Rightarrow> raise (TypeError ''input must be str''))"

definition repeat_py :: "nat \<Rightarrow> ('s, 'a) py \<Rightarrow> ('s, 'a list) py" where
  "repeat_py n m = map_py (\<lambda>_. m) [0..<n]"

definition now_iso :: "('k, 'x) services \<Rightarrow> ('x host, json) py" where
  "now_iso A = asks (\<lambda>h. JStr (iso_millis A (now h)))"

section \<open>Keys in expressions\<close>

definition sign_e :: "('k, 'x) services \<Rightarrow> exn + 'k \<Rightarrow> string \<Rightarrow> exp \<Rightarrow> exp" where
  "sign_e A key domain payload =
     bind_sum key (\<lambda>k. bind_sum payload (\<lambda>p. Inr (JStr (sign (keys_of A) k domain p))))"

definition rawkey_e :: "('k, 'x) services \<Rightarrow> exn + 'k \<Rightarrow> exp" where
  "rawkey_e A key = bind_sum key (\<lambda>k. Inr (JStr (rawkey (keys_of A) k)))"

definition digest_e :: "exp \<Rightarrow> exp" where
  "digest_e e = bind_sum e (\<lambda>v. Inr (JStr (digest v)))"

definition authorization_e :: "('k, 'x) services \<Rightarrow> exn + 'k \<Rightarrow> exp \<Rightarrow> exp" where
  "authorization_e A key text = bind_sum key (\<lambda>k. bind_sum text (\<lambda>t.
     case t of JStr s \<Rightarrow> Inr (JStr (sign_authorization (keys_of A) k s))
             | _ \<Rightarrow> Inl (TypeError ''object has no attribute encode'')))"

text \<open>\<open>hashlib.sha256(e.encode()).hexdigest()\<close>, and \<open>key or other\<close> for an optional key.\<close>

definition sha256_hex :: "exp \<Rightarrow> exp" where
  "sha256_hex e = bind_sum e (\<lambda>v.
     case v of JStr s \<Rightarrow> Inr (JStr (hexdigest (sha256 (encode s))))
             | _ \<Rightarrow> Inl (TypeError ''object has no attribute encode''))"

fun key_or :: "'k option \<Rightarrow> exn + 'k \<Rightarrow> exn + 'k" where
  "key_or None e = e"
| "key_or (Some k) e = Inr k"

section \<open>The HTTP request\<close>

definition bearer :: "json \<Rightarrow> exn + (string \<times> string) list" where
  "bearer token =
     (if \<not> truthy token then Inr []
      else (case token of
          JStr t \<Rightarrow> Inr [(''Authorization'', ''Bearer '' @ t)]
        | _ \<Rightarrow> Inl (TypeError ''can only concatenate str'')))"

definition body_text :: "json \<Rightarrow> string option" where
  "body_text body = (if body = JNull then None else Some (ascii_escape (dumps '' '' body)))"

definition decode_body :: "('k, 'x) services \<Rightarrow> string \<Rightarrow> exp" where
  "decode_body A data =
     (if data = [] then none
      else if \<not> utf8_ok data then Inl UnicodeDecodeError
      else loads (digit_limit A) (depth_limit A) data)"

definition unexpected :: "string \<Rightarrow> string \<Rightarrow> int \<Rightarrow> exn" where
  "unexpected meth path status = AssertionError (meth @ '' '' @ path @ '': got '' @ show_int status)"

text \<open>The exchange with the server: the answer is logged with its status.\<close>

definition exchange ::
  "('k, 'x) services \<Rightarrow> string \<Rightarrow> string \<Rightarrow> string option \<Rightarrow> (string \<times> string) list \<Rightarrow> ('x host, int \<times> string) py" where
  "exchange A meth url data headers h =
     (case server A meth url data headers (ext h) of
        (Inl e, x) \<Rightarrow> (Inl e, h\<lparr>ext := x\<rparr>)
      | (Inr (status, answer), x) \<Rightarrow>
          (Inr (status, answer), h\<lparr>ext := x, trace := trace h @ [Called meth url status]\<rparr>))"

definition request ::
  "('k, 'x) services \<Rightarrow> string \<Rightarrow> string \<Rightarrow> json \<Rightarrow> json \<Rightarrow> int list \<Rightarrow> (string \<times> string) list \<Rightarrow> ('x host, json) py" where
  "request A path meth body token allowed extra_headers =
     bind_py (lift_py (bearer token)) (\<lambda>auth.
     bind_py (exchange A meth (base_url A @ path) (body_text body)
               ((''Content-Type'', ''application/json'') # extra_headers @ auth)) (\<lambda>(status, data).
       if status \<notin> set allowed then raise (unexpected meth path status)
       else lift_py (decode_body A data)))"

text \<open>A call as the scripts write it: the path, the body and the token are evaluated in this order.\<close>

fun as_str :: "json \<Rightarrow> exn + string" where
  "as_str (JStr s) = Inr s"
| "as_str v = Inl (TypeError ''can only concatenate str'')"

definition call_with ::
  "('k, 'x) services \<Rightarrow> exp \<Rightarrow> string \<Rightarrow> exp \<Rightarrow> exp \<Rightarrow> int list \<Rightarrow> (string \<times> exp) list \<Rightarrow> ('x host, json) py" where
  "call_with A path meth body token allowed extra =
     bind_py (lift_py path) (\<lambda>p.
     bind_py (lift_py body) (\<lambda>b.
     bind_py (lift_py token) (\<lambda>t.
     bind_py (lift_py (eval_members extra)) (\<lambda>es.
     bind_py (lift_py (as_str p)) (\<lambda>url.
     bind_py (map_py (\<lambda>(k, v). bind_py (lift_py (as_str v)) (\<lambda>s. ret (k, s))) es) (\<lambda>hs.
       request A url meth b t allowed hs))))))"

definition call :: "('k, 'x) services \<Rightarrow> exp \<Rightarrow> string \<Rightarrow> exp \<Rightarrow> exp \<Rightarrow> int list \<Rightarrow> ('x host, json) py" where
  "call A path meth body token allowed = call_with A path meth body token allowed []"

section \<open>What a script logs\<close>

lemma logs_eval [py_logs]: "logs P (eval e)"
  unfolding eval_def by (rule logs_lift)

lemma logs_check [py_logs]: "logs P (check t msg)"
  unfolding check_def by (intro py_logs)

lemma logs_print_e [py_logs]: "(\<And>s. P (Printed s)) \<Longrightarrow> logs P (print_e e)"
  unfolding print_e_def by (intro py_logs)

lemma logs_fresh [py_logs]: "logs P next_fresh"
  unfolding next_fresh_def by (intro py_logs) (simp add: logs_def)

lemma logs_generators [py_logs]:
  "logs P (uuid4_hex A)" "logs P (uuid4_str A)" "logs P (token_urlsafe A k)" "logs P (generate_key A)"
  unfolding uuid4_hex_def uuid4_str_def token_urlsafe_def generate_key_def by (intro py_logs)+

lemma logs_secret [py_logs]: "logs P (read_secret A name)"
  unfolding read_secret_def by (intro py_logs)

lemma logs_exchange [py_logs]: "(\<And>s. P (Called meth url s)) \<Longrightarrow> logs P (exchange A meth url b hdrs)"
  by (rule logsI) (auto simp: exchange_def split: prod.splits sum.splits)

lemma logs_request [py_logs]: "(\<And>u s. P (Called meth u s)) \<Longrightarrow> logs P (request A path meth body token allowed hs)"
  unfolding request_def by (intro py_logs) (auto intro: py_logs split: prod.splits)

lemma logs_call [py_logs]:
  "(\<And>u s. P (Called meth u s)) \<Longrightarrow> logs P (call_with A path meth body token allowed extra)"
  "(\<And>u s. P (Called meth u s)) \<Longrightarrow> logs P (call A path meth body token allowed)"
  unfolding call_def call_with_def by (intro py_logs; auto intro!: py_logs split: prod.splits)+

lemma logs_sql_e:
  assumes "\<And>p prj. isolated p \<Longrightarrow> P (Ran (ps_args p ''postgres'') prj)" and "\<And>cid prj. P (Ran (inspect_args cid) prj)"
    and "\<And>p pw prj. isolated p \<Longrightarrow> P (Ran (sql_args p pw) prj)"
  shows "logs P (sql_e A e rt)"
  unfolding sql_e_def by (intro py_logs) (auto intro!: py_logs logs_sql assms split: json.splits)

section \<open>What the log shows of a call\<close>

text \<open>A call of that method to a URL with that part, answered with one of those statuses.\<close>

fun answered :: "string \<Rightarrow> string \<Rightarrow> int list \<Rightarrow> event \<Rightarrow> bool" where
  "answered meth part statuses (Called m u s) = (m = meth \<and> contains part u \<and> s \<in> set statuses)"
| "answered meth part statuses e = False"

section \<open>Scripts against a plan of answers\<close>

text \<open>
  \<open>conforms ps m\<close>: the commands and calls of \<open>m\<close> match the plan \<open>ps\<close> in order; when \<open>m\<close> returns, all
  of the plan, and when it raises, a first part of it, with at most one more event, the one that
  did not come out as planned, and nothing after it.
\<close>

definition conforms :: "plan \<Rightarrow> ('x host, 'a) py \<Rightarrow> bool" where
  "conforms ps m \<longleftrightarrow>
     (\<forall>h. \<exists>good bad qs. shown (trace (snd (m h))) = shown (trace h) @ good @ bad
        \<and> list_all2 (\<lambda>p c. p c) qs good
        \<and> (if isl (fst (m h)) then (\<exists>rest. ps = qs @ rest) \<and> length bad \<le> 1 else qs = ps \<and> bad = []))"

named_theorems py_conf \<open>the plan a script conforms to\<close>

lemma conformsD:
  assumes "conforms ps m" and "m h = (r, h')"
  obtains good bad qs where "shown (trace h') = shown (trace h) @ good @ bad" "list_all2 (\<lambda>p c. p c) qs good"
    "if isl r then (\<exists>rest. ps = qs @ rest) \<and> length bad \<le> 1 else qs = ps \<and> bad = []"
  using assms unfolding conforms_def by (metis fst_conv snd_conv)

lemma conformsI:
  assumes "\<And>h r h'. m h = (r, h') \<Longrightarrow> \<exists>good bad qs. shown (trace h') = shown (trace h) @ good @ bad
    \<and> list_all2 (\<lambda>p c. p c) qs good
    \<and> (if isl r then (\<exists>rest. ps = qs @ rest) \<and> length bad \<le> 1 else qs = ps \<and> bad = [])"
  shows "conforms ps m"
  unfolding conforms_def
proof
  fix h
  show "\<exists>good bad qs. shown (trace (snd (m h))) = shown (trace h) @ good @ bad
        \<and> list_all2 (\<lambda>p c. p c) qs good
        \<and> (if isl (fst (m h)) then (\<exists>rest. ps = qs @ rest) \<and> length bad \<le> 1 else qs = ps \<and> bad = [])"
    using assms [of h "fst (m h)" "snd (m h)"] by simp
qed

lemma conforms_follows: "follows ps m \<Longrightarrow> conforms ps m"
  unfolding follows_def conforms_def by (metis append_Nil2 le0 list.size(3))

lemma conforms_bind:
  assumes m: "conforms ps m" and f: "\<And>x. conforms qs (f x)"
  shows "conforms (ps @ qs) (bind_py m f)"
proof (rule conformsI)
  fix h r h''
  assume run: "bind_py m f h = (r, h'')"
  obtain r' h' where mh: "m h = (r', h')" by (cases "m h")
  with m obtain good bad us where a: "shown (trace h') = shown (trace h) @ good @ bad" "list_all2 (\<lambda>p c. p c) us good"
    "if isl r' then (\<exists>rest. ps = us @ rest) \<and> length bad \<le> 1 else us = ps \<and> bad = []" by (rule conformsD)
  show "\<exists>good bad vs. shown (trace h'') = shown (trace h) @ good @ bad \<and> list_all2 (\<lambda>p c. p c) vs good
    \<and> (if isl r then (\<exists>rest. ps @ qs = vs @ rest) \<and> length bad \<le> 1 else vs = ps @ qs \<and> bad = [])"
  proof (cases r')
    case (Inl e)
    with mh run have "r = Inl e" "h'' = h'" by (simp_all add: bind_py_def)
    with a Inl show ?thesis by (intro exI [of _ good] exI [of _ bad] exI [of _ us]) auto
  next
    case (Inr x)
    with mh run have "f x h' = (r, h'')" by (simp add: bind_py_def)
    with f obtain good' bad' vs where b: "shown (trace h'') = shown (trace h') @ good' @ bad'"
      "list_all2 (\<lambda>p c. p c) vs good'"
      "if isl r then (\<exists>rest. qs = vs @ rest) \<and> length bad' \<le> 1 else vs = qs \<and> bad' = []" by (rule conformsD)
    have "list_all2 (\<lambda>p c. p c) (us @ vs) (good @ good')" using a(2) b(2) by (rule list_all2_appendI)
    with a b Inr show ?thesis
      by (intro exI [of _ "good @ good'"] exI [of _ bad'] exI [of _ "us @ vs"]) (auto split: if_splits)
  qed
qed

lemma conforms_then: "conforms ps m \<Longrightarrow> conforms qs n \<Longrightarrow> conforms (ps @ qs) (then_py m n)"
  by (simp add: then_py_def conforms_bind)

lemma conforms_quiet: "follows [] m \<Longrightarrow> conforms [] m"
  by (rule conforms_follows)

lemma conforms_bind_quiet: "follows [] m \<Longrightarrow> (\<And>x. conforms ps (f x)) \<Longrightarrow> conforms ps (bind_py m f)"
  using conforms_bind [OF conforms_quiet, of m ps f] by simp

lemma conforms_then_quiet: "follows [] m \<Longrightarrow> conforms ps n \<Longrightarrow> conforms ps (then_py m n)"
  using conforms_then [OF conforms_quiet, of m ps n] by simp

lemma conforms_bind_cons: "conforms [p] m \<Longrightarrow> (\<And>x. conforms ps (f x)) \<Longrightarrow> conforms (p # ps) (bind_py m f)"
  using conforms_bind [of "[p]" m ps f] by simp

lemma conforms_then_cons: "conforms [p] m \<Longrightarrow> conforms ps n \<Longrightarrow> conforms (p # ps) (then_py m n)"
  using conforms_then [of "[p]" m ps n] by simp

lemma conforms_last: "conforms ps m \<Longrightarrow> conforms (ps @ []) m"
  by simp

lemma conforms_raise: "conforms ps (raise e)"
  by (rule conforms_follows) (rule follows_raise)

lemma conforms_if: "(b \<Longrightarrow> conforms ps m) \<Longrightarrow> (\<not> b \<Longrightarrow> conforms qs n) \<Longrightarrow> conforms (if b then ps else qs) (if b then m else n)"
  by simp

lemma conforms_both: "conforms ps m \<Longrightarrow> conforms ps n \<Longrightarrow> conforms ps (if b then m else n)"
  by simp

lemma conforms_pair: "(\<And>a b. conforms ps (f a b)) \<Longrightarrow> conforms ps (case x of (a, b) \<Rightarrow> f a b)"
  by (cases x) simp

lemma conforms_pair_at: "(\<And>a b. conforms ps (f a b c)) \<Longrightarrow> conforms ps ((case x of (a, b) \<Rightarrow> f a b) c)"
  by (cases x) simp

lemma conforms_for:
  "(\<And>x. x \<in> set xs \<Longrightarrow> conforms (g x) (f x)) \<Longrightarrow> conforms (concat (map g xs)) (for_py f xs)"
  by (induction xs) (auto intro: conforms_then intro!: conforms_quiet follows_ret)

lemma conforms_map:
  "(\<And>x. x \<in> set xs \<Longrightarrow> conforms (g x) (f x)) \<Longrightarrow> conforms (concat (map g xs)) (map_py f xs)"
proof (induction xs)
  case Nil
  then show ?case by (auto intro!: conforms_quiet follows_ret)
next
  case (Cons x xs)
  have "conforms (concat (map g xs) @ []) (bind_py (map_py f xs) (\<lambda>ys. ret (y # ys)))" for y
    using Cons by (intro conforms_bind conforms_quiet follows_ret) auto
  then show ?case using Cons.prems by (auto intro!: conforms_bind)
qed

text \<open>The operations that neither call nor run anything.\<close>

lemma quiet_eval [py_plan]: "follows [] (eval e)"
  unfolding eval_def by (rule follows_lift)

lemma quiet_check [py_plan]: "follows [] (check t msg)"
  unfolding check_def by (intro follows_bind_quiet py_plan)

lemma quiet_print_e [py_plan]: "follows [] (print_e e)"
  unfolding print_e_def by (intro follows_bind_quiet py_plan)

lemma quiet_next_fresh [py_plan]: "follows [] next_fresh"
  by (rule follows_quiet) (simp add: next_fresh_def py_run)

lemma quiet_generators [py_plan]:
  "follows [] (uuid4_hex A)" "follows [] (uuid4_str A)" "follows [] (token_urlsafe A k)" "follows [] (generate_key A)"
  unfolding uuid4_hex_def uuid4_str_def token_urlsafe_def generate_key_def
  by (intro follows_bind_quiet py_plan)+

lemma quiet_read_secret [py_plan]: "follows [] (read_secret A name)"
  unfolding read_secret_def by (intro follows_bind_quiet py_plan)

lemma quiet_map: "(\<And>x. x \<in> set xs \<Longrightarrow> follows [] (f x)) \<Longrightarrow> follows [] (map_py f xs)"
  by (induction xs) (auto intro!: follows_ret follows_bind_quiet)

lemma conforms_repeat: "conforms ps m \<Longrightarrow> conforms (concat (replicate n ps)) (repeat_py n m)"
  using conforms_map [of "[0..<n]" "\<lambda>_. ps" "\<lambda>_. m"] by (simp add: repeat_py_def map_replicate_const)

lemma quiet_repeat [py_plan]: "follows [] m \<Longrightarrow> follows [] (repeat_py n m)"
  unfolding repeat_py_def by (rule quiet_map)

lemma quiet_now_iso [py_plan]: "follows [] (now_iso A)"
  unfolding now_iso_def by (rule follows_asks)

section \<open>Calls and SQL against a plan\<close>

text \<open>\<open>says part e\<close>: the text \<open>e\<close> evaluates to has that part.\<close>

definition says :: "string \<Rightarrow> exp \<Rightarrow> bool" where
  "says part e \<longleftrightarrow> (\<forall>s. e = Inr (JStr s) \<longrightarrow> contains part s)"

lemma says_nothing: "says [] e"
  unfolding says_def contains_append by (metis append_Nil)

lemma says_str: "contains part s \<Longrightarrow> says part (str s)"
  by (simp add: says_def)

lemma plus_of_str: "plus_of a b = Inr (JStr s) \<longleftrightarrow> (\<exists>u v. a = JStr u \<and> b = JStr v \<and> s = u @ v)"
  by (cases a; cases b) auto

lemma says_plus: "says part e \<or> says part f \<Longrightarrow> says part (plus e f)"
  unfolding says_def plus_def bind_sum_ok plus_of_str
  by (metis append_Nil append_Nil2 append_assoc contains_append)

lemma eval_list_member: "eval_list es = Inr vs \<Longrightarrow> Inr v \<in> set es \<Longrightarrow> v \<in> set vs"
  by (induction es arbitrary: vs) (auto simp: bind_sum_ok)

lemma says_fmt: "str part \<in> set es \<Longrightarrow> says part (fmt A es)"
proof -
  assume "str part \<in> set es"
  then have "contains part (concat (map (text_of (repr_json A)) vs))" if "eval_list es = Inr vs" for vs
    using eval_list_member [OF that] split_list [of "JStr part" vs] by (fastforce simp: contains_append)
  then show ?thesis by (auto simp: says_def fmt_def bind_sum_ok)
qed

lemma conforms_exchange:
  assumes url: "contains part url"
    and ok: "\<And>s d. s \<in> set allowed \<Longrightarrow> follows [] (f (s, d))"
    and bad: "\<And>s d h. s \<notin> set allowed \<Longrightarrow> \<exists>e. f (s, d) h = (Inl e, h)"
  shows "conforms [answered meth part allowed] (bind_py (exchange A meth url b hdrs) f)"
proof (rule conformsI)
  fix h r h'
  assume run: "bind_py (exchange A meth url b hdrs) f h = (r, h')"
  obtain w x where s: "server A meth url b hdrs (ext h) = (w, x)" by force
  show "\<exists>good bad qs. shown (trace h') = shown (trace h) @ good @ bad \<and> list_all2 (\<lambda>p c. p c) qs good
      \<and> (if isl r then (\<exists>rest. [answered meth part allowed] = qs @ rest) \<and> length bad \<le> 1
         else qs = [answered meth part allowed] \<and> bad = [])"
  proof (cases w)
    case (Inl e)
    with s run have "r = Inl e" "trace h' = trace h" by (auto simp: exchange_def bind_py_def)
    then show ?thesis by (intro exI [of _ "[]"]) auto
  next
    case (Inr a)
    obtain status data where a: "a = (status, data)" by (cases a)
    let ?e = "Called meth url status"
    let ?h = "h\<lparr>ext := x, trace := trace h @ [?e]\<rparr>"
    from s Inr a run have f: "f (status, data) ?h = (r, h')" by (simp add: exchange_def bind_py_def)
    show ?thesis
    proof (cases "status \<in> set allowed")
      case True
      from ok [OF True] f obtain gs qs where "shown (trace h') = shown (trace ?h) @ gs" "list_all2 (\<lambda>p c. p c) qs gs"
        "if isl r then \<exists>rest. [] = qs @ rest else qs = []" by (rule followsD)
      then have "shown (trace h') = shown (trace h) @ [?e]" by (cases "isl r") auto
      with True url show ?thesis
        by (intro exI [of _ "[?e]"] exI [of _ "[]"] exI [of _ "[answered meth part allowed]"]) simp
    next
      case False
      with bad [of status data ?h] f obtain e where "r = Inl e" "h' = ?h" by auto
      then have "shown (trace h') = shown (trace h) @ [?e]" "isl r" by simp_all
      then show ?thesis by (intro exI [of _ "[]"] exI [of _ "[?e]"]) auto
    qed
  qed
qed

lemma conforms_request:
  assumes "contains part path"
  shows "conforms [answered meth part allowed] (request A path meth body token allowed hs)"
proof -
  have url: "contains part (base_url A @ path)" using assms contains_mono [of part path "base_url A" "[]"] by simp
  show ?thesis unfolding request_def
    by (intro conforms_bind_quiet [OF follows_lift] conforms_exchange url) (auto simp: raise_def follows_lift)
qed

lemma conforms_call_with:
  assumes "says part path"
  shows "conforms [answered meth part allowed] (call_with A path meth body token allowed extra)"
proof (rule conformsI)
  fix h r h'
  let ?hs = "\<lambda>es. map_py (\<lambda>(k, v). bind_py (lift_py (as_str v)) (\<lambda>s. ret (k, s))) es"
  assume run: "call_with A path meth body token allowed extra h = (r, h')"
  have hs: "follows [] (?hs es)" for es
    by (intro quiet_map) (auto intro!: follows_bind_quiet follows_lift follows_ret split: prod.splits)
  have "conforms [answered meth part allowed]
     (bind_py (lift_py body) (\<lambda>b. bind_py (lift_py token) (\<lambda>t. bind_py (lift_py (eval_members extra)) (\<lambda>es.
      bind_py (lift_py (as_str p)) (\<lambda>url. bind_py (?hs es) (\<lambda>hs. request A url meth b t allowed hs))))))"
    if "path = Inr p" for p
  proof (cases "\<exists>s. p = JStr s")
    case True
    then obtain s where "p = JStr s" by blast
    with that assms have "contains part s" by (simp add: says_def)
    then have "conforms [answered meth part allowed] (bind_py (?hs es) (request A s meth b t allowed))" for es b t
      by (intro conforms_bind_quiet [OF hs] conforms_request)
    with \<open>p = JStr s\<close> show ?thesis
      by (simp add: bind_lift) (intro conforms_bind_quiet [OF follows_lift])
  next
    case False
    then obtain e where "as_str p = Inl e" by (cases p) auto
    then show ?thesis
      by (simp add: bind_lift) (intro conforms_bind_quiet [OF follows_lift] conforms_raise)
  qed
  then have c: "conforms [answered meth part allowed] (call_with A (Inr p) meth body token allowed extra)"
    if "path = Inr p" for p
    using that unfolding call_with_def by (simp add: bind_lift)
  show "\<exists>good bad qs. shown (trace h') = shown (trace h) @ good @ bad \<and> list_all2 (\<lambda>p c. p c) qs good
     \<and> (if isl r then (\<exists>rest. [answered meth part allowed] = qs @ rest) \<and> length bad \<le> 1
        else qs = [answered meth part allowed] \<and> bad = [])"
  proof (cases path)
    case (Inl e)
    with run have "r = Inl e" "h' = h" by (auto simp: call_with_def bind_py_def lift_py_def)
    then show ?thesis by (intro exI [of _ "[]"]) auto
  next
    case (Inr p)
    with run c show ?thesis by (metis conformsD)
  qed
qed

lemma conforms_call: "says part path \<Longrightarrow> conforms [answered meth part allowed] (call A path meth body token allowed)"
  unfolding call_def by (rule conforms_call_with)

text \<open>The commands of the SQL helper, in a project that is isolated.\<close>

definition sql_events :: plan where
  "sql_events =
     [\<lambda>e. \<exists>p. isolated p \<and> runs (ps_args p ''postgres'') e,
      \<lambda>e. \<exists>cid. runs (inspect_args cid) e,
      \<lambda>e. \<exists>p pw. isolated p \<and> runs (sql_args p pw) e]"

lemma conforms_sql: "conforms sql_events (sql X root st rt)"
proof (rule conformsI)
  fix h r h'
  assume run: "sql X root st rt h = (r, h')"
  show "\<exists>good bad qs. shown (trace h') = shown (trace h) @ good @ bad \<and> list_all2 (\<lambda>p c. p c) qs good
      \<and> (if isl r then (\<exists>rest. sql_events = qs @ rest) \<and> length bad \<le> 1 else qs = sql_events \<and> bad = [])"
  proof (cases "compose_project h")
    case (Pair g h1)
    note quiet = compose.guard_quiet [OF Pair]
    show ?thesis
    proof (cases g)
      case (Inl e)
      with Pair run quiet show ?thesis
        by (intro exI [of _ "[]"]) (auto simp: sql_def bind_py_def)
    next
      case (Inr p)
      with Pair run have b: "sql_body X root st rt p h1 = (r, h')" by (simp add: sql_def bind_py_def)
      have p: "isolated p" using Pair Inr compose.guard_allowed by blast
      from sql_body_follows b obtain cs qs where c: "shown (trace h') = shown (trace h1) @ cs"
        "list_all2 (\<lambda>q c. q c) qs cs" "if isl r then \<exists>rest. sql_plan p = qs @ rest else qs = sql_plan p"
        by (rule followsD)
      have w: "list_all2 (\<lambda>q q'. \<forall>e. q e \<longrightarrow> q' e) (sql_plan p) sql_events"
        using p by (auto simp: sql_plan_def sql_events_def)
      obtain rest where all: "sql_plan p = qs @ rest" using c(3) by (cases "isl r") auto
      let ?qs = "take (length qs) sql_events"
      have "list_all2 (\<lambda>q q'. \<forall>e. q e \<longrightarrow> q' e) qs ?qs"
        using list_all2_takeI [OF w, of "length qs"] all by simp
      then have "list_all2 (\<lambda>q c. q c) ?qs cs"
        using c(2) by (auto simp: list_all2_conv_all_nth)
      moreover have "\<exists>rest. sql_events = ?qs @ rest" by (metis append_take_drop_id)
      moreover have "\<not> isl r \<Longrightarrow> ?qs = sql_events"
        using c(3) list_all2_lengthD [OF w] by simp
      ultimately show ?thesis
        using c(1) quiet by (intro exI [of _ cs] exI [of _ "[]"] exI [of _ ?qs]) auto
    qed
  qed
qed

lemma conforms_sql_e: "conforms sql_events (sql_e A e rt)"
proof -
  have "conforms sql_events (case v of
      JStr s \<Rightarrow> bind_py (sql (docker A) (root_dir A) s rt) (\<lambda>out. ret (JStr out))
    | _ \<Rightarrow> raise (TypeError ''input must be str''))" for v
  proof (cases v)
    case (JStr s)
    have "conforms (sql_events @ []) (bind_py (sql (docker A) (root_dir A) s rt) (\<lambda>out. ret (JStr out)))"
      by (intro conforms_bind conforms_sql conforms_quiet follows_ret)
    with JStr show ?thesis by simp
  qed (simp_all add: conforms_raise)
  then show ?thesis unfolding sql_e_def by (intro conforms_bind_quiet [OF follows_lift])
qed

section \<open>One rule per construct\<close>

text \<open>
  The rules by which a script conforms to its plan: one for each operation at the head of a sequence,
  and one for each that can end it, so that a proof introduces them until only the parts of the
  paths are left, which the simplifier reads off the path expressions.
\<close>

lemma says_simps [simp]:
  "says [] e" "says part (str part)"
  "says part f \<Longrightarrow> says part (plus e f)" "says part e \<Longrightarrow> says part (plus e f)"
  "str part \<in> set es \<Longrightarrow> says part (fmt A es)"
  by (auto simp: says_nothing says_plus says_fmt intro: says_str) (simp add: says_def contains_append, metis append_Nil append_Nil2)

lemmas conforms_quiet_steps [py_conf] =
  conforms_bind_quiet [OF quiet_eval] conforms_then_quiet [OF quiet_eval] conforms_then_quiet [OF quiet_check]
  conforms_then_quiet [OF quiet_print_e] conforms_then_quiet [OF follows_print] conforms_bind_quiet [OF follows_ret]
  conforms_bind_quiet [OF quiet_generators(1)] conforms_bind_quiet [OF quiet_generators(2)]
  conforms_bind_quiet [OF quiet_generators(3)] conforms_bind_quiet [OF quiet_generators(4)]
  conforms_bind_quiet [OF quiet_read_secret] conforms_bind_quiet [OF quiet_now_iso]
  conforms_bind_quiet [OF quiet_repeat [OF quiet_generators(2)]]
  conforms_bind_quiet [OF quiet_repeat [OF quiet_generators(4)]]
  conforms_bind_quiet [OF follows_asks] conforms_bind_quiet [OF follows_lift] conforms_bind_quiet [OF quiet_next_fresh]

lemmas conforms_file_steps [py_conf] =
  conforms_then_quiet [OF follows_write] conforms_then_quiet [OF follows_mkdirs] conforms_then_quiet [OF follows_chmod]
  conforms_then_quiet [OF follows_set] conforms_then_quiet [OF follows_sleep] conforms_bind_quiet [OF follows_read]

lemmas conforms_quiet_ends [py_conf] =
  conforms_quiet [OF follows_ret] conforms_quiet [OF quiet_eval] conforms_quiet [OF quiet_check]
  conforms_quiet [OF follows_print] conforms_quiet [OF quiet_print_e]

lemma conforms_call_steps [py_conf]:
  "says part path \<Longrightarrow> (\<And>x. conforms ps (f x))
     \<Longrightarrow> conforms (answered meth part allowed # ps) (bind_py (call A path meth body token allowed) f)"
  "says part path \<Longrightarrow> conforms ps n
     \<Longrightarrow> conforms (answered meth part allowed # ps) (then_py (call A path meth body token allowed) n)"
  "says part path \<Longrightarrow> conforms [answered meth part allowed] (call A path meth body token allowed)"
  "says part path \<Longrightarrow> (\<And>x. conforms ps (f x))
     \<Longrightarrow> conforms (answered meth part allowed # ps) (bind_py (call_with A path meth body token allowed hs) f)"
  "says part path \<Longrightarrow> conforms ps n
     \<Longrightarrow> conforms (answered meth part allowed # ps) (then_py (call_with A path meth body token allowed hs) n)"
  "says part path \<Longrightarrow> conforms [answered meth part allowed] (call_with A path meth body token allowed hs)"
  by (intro conforms_bind_cons conforms_then_cons conforms_call conforms_call_with; assumption)+

lemma conforms_sql_steps [py_conf]:
  "(\<And>x. conforms ps (f x)) \<Longrightarrow> conforms (sql_events @ ps) (bind_py (sql_e A e rt) f)"
  "conforms ps n \<Longrightarrow> conforms (sql_events @ ps) (then_py (sql_e A e rt) n)"
  "(\<And>x. conforms [] (f x)) \<Longrightarrow> conforms sql_events (bind_py (sql_e A e rt) f)"
  "conforms [] n \<Longrightarrow> conforms sql_events (then_py (sql_e A e rt) n)"
  "conforms sql_events (sql_e A e rt)"
  using conforms_bind [OF conforms_sql_e [of A e rt], of "[]" f] conforms_then [OF conforms_sql_e [of A e rt], of "[]" n]
  by (auto intro: conforms_bind conforms_then conforms_sql_e)

lemma conforms_loop:
  "(\<And>x. x \<in> set xs \<Longrightarrow> conforms ps (f x)) \<Longrightarrow> length xs = n \<Longrightarrow> conforms (concat (replicate n ps)) (for_py f xs)"
  using conforms_for [of xs "\<lambda>_. ps" f] by (simp add: map_replicate_const)

lemma conforms_fold:
  "(\<And>x b. x \<in> set xs \<Longrightarrow> conforms ps (f x b)) \<Longrightarrow> conforms (concat (replicate (length xs) ps)) (fold_py f xs b)"
proof (induction xs arbitrary: b)
  case Nil
  then show ?case by (auto intro!: conforms_quiet follows_ret)
next
  case (Cons x xs)
  then show ?case by (auto intro!: conforms_bind)
qed

lemma conforms_loop_steps [py_conf]:
  "length xs = k \<Longrightarrow> (\<And>x. conforms ps (f x)) \<Longrightarrow> conforms qs n
     \<Longrightarrow> conforms (concat (replicate k ps) @ qs) (then_py (for_py f xs) n)"
  "length xs = k \<Longrightarrow> (\<And>x b. conforms ps (g x b)) \<Longrightarrow> (\<And>b. conforms qs (h b))
     \<Longrightarrow> conforms (concat (replicate k ps) @ qs) (bind_py (fold_py g xs b) h)"
  "length xs = k \<Longrightarrow> (\<And>x. conforms ps (m x)) \<Longrightarrow> (\<And>b. conforms qs (h' b))
     \<Longrightarrow> conforms (concat (replicate k ps) @ qs) (bind_py (map_py m xs) h')"
  using conforms_fold [of xs ps g b] conforms_map [of xs "\<lambda>_. ps" m] conforms_loop [of xs ps f k]
  by (auto intro!: conforms_then conforms_bind simp: map_replicate_const)

lemmas conforms_cases [py_conf] = conforms_pair conforms_pair_at conforms_if conforms_loop

lemma conforms_then_unit [py_conf]: "conforms ps m \<Longrightarrow> conforms ps (then_py m (ret ()))"
  using conforms_then [OF _ conforms_quiet [OF follows_ret], of ps m "()"] by simp

lemma conforms_bind_last: "conforms ps m \<Longrightarrow> (\<And>x. conforms [] (f x)) \<Longrightarrow> conforms ps (bind_py m f)"
  using conforms_bind [of ps m "[]" f] by simp

lemma conforms_then_last: "conforms ps m \<Longrightarrow> conforms [] n \<Longrightarrow> conforms ps (then_py m n)"
  using conforms_then [of ps m "[]" n] by simp

lemma conforms_loop_ends [py_conf]:
  "length xs = k \<Longrightarrow> (\<And>x. conforms ps (f x)) \<Longrightarrow> conforms [] n \<Longrightarrow> conforms (concat (replicate k ps)) (then_py (for_py f xs) n)"
  "length xs = k \<Longrightarrow> (\<And>x. conforms ps (m x)) \<Longrightarrow> (\<And>b. conforms [] (h b))
     \<Longrightarrow> conforms (concat (replicate k ps)) (bind_py (map_py m xs) h)"
  using conforms_map [of xs "\<lambda>_. ps" m] conforms_loop [of xs ps f k]
  by (auto intro!: conforms_then_last conforms_bind_last simp: map_replicate_const)

lemma conforms_if_steps [py_conf]:
  "(b \<Longrightarrow> conforms ps m) \<Longrightarrow> (\<not> b \<Longrightarrow> conforms qs m') \<Longrightarrow> (\<And>x. conforms rs (f x))
     \<Longrightarrow> conforms ((if b then ps else qs) @ rs) (bind_py (if b then m else m') f)"
  "(b \<Longrightarrow> conforms ps m) \<Longrightarrow> (\<not> b \<Longrightarrow> conforms qs m') \<Longrightarrow> conforms rs n
     \<Longrightarrow> conforms ((if b then ps else qs) @ rs) (then_py (if b then m else m') n)"
  by (auto intro: conforms_bind conforms_then)

end
