(* ===== verification/Exchange.thy ===== *)
theory Exchange
  imports Script
begin

text \<open>
  The economic exchange over HTTP (scripts/economic_exchange_e2e.py): making a user, negotiating an
  agreement, activating and signing a trade with Ed25519 keys, committing it, and the whole script.
  Each definition has a plan, the calls with the statuses it insists on, and conforms to it.
\<close>

section \<open>The script\<close>

definition economic_permissions :: "string list" where
  "economic_permissions = [''stir.listings.read'', ''stir.listings.create'', ''stir.listings.update'', ''stir.participants.read'',
        ''stir.participants.update'', ''stir.negotiations.read'', ''stir.negotiations.create'',
        ''stir.negotiations.update'', ''stir.agreements.read'', ''stir.economic.read'',
        ''stir.economic.manage'', ''OSTRIS_DISCOVERY_READ'', ''OSTRIS_COMMUNITY_MANAGE'',
        ''OSTRIS_PARTICIPANT_ACTIVATE'', ''OSTRIS_TRANSACTION_CREATE'', ''OSTRIS_TRANSACTION_READ'',
        ''OSTRIS_TRANSACTION_AUTHORIZE'', ''OSTRIS_TRANSACTION_COMMIT'']"

definition PERMISSIONS :: json where
  "PERMISSIONS = JArr (map JStr economic_permissions)"

definition fresh_keypair :: "('k, 'x) services \<Rightarrow> ('x host, 'k \<times> json) py" where
  "fresh_keypair A = bind_py next_fresh (\<lambda>n. ret (case new_keypair (keys_of A) n of (k, p) \<Rightarrow> (k, JStr p)))"

definition make_user :: "('k, 'x) services \<Rightarrow> json \<Rightarrow> json \<Rightarrow> json \<Rightarrow> json \<Rightarrow> json \<Rightarrow> ('x host, json) py" where
  "make_user A admin tenant role_id label suffix =
     bind_py (eval (fmt A [val label, str ''-'', val suffix, str ''@stir.test''])) (\<lambda>email.
     bind_py (token_urlsafe A 32) (\<lambda>password.
     bind_py (eval (fmt A [str ''/api/shell/v1/tenants/'', val tenant])) (\<lambda>base.
     then_py (call A (plus (val base) (str ''/users'')) ''POST'' (obj [(''email'', val email), (''displayName'',
         val label), (''authProvider'', str ''local''), (''subject'', val email), (''password'', val password),
         (''role'', str ''member''), (''enabled'', yes)]) (val admin) [200, 201]) (
     bind_py (call A (str ''/api/shell/v1/auth/login'') ''POST'' (obj [(''email'', val email), (''password'',
         val password)]) none [200]) (\<lambda>session.
     then_py (call A (plus (plus (val base) (str ''/roles/users/'')) (item (item (val session) ''user'') ''id''))
         ''PUT'' (obj [(''roleIds'', arr [val role_id])]) (val admin) [204]) (
     call A (str ''/api/shell/v1/auth/login'') ''POST'' (obj [(''email'', val email), (''password'', val password)])
         none [200]))))))"

definition make_user_plan :: "plan" where
  "make_user_plan =
     [answered ''POST'' ''/users'' [200, 201], answered ''POST'' ''/api/shell/v1/auth/login'' [200], answered ''PUT''
         ''/roles/users/'' [204], answered ''POST'' ''/api/shell/v1/auth/login'' [200]]"

definition open_and_accept :: "('k, 'x) services \<Rightarrow> json \<Rightarrow> json \<Rightarrow> json \<Rightarrow> json \<Rightarrow> json \<Rightarrow> json \<Rightarrow> json \<Rightarrow> json \<Rightarrow> ('x host, json \<times> json) py" where
  "open_and_accept A base_a ana pedro direction title category first_amount counter_amount =
     bind_py (call A (plus (val base_a) (str ''/listings'')) ''POST'' (obj [(''direction'', val direction),
         (''title'', val title), (''description'', str ''E2E fixture''), (''category'', val category),
         (''resourceKind'', str ''physical''), (''location'', str ''Girona'')]) (item (val ana) ''accessToken'')
         [201]) (\<lambda>listing.
     bind_py (call A (plus (val base_a) (fmt A [str ''/listings/'', item (val listing) ''id'', str ''/offers'']))
         ''POST'' (obj [(''message'', str ''proposal''), (''quantity'', none), (''unitLabel'', none),
         (''proposedAmount'', show_e A (val first_amount)), (''proposedUnitRef'', none), (''terms'', none)])
         (item (val pedro) ''accessToken'') [201]) (\<lambda>negotiation.
     bind_py (if counter_amount \<noteq> JNull then bind_py (call A (plus (val base_a) (fmt A [str ''/negotiations/'',
         item (val negotiation) ''id'', str ''/offers''])) ''POST'' (obj [(''message'', str ''counter''),
         (''quantity'', none), (''unitLabel'', none), (''proposedAmount'', show_e A (val counter_amount)),
         (''proposedUnitRef'', none), (''terms'', none), (''expectedVersion'', item (val negotiation) ''version'')])
         (item (val ana) ''accessToken'') [200]) (\<lambda>negotiation.
     bind_py (ret counter_amount) (\<lambda>final_amount.
     bind_py (ret pedro) (\<lambda>acceptor.
     ret (negotiation, final_amount, acceptor))))
     else bind_py (ret first_amount) (\<lambda>final_amount.
     bind_py (ret ana) (\<lambda>acceptor.
     ret (negotiation, final_amount, acceptor)))) (\<lambda>(negotiation, final_amount, acceptor).
     bind_py (eval (at (item (val negotiation) ''offers'') (- 1))) (\<lambda>head.
     bind_py (call A (plus (val base_a) (fmt A [str ''/negotiations/'', item (val negotiation) ''id'',
         str ''/accept''])) ''POST'' (obj [(''offerId'', item (val head) ''id''), (''expectedVersion'', item (val
         negotiation) ''version'')]) (item (val acceptor) ''accessToken'') [200]) (\<lambda>agreement.
     ret (agreement, final_amount))))))"

definition open_and_accept_plan :: "json \<Rightarrow> plan" where
  "open_and_accept_plan counter_amount =
     [answered ''POST'' ''/listings'' [201], answered ''POST'' ''/offers'' [201]] @ (if counter_amount \<noteq> JNull
         then [answered ''POST'' ''/offers'' [200]] else []) @ [answered ''POST'' ''/accept'' [200]]"

definition run_exchange :: "('k, 'x) services \<Rightarrow> json \<Rightarrow> json \<Rightarrow> json \<Rightarrow> json \<Rightarrow> ('k \<times> json \<times> json) \<Rightarrow> ('k \<times> json \<times> json) \<Rightarrow> ('x host, json) py" where
  "run_exchange A base_a initiator_session owner_session agreement_id initiator_key owner_key =
     bind_py (call A (plus (val base_a) (fmt A [str ''/agreements/'', val agreement_id, str ''/trade/activate'']))
         ''POST'' (obj []) (item (val owner_session) ''accessToken'') [200]) (\<lambda>trade.
     then_py (call A (plus (val base_a) (fmt A [str ''/agreements/'', val agreement_id, str ''/trade/commit'']))
         ''POST'' (obj []) (item (val owner_session) ''accessToken'') [409]) (
     bind_py (call A (plus (val base_a) (fmt A [str ''/agreements/'', val agreement_id, str ''/trade''])) ''GET'' none
         (item (val owner_session) ''accessToken'') [200]) (\<lambda>r3.
     then_py (check (eq A (item (val r3) ''executionState'') (str ''AWAITING_SIGNATURES'')) []) (
     then_py (for_py (\<lambda>(session, (private_key, _, credential_id)).
     bind_py (call A (plus (val base_a) (fmt A [str ''/agreements/'', val agreement_id,
         str ''/trade/signing-payload''])) ''GET'' none (item (val session) ''accessToken'') [200]) (\<lambda>payload.
     bind_py (eval (authorization_e A (val private_key) (item (val payload) ''authorizationPayload'')))
         (\<lambda>signature.
     then_py (call A (plus (val base_a) (fmt A [str ''/agreements/'', val agreement_id,
         str ''/trade/authorizations''])) ''POST'' (obj [(''credentialId'', val credential_id),
         (''signatureBase64url'', val signature)]) (item (val session) ''accessToken'') [200]) (
     ret ())))) [(initiator_session, initiator_key), (owner_session, owner_key)]) (
     call A (plus (val base_a) (fmt A [str ''/agreements/'', val agreement_id, str ''/trade/commit''])) ''POST'' (obj
         []) (item (val owner_session) ''accessToken'') [200])))))"

definition run_exchange_plan :: "plan" where
  "run_exchange_plan =
     [answered ''POST'' ''/trade/activate'' [200], answered ''POST'' ''/trade/commit'' [409], answered ''GET''
         ''/trade'' [200]] @ concat (replicate 2 ([answered ''GET'' ''/trade/signing-payload'' [200], answered
         ''POST'' ''/trade/authorizations'' [200]])) @ [answered ''POST'' ''/trade/commit'' [200]]"

definition activate_economic :: "('k, 'x) services \<Rightarrow> json \<Rightarrow> json \<Rightarrow> ('x host, 'k \<times> json \<times> json) py" where
  "activate_economic A base_a session =
     bind_py (fresh_keypair A) (\<lambda>(private_key, public_key).
     bind_py (call A (plus (val base_a) (str ''/economic/activate'')) ''POST'' (obj [(''publicKeyBase64url'',
         val public_key)]) (item (val session) ''accessToken'') [200]) (\<lambda>activation.
     bind_py (eval (item (val activation) ''credentialId'')) (\<lambda>r3.
     ret (private_key, public_key, r3))))"

definition activate_economic_plan :: "plan" where
  "activate_economic_plan =
     [answered ''POST'' ''/economic/activate'' [200]]"

definition exchange_main :: "('k, 'x) services \<Rightarrow> ('x host, unit) py" where
  "exchange_main A =
     bind_py (read_secret A ''login_password'') (\<lambda>r1.
     bind_py (call A (str ''/api/shell/v1/auth/login'') ''POST'' (obj [(''email'', str ''admin@stir.test''),
         (''password'', val r1)]) none [200]) (\<lambda>r2.
     bind_py (eval (item (val r2) ''accessToken'')) (\<lambda>admin.
     bind_py (uuid4_hex A) (\<lambda>r3.
     bind_py (eval (upto (val r3) 8)) (\<lambda>suffix.
     bind_py (sql_e A (fmt A [str ''select tenant_id from idax_core.tenant_create('stir-eco-a-'', val suffix, sq,
         str '', 'STIR Economic A', 'active', false);'']) False) (\<lambda>tenant_a.
     bind_py (call A (fmt A [str ''/api/shell/v1/tenants/'', val tenant_a, str ''/roles'']) ''POST'' (obj [(''key'',
         plus (str ''stir_eco_'') (val suffix)), (''name'', str ''STIR economic E2E''), (''description'',
         str ''Isolated development fixture''), (''enabled'', yes)]) (val admin) [200, 201]) (\<lambda>role.
     then_py (call A (plus (plus (fmt A [str ''/api/shell/v1/tenants/'', val tenant_a, str ''/roles/'']) (item (val
         role) ''id'')) (str ''/permissions'')) ''PUT'' (val PERMISSIONS) (val admin) [200]) (
     bind_py (eval (item (val role) ''id'')) (\<lambda>r7.
     bind_py (make_user A admin tenant_a r7 (JStr ''ana'') suffix) (\<lambda>ana.
     bind_py (eval (item (val role) ''id'')) (\<lambda>r9.
     bind_py (make_user A admin tenant_a r9 (JStr ''pedro'') suffix) (\<lambda>pedro.
     bind_py (eval (fmt A [str ''/api/stir/tenants/'', val tenant_a])) (\<lambda>base_a.
     then_py (call A (plus (val base_a) (str ''/participants/me'')) ''PUT'' (obj [(''displayName'', plus (str
         ''Ana '') (val suffix)), (''bio'', str ''Grows tomatoes''), (''location'', str ''Girona'')]) (item (val ana)
         ''accessToken'') [200]) (
     then_py (call A (plus (val base_a) (str ''/participants/me'')) ''PUT'' (obj [(''displayName'', plus (str
         ''Pedro '') (val suffix)), (''bio'', str ''Fixes bicycles''), (''location'', str ''Girona'')]) (item (val
         pedro) ''accessToken'') [200]) (
     bind_py (call A (plus (val base_a) (str ''/economic/marketplace/bootstrap'')) ''POST'' (obj [(''communityName'',
         plus (str ''STIR E2E Community '') (val suffix)), (''unitCode'', str ''CRD''), (''unitScale'', num 0)])
         (item (val ana) ''accessToken'') [200]) (\<lambda>marketplace.
     then_py (check (eq A (item (val marketplace) ''unitScale'') (num 0)) []) (
     bind_py (activate_economic A base_a ana) (\<lambda>ana_key.
     bind_py (activate_economic A base_a pedro) (\<lambda>pedro_key.
     bind_py (call A (plus (val base_a) (str ''/economic/me'')) ''GET'' none (item (val ana) ''accessToken'') [200])
         (\<lambda>ana_start.
     bind_py (call A (plus (val base_a) (str ''/economic/me'')) ''GET'' none (item (val pedro) ''accessToken'') [200])
         (\<lambda>pedro_start.
     then_py (check (both (eq A (item (val ana_start) ''balanceProjection'') (str ''0'')) (eq A (item (val
         pedro_start) ''balanceProjection'') (str ''0''))) []) (
     bind_py (eval (plus (str ''20kg tomatoes '') (val suffix))) (\<lambda>r18.
     bind_py (open_and_accept A base_a ana pedro (JStr ''OFFER'') r18 (JStr ''home'') (JInt 1000) (JInt 900))
         (\<lambda>(agreement, amount).
     then_py (check (eq A (item (val agreement) ''economicPhase'') (str ''AWAITING_ECONOMIC_EXECUTION'')) []) (
     then_py (check (eq A (val amount) (num 900)) []) (
     bind_py (eval (item (val agreement) ''id'')) (\<lambda>r20.
     bind_py (run_exchange A base_a pedro ana r20 pedro_key ana_key) (\<lambda>trade.
     then_py (check (eq A (item (val trade) ''executionState'') (str ''COMMITTED'')) []) (
     then_py (check (eq A (item (val trade) ''amount'') (str ''900'')) []) (
     then_py (check (both (eq A (item (val trade) ''payerUserId'') (item (item (val pedro) ''user'') ''id'')) (eq A
         (item (val trade) ''payeeUserId'') (item (item (val ana) ''user'') ''id''))) []) (
     bind_py (eval (item (val trade) ''committedSequence'')) (\<lambda>receipt_sequence.
     bind_py (eval (item (val trade) ''protocolDigest'')) (\<lambda>receipt_digest.
     bind_py (call A (plus (val base_a) (str ''/economic/me'')) ''GET'' none (item (val ana) ''accessToken'') [200])
         (\<lambda>ana_after.
     bind_py (call A (plus (val base_a) (str ''/economic/me'')) ''GET'' none (item (val pedro) ''accessToken'') [200])
         (\<lambda>pedro_after.
     then_py (check (eq A (item (val ana_after) ''balanceProjection'') (str ''900'')) []) (
     then_py (check (eq A (item (val pedro_after) ''balanceProjection'') (str ''-900'')) []) (
     then_py (print_py
         (''PASS: OFFER exchange - Ana offered, Pedro proposed, Ana countered, Pedro accepted; both signed '' @
         ''with real Ed25519 keys; osTRIS committed; balances moved exactly as agreed.'')) (
     bind_py (call A (plus (val base_a) (fmt A [str ''/agreements/'', item (val agreement) ''id'',
         str ''/trade/sync''])) ''POST'' (obj []) (item (val ana) ''accessToken'') [200]) (\<lambda>resynced.
     then_py (check (eq A (item (val resynced) ''executionState'') (str ''COMMITTED'')) []) (
     then_py (check (both (eq A (item (val resynced) ''committedSequence'') (val receipt_sequence)) (eq A (item (val
         resynced) ''protocolDigest'') (val receipt_digest))) []) (
     then_py (print_py (''PASS: reconciliation - sync() re-reads osTRIS authoritative status and reports the same '' @
         ''committedSequence/protocolDigest as the original commit receipt.'')) (
     bind_py (call A (plus (val base_a) (fmt A [str ''/agreements/'', item (val agreement) ''id'',
         str ''/trade/activate''])) ''POST'' (obj []) (item (val ana) ''accessToken'') [200]) (\<lambda>reactivated.
     then_py (check (eq A (item (val reactivated) ''id'') (item (val trade) ''id'')) []) (
     bind_py (call A (plus (val base_a) (fmt A [str ''/agreements/'', item (val agreement) ''id'',
         str ''/trade/commit''])) ''POST'' (obj []) (item (val pedro) ''accessToken'') [200]) (\<lambda>recommitted.
     then_py (check (eq A (item (val recommitted) ''committedSequence'') (val receipt_sequence)) []) (
     bind_py (sql_e A (fmt A [str ''begin; set local role idax_app; select set_config('app.tenant_id','', sq,
         val tenant_a, sq, str '',true); select count(*) from stir.trade where tenant_id='', sq, val tenant_a, sq,
         str '' and agreement_id='', sq, item (val agreement) ''id'', sq, str ''; rollback;'']) True) (\<lambda>r27.
     bind_py (eval (line_at (val r27) (- 2))) (\<lambda>trade_rows.
     then_py (check (eq A (val trade_rows) (str ''1'')) []) (
     bind_py (sql_e A (fmt A [str ''begin; set local role idax_app; select set_config('app.tenant_id','', sq,
         val tenant_a, sq, str '',true); select count(*) from ostris.journal_transaction where tenant_id='', sq,
         val tenant_a, sq, str '' and id='', sq, item (val trade) ''transactionId'', sq, str ''; rollback;'']) True)
         (\<lambda>r28.
     bind_py (eval (line_at (val r28) (- 2))) (\<lambda>journal_rows.
     then_py (check (eq A (val journal_rows) (str ''1'')) []) (
     then_py (print_py
         (''PASS: idempotency - repeated activate/commit calls do not create a second Trade or a second '' @
         ''osTRIS journal entry.'')) (
     bind_py (eval (plus (str ''Need bicycle repair '') (val suffix))) (\<lambda>r29.
     bind_py (open_and_accept A base_a ana pedro (JStr ''WANTED'') r29 (JStr ''general'') (JInt 500) JNull)
         (\<lambda>(wanted_agreement, wanted_amount).
     then_py (check (eq A (item (val wanted_agreement) ''economicPhase'') (str ''AWAITING_ECONOMIC_EXECUTION'')) []) (
     bind_py (eval (item (val wanted_agreement) ''id'')) (\<lambda>r31.
     bind_py (run_exchange A base_a pedro ana r31 pedro_key ana_key) (\<lambda>wanted_trade.
     then_py (check (eq A (item (val wanted_trade) ''executionState'') (str ''COMMITTED'')) []) (
     then_py (check (both (eq A (item (val wanted_trade) ''payerUserId'') (item (item (val ana) ''user'') ''id'')) (eq
         A (item (val wanted_trade) ''payeeUserId'') (item (item (val pedro) ''user'') ''id''))) []) (
     bind_py (call A (plus (val base_a) (str ''/economic/me'')) ''GET'' none (item (val ana) ''accessToken'') [200])
         (\<lambda>ana_final.
     bind_py (call A (plus (val base_a) (str ''/economic/me'')) ''GET'' none (item (val pedro) ''accessToken'') [200])
         (\<lambda>pedro_final.
     then_py (check (eq A (int_e A (item (val ana_final) ''balanceProjection'')) (minus (int_e A (item (val ana_after)
         ''balanceProjection'')) (num 500))) []) (
     then_py (check (eq A (int_e A (item (val pedro_final) ''balanceProjection'')) (plus (int_e A (item (val
         pedro_after) ''balanceProjection'')) (num 500))) []) (
     then_py (print_py
         (''PASS: WANTED direction - Ana (the requester) paid Pedro (the provider), confirming economic '' @
         ''direction is not hardcoded to OFFER.'')) (
     bind_py (eval (plus (str ''Large batch '') (val suffix))) (\<lambda>r35.
     bind_py (open_and_accept A base_a ana pedro (JStr ''OFFER'') r35 (JStr ''home'') (JInt 500000) JNull)
         (\<lambda>(reject_agreement, reject_amount).
     bind_py (call A (plus (val base_a) (fmt A [str ''/agreements/'', item (val reject_agreement) ''id'',
         str ''/trade/activate''])) ''POST'' (obj []) (item (val pedro) ''accessToken'') [200])
         (\<lambda>reject_trade.
     bind_py (fold_py (\<lambda>(session, key) reject_trade.
     bind_py (call A (plus (val base_a) (fmt A [str ''/agreements/'', item (val reject_agreement) ''id'',
         str ''/trade/signing-payload''])) ''GET'' none (item (val session) ''accessToken'') [200]) (\<lambda>payload.
     bind_py (eval (authorization_e A (val (fst key)) (item (val payload) ''authorizationPayload'')))
         (\<lambda>signature.
     bind_py (call A (plus (val base_a) (fmt A [str ''/agreements/'', item (val reject_agreement) ''id'',
         str ''/trade/authorizations''])) ''POST'' (obj [(''credentialId'', val (snd (snd key))),
         (''signatureBase64url'', val signature)]) (item (val session) ''accessToken'') [200]) (\<lambda>reject_trade.
     ret reject_trade)))) [(pedro, pedro_key), (ana, ana_key)] reject_trade) (\<lambda>reject_trade.
     then_py (call A (plus (val base_a) (fmt A [str ''/agreements/'', item (val reject_agreement) ''id'',
         str ''/trade/commit''])) ''POST'' (obj []) (item (val ana) ''accessToken'') [422]) (
     bind_py (call A (plus (val base_a) (fmt A [str ''/agreements/'', item (val reject_agreement) ''id'',
         str ''/trade''])) ''GET'' none (item (val ana) ''accessToken'') [200]) (\<lambda>rejected.
     then_py (check (eq A (item (val rejected) ''executionState'') (str ''AWAITING_SIGNATURES'')) []) (
     bind_py (call A (plus (val base_a) (fmt A [str ''/agreements/'', item (val reject_agreement) ''id''])) ''GET''
         none (item (val ana) ''accessToken'') [200]) (\<lambda>still_agreement.
     then_py (check (eq A (item (val still_agreement) ''economicPhase'') (str ''AWAITING_SIGNATURES'')) []) (
     bind_py (call A (plus (val base_a) (str ''/economic/me'')) ''GET'' none (item (val ana) ''accessToken'') [200])
         (\<lambda>ana_unaffected.
     bind_py (call A (plus (val base_a) (str ''/economic/me'')) ''GET'' none (item (val pedro) ''accessToken'') [200])
         (\<lambda>pedro_unaffected.
     then_py (check (eq A (item (val ana_unaffected) ''balanceProjection'') (item (val ana_final)
         ''balanceProjection'')) ''a rejected commit must never move a balance'') (
     then_py (check (eq A (item (val pedro_unaffected) ''balanceProjection'') (item (val pedro_final)
         ''balanceProjection'')) ''a rejected commit must never move a balance'') (
     bind_py (sql_e A (fmt A [str ''begin; set local role idax_app; select set_config('app.tenant_id','', sq,
         val tenant_a, sq, str '',true); select count(*) from ostris.journal_transaction where tenant_id='', sq,
         val tenant_a, sq, str '' and id='', sq, item (val reject_trade) ''transactionId'', sq, str ''; rollback;''])
         True) (\<lambda>r45.
     bind_py (eval (line_at (val r45) (- 2))) (\<lambda>rejected_journal_rows.
     then_py (check (eq A (val rejected_journal_rows) (str ''0'')) []) (
     then_py (print_py
         (''PASS: osTRIS denied a credit-floor commit without journal entry; Agreement stays accepted and '' @
         ''execution remains retryable.'')) (
     print_py
         ''STIR 0.3 ECONOMIC EXCHANGE HTTP E2E: PASS''))))))))))))))))))))))))))))))))))))))))))))))))))))))))))))))))))))))))))))))))))"

definition exchange_main_plan :: "plan" where
  "exchange_main_plan =
     [answered ''POST'' ''/api/shell/v1/auth/login'' [200]] @ sql_events @ [answered ''POST'' ''/roles'' [200, 201],
         answered ''PUT'' ''/permissions'' [200]] @ make_user_plan @ make_user_plan @ [answered ''PUT''
         ''/participants/me'' [200], answered ''PUT'' ''/participants/me'' [200], answered ''POST''
         ''/economic/marketplace/bootstrap'' [200]] @ activate_economic_plan @ activate_economic_plan @ [answered
         ''GET'' ''/economic/me'' [200], answered ''GET'' ''/economic/me'' [200]] @ open_and_accept_plan (JInt 900) @
         run_exchange_plan @ [answered ''GET'' ''/economic/me'' [200], answered ''GET'' ''/economic/me'' [200],
         answered ''POST'' ''/trade/sync'' [200], answered ''POST'' ''/trade/activate'' [200], answered ''POST''
         ''/trade/commit'' [200]] @ sql_events @ sql_events @ open_and_accept_plan JNull @ run_exchange_plan @
         [answered ''GET'' ''/economic/me'' [200], answered ''GET'' ''/economic/me'' [200]] @ open_and_accept_plan
         JNull @ [answered ''POST'' ''/trade/activate'' [200]] @ concat (replicate 2 ([answered ''GET''
         ''/trade/signing-payload'' [200], answered ''POST'' ''/trade/authorizations'' [200]])) @ [answered ''POST''
         ''/trade/commit'' [422], answered ''GET'' ''/trade'' [200], answered ''GET'' ''/agreements/'' [200], answered
         ''GET'' ''/economic/me'' [200], answered ''GET'' ''/economic/me'' [200]] @ sql_events"

section \<open>Conformance\<close>

lemma fresh_keypair_quiet [py_plan]: "follows [] (fresh_keypair A)"
  unfolding fresh_keypair_def by (intro follows_bind_quiet py_plan)

lemmas fresh_keypair_steps [py_conf] = conforms_bind_quiet [OF fresh_keypair_quiet]

lemma make_user_conforms: "conforms make_user_plan (make_user A admin tenant role_id label suffix)"
  unfolding make_user_plan_def make_user_def append.simps by (intro py_conf) simp_all

lemmas make_user_steps [py_conf] =
  make_user_conforms conforms_bind [OF make_user_conforms] conforms_then [OF make_user_conforms]
  conforms_bind_last [OF make_user_conforms] conforms_then_last [OF make_user_conforms]

lemma open_and_accept_conforms: "conforms (open_and_accept_plan counter_amount) (open_and_accept A base_a ana pedro direction title category first_amount counter_amount)"
  unfolding open_and_accept_plan_def open_and_accept_def append.simps by (intro py_conf) simp_all

lemmas open_and_accept_steps [py_conf] =
  open_and_accept_conforms conforms_bind [OF open_and_accept_conforms] conforms_then [OF open_and_accept_conforms]
  conforms_bind_last [OF open_and_accept_conforms] conforms_then_last [OF open_and_accept_conforms]

lemma run_exchange_conforms: "conforms run_exchange_plan (run_exchange A base_a initiator_session owner_session agreement_id initiator_key owner_key)"
  unfolding run_exchange_plan_def run_exchange_def append.simps by (intro py_conf) simp_all

lemmas run_exchange_steps [py_conf] =
  run_exchange_conforms conforms_bind [OF run_exchange_conforms] conforms_then [OF run_exchange_conforms]
  conforms_bind_last [OF run_exchange_conforms] conforms_then_last [OF run_exchange_conforms]

lemma activate_economic_conforms: "conforms activate_economic_plan (activate_economic A base_a session)"
  unfolding activate_economic_plan_def activate_economic_def append.simps by (intro py_conf) simp_all

lemmas activate_economic_steps [py_conf] =
  activate_economic_conforms conforms_bind [OF activate_economic_conforms] conforms_then [OF activate_economic_conforms]
  conforms_bind_last [OF activate_economic_conforms] conforms_then_last [OF activate_economic_conforms]

lemma exchange_main_conforms: "conforms exchange_main_plan (exchange_main A)"
  unfolding exchange_main_plan_def exchange_main_def append.simps by (intro py_conf) simp_all

lemmas exchange_main_steps [py_conf] =
  exchange_main_conforms conforms_bind [OF exchange_main_conforms] conforms_then [OF exchange_main_conforms]
  conforms_bind_last [OF exchange_main_conforms] conforms_then_last [OF exchange_main_conforms]

end
