(* ===== verification/References.thy ===== *)
theory References
  imports Exchange
begin

text \<open>
  Community value references over HTTP (scripts/community_references_e2e.py): the fixtures most other
  scripts start from (two tenants, their roles, four users and the bound community), and the script
  that drafts, publishes and revises a convention and checks what stays private and unchanged.
\<close>

section \<open>The script\<close>

definition MEMBER :: json where
  "MEMBER = JArr (map JStr (economic_permissions @ [''stir.references.read'', ''stir.references.propose'']))"

definition reference_role :: "('k, 'x) services \<Rightarrow> json \<Rightarrow> json \<Rightarrow> json \<Rightarrow> json \<Rightarrow> json \<Rightarrow> ('x host, json) py" where
  "reference_role A admin suffix t key permissions =
     bind_py (eval (fmt A [str ''/api/shell/v1/tenants/'', val t, str ''/roles''])) (\<lambda>base.
     bind_py (call A (val base) ''POST'' (obj [(''key'', plus (val key) (val suffix)), (''name'', val key),
         (''description'', str ''Local reference test''), (''enabled'', yes)]) (val admin) [200, 201]) (\<lambda>row.
     then_py (call A (plus (plus (plus (val base) (str ''/'')) (item (val row) ''id'')) (str ''/permissions''))
         ''PUT'' (val permissions) (val admin) [200]) (
     eval (item (val row) ''id''))))"

definition reference_role_plan :: "plan" where
  "reference_role_plan =
     [answered ''POST'' [] [200, 201], answered ''PUT'' ''/permissions'' [200]]"

definition reference_fixtures :: "('k, 'x) services \<Rightarrow> ('x host, json \<times> json \<times> json \<times> json \<times> json \<times> json \<times> json) py" where
  "reference_fixtures A =
     bind_py (read_secret A ''login_password'') (\<lambda>r1.
     bind_py (call A (str ''/api/shell/v1/auth/login'') ''POST'' (obj [(''email'', str ''admin@stir.test''),
         (''password'', val r1)]) none [200]) (\<lambda>r2.
     bind_py (eval (item (val r2) ''accessToken'')) (\<lambda>admin.
     bind_py (uuid4_hex A) (\<lambda>r3.
     bind_py (eval (upto (val r3) 8)) (\<lambda>suffix.
     bind_py (sql_e A (fmt A [str ''select tenant_id from idax_core.tenant_create('stir-ref-'', val suffix, sq,
         str '','STIR References '', val suffix, sq, str '','active',false);'']) False) (\<lambda>tenant.
     bind_py (sql_e A (fmt A [str ''select tenant_id from idax_core.tenant_create('stir-ref-b-'', val suffix, sq,
         str '','STIR Reference B','active',false);'']) False) (\<lambda>other.
     bind_py (reference_role A admin suffix tenant (JStr ''member'') MEMBER) (\<lambda>member.
     bind_py (eval (plus (val MEMBER) (arr [str ''stir.references.publish'']))) (\<lambda>r7.
     bind_py (reference_role A admin suffix tenant (JStr ''publisher'') r7) (\<lambda>publisher.
     bind_py (reference_role A admin suffix other (JStr ''other'') MEMBER) (\<lambda>b_role.
     bind_py (make_user A admin tenant publisher (JStr ''ana'') suffix) (\<lambda>ana.
     then_py (sql_e A (fmt A [str ''update idax_core.tenant_user set role='admin' where tenant_id='', sq, val tenant,
         sq, str '' and user_id='', sq, item (item (val ana) ''user'') ''id'', sq, str '';'']) False) (
     bind_py (make_user A admin tenant member (JStr ''pedro'') suffix) (\<lambda>pedro.
     bind_py (make_user A admin tenant member (JStr ''carlos'') suffix) (\<lambda>carlos.
     bind_py (make_user A admin other b_role (JStr ''bea'') suffix) (\<lambda>bea.
     bind_py (eval (fmt A [str ''/api/stir/tenants/'', val tenant])) (\<lambda>base.
     bind_py (call A (plus (val base) (str ''/economic/marketplace/bootstrap'')) ''POST'' (obj [(''communityName'',
         plus (str ''References '') (val suffix)), (''unitCode'', str ''REF''), (''unitScale'', num 2)]) (item (val
         ana) ''accessToken'') [200]) (\<lambda>binding.
     ret (tenant, base, ana, pedro, carlos, bea, binding)))))))))))))))))))"

definition reference_fixtures_plan :: "plan" where
  "reference_fixtures_plan =
     [answered ''POST'' ''/api/shell/v1/auth/login'' [200]] @ sql_events @ sql_events @ reference_role_plan @
         reference_role_plan @ reference_role_plan @ make_user_plan @ sql_events @ make_user_plan @ make_user_plan @
         make_user_plan @ [answered ''POST'' ''/economic/marketplace/bootstrap'' [200]]"

definition reference_proposal :: "('k, 'x) services \<Rightarrow> json \<Rightarrow> json \<Rightarrow> json \<Rightarrow> ('x host, json) py" where
  "reference_proposal A ref a amount =
     call A (plus (val ref) (str ''/proposals'')) ''POST'' (obj [(''kind'', str ''CONVENTION''), (''lowerValue'',
         val amount), (''upperValue'', val amount), (''explanation'',
         str ''Assembly convention, not an observed price''), (''origin'', str ''Community assembly''),
         (''validDays'', num 90)]) (val a) [200]"

definition reference_proposal_plan :: "plan" where
  "reference_proposal_plan =
     [answered ''POST'' ''/proposals'' [200]]"

definition reference_agree :: "('k, 'x) services \<Rightarrow> json \<Rightarrow> json \<Rightarrow> json \<Rightarrow> json \<Rightarrow> json \<Rightarrow> json \<Rightarrow> json \<Rightarrow> ('x host, json) py" where
  "reference_agree A base listing definition p a amount consent =
     bind_py (call A (plus (plus (plus (val base) (str ''/listings/'')) (item (val listing) ''id''))
         (str ''/offers'')) ''POST'' (obj [(''message'', str ''Free proposal''), (''quantity'', str ''1''),
         (''unitLabel'', str ''loaf''), (''proposedAmount'', val amount), (''proposedUnitRef'', item (val definition)
         ''unit_ref''), (''shareReferenceObservation'', val consent)]) (val p) [201]) (\<lambda>n.
     call A (plus (plus (plus (val base) (str ''/negotiations/'')) (item (val n) ''id'')) (str ''/accept'')) ''POST''
         (obj [(''offerId'', item (at (item (val n) ''offers'') (- 1)) ''id''), (''expectedVersion'', item (val n)
         ''version''), (''shareReferenceObservation'', val consent)]) (val a) [200])"

definition reference_agree_plan :: "plan" where
  "reference_agree_plan =
     [answered ''POST'' ''/offers'' [201], answered ''POST'' ''/accept'' [200]]"

definition references_main :: "('k, 'x) services \<Rightarrow> ('x host, unit) py" where
  "references_main A =
     bind_py (reference_fixtures A) (\<lambda>(tenant, base, ana, pedro, carlos, bea, binding).
     bind_py (eval (item (val ana) ''accessToken'')) (\<lambda>a.
     bind_py (eval (item (val pedro) ''accessToken'')) (\<lambda>p.
     bind_py (call A (plus (val base) (str ''/references'')) ''POST'' (obj [(''name'', str ''Bread 500g''),
         (''scope'', str ''One plain 500g loaf''), (''attributes'', obj [(''weight'', str ''500g'')]),
         (''quantityBasis'', str ''1''), (''quantityUnit'', str ''loaf'')]) (val a) [200]) (\<lambda>definition.
     bind_py (eval (plus (plus (val base) (str ''/references/'')) (item (val definition) ''id''))) (\<lambda>ref.
     then_py (check (eq A (item (val definition) ''unit_id'') (item (val binding) ''unitId'')) []) (
     bind_py (call A (val ref) ''GET'' none (val p) [200]) (\<lambda>r3.
     bind_py (eval (item (val r3) ''evidence'')) (\<lambda>evidence.
     then_py (check (both (eq A (item (val evidence) ''status'') (str ''INSUFFICIENT_DATA'')) (is_val (item (val
         evidence) ''median'') JNull)) []) (
     bind_py (reference_proposal A ref a (JStr ''10'')) (\<lambda>first.
     then_py (call A (plus (plus (plus (val base) (str ''/references/proposals/'')) (item (val first) ''id''))
         (str ''/publish'')) ''POST'' (obj [(''decision'', str ''Unauthorized'')]) (val p) [403]) (
     bind_py (call A (plus (plus (plus (val base) (str ''/references/proposals/'')) (item (val first) ''id''))
         (str ''/publish'')) ''POST'' (obj [(''decision'', str ''Initial assembly decision'')]) (val a) [200])
         (\<lambda>v1.
     then_py (check (eq A (item (val v1) ''version'') (num 1)) []) (
     bind_py (call A (plus (val base) (str ''/listings'')) ''POST'' (obj [(''direction'', str ''OFFER''), (''title'',
         str ''Bread with a reference''), (''description'', str ''Test loaf''), (''category'', str ''home''),
         (''resourceKind'', str ''physical''), (''referenceDefinitionId'', item (val definition) ''id'')]) (val a)
         [201]) (\<lambda>listing.
     bind_py (call A (plus (plus (val base) (str ''/listings/'')) (item (val listing) ''id'')) ''GET'' none (val p)
         [200]) (\<lambda>r8.
     then_py (check (eq A (item (val r8) ''referenceDefinitionId'') (item (val definition) ''id'')) []) (
     bind_py (map_py (\<lambda>amount. reference_agree A base listing definition p a amount (JBool True)) [JStr ''1'',
         JStr ''10'', JStr ''100'']) (\<lambda>agreements.
     bind_py (eval (list_at agreements 0)) (\<lambda>historic.
     bind_py (eval (plus (plus (plus (val base) (str ''/references/agreements/'')) (item (val historic) ''id''))
         (str ''/context''))) (\<lambda>context_url.
     bind_py (call A (val context_url) ''GET'' none (val p) [200]) (\<lambda>context.
     bind_py (eval (loads_e A (item (val context) ''canonicalJson''))) (\<lambda>data.
     then_py (check (both (eq A (item (item (val data) ''reference'') ''version'') (num 1)) (is_val (item (val data)
         ''contractual'') (JBool False))) []) (
     then_py (check (eq A (item (val data) ''contractualDigestSha256'') (item (item (val historic) ''snapshot'')
         ''digestSha256'')) []) (
     then_py (check (eq A (sha256_hex (item (val context) ''canonicalJson'')) (item (val context) ''digestSha256''))
         []) (
     bind_py (sql_e A (fmt A [str ''select count(*) from stir.reference_observation where tenant_id='', sq,
         val tenant, sq, str '' and source='AGREEMENT' and aggregate_consent;'']) False) (\<lambda>r11.
     then_py (check (eq A (val r11) (str ''3'')) []) (
     bind_py (call A (val ref) ''GET'' none (val p) [200]) (\<lambda>r12.
     then_py (check (eq A (item (val r12) ''evidence'') (val evidence)) ''Daily cut must resist live differencing'') (
     bind_py (reference_proposal A ref a (JStr ''25'')) (\<lambda>second.
     then_py (call A (plus (plus (plus (val base) (str ''/references/proposals/'')) (item (val second) ''id''))
         (str ''/publish'')) ''POST'' (obj [(''decision'', str ''Deliberate revised convention'')]) (val a) [200]) (
     bind_py (call A (val ref) ''GET'' none (val p) [200]) (\<lambda>r15.
     then_py (check (eq A (item (item (val r15) ''reference'') ''version'') (num 2)) []) (
     bind_py (call A (plus (val ref) (str ''/history'')) ''GET'' none (val p) [200]) (\<lambda>r16.
     then_py (check (eq A (len (val r16)) (num 2)) []) (
     bind_py (call A (val context_url) ''GET'' none (val a) [200]) (\<lambda>r17.
     then_py (check (eq A (val r17) (val context)) []) (
     bind_py (call A (plus (plus (val base) (str ''/agreements/'')) (item (val historic) ''id'')) ''GET'' none (val p)
         [200]) (\<lambda>r18.
     bind_py (eval (item (val r18) ''snapshot'')) (\<lambda>reloaded.
     then_py (check (all_e (arr [str ''canonicalJson'', str ''digestSha256'', str ''schemaVersion'']) (\<lambda>k. eq
         A (item_at (val reloaded) (val k)) (item_at (item (val historic) ''snapshot'') (val k)))) []) (
     bind_py (reference_agree A base listing definition p a (JStr ''30'') (JBool False)) (\<lambda>no.
     bind_py (sql_e A (fmt A [str ''select aggregate_consent from stir.reference_observation where tenant_id='', sq,
         val tenant, sq, str '' and source_id='', sq, item (val no) ''id'', sq, str '' and source='AGREEMENT';''])
         False) (\<lambda>r20.
     then_py (check (eq A (val r20) (str ''f'')) []) (
     then_py (call A (val context_url) ''GET'' none (item (val carlos) ''accessToken'') [404]) (
     then_py (call A (plus (plus (val base) (str ''/agreements/'')) (item (val historic) ''id'')) ''GET'' none
         (item (val carlos) ''accessToken'') [404]) (
     then_py (call A (val ref) ''GET'' none (item (val bea) ''accessToken'') [400, 403, 404]) (
     then_py (call A (val context_url) ''GET'' none (item (val bea) ''accessToken'') [400, 403, 404]) (
     bind_py (eval (fmt A [str ''/api/stir/tenants/'', item (at (item (val bea) ''tenants'') 0) ''id'']))
         (\<lambda>other_base.
     then_py (call A (plus (plus (val other_base) (str ''/references/'')) (item (val definition) ''id'')) ''GET'' none
         (item (val bea) ''accessToken'') [404]) (
     then_py (call A (plus (plus (plus (val other_base) (str ''/references/agreements/'')) (item (val historic)
         ''id'')) (str ''/context'')) ''GET'' none (item (val bea) ''accessToken'') [404]) (
     then_py (call A (val ref) ''GET'' none none [401]) (
     print_py (''PASS HTTP: versions, convention with insufficient evidence, below/within/above agreements, '' @
         ''bilateral opt-in, immutable historical context and hashes, permissions, tenant A/B, daily '' @
         ''reconstruction.'')))))))))))))))))))))))))))))))))))))))))))))))))))"

definition references_main_plan :: "plan" where
  "references_main_plan =
     reference_fixtures_plan @ [answered ''POST'' ''/references'' [200], answered ''GET'' [] [200]] @
         reference_proposal_plan @ [answered ''POST'' ''/publish'' [403], answered ''POST'' ''/publish'' [200],
         answered ''POST'' ''/listings'' [201], answered ''GET'' ''/listings/'' [200]] @ concat (replicate 3
         (reference_agree_plan)) @ [answered ''GET'' [] [200]] @ sql_events @ [answered ''GET'' [] [200]] @
         reference_proposal_plan @ [answered ''POST'' ''/publish'' [200], answered ''GET'' [] [200], answered ''GET''
         ''/history'' [200], answered ''GET'' [] [200], answered ''GET'' ''/agreements/'' [200]] @
         reference_agree_plan @ sql_events @ [answered ''GET'' [] [404], answered ''GET'' ''/agreements/'' [404],
         answered ''GET'' [] [400, 403, 404], answered ''GET'' [] [400, 403, 404], answered ''GET'' ''/references/''
         [404], answered ''GET'' ''/context'' [404], answered ''GET'' [] [401]]"

section \<open>Conformance\<close>

lemma reference_role_conforms: "conforms reference_role_plan (reference_role A admin suffix t key permissions)"
  unfolding reference_role_plan_def reference_role_def append.simps by (intro py_conf) simp_all

lemmas reference_role_steps [py_conf] =
  reference_role_conforms conforms_bind [OF reference_role_conforms] conforms_then [OF reference_role_conforms]
  conforms_bind_last [OF reference_role_conforms] conforms_then_last [OF reference_role_conforms]

lemma reference_fixtures_conforms: "conforms reference_fixtures_plan (reference_fixtures A)"
  unfolding reference_fixtures_plan_def reference_fixtures_def append.simps by (intro py_conf) simp_all

lemmas reference_fixtures_steps [py_conf] =
  reference_fixtures_conforms conforms_bind [OF reference_fixtures_conforms] conforms_then [OF reference_fixtures_conforms]
  conforms_bind_last [OF reference_fixtures_conforms] conforms_then_last [OF reference_fixtures_conforms]

lemma reference_proposal_conforms: "conforms reference_proposal_plan (reference_proposal A ref a amount)"
  unfolding reference_proposal_plan_def reference_proposal_def append.simps by (intro py_conf) simp_all

lemmas reference_proposal_steps [py_conf] =
  reference_proposal_conforms conforms_bind [OF reference_proposal_conforms] conforms_then [OF reference_proposal_conforms]
  conforms_bind_last [OF reference_proposal_conforms] conforms_then_last [OF reference_proposal_conforms]

lemma reference_agree_conforms: "conforms reference_agree_plan (reference_agree A base listing definition p a amount consent)"
  unfolding reference_agree_plan_def reference_agree_def append.simps by (intro py_conf) simp_all

lemmas reference_agree_steps [py_conf] =
  reference_agree_conforms conforms_bind [OF reference_agree_conforms] conforms_then [OF reference_agree_conforms]
  conforms_bind_last [OF reference_agree_conforms] conforms_then_last [OF reference_agree_conforms]

lemma references_main_conforms: "conforms references_main_plan (references_main A)"
  unfolding references_main_plan_def references_main_def append.simps by (intro py_conf) simp_all

lemmas references_main_steps [py_conf] =
  references_main_conforms conforms_bind [OF references_main_conforms] conforms_then [OF references_main_conforms]
  conforms_bind_last [OF references_main_conforms] conforms_then_last [OF references_main_conforms]

end
