(* ===== verification/Consent.thy ===== *)
theory Consent
  imports References
begin

text \<open>
  Consent and retention over HTTP (scripts/consent_retention_e2e.py): consent given by each party,
      withdrawal, retention periods, holds and anonymisation.
\<close>

section \<open>The script\<close>

definition CONSENT_MEMBER :: json where
  "CONSENT_MEMBER = JArr (map JStr (economic_permissions @ [''stir.references.read'',
      ''stir.references.propose'', ''stir.consent.manage'']))"

definition CONSENT_PUBLISHER :: json where
  "CONSENT_PUBLISHER = JArr (map JStr (economic_permissions @ [''stir.references.read'', ''stir.references.propose'',
     ''stir.consent.manage''] @ [''stir.references.publish'', ''stir.retention.manage'']))"

definition consent_role :: "('k, 'x) services \<Rightarrow> json \<Rightarrow> json \<Rightarrow> json \<Rightarrow> json \<Rightarrow> json \<Rightarrow> ('x host, json) py" where
  "consent_role A admin suffix t key permissions =
     bind_py (eval (fmt A [str ''/api/shell/v1/tenants/'', val t, str ''/roles''])) (\<lambda>base.
     bind_py (call A (val base) ''POST'' (obj [(''key'', plus (val key) (val suffix)), (''name'', val key),
         (''description'', str ''Local consent/retention test''), (''enabled'', yes)]) (val admin) [200, 201])
         (\<lambda>row.
     then_py (call A (plus (plus (plus (val base) (str ''/'')) (item (val row) ''id'')) (str ''/permissions''))
         ''PUT'' (val permissions) (val admin) [200]) (
     eval (item (val row) ''id''))))"

definition consent_role_plan :: "plan" where
  "consent_role_plan =
     [answered ''POST'' [] [200, 201], answered ''PUT'' ''/permissions'' [200]]"

definition consent_fixtures :: "('k, 'x) services \<Rightarrow> ('x host, json \<times> json \<times> json \<times> json \<times> json \<times> json \<times> json \<times> json) py" where
  "consent_fixtures A =
     bind_py (read_secret A ''login_password'') (\<lambda>r1.
     bind_py (call A (str ''/api/shell/v1/auth/login'') ''POST'' (obj [(''email'', str ''admin@stir.test''),
         (''password'', val r1)]) none [200]) (\<lambda>r2.
     bind_py (eval (item (val r2) ''accessToken'')) (\<lambda>admin.
     bind_py (uuid4_hex A) (\<lambda>r3.
     bind_py (eval (upto (val r3) 8)) (\<lambda>suffix.
     bind_py (sql_e A (fmt A [str ''select tenant_id from idax_core.tenant_create('stir-cr-'', val suffix, sq,
         str '','STIR ConsentRetention '', val suffix, sq, str '','active',false);'']) False) (\<lambda>tenant.
     bind_py (sql_e A (fmt A [str ''select tenant_id from idax_core.tenant_create('stir-cr-b-'', val suffix, sq,
         str '','STIR ConsentRetention B','active',false);'']) False) (\<lambda>other.
     bind_py (consent_role A admin suffix tenant (JStr ''publisher'') CONSENT_PUBLISHER) (\<lambda>publisher_role.
     bind_py (consent_role A admin suffix tenant (JStr ''member'') CONSENT_MEMBER) (\<lambda>member_role.
     bind_py (consent_role A admin suffix other (JStr ''other'') CONSENT_MEMBER) (\<lambda>b_role.
     bind_py (make_user A admin tenant publisher_role (JStr ''ana'') suffix) (\<lambda>ana.
     then_py (sql_e A (fmt A [str ''update idax_core.tenant_user set role='admin' where tenant_id='', sq, val tenant,
         sq, str '' and user_id='', sq, item (item (val ana) ''user'') ''id'', sq, str '';'']) False) (
     bind_py (make_user A admin tenant member_role (JStr ''pedro'') suffix) (\<lambda>pedro.
     bind_py (make_user A admin tenant member_role (JStr ''carlos'') suffix) (\<lambda>carlos.
     bind_py (make_user A admin other b_role (JStr ''bea'') suffix) (\<lambda>bea.
     bind_py (eval (fmt A [str ''/api/stir/tenants/'', val tenant])) (\<lambda>base.
     bind_py (call A (plus (val base) (str ''/economic/marketplace/bootstrap'')) ''POST'' (obj [(''communityName'',
         plus (str ''ConsentRetention '') (val suffix)), (''unitCode'', str ''CR''), (''unitScale'', num 2)])
         (item (val ana) ''accessToken'') [200]) (\<lambda>binding.
     ret (admin, tenant, base, ana, pedro, carlos, bea, binding))))))))))))))))))"

definition consent_fixtures_plan :: "plan" where
  "consent_fixtures_plan =
     [answered ''POST'' ''/api/shell/v1/auth/login'' [200]] @ sql_events @ sql_events @ consent_role_plan @
         consent_role_plan @ consent_role_plan @ make_user_plan @ sql_events @ make_user_plan @ make_user_plan @
         make_user_plan @ [answered ''POST'' ''/economic/marketplace/bootstrap'' [200]]"

definition consent_agree :: "('k, 'x) services \<Rightarrow> json \<Rightarrow> json \<Rightarrow> json \<Rightarrow> json \<Rightarrow> json \<Rightarrow> json \<Rightarrow> json \<Rightarrow> json \<Rightarrow> ('x host, json) py" where
  "consent_agree A base listing definition p a amount offeror_consent acceptor_consent =
     bind_py (call A (plus (plus (plus (val base) (str ''/listings/'')) (item (val listing) ''id''))
         (str ''/offers'')) ''POST'' (obj [(''message'', str ''Offer''), (''quantity'', str ''1''), (''unitLabel'',
         str ''bundle''), (''proposedAmount'', val amount), (''proposedUnitRef'', item (val definition) ''unit_ref''),
         (''shareReferenceObservation'', val offeror_consent)]) (val p) [201]) (\<lambda>n.
     call A (plus (plus (plus (val base) (str ''/negotiations/'')) (item (val n) ''id'')) (str ''/accept'')) ''POST''
         (obj [(''offerId'', item (at (item (val n) ''offers'') (- 1)) ''id''), (''expectedVersion'', item (val n)
         ''version''), (''shareReferenceObservation'', val acceptor_consent)]) (val a) [200])"

definition consent_agree_plan :: "plan" where
  "consent_agree_plan =
     [answered ''POST'' ''/offers'' [201], answered ''POST'' ''/accept'' [200]]"

definition backdate :: "('k, 'x) services \<Rightarrow> json \<Rightarrow> json \<Rightarrow> json \<Rightarrow> ('x host, unit) py" where
  "backdate A tenant observation_id days =
     then_py (sql_e A (fmt A [str (''set session_replication_role='replica'; update stir.reference_observation set ''
         @ ''observed_at=now()-interval ''), sq, val days, str '' days' where tenant_id='', sq, val tenant, sq,
         str '' and id='', sq, val observation_id, sq, str ''; set session_replication_role='origin';'']) False) (
     ret ())"

definition backdate_plan :: "plan" where
  "backdate_plan =
     sql_events"

definition consent_main :: "('k, 'x) services \<Rightarrow> ('x host, unit) py" where
  "consent_main A =
     bind_py (consent_fixtures A) (\<lambda>(admin, tenant, base, ana, pedro, carlos, bea, binding).
     bind_py (eval (item (val ana) ''accessToken'')) (\<lambda>a.
     bind_py (eval (item (val pedro) ''accessToken'')) (\<lambda>p.
     bind_py (eval (item (val binding) ''communityId'')) (\<lambda>community.
     bind_py (call A (plus (val base) (str ''/references'')) ''POST'' (obj [(''name'', str ''Firewood 10kg''),
         (''scope'', str ''One 10kg bundle''), (''attributes'', obj [(''weight'', str ''10kg'')]), (''quantityBasis'',
         str ''1''), (''quantityUnit'', str ''bundle'')]) (val a) [200]) (\<lambda>definition.
     bind_py (eval (plus (plus (val base) (str ''/references/'')) (item (val definition) ''id''))) (\<lambda>ref.
     bind_py (call A (plus (val base) (str ''/listings'')) ''POST'' (obj [(''direction'', str ''OFFER''), (''title'',
         str ''Firewood with a reference''), (''description'', str ''Test bundle''), (''category'', str ''home''),
         (''resourceKind'', str ''physical''), (''referenceDefinitionId'', item (val definition) ''id'')]) (val a)
         [201]) (\<lambda>listing.
     bind_py (consent_agree A base listing definition p a (JStr ''10'') (JBool True) (JBool True))
         (\<lambda>bilateral.
     bind_py (call A (plus (val ref) (str ''/observations'')) ''GET'' none (val a) [200]) (\<lambda>observations.
     bind_py (eval (next_e (val observations) (\<lambda>obs. eq A (item (val obs) ''source_id'') (item (val bilateral)
         ''id'')))) (\<lambda>bilateral_obs.
     then_py (check (is_val (item (val bilateral_obs) ''aggregate_consent'') (JBool True)) []) (
     bind_py (consent_agree A base listing definition p a (JStr ''12'') (JBool True) (JBool False))
         (\<lambda>one_sided.
     bind_py (call A (plus (val ref) (str ''/observations'')) ''GET'' none (val a) [200]) (\<lambda>r7.
     bind_py (eval (next_e (val r7) (\<lambda>obs. eq A (item (val obs) ''source_id'') (item (val one_sided)
         ''id'')))) (\<lambda>one_sided_obs.
     then_py (check (is_val (item (val one_sided_obs) ''aggregate_consent'') (JBool False)) []) (
     bind_py (sql_e A (fmt A [str ''select count(*) from stir.reference_observation where tenant_id='', sq,
         val tenant, sq, str '' and id='', sq, item (val one_sided_obs) ''id'', sq, str '';'']) False) (\<lambda>r8.
     then_py (check (eq A (val r8) (str ''1''))
         ''declined consent must still be recorded as a datum, never silently dropped'') (
     bind_py (call A (plus (val base) (str ''/references/consent/mine'')) ''GET'' none (val p) [200])
         (\<lambda>pedro_consents.
     bind_py (eval (next_e (val pedro_consents) (\<lambda>c. eq A (item (val c) ''observation_id'') (item (val
         bilateral_obs) ''id'')))) (\<lambda>pedro_consent.
     then_py (check (eq A (item (val pedro_consent) ''status'') (str ''GRANT'')) []) (
     bind_py (call A (plus (val base) (str ''/references/consent/mine'')) ''GET'' none (val a) [200])
         (\<lambda>ana_consents.
     bind_py (eval (next_e (val ana_consents) (\<lambda>c. eq A (item (val c) ''observation_id'') (item (val
         bilateral_obs) ''id'')))) (\<lambda>ana_consent.
     then_py (check (eq A (item (val ana_consent) ''status'') (str ''GRANT'')) []) (
     then_py (call A (plus (plus (plus (val base) (str ''/references/consent/'')) (item (val pedro_consent) ''id''))
         (str ''/withdraw'')) ''POST'' (obj [(''reason'', str ''not mine'')]) (item (val carlos) ''accessToken'')
         [403]) (
     bind_py (call A (plus (plus (plus (val base) (str ''/references/consent/'')) (item (val pedro_consent) ''id''))
         (str ''/withdraw'')) ''POST'' (obj [(''reason'', str ''changed my mind'')]) (val p) [200])
         (\<lambda>withdrawn.
     then_py (check (eq A (item (val withdrawn) ''status'') (str ''WITHDRAW'')) []) (
     bind_py (call A (plus (plus (plus (val base) (str ''/references/consent/'')) (item (val pedro_consent) ''id''))
         (str ''/withdraw'')) ''POST'' (obj [(''reason'', str ''replayed'')]) (val p) [200]) (\<lambda>replayed.
     then_py (check (eq A (item (val replayed) ''status'') (str ''WITHDRAW'')) []) (
     bind_py (sql_e A (fmt A [str ''select count(*) from stir.reference_consent_event where tenant_id='', sq,
         val tenant, sq, str '' and consent_id='', sq, item (val pedro_consent) ''id'', sq, str '';'']) False)
         (\<lambda>events.
     then_py (check (eq A (val events) (str ''2''))
         ''GRANT + exactly one WITHDRAW, never a duplicate from the replay'') (
     bind_py (sql_e A (fmt A [str ''select aggregate_consent from stir.reference_observation where tenant_id='', sq,
         val tenant, sq, str '' and id='', sq, item (val bilateral_obs) ''id'', sq, str '';'']) False) (\<lambda>r15.
     then_py (check (eq A (val r15) (str ''t''))
         ''aggregate_consent as originally captured is never rewritten by a later withdrawal'') (
     then_py (call A (plus (plus (val base) (str ''/references/consent/'')) (item (val ana_consent) ''id'')) ''GET''
         none (item (val bea) ''accessToken'') [403, 404]) (
     then_py (call A (plus (plus (plus (val base) (str ''/references/consent/'')) (item (val ana_consent) ''id''))
         (str ''/withdraw'')) ''POST'' (obj [(''reason'', str ''cross tenant'')]) (item (val bea) ''accessToken'')
         [403, 404]) (
     then_py (call A (plus (plus (val base) (str ''/references/retention/policy/'')) (val community)) ''POST'' (obj
         [(''retentionPeriodDays'', num 10), (''explanation'', str ''too short'')]) (val a) [400]) (
     then_py (call A (plus (plus (val base) (str ''/references/retention/policy/'')) (val community)) ''POST'' (obj
         [(''retentionPeriodDays'', num 120), (''explanation'', str ''superadmin attempt'')]) (val admin) [401, 403,
         404]) (
     bind_py (call A (plus (plus (val base) (str ''/references/retention/policy/'')) (val community)) ''POST'' (obj
         [(''retentionPeriodDays'', num 120), (''explanation'', str ''Community decision: 120 days'')]) (val a) [200])
         (\<lambda>policy.
     then_py (check (eq A (item (val policy) ''retention_period_days'') (num 120)) []) (
     bind_py (consent_agree A base listing definition p a (JStr ''20'') (JBool True) (JBool True)) (\<lambda>old_a.
     bind_py (call A (plus (val ref) (str ''/observations'')) ''GET'' none (val a) [200]) (\<lambda>r22.
     bind_py (eval (next_e (val r22) (\<lambda>obs. eq A (item (val obs) ''source_id'') (item (val old_a) ''id''))))
         (\<lambda>old_a_obs.
     bind_py (consent_agree A base listing definition p a (JStr ''22'') (JBool True) (JBool True)) (\<lambda>old_b.
     bind_py (call A (plus (val ref) (str ''/observations'')) ''GET'' none (val a) [200]) (\<lambda>r24.
     bind_py (eval (next_e (val r24) (\<lambda>obs. eq A (item (val obs) ''source_id'') (item (val old_b) ''id''))))
         (\<lambda>old_b_obs.
     bind_py (eval (item (val old_a_obs) ''id'')) (\<lambda>r25.
     then_py (backdate A tenant r25 (JInt 200)) (
     bind_py (eval (item (val old_b_obs) ''id'')) (\<lambda>r27.
     then_py (backdate A tenant r27 (JInt 200)) (
     bind_py (call A (plus (val base) (str ''/references/integrity/signals'')) ''POST'' (obj [(''observationId'',
         item (val old_b_obs) ''id''), (''signalCode'', str ''OUTLIER_PENDING_REVIEW''), (''reason'',
         str ''looks unusual''), (''evidenceRefs'', arr [])]) (val a) [200]) (\<lambda>signal.
     bind_py (call A (plus (plus (plus (val base) (str ''/references/retention/observation/'')) (item (val old_b_obs)
         ''id'')) (str ''/status'')) ''GET'' none (val a) [200]) (\<lambda>status_b.
     then_py (check (both (eq A (item (val status_b) ''status'') (str ''MUST_BE_RETAINED'')) (is_val (item (val
         status_b) ''hold'') (JBool True))) []) (
     then_py (call A (plus (plus (plus (val base) (str ''/references/retention/observation/'')) (item (val old_b_obs)
         ''id'')) (str ''/anonymize'')) ''POST'' (obj [(''reason'', str ''trying anyway'')]) (val a) [409]) (
     bind_py (call A (plus (plus (plus (val base) (str ''/references/retention/definition/'')) (item (val definition)
         ''id'')) (str ''/due'')) ''GET'' none (val a) [200]) (\<lambda>due.
     bind_py (eval (set_each (val due) (\<lambda>d. item (val d) ''observationId''))) (\<lambda>due_ids.
     then_py (check (both (in_set A (item (val old_a_obs) ''id'') (val due_ids)) (negate (in_set A (item (val
         old_b_obs) ''id'') (val due_ids)))) []) (
     bind_py (call A (plus (plus (plus (val base) (str ''/references/retention/observation/'')) (item (val old_a_obs)
         ''id'')) (str ''/anonymize'')) ''POST'' (obj [(''reason'',
         str ''retention window elapsed, no case ever opened'')]) (val a) [200]) (\<lambda>anonymized.
     then_py (check (both (is_val (get (val anonymized) ''participant_a'') JNull) (is_val (get (val anonymized)
         ''participant_b'') JNull)) []) (
     then_py (check (eq A (float_e A (item (val anonymized) ''amount'')) (num 20))
         ''amount/history preserved - only identifiers are removed'') (
     then_py (call A (plus (plus (plus (val base) (str ''/references/retention/observation/'')) (item (val old_a_obs)
         ''id'')) (str ''/anonymize'')) ''POST'' (obj [(''reason'', str ''again'')]) (val a) [409]) (
     bind_py (sql_e A (fmt A [str ''select count(*) from stir.retention_lifecycle_event where tenant_id='', sq,
         val tenant, sq, str '' and observation_id='', sq, item (val old_a_obs) ''id'', sq, str '';'']) False)
         (\<lambda>r35.
     then_py (check (eq A (val r35) (str ''1'')) []) (
     print_py (''PASS: bilateral consent granted and individually recorded per party; one-sided decline '' @
         ''recorded but never eligible; only the consenting party can withdraw; withdrawal is idempotent '' @
         ''and never rewrites aggregate_consent or the observation; tenant isolation holds for consent '' @
         ''records; retention floor and SuperAdmin exclusion enforced; a market-integrity hold blocks '' @
         ''anonymization even past the retention window; anonymization removes only participant '' @
         ''identifiers, is audited, and cannot repeat''))))))))))))))))))))))))))))))))))))))))))))))))))))))))))))))"

definition consent_main_plan :: "plan" where
  "consent_main_plan =
     consent_fixtures_plan @ [answered ''POST'' ''/references'' [200], answered ''POST'' ''/listings'' [201]] @
         consent_agree_plan @ [answered ''GET'' ''/observations'' [200]] @ consent_agree_plan @ [answered ''GET''
         ''/observations'' [200]] @ sql_events @ [answered ''GET'' ''/references/consent/mine'' [200], answered
         ''GET'' ''/references/consent/mine'' [200], answered ''POST'' ''/withdraw'' [403], answered ''POST''
         ''/withdraw'' [200], answered ''POST'' ''/withdraw'' [200]] @ sql_events @ sql_events @ [answered ''GET''
         ''/references/consent/'' [403, 404], answered ''POST'' ''/withdraw'' [403, 404], answered ''POST''
         ''/references/retention/policy/'' [400], answered ''POST'' ''/references/retention/policy/'' [401, 403, 404],
         answered ''POST'' ''/references/retention/policy/'' [200]] @ consent_agree_plan @ [answered ''GET''
         ''/observations'' [200]] @ consent_agree_plan @ [answered ''GET'' ''/observations'' [200]] @ backdate_plan @
         backdate_plan @ [answered ''POST'' ''/references/integrity/signals'' [200], answered ''GET'' ''/status''
         [200], answered ''POST'' ''/anonymize'' [409], answered ''GET'' ''/due'' [200], answered ''POST''
         ''/anonymize'' [200], answered ''POST'' ''/anonymize'' [409]] @ sql_events"

section \<open>Conformance\<close>

lemma consent_role_conforms: "conforms consent_role_plan (consent_role A admin suffix t key permissions)"
  unfolding consent_role_plan_def consent_role_def append.simps by (intro py_conf) simp_all

lemmas consent_role_steps [py_conf] =
  consent_role_conforms conforms_bind [OF consent_role_conforms] conforms_then [OF consent_role_conforms]
  conforms_bind_last [OF consent_role_conforms] conforms_then_last [OF consent_role_conforms]

lemma consent_fixtures_conforms: "conforms consent_fixtures_plan (consent_fixtures A)"
  unfolding consent_fixtures_plan_def consent_fixtures_def append.simps by (intro py_conf) simp_all

lemmas consent_fixtures_steps [py_conf] =
  consent_fixtures_conforms conforms_bind [OF consent_fixtures_conforms] conforms_then [OF consent_fixtures_conforms]
  conforms_bind_last [OF consent_fixtures_conforms] conforms_then_last [OF consent_fixtures_conforms]

lemma consent_agree_conforms: "conforms consent_agree_plan (consent_agree A base listing definition p a amount offeror_consent acceptor_consent)"
  unfolding consent_agree_plan_def consent_agree_def append.simps by (intro py_conf) simp_all

lemmas consent_agree_steps [py_conf] =
  consent_agree_conforms conforms_bind [OF consent_agree_conforms] conforms_then [OF consent_agree_conforms]
  conforms_bind_last [OF consent_agree_conforms] conforms_then_last [OF consent_agree_conforms]

lemma backdate_conforms: "conforms backdate_plan (backdate A tenant observation_id days)"
  unfolding backdate_plan_def backdate_def append.simps by (intro py_conf)

lemmas backdate_steps [py_conf] =
  backdate_conforms conforms_bind [OF backdate_conforms] conforms_then [OF backdate_conforms]
  conforms_bind_last [OF backdate_conforms] conforms_then_last [OF backdate_conforms]

lemma consent_main_conforms: "conforms consent_main_plan (consent_main A)"
  unfolding consent_main_plan_def consent_main_def append.simps by (intro py_conf) simp_all

lemmas consent_main_steps [py_conf] =
  consent_main_conforms conforms_bind [OF consent_main_conforms] conforms_then [OF consent_main_conforms]
  conforms_bind_last [OF consent_main_conforms] conforms_then_last [OF consent_main_conforms]

end
