(* ===== verification/MultiSource.thy ===== *)
theory MultiSource
  imports References
begin

text \<open>
  Evidence from listings, wants and community seeds over HTTP
      (scripts/multi_source_value_evidence_e2e.py): what each source records, and the vote on a
      seed.
\<close>

section \<open>The script\<close>

definition MULTI_MEMBER :: json where
  "MULTI_MEMBER = JArr (map JStr (economic_permissions @ [''stir.references.read'', ''stir.references.propose'',
      ''stir.consent.manage'', ''stir.governance.vote'']))"

definition MULTI_PUBLISHER :: json where
  "MULTI_PUBLISHER = JArr (map JStr (economic_permissions @ [''stir.references.read'',
      ''stir.references.propose'', ''stir.consent.manage'', ''stir.governance.vote'',
      ''stir.references.publish'', ''stir.retention.manage'', ''stir.governance.manage'']))"

definition multi_role :: "('k, 'x) services \<Rightarrow> json \<Rightarrow> json \<Rightarrow> json \<Rightarrow> json \<Rightarrow> json \<Rightarrow> ('x host, json) py" where
  "multi_role A admin suffix t key permissions =
     bind_py (eval (fmt A [str ''/api/shell/v1/tenants/'', val t, str ''/roles''])) (\<lambda>base.
     bind_py (call A (val base) ''POST'' (obj [(''key'', plus (val key) (val suffix)), (''name'', val key),
         (''description'', str ''Local multi-source test''), (''enabled'', yes)]) (val admin) [200, 201])
         (\<lambda>row.
     then_py (call A (plus (plus (plus (val base) (str ''/'')) (item (val row) ''id'')) (str ''/permissions''))
         ''PUT'' (val permissions) (val admin) [200]) (
     eval (item (val row) ''id''))))"

definition multi_role_plan :: "plan" where
  "multi_role_plan =
     [answered ''POST'' [] [200, 201], answered ''PUT'' ''/permissions'' [200]]"

definition multi_fixtures :: "('k, 'x) services \<Rightarrow> ('x host, json \<times> json \<times> json \<times> json \<times> json \<times> json \<times> json \<times> json) py" where
  "multi_fixtures A =
     bind_py (read_secret A ''login_password'') (\<lambda>r1.
     bind_py (call A (str ''/api/shell/v1/auth/login'') ''POST'' (obj [(''email'', str ''admin@stir.test''),
         (''password'', val r1)]) none [200]) (\<lambda>r2.
     bind_py (eval (item (val r2) ''accessToken'')) (\<lambda>admin.
     bind_py (uuid4_hex A) (\<lambda>r3.
     bind_py (eval (upto (val r3) 8)) (\<lambda>suffix.
     bind_py (sql_e A (fmt A [str ''select tenant_id from idax_core.tenant_create('stir-mvse-'', val suffix, sq,
         str '','STIR MultiSource '', val suffix, sq, str '','active',false);'']) False) (\<lambda>tenant.
     bind_py (sql_e A (fmt A [str ''select tenant_id from idax_core.tenant_create('stir-mvse-b-'', val suffix, sq,
         str '','STIR MultiSource B','active',false);'']) False) (\<lambda>other.
     bind_py (multi_role A admin suffix tenant (JStr ''publisher'') MULTI_PUBLISHER) (\<lambda>publisher_role.
     bind_py (multi_role A admin suffix tenant (JStr ''member'') MULTI_MEMBER) (\<lambda>member_role.
     bind_py (multi_role A admin suffix other (JStr ''other'') MULTI_MEMBER) (\<lambda>b_role.
     bind_py (make_user A admin tenant publisher_role (JStr ''ana'') suffix) (\<lambda>ana.
     then_py (sql_e A (fmt A [str ''update idax_core.tenant_user set role='admin' where tenant_id='', sq, val tenant,
         sq, str '' and user_id='', sq, item (item (val ana) ''user'') ''id'', sq, str '';'']) False) (
     bind_py (make_user A admin tenant member_role (JStr ''pedro'') suffix) (\<lambda>pedro.
     bind_py (make_user A admin tenant member_role (JStr ''carlos'') suffix) (\<lambda>carlos.
     bind_py (make_user A admin other b_role (JStr ''bea'') suffix) (\<lambda>bea.
     bind_py (eval (fmt A [str ''/api/stir/tenants/'', val tenant])) (\<lambda>base.
     bind_py (call A (plus (val base) (str ''/economic/marketplace/bootstrap'')) ''POST'' (obj [(''communityName'',
         plus (str ''MultiSource '') (val suffix)), (''unitCode'', str ''MS''), (''unitScale'', num 2)]) (item (val
         ana) ''accessToken'') [200]) (\<lambda>binding.
     ret (admin, tenant, base, ana, pedro, carlos, bea, binding))))))))))))))))))"

definition multi_fixtures_plan :: "plan" where
  "multi_fixtures_plan =
     [answered ''POST'' ''/api/shell/v1/auth/login'' [200]] @ sql_events @ sql_events @ multi_role_plan @
         multi_role_plan @ multi_role_plan @ make_user_plan @ sql_events @ make_user_plan @ make_user_plan @
         make_user_plan @ [answered ''POST'' ''/economic/marketplace/bootstrap'' [200]]"

definition multi_main :: "('k, 'x) services \<Rightarrow> ('x host, unit) py" where
  "multi_main A =
     bind_py (multi_fixtures A) (\<lambda>(admin, tenant, base, ana, pedro, carlos, bea, binding).
     bind_py (eval (item (val ana) ''accessToken'')) (\<lambda>a.
     bind_py (eval (item (val pedro) ''accessToken'')) (\<lambda>p.
     bind_py (eval (item (val binding) ''communityId'')) (\<lambda>community.
     bind_py (call A (plus (val base) (str ''/references'')) ''POST'' (obj [(''name'', str ''Wool 1kg''), (''scope'',
         str ''One kilogram of raw wool''), (''attributes'', obj []), (''quantityBasis'', str ''1''),
         (''quantityUnit'', str ''kg'')]) (val a) [200]) (\<lambda>definition.
     bind_py (eval (item (val definition) ''id'')) (\<lambda>definition_id.
     bind_py (eval (plus (plus (val base) (str ''/references/'')) (val definition_id))) (\<lambda>ref.
     bind_py (call A (plus (plus (plus (val base) (str ''/references/'')) (val definition_id)) (str ''/policies''))
         ''POST'' (obj [(''windowDays'', num 90), (''minimumObservations'', num 5), (''minimumParticipants'', num 6),
         (''maximumParticipantShare'', str ''0.40''), (''freshnessDays'', num 30), (''explanation'',
         str ''Enable listing/wanted sources''), (''listingSourceEnabled'', yes), (''wantedSourceEnabled'', yes)])
         (val a) [200]) (\<lambda>policy.
     then_py (check (both (is_val (item (val policy) ''listing_source_enabled'') (JBool True)) (is_val (item (val
         policy) ''wanted_source_enabled'') (JBool True))) []) (
     bind_py (call A (plus (val base) (str ''/listings'')) ''POST'' (obj [(''direction'', str ''OFFER''), (''title'',
         str ''Wool bundle''), (''description'', str ''Test''), (''category'', str ''home''), (''resourceKind'',
         str ''physical''), (''referenceDefinitionId'', val definition_id), (''indicativeAmount'', str ''40''),
         (''indicativeQuantity'', str ''1''), (''indicativeUnitLabel'', str ''kg''), (''indicativeUnitRef'', item (val
         definition) ''unit_ref''), (''shareReferenceObservation'', yes)]) (val a) [201]) (\<lambda>listing.
     bind_py (call A (plus (val ref) (str ''/observations'')) ''GET'' none (val a) [200]) (\<lambda>observations.
     bind_py (eval (next_e (val observations) (\<lambda>obs. eq A (item (val obs) ''economic_lineage_id'') (item (val
         listing) ''id'')))) (\<lambda>listing_obs.
     then_py (check (both (eq A (item (val listing_obs) ''source'') (str ''LISTING'')) (is_val (item (val listing_obs)
         ''aggregate_consent'') (JBool True))) []) (
     bind_py (call A (plus (val base) (str ''/listings'')) ''POST'' (obj [(''direction'', str ''WANTED''), (''title'',
         str ''Looking for wool''), (''description'', str ''Test''), (''category'', str ''home''), (''resourceKind'',
         str ''physical''), (''referenceDefinitionId'', val definition_id), (''indicativeAmount'', str ''38''),
         (''indicativeQuantity'', str ''1''), (''indicativeUnitLabel'', str ''kg''), (''indicativeUnitRef'', item (val
         definition) ''unit_ref''), (''shareReferenceObservation'', yes)]) (val p) [201]) (\<lambda>wanted.
     bind_py (call A (plus (val ref) (str ''/observations'')) ''GET'' none (val a) [200]) (\<lambda>r7.
     bind_py (eval (next_e (val r7) (\<lambda>obs. eq A (item (val obs) ''economic_lineage_id'') (item (val wanted)
         ''id'')))) (\<lambda>wanted_obs.
     then_py (check (eq A (item (val wanted_obs) ''source'') (str ''WANTED'')) []) (
     then_py (call A (plus (plus (val base) (str ''/listings/'')) (item (val listing) ''id'')) ''PUT'' (obj
         [(''direction'', str ''OFFER''), (''title'', str ''Wool bundle''), (''description'', str ''Updated''),
         (''category'', str ''home''), (''resourceKind'', str ''physical''), (''referenceDefinitionId'',
         val definition_id), (''version'', item (val listing) ''version''), (''indicativeAmount'', str ''55''),
         (''indicativeQuantity'', str ''1''), (''indicativeUnitLabel'', str ''kg''), (''indicativeUnitRef'', item (val
         definition) ''unit_ref''), (''shareReferenceObservation'', yes)]) (val a) [200]) (
     bind_py (sql_e A (fmt A [str ''select amount from stir.reference_observation where tenant_id='', sq, val tenant,
         sq, str '' and economic_lineage_id='', sq, item (val listing) ''id'', sq, str '' order by observed_at;''])
         False) (\<lambda>rows.
     then_py (check (eq A (split_e (val rows) (CHR 0x0A)) (arr [str ''40.00'', str ''55.00'']))
         ''the edit created a NEW observation; the first one was never rewritten'') (
     bind_py (call A (plus (val base) (str ''/listings'')) ''POST'' (obj [(''direction'', str ''OFFER''), (''title'',
         str ''Wool bundle 2''), (''description'', str ''Test''), (''category'', str ''home''), (''resourceKind'',
         str ''physical''), (''referenceDefinitionId'', val definition_id)]) (val a) [201]) (\<lambda>listing2.
     bind_py (call A (plus (plus (plus (val base) (str ''/listings/'')) (item (val listing2) ''id''))
         (str ''/offers'')) ''POST'' (obj [(''message'', str ''Interested''), (''quantity'', str ''1''),
         (''unitLabel'', str ''kg''), (''proposedAmount'', str ''39''), (''proposedUnitRef'', item (val definition)
         ''unit_ref''), (''shareReferenceObservation'', yes)]) (val p) [201]) (\<lambda>offer.
     then_py (call A (plus (plus (plus (val base) (str ''/negotiations/'')) (item (val offer) ''id''))
         (str ''/accept'')) ''POST'' (obj [(''offerId'', item (at (item (val offer) ''offers'') (- 1)) ''id''),
         (''expectedVersion'', item (val offer) ''version''), (''shareReferenceObservation'', yes)]) (val a) [200]) (
     bind_py (sql_e A (fmt A
         [str ''select distinct economic_lineage_id from stir.reference_observation where tenant_id='', sq,
         val tenant, sq, str '' and definition_id='', sq, val definition_id, sq, str '' and economic_lineage_id='',
         sq, item (val listing2) ''id'', sq, str '';'']) False) (\<lambda>lineages.
     then_py (check (eq A (val lineages) (item (val listing2) ''id'')) []) (
     then_py (call A (plus (plus (val base) (str ''/listings/'')) (item (val listing) ''id'')) ''GET'' none (item (val
         bea) ''accessToken'') [403, 404]) (
     bind_py (sql_e A (fmt A [str ''select count(*) from stir.reference_observation where economic_lineage_id='', sq,
         item (val listing) ''id'', sq, str '';'']) False) (\<lambda>r15.
     then_py (check (eq A (val r15) (str ''2'')) []) (
     bind_py (eval (plus (val base) (str ''/references/governance/ordinary''))) (\<lambda>gov.
     then_py (for_py (\<lambda>member.
     then_py (call A (plus (plus (plus (plus (val gov) (str ''/members/'')) (val community)) (str ''/'')) (item (item
         (val member) ''user'') ''id'')) ''POST'' (obj []) (val a) [200]) (
     ret ())) [ana, pedro, carlos]) (
     then_py (call A (plus (plus (val gov) (str ''/settings/'')) (val community)) ''PUT'' (obj [(''enabled'', yes)])
         (val a) [200]) (
     then_py (call A (plus (plus (val gov) (str ''/policy/'')) (val community)) ''POST'' (obj [(''quorumNumerator'',
         num 1), (''quorumDenominator'', num 2), (''approvalNumerator'', num 2), (''approvalDenominator'', num 3),
         (''votingWindowHours'', num 1), (''abstentionRule'', str ''COUNTS_TOWARD_QUORUM_NOT_APPROVAL''),
         (''explanation'', str ''v0.1'')]) (val a) [200]) (
     then_py (call A (plus (plus (plus (val gov) (str ''/proposals/'')) (val definition_id)) (str ''/seed'')) ''POST''
         (obj [(''kind'', str ''VALUE''), (''lowerValue'', str ''30''), (''upperValue'', str ''30''), (''rationale'',
         str ''x''), (''basis'', str ''x''), (''validDays'', num 90)]) (val admin) [401, 403, 404]) (
     bind_py (call A (plus (plus (plus (val gov) (str ''/proposals/'')) (val definition_id)) (str ''/seed'')) ''POST''
         (obj [(''kind'', str ''VALUE''), (''lowerValue'', str ''30''), (''upperValue'', str ''30''), (''rationale'',
         str ''Initial orientation pending real evidence''), (''basis'', str ''Founding assembly''), (''validDays'',
         num 90)]) (val a) [200]) (\<lambda>proposal.
     bind_py (eval (item (val proposal) ''id'')) (\<lambda>proposal_id.
     then_py (call A (plus (plus (plus (val gov) (str ''/proposal/'')) (val proposal_id)) (str ''/vote'')) ''POST''
         (obj [(''choice'', str ''APPROVE'')]) (val admin) [401, 403, 404]) (
     then_py (call A (plus (plus (plus (val gov) (str ''/proposal/'')) (val proposal_id)) (str ''/vote'')) ''POST''
         (obj [(''choice'', str ''APPROVE'')]) (val a) [200]) (
     then_py (call A (plus (plus (plus (val gov) (str ''/proposal/'')) (val proposal_id)) (str ''/vote'')) ''POST''
         (obj [(''choice'', str ''APPROVE'')]) (val p) [200]) (
     then_py (call A (plus (plus (plus (val gov) (str ''/proposal/'')) (val proposal_id)) (str ''/vote'')) ''POST''
         (obj [(''choice'', str ''APPROVE'')]) (val a) [409]) (
     bind_py (call A (plus (plus (val gov) (str ''/proposal/'')) (val proposal_id)) ''GET'' none (val a) [200])
         (\<lambda>tally.
     then_py (check (both (eq A (item (val tally) ''votesAPPROVE'') (num 2)) (eq A (item (val tally)
         ''electorateSize'') (num 3))) []) (
     print_py (''PASS: LISTING and WANTED recorded with real indicative prices and per-party consent; editing a '' @
         ''listing preserves its earlier observation untouched; a listing->proposal->agreement chain '' @
         ''shares one economic lineage; tenant isolation holds; SuperAdmin cannot propose or vote on a '' @
         ''community seed; double voting is rejected; a real vote over the real electorate reaches quorum '' @
         ''and majority''))))))))))))))))))))))))))))))))))))))))))"

definition multi_main_plan :: "plan" where
  "multi_main_plan =
     multi_fixtures_plan @ [answered ''POST'' ''/references'' [200], answered ''POST'' ''/policies'' [200], answered
         ''POST'' ''/listings'' [201], answered ''GET'' ''/observations'' [200], answered ''POST'' ''/listings''
         [201], answered ''GET'' ''/observations'' [200], answered ''PUT'' ''/listings/'' [200]] @ sql_events @
         [answered ''POST'' ''/listings'' [201], answered ''POST'' ''/offers'' [201], answered ''POST'' ''/accept''
         [200]] @ sql_events @ [answered ''GET'' ''/listings/'' [403, 404]] @ sql_events @ concat (replicate 3
         ([answered ''POST'' ''/'' [200]])) @ [answered ''PUT'' ''/settings/'' [200], answered ''POST'' ''/policy/''
         [200], answered ''POST'' ''/seed'' [401, 403, 404], answered ''POST'' ''/seed'' [200], answered ''POST''
         ''/vote'' [401, 403, 404], answered ''POST'' ''/vote'' [200], answered ''POST'' ''/vote'' [200], answered
         ''POST'' ''/vote'' [409], answered ''GET'' ''/proposal/'' [200]]"

section \<open>Conformance\<close>

lemma multi_role_conforms: "conforms multi_role_plan (multi_role A admin suffix t key permissions)"
  unfolding multi_role_plan_def multi_role_def append.simps by (intro py_conf) simp_all

lemmas multi_role_steps [py_conf] =
  multi_role_conforms conforms_bind [OF multi_role_conforms] conforms_then [OF multi_role_conforms]
  conforms_bind_last [OF multi_role_conforms] conforms_then_last [OF multi_role_conforms]

lemma multi_fixtures_conforms: "conforms multi_fixtures_plan (multi_fixtures A)"
  unfolding multi_fixtures_plan_def multi_fixtures_def append.simps by (intro py_conf) simp_all

lemmas multi_fixtures_steps [py_conf] =
  multi_fixtures_conforms conforms_bind [OF multi_fixtures_conforms] conforms_then [OF multi_fixtures_conforms]
  conforms_bind_last [OF multi_fixtures_conforms] conforms_then_last [OF multi_fixtures_conforms]

lemma multi_main_conforms: "conforms multi_main_plan (multi_main A)"
  unfolding multi_main_plan_def multi_main_def append.simps by (intro py_conf) simp_all

lemmas multi_main_steps [py_conf] =
  multi_main_conforms conforms_bind [OF multi_main_conforms] conforms_then [OF multi_main_conforms]
  conforms_bind_last [OF multi_main_conforms] conforms_then_last [OF multi_main_conforms]

end
