(* ===== verification/Independence.thy ===== *)
theory Independence
  imports References
begin

text \<open>
  Participant independence over HTTP (scripts/participant_independence_e2e.py): identifiers for
      osTRIS, a recorded decision that two accounts are related, and what STIR shows of it.
\<close>

section \<open>The script\<close>

text \<open>
  osTRIS takes only identifiers that are canonical UUIDs of version 7: 48 bits of milliseconds, the
  version, 12 random bits, the variant and 62 random bits. The bits are combined as the code does,
  on unbounded integers; \<open>UUID\<close> refuses a number of more than 128 bits.
\<close>

unbundle bit_operations_syntax

definition uuid7_number :: "int \<Rightarrow> bytes \<Rightarrow> bytes \<Rightarrow> int" where
  "uuid7_number clock bytes_a bytes_b =
     (let millis = clock AND 0xFFFFFFFFFFFF;
          rand_a = int (from_be 0 bytes_a) AND 0x0FFF;
          msb = push_bit 16 millis OR 0x7000 OR rand_a;
          rand_b = int (from_be 0 bytes_b);
          lsb = (rand_b AND 0x3FFFFFFFFFFFFFFF) OR 0x8000000000000000
      in push_bit 64 msb OR lsb)"

fun hex_digits :: "nat \<Rightarrow> nat \<Rightarrow> string" where
  "hex_digits 0 n = []"
| "hex_digits (Suc k) n = hex_digits k (n div 16) @ [nibble (n mod 16)]"

definition uuid_text :: "int \<Rightarrow> exn + string" where
  "uuid_text n =
     (if 0 \<le> n \<and> n < 2 ^ 128 then Inr (dashed (hex_digits 32 (nat n)))
      else Inl (ValueError ''int is out of range (need a 128-bit value)''))"

definition uuid7 :: "('k, 'x) services \<Rightarrow> ('x host, json) py" where
  "uuid7 A =
     bind_py (asks now) (\<lambda>t.
     bind_py next_fresh (\<lambda>i.
     bind_py next_fresh (\<lambda>j.
     bind_py (lift_py (uuid_text (uuid7_number (clock_millis A t) (urandom A 2 i) (urandom A 8 j)))) (\<lambda>s.
     ret (JStr s)))))"

definition participant_id :: "('k, 'x) services \<Rightarrow> json \<Rightarrow> json \<Rightarrow> ('x host, json) py" where
  "participant_id A tenant user_id =
     sql_e A (fmt A [str ''select participant_id from stir.participant_economic_binding where tenant_id='', sq,
         val tenant, sq, str '' and user_id='', sq, val user_id, sq, str '';'']) False"

definition participant_id_plan :: "plan" where
  "participant_id_plan =
     sql_events"

definition confirm_related :: "('k, 'x) services \<Rightarrow> json \<Rightarrow> json \<Rightarrow> json \<Rightarrow> json \<Rightarrow> json \<Rightarrow> json \<Rightarrow> ('x host, json) py" where
  "confirm_related A admin tenant community participant risk_subject reason =
     bind_py (uuid7 A) (\<lambda>r1.
     call_with A (str ''/api/ostris/identity/continuity-decisions'') ''POST'' (obj [(''decisionId'', val r1),
         (''communityId'', val community), (''participantId'', val participant), (''riskSubjectId'',
         val risk_subject), (''status'', str ''CONFIRMED''), (''evidenceRefs'', arr [str ''e2e-fixture'']),
         (''decisionAuthority'', str ''e2e-fixture''), (''reason'', val reason)]) (val admin) [201] [(''X-Tenant'',
         val tenant)])"

definition confirm_related_plan :: "plan" where
  "confirm_related_plan =
     [answered ''POST'' ''/api/ostris/identity/continuity-decisions'' [201]]"

definition independence_main :: "('k, 'x) services \<Rightarrow> ('x host, unit) py" where
  "independence_main A =
     bind_py (reference_fixtures A) (\<lambda>(tenant, base, ana, pedro, carlos, bea, binding).
     bind_py (read_secret A ''login_password'') (\<lambda>r2.
     bind_py (call A (str ''/api/shell/v1/auth/login'') ''POST'' (obj [(''email'', str ''admin@stir.test''),
         (''password'', val r2)]) none [200]) (\<lambda>r3.
     bind_py (eval (item (val r3) ''accessToken'')) (\<lambda>admin.
     bind_py (eval (item (val binding) ''communityId'')) (\<lambda>community.
     bind_py (eval (item (item (val pedro) ''user'') ''id'')) (\<lambda>pedro_user.
     bind_py (eval (item (item (val carlos) ''user'') ''id'')) (\<lambda>carlos_user.
     bind_py (eval (fmt A [str ''/api/shell/v1/tenants/'', val tenant])) (\<lambda>shell.
     bind_py (call A (plus (val shell) (str ''/roles'')) ''POST'' (obj [(''key'', plus (str ''reviewer-'') (upto
         (val tenant) 8)), (''name'', str ''Independence reviewer''), (''description'', str ''E2E fixture''),
         (''enabled'', yes)]) (val admin) [200, 201]) (\<lambda>reviewer_role.
     then_py (call A (plus (plus (plus (val shell) (str ''/roles/'')) (item (val reviewer_role) ''id''))
         (str ''/permissions'')) ''PUT'' (plus (val MEMBER) (arr [str ''stir.references.publish'',
         str ''OSTRIS_IDENTITY_CONTINUITY_READ_PRIVATE''])) (val admin) [200]) (
     bind_py (eval (item (val reviewer_role) ''id'')) (\<lambda>r6.
     bind_py (eval (upto (val tenant) 8)) (\<lambda>r7.
     bind_py (make_user A admin tenant r6 (JStr ''reviewer'') r7) (\<lambda>reviewer.
     then_py (sql_e A (fmt A [str ''update idax_core.tenant_user set role='admin' where tenant_id='', sq, val tenant,
         sq, str '' and user_id='', sq, item (item (val reviewer) ''user'') ''id'', sq, str '';'']) False) (
     bind_py (eval (item (val reviewer) ''accessToken'')) (\<lambda>a.
     bind_py (call A (plus (plus (plus (val base) (str ''/references/participants/'')) (val carlos_user))
         (str ''/independence-refresh'')) ''POST'' (obj []) (val a) [200]) (\<lambda>never_activated.
     then_py (check (eq A (item (val never_activated) ''status'') (str ''NO_OSTRIS_BINDING'')) []) (
     bind_py (call A (plus (plus (plus (val base) (str ''/references/participants/'')) (val carlos_user))
         (str ''/independence'')) ''GET'' none (val a) [200]) (\<lambda>r11.
     then_py (check (eq A (item (val r11) ''status'') (str ''NO_OSTRIS_BINDING'')) []) (
     then_py (call A (plus (val base) (str ''/participants/me'')) ''PUT'' (obj [(''displayName'', str ''Pedro''),
         (''bio'', str ''E2E fixture''), (''location'', str ''Girona'')]) (item (val pedro) ''accessToken'') [200]) (
     then_py (call A (plus (val base) (str ''/participants/me'')) ''PUT'' (obj [(''displayName'', str ''Carlos''),
         (''bio'', str ''E2E fixture''), (''location'', str ''Girona'')]) (item (val carlos) ''accessToken'') [200]) (
     then_py (activate_economic A base pedro) (
     then_py (activate_economic A base carlos) (
     bind_py (participant_id A tenant pedro_user) (\<lambda>r16.
     bind_py (participant_id A tenant carlos_user) (\<lambda>r17.
     bind_py (eval (val r16)) (\<lambda>pedro_participant.
     bind_py (eval (val r17)) (\<lambda>carlos_participant.
     bind_py (call A (plus (plus (plus (val base) (str ''/references/participants/'')) (val pedro_user))
         (str ''/independence-refresh'')) ''POST'' (obj []) (val a) [200]) (\<lambda>unknown.
     then_py (check (eq A (item (val unknown) ''status'') (str ''INDEPENDENCE_UNKNOWN'')) []) (
     then_py (call A (plus (plus (plus (val base) (str ''/references/participants/'')) (val pedro_user))
         (str ''/independence-refresh'')) ''POST'' (obj []) (item (val pedro) ''accessToken'') [403]) (
     bind_py (eval (fmt A [str ''/api/stir/tenants/'', item (at (item (val bea) ''tenants'') 0) ''id'']))
         (\<lambda>other_base.
     then_py (call A (plus (plus (plus (val other_base) (str ''/references/participants/'')) (val pedro_user))
         (str ''/independence-refresh'')) ''POST'' (obj []) (item (val bea) ''accessToken'') [400, 403, 404]) (
     then_py (call A (plus (plus (plus (val base) (str ''/references/participants/'')) (val pedro_user))
         (str ''/independence-refresh'')) ''POST'' (obj []) (val admin) [401, 403, 404]) (
     bind_py (uuid7 A) (\<lambda>risk_subject.
     then_py (sql_e A (fmt A [str ''insert into ostris.risk_subject(id,tenant_id,community_id) values ('', sq,
         val risk_subject, sq, str '','', sq, val tenant, sq, str '','', sq, val community, sq, str '');'']) False) (
     then_py (confirm_related A admin tenant community pedro_participant risk_subject (JStr
         ''Same continuity cluster (e2e fixture)'')) (
     then_py (confirm_related A admin tenant community carlos_participant risk_subject (JStr
         ''Same continuity cluster (e2e fixture)'')) (
     bind_py (call A (plus (plus (plus (val base) (str ''/references/participants/'')) (val pedro_user))
         (str ''/independence-refresh'')) ''POST'' (obj []) (val a) [200]) (\<lambda>related_pedro.
     bind_py (call A (plus (plus (plus (val base) (str ''/references/participants/'')) (val carlos_user))
         (str ''/independence-refresh'')) ''POST'' (obj []) (val a) [200]) (\<lambda>related_carlos.
     then_py (check (both (eq A (item (val related_pedro) ''status'') (item (val related_carlos) ''status'')) (eq A
         (item (val related_carlos) ''status'') (str ''RELATED_CONTINUITY''))) []) (
     bind_py (call A (plus (val base) (str ''/references'')) ''POST'' (obj [(''name'', str ''Firewood 1 stere''),
         (''scope'', str ''One stere of dry firewood''), (''attributes'', obj []), (''quantityBasis'', str ''1''),
         (''quantityUnit'', str ''stere'')]) (val a) [200]) (\<lambda>definition.
     bind_py (eval (plus (plus (val base) (str ''/references/'')) (item (val definition) ''id''))) (\<lambda>ref.
     bind_py (call A (plus (val base) (str ''/listings'')) ''POST'' (obj [(''direction'', str ''OFFER''), (''title'',
         str ''Firewood between related accounts''), (''description'', str ''E2E fixture''), (''category'',
         str ''home''), (''resourceKind'', str ''physical''), (''referenceDefinitionId'', item (val definition)
         ''id'')]) (item (val pedro) ''accessToken'') [201]) (\<lambda>listing.
     bind_py (call A (plus (plus (plus (val base) (str ''/listings/'')) (item (val listing) ''id''))
         (str ''/offers'')) ''POST'' (obj [(''message'', str ''proposal''), (''quantity'', str ''1''), (''unitLabel'',
         str ''stere''), (''proposedAmount'', str ''10''), (''proposedUnitRef'', item (val definition) ''unit_ref''),
         (''shareReferenceObservation'', yes)]) (item (val carlos) ''accessToken'') [201]) (\<lambda>offer.
     then_py (call A (plus (plus (plus (val base) (str ''/negotiations/'')) (item (val offer) ''id''))
         (str ''/accept'')) ''POST'' (obj [(''offerId'', item (at (item (val offer) ''offers'') (- 1)) ''id''),
         (''expectedVersion'', item (val offer) ''version''), (''shareReferenceObservation'', yes)]) (item (val pedro)
         ''accessToken'') [200]) (
     bind_py (call A (plus (val ref) (str ''/observations'')) ''GET'' none (val a) [200]) (\<lambda>observations.
     bind_py (eval (next_e (val observations) (\<lambda>obs. eq A (item (val obs) ''source'') (str ''AGREEMENT''))))
         (\<lambda>agreement_row.
     then_py (check (same_set A (set_e [item (val agreement_row) ''participant_a'', item (val agreement_row)
         ''participant_b'']) (set_e [val pedro_user, val carlos_user])) []) (
     bind_py (call A (plus (val ref) (str ''/evidence-manifest'')) ''GET'' none (val a) [200]) (\<lambda>manifest.
     then_py (check (both (eq A (item (val manifest) ''included'') (arr [])) (eq A (item (val manifest)
         ''exclusions'') (obj [])))
         (''today's own Agreement is outside snapshot()'s < cutoff window - invisible to any manifest '' @
         ''today, same as every other same-day scenario in this codebase'')) (
     bind_py (call A (plus (plus (plus (val base) (str ''/references/participants/'')) (val pedro_user))
         (str ''/independence'')) ''GET'' none (val a) [200]) (\<lambda>r34.
     then_py (check (eq A (item (val r34) ''status'') (str ''RELATED_CONTINUITY'')) []) (
     then_py (call A (plus (plus (plus (val other_base) (str ''/references/participants/'')) (val pedro_user))
         (str ''/independence'')) ''GET'' none (item (val bea) ''accessToken'') [400, 403, 404]) (
     print_py (''PASS HTTP PARTICIPANT INDEPENDENCE: no-binding/unknown/related-continuity states all come from '' @
         ''osTRIS's own real HTTP contract (not a mock), permission and tenant boundaries on the new '' @
         ''refresh/read endpoints match every other mutation and every other private read, a real '' @
         ''Agreement between two osTRIS-confirmed related accounts is captured with its real participants '' @
         ''regardless of same-day evidence-manifest caching, and independence status itself is a live, '' @
         ''always-current read unaffected by that same daily cutoff.''))))))))))))))))))))))))))))))))))))))))))))))))))))))"

definition independence_main_plan :: "plan" where
  "independence_main_plan =
     reference_fixtures_plan @ [answered ''POST'' ''/api/shell/v1/auth/login'' [200], answered ''POST'' ''/roles''
         [200, 201], answered ''PUT'' ''/permissions'' [200]] @ make_user_plan @ sql_events @ [answered ''POST''
         ''/independence-refresh'' [200], answered ''GET'' ''/independence'' [200], answered ''PUT''
         ''/participants/me'' [200], answered ''PUT'' ''/participants/me'' [200]] @ activate_economic_plan @
         activate_economic_plan @ participant_id_plan @ participant_id_plan @ [answered ''POST''
         ''/independence-refresh'' [200], answered ''POST'' ''/independence-refresh'' [403], answered ''POST''
         ''/independence-refresh'' [400, 403, 404], answered ''POST'' ''/independence-refresh'' [401, 403, 404]] @
         sql_events @ confirm_related_plan @ confirm_related_plan @ [answered ''POST'' ''/independence-refresh''
         [200], answered ''POST'' ''/independence-refresh'' [200], answered ''POST'' ''/references'' [200], answered
         ''POST'' ''/listings'' [201], answered ''POST'' ''/offers'' [201], answered ''POST'' ''/accept'' [200],
         answered ''GET'' ''/observations'' [200], answered ''GET'' ''/evidence-manifest'' [200], answered ''GET''
         ''/independence'' [200], answered ''GET'' ''/independence'' [400, 403, 404]]"

section \<open>Conformance\<close>

lemma uuid7_quiet [py_plan]: "follows [] (uuid7 A)"
  unfolding uuid7_def by (intro follows_bind_quiet follows_asks follows_lift follows_ret quiet_next_fresh)

lemmas uuid7_steps [py_conf] = conforms_bind_quiet [OF uuid7_quiet]

lemma participant_id_conforms: "conforms participant_id_plan (participant_id A tenant user_id)"
  unfolding participant_id_plan_def participant_id_def append.simps by (intro py_conf)

lemmas participant_id_steps [py_conf] =
  participant_id_conforms conforms_bind [OF participant_id_conforms] conforms_then [OF participant_id_conforms]
  conforms_bind_last [OF participant_id_conforms] conforms_then_last [OF participant_id_conforms]

lemma confirm_related_conforms: "conforms confirm_related_plan (confirm_related A admin tenant community participant risk_subject reason)"
  unfolding confirm_related_plan_def confirm_related_def append.simps by (intro py_conf) simp_all

lemmas confirm_related_steps [py_conf] =
  confirm_related_conforms conforms_bind [OF confirm_related_conforms] conforms_then [OF confirm_related_conforms]
  conforms_bind_last [OF confirm_related_conforms] conforms_then_last [OF confirm_related_conforms]

lemma independence_main_conforms: "conforms independence_main_plan (independence_main A)"
  unfolding independence_main_plan_def independence_main_def append.simps by (intro py_conf) simp_all

lemmas independence_main_steps [py_conf] =
  independence_main_conforms conforms_bind [OF independence_main_conforms] conforms_then [OF independence_main_conforms]
  conforms_bind_last [OF independence_main_conforms] conforms_then_last [OF independence_main_conforms]

end
