(* ===== verification/Authority.thy ===== *)
theory Authority
  imports References
begin

text \<open>
  Community authority over HTTP (scripts/community_authority_e2e.py): who may publish a definition
      while ordinary governance is disabled and after it is enabled.
\<close>

section \<open>The script\<close>

definition PUBLISH :: json where
  "PUBLISH = JArr (map JStr (economic_permissions @ [''stir.references.read'', ''stir.references.propose''] @ [''stir.references.publish'']))"

definition MANAGE :: json where
  "MANAGE = JArr (map JStr (economic_permissions @ [''stir.references.read'', ''stir.references.propose''] @ [''stir.references.publish'']
     @ [''stir.governance.manage'', ''stir.governance.vote'']))"

definition authority_role :: "('k, 'x) services \<Rightarrow> json \<Rightarrow> json \<Rightarrow> json \<Rightarrow> json \<Rightarrow> json \<Rightarrow> ('x host, json) py" where
  "authority_role A admin tenant key permissions suffix =
     bind_py (eval (fmt A [str ''/api/shell/v1/tenants/'', val tenant, str ''/roles''])) (\<lambda>base.
     bind_py (call A (val base) ''POST'' (obj [(''key'', plus (val key) (val suffix)), (''name'', val key),
         (''description'', str ''Community authority E2E''), (''enabled'', yes)]) (val admin) [200, 201])
         (\<lambda>row.
     then_py (call A (plus (plus (plus (val base) (str ''/'')) (item (val row) ''id'')) (str ''/permissions''))
         ''PUT'' (val permissions) (val admin) [200]) (
     eval (item (val row) ''id''))))"

definition authority_role_plan :: "plan" where
  "authority_role_plan =
     [answered ''POST'' [] [200, 201], answered ''PUT'' ''/permissions'' [200]]"

definition set_tenant_role :: "('k, 'x) services \<Rightarrow> json \<Rightarrow> json \<Rightarrow> json \<Rightarrow> ('x host, unit) py" where
  "set_tenant_role A tenant user value =
     then_py (sql_e A (fmt A [str ''update idax_core.tenant_user set role='', sq, val value, sq,
         str '' where tenant_id='', sq, val tenant, sq, str '' and user_id='', sq, item (item (val user) ''user'')
         ''id'', sq, str '';'']) False) (
     ret ())"

definition set_tenant_role_plan :: "plan" where
  "set_tenant_role_plan =
     sql_events"

definition expect_publish :: "('k, 'x) services \<Rightarrow> json \<Rightarrow> json \<Rightarrow> json \<Rightarrow> int \<Rightarrow> ('x host, json) py" where
  "expect_publish A name base token status =
     bind_py (eval (plus (val base) (str ''/references''))) (\<lambda>r1.
     bind_py (uuid4_hex A) (\<lambda>r2.
     bind_py (call A (val r1) ''POST'' (obj [(''name'', plus (str ''Authority '') (upto (val r2) 6)), (''scope'',
         str ''Authority matrix''), (''attributes'', obj []), (''quantityBasis'', str ''1''), (''quantityUnit'',
         str ''unit'')]) (val token) [status]) (\<lambda>got.
     then_py (print_e (fmt A [str ''PASS: '', val name, str '' -> '', num status])) (
     ret got))))"

definition expect_publish_plan :: "int \<Rightarrow> plan" where
  "expect_publish_plan status =
     [answered ''POST'' [] [status]]"

definition authority_main :: "('k, 'x) services \<Rightarrow> ('x host, unit) py" where
  "authority_main A =
     bind_py (reference_fixtures A) (\<lambda>(tenant, base, ana, pedro, carlos, bea, binding).
     bind_py (read_secret A ''login_password'') (\<lambda>r2.
     bind_py (call A (str ''/api/shell/v1/auth/login'') ''POST'' (obj [(''email'', str ''admin@stir.test''),
         (''password'', val r2)]) none [200]) (\<lambda>r3.
     bind_py (eval (item (val r3) ''accessToken'')) (\<lambda>admin_token.
     bind_py (ret admin_token) (\<lambda>admin.
     bind_py (eval (item (val binding) ''communityId'')) (\<lambda>community.
     bind_py (eval (item (at (item (val bea) ''tenants'') 0) ''id'')) (\<lambda>other_tenant.
     bind_py (eval (fmt A [str ''/api/shell/v1/tenants/'', val tenant])) (\<lambda>shell.
     bind_py (eval (plus (val base) (str ''/references/governance/ordinary''))) (\<lambda>gov.
     bind_py (uuid4_hex A) (\<lambda>r4.
     bind_py (eval (upto (val r4) 6)) (\<lambda>suffix.
     bind_py (authority_role A admin tenant (JStr ''authority-publisher'') PUBLISH suffix) (\<lambda>rid.
     bind_py (make_user A admin tenant rid (JStr ''owner'') suffix) (\<lambda>owner.
     bind_py (make_user A admin tenant rid (JStr ''readonly'') suffix) (\<lambda>readonly.
     bind_py (make_user A admin tenant rid (JStr ''service'') suffix) (\<lambda>service.
     bind_py (make_user A admin tenant rid (JStr ''plain'') suffix) (\<lambda>plain.
     then_py (set_tenant_role A tenant owner (JStr ''owner'')) (
     then_py (set_tenant_role A tenant readonly (JStr ''readonly'')) (
     then_py (set_tenant_role A tenant service (JStr ''service'')) (
     then_py (set_tenant_role A tenant plain (JStr ''user'')) (
     bind_py (authority_role A admin tenant (JStr ''authority-manager'') MANAGE suffix) (\<lambda>r14.
     bind_py (make_user A admin tenant r14 (JStr ''manager'') suffix) (\<lambda>manager.
     then_py (set_tenant_role A tenant manager (JStr ''admin'')) (
     then_py (print_py
         ''PASS: fixture roles provisioned (owner, admin, user, readonly, service, governance manager)'') (
     bind_py (call A (plus (plus (val gov) (str ''/settings/'')) (val community)) ''GET'' none (item (val ana)
         ''accessToken'') [200]) (\<lambda>r17.
     then_py (check (is_val (item (val r17) ''ordinaryGovernanceEnabled'') (JBool False)) []) (
     bind_py (eval (item (val owner) ''accessToken'')) (\<lambda>r18.
     then_py (expect_publish A (JStr ''governance disabled: tenant owner allowed'') base r18 200) (
     bind_py (eval (item (val ana) ''accessToken'')) (\<lambda>r20.
     then_py (expect_publish A (JStr ''governance disabled: tenant admin allowed'') base r20 200) (
     bind_py (eval (item (val plain) ''accessToken'')) (\<lambda>r22.
     then_py (expect_publish A (JStr ''governance disabled: tenant user denied (platform permission not authority)'')
         base r22 403) (
     bind_py (eval (item (val readonly) ''accessToken'')) (\<lambda>r24.
     then_py (expect_publish A (JStr ''governance disabled: readonly denied'') base r24 403) (
     bind_py (eval (item (val service) ''accessToken'')) (\<lambda>r26.
     then_py (expect_publish A (JStr ''governance disabled: service denied'') base r26 403) (
     then_py (expect_publish A (JStr ''governance disabled: SuperAdmin without tenant membership denied'') base admin
         403) (
     bind_py (eval (fmt A [str ''/api/stir/tenants/'', val other_tenant])) (\<lambda>r29.
     bind_py (eval (item (val ana) ''accessToken'')) (\<lambda>r30.
     then_py (expect_publish A (JStr ''cross-tenant: tenant A admin on tenant B path denied'') r29 r30 403) (
     bind_py (eval (item (val bea) ''accessToken'')) (\<lambda>r32.
     then_py (expect_publish A (JStr ''cross-tenant: tenant B member on tenant A path denied'') base r32 403) (
     bind_py (uuid4_str A) (\<lambda>foreign_community.
     then_py (call A (plus (plus (val gov) (str ''/settings/'')) (val foreign_community)) ''PUT'' (obj [(''enabled'',
         no)]) (item (val manager) ''accessToken'') [403]) (
     then_py (print_py
         ''PASS: cross-community: admin with manage permission cannot govern an unbound community -> 403'') (
     then_py (call A (plus (plus (plus (plus (val gov) (str ''/members/'')) (val community)) (str ''/'')) (item (item
         (val manager) ''user'') ''id'')) ''POST'' (obj []) (item (val manager) ''accessToken'') [200]) (
     then_py (call A (plus (plus (val gov) (str ''/settings/'')) (val community)) ''PUT'' (obj [(''enabled'', yes)])
         (item (val manager) ''accessToken'') [200]) (
     then_py (set_tenant_role A tenant manager (JStr ''user'')) (
     bind_py (call A (plus (plus (val gov) (str ''/settings/'')) (val community)) ''GET'' none (item (val ana)
         ''accessToken'') [200]) (\<lambda>r39.
     then_py (check (is_val (item (val r39) ''ordinaryGovernanceEnabled'') (JBool True)) []) (
     bind_py (eval (item (val manager) ''accessToken'')) (\<lambda>r40.
     then_py (expect_publish A (JStr ''governance enabled: active eligible member (tenant role user) allowed'') base
         r40 200) (
     bind_py (eval (item (val owner) ''accessToken'')) (\<lambda>r42.
     then_py (expect_publish A (JStr ''governance enabled: tenant owner not in roster denied'') base r42 403) (
     bind_py (eval (item (val ana) ''accessToken'')) (\<lambda>r44.
     then_py (expect_publish A (JStr ''governance enabled: tenant admin not in roster denied (no fallback)'') base r44
         403) (
     then_py (expect_publish A (JStr ''governance enabled: SuperAdmin without roster membership denied'') base admin
         403) (
     then_py (call A (plus (plus (val gov) (str ''/settings/'')) (val foreign_community)) ''PUT'' (obj [(''enabled'',
         no)]) (item (val manager) ''accessToken'') [403]) (
     then_py (print_py ''PASS: governance enabled: cross-community with an eligible member -> 403'') (
     bind_py (sql_e A (fmt A [str ''select count(*) from stir.reference_definition where tenant_id='', sq, val tenant,
         sq, str '' and name like 'Authority %';'']) False) (\<lambda>stored.
     then_py (print_e (fmt A [str ''INFO: authority-created definitions in tenant: '', val stored])) (
     print_py ''COMMUNITY AUTHORITY E2E: PASS'')))))))))))))))))))))))))))))))))))))))))))))))))))))))))))))"

definition authority_main_plan :: "plan" where
  "authority_main_plan =
     reference_fixtures_plan @ [answered ''POST'' ''/api/shell/v1/auth/login'' [200]] @ authority_role_plan @
         make_user_plan @ make_user_plan @ make_user_plan @ make_user_plan @ set_tenant_role_plan @
         set_tenant_role_plan @ set_tenant_role_plan @ set_tenant_role_plan @ authority_role_plan @ make_user_plan @
         set_tenant_role_plan @ [answered ''GET'' ''/settings/'' [200]] @ expect_publish_plan 200 @
         expect_publish_plan 200 @ expect_publish_plan 403 @ expect_publish_plan 403 @ expect_publish_plan 403 @
         expect_publish_plan 403 @ expect_publish_plan 403 @ expect_publish_plan 403 @ [answered ''PUT''
         ''/settings/'' [403], answered ''POST'' ''/'' [200], answered ''PUT'' ''/settings/'' [200]] @
         set_tenant_role_plan @ [answered ''GET'' ''/settings/'' [200]] @ expect_publish_plan 200 @
         expect_publish_plan 403 @ expect_publish_plan 403 @ expect_publish_plan 403 @ [answered ''PUT''
         ''/settings/'' [403]] @ sql_events"

section \<open>Conformance\<close>

lemma authority_role_conforms: "conforms authority_role_plan (authority_role A admin tenant key permissions suffix)"
  unfolding authority_role_plan_def authority_role_def append.simps by (intro py_conf) simp_all

lemmas authority_role_steps [py_conf] =
  authority_role_conforms conforms_bind [OF authority_role_conforms] conforms_then [OF authority_role_conforms]
  conforms_bind_last [OF authority_role_conforms] conforms_then_last [OF authority_role_conforms]

lemma set_tenant_role_conforms: "conforms set_tenant_role_plan (set_tenant_role A tenant user value)"
  unfolding set_tenant_role_plan_def set_tenant_role_def append.simps by (intro py_conf)

lemmas set_tenant_role_steps [py_conf] =
  set_tenant_role_conforms conforms_bind [OF set_tenant_role_conforms] conforms_then [OF set_tenant_role_conforms]
  conforms_bind_last [OF set_tenant_role_conforms] conforms_then_last [OF set_tenant_role_conforms]

lemma expect_publish_conforms: "conforms (expect_publish_plan status) (expect_publish A name base token status)"
  unfolding expect_publish_plan_def expect_publish_def append.simps by (intro py_conf) simp_all

lemmas expect_publish_steps [py_conf] =
  expect_publish_conforms conforms_bind [OF expect_publish_conforms] conforms_then [OF expect_publish_conforms]
  conforms_bind_last [OF expect_publish_conforms] conforms_then_last [OF expect_publish_conforms]

lemma authority_main_conforms: "conforms authority_main_plan (authority_main A)"
  unfolding authority_main_plan_def authority_main_def append.simps by (intro py_conf) simp_all

lemmas authority_main_steps [py_conf] =
  authority_main_conforms conforms_bind [OF authority_main_conforms] conforms_then [OF authority_main_conforms]
  conforms_bind_last [OF authority_main_conforms] conforms_then_last [OF authority_main_conforms]

end
