(* ===== verification/Ordinary.thy ===== *)
theory Ordinary
  imports References
begin

text \<open>
  Ordinary governance over HTTP (scripts/ordinary_governance_e2e.py): the electorate, a vote on a
      reference, and what cannot bypass it.
\<close>

section \<open>The script\<close>

definition ordinary_main :: "('k, 'x) services \<Rightarrow> ('x host, unit) py" where
  "ordinary_main A =
     bind_py (reference_fixtures A) (\<lambda>(tenant, base, ana, pedro, carlos, bea, binding).
     bind_py (read_secret A ''login_password'') (\<lambda>r2.
     bind_py (call A (str ''/api/shell/v1/auth/login'') ''POST'' (obj [(''email'', str ''admin@stir.test''),
         (''password'', val r2)]) none [200]) (\<lambda>r3.
     bind_py (eval (item (val r3) ''accessToken'')) (\<lambda>admin.
     bind_py (eval (item (val binding) ''communityId'')) (\<lambda>community.
     bind_py (eval (fmt A [str ''/api/shell/v1/tenants/'', val tenant])) (\<lambda>shell.
     bind_py (eval (plus (val base) (str ''/references/governance/ordinary''))) (\<lambda>gov.
     bind_py (call A (plus (val shell) (str ''/roles'')) ''POST'' (obj [(''key'', plus (str ''gov-manager-'') (upto
         (val tenant) 8)), (''name'', str ''Governance manager''), (''description'', str ''E2E fixture''),
         (''enabled'', yes)]) (val admin) [200, 201]) (\<lambda>manager_role.
     then_py (call A (plus (plus (plus (val shell) (str ''/roles/'')) (item (val manager_role) ''id''))
         (str ''/permissions'')) ''PUT'' (plus (val MEMBER) (arr [str ''stir.references.publish'',
         str ''stir.governance.manage'', str ''stir.governance.vote''])) (val admin) [200]) (
     bind_py (eval (fmt A [str ''manager-'', upto (val tenant) 8, str ''@stir.test''])) (\<lambda>manager_email.
     bind_py (token_urlsafe A 24) (\<lambda>manager_password.
     then_py (call A (plus (val shell) (str ''/users'')) ''POST'' (obj [(''email'', val manager_email),
         (''displayName'', str ''manager''), (''authProvider'', str ''local''), (''subject'', val manager_email),
         (''password'', val manager_password), (''role'', str ''member''), (''enabled'', yes)]) (val admin) [200,
         201]) (
     bind_py (call A (str ''/api/shell/v1/auth/login'') ''POST'' (obj [(''email'', val manager_email), (''password'',
         val manager_password)]) none [200]) (\<lambda>manager_session.
     then_py (call A (plus (plus (val shell) (str ''/roles/users/'')) (item (item (val manager_session) ''user'')
         ''id'')) ''PUT'' (obj [(''roleIds'', arr [item (val manager_role) ''id''])]) (val admin) [204]) (
     bind_py (call A (str ''/api/shell/v1/auth/login'') ''POST'' (obj [(''email'', val manager_email), (''password'',
         val manager_password)]) none [200]) (\<lambda>manager_session.
     bind_py (eval (item (val manager_session) ''accessToken'')) (\<lambda>m.
     bind_py (eval (item (item (val manager_session) ''user'') ''id'')) (\<lambda>manager_id.
     then_py (sql_e A (fmt A [str ''update idax_core.tenant_user set role='admin' where tenant_id='', sq, val tenant,
         sq, str '' and user_id='', sq, val manager_id, sq, str '';'']) False) (
     bind_py (call A (plus (val shell) (str ''/roles'')) ''POST'' (obj [(''key'', plus (str ''gov-voter-'') (upto
         (val tenant) 8)), (''name'', str ''Governance voter''), (''description'', str ''E2E fixture''), (''enabled'',
         yes)]) (val admin) [200, 201]) (\<lambda>voter_role.
     then_py (call A (plus (plus (plus (val shell) (str ''/roles/'')) (item (val voter_role) ''id''))
         (str ''/permissions'')) ''PUT'' (plus (val MEMBER) (arr [str ''stir.governance.vote''])) (val admin) [200]) (
     bind_py (map_py (\<lambda>label.
     bind_py (eval (fmt A [val label, str ''-'', upto (val tenant) 8, str ''@stir.test''])) (\<lambda>email.
     bind_py (token_urlsafe A 24) (\<lambda>password.
     then_py (call A (plus (val shell) (str ''/users'')) ''POST'' (obj [(''email'', val email), (''displayName'',
         val label), (''authProvider'', str ''local''), (''subject'', val email), (''password'', val password),
         (''role'', str ''member''), (''enabled'', yes)]) (val admin) [200, 201]) (
     bind_py (call A (str ''/api/shell/v1/auth/login'') ''POST'' (obj [(''email'', val email), (''password'',
         val password)]) none [200]) (\<lambda>session.
     then_py (call A (plus (plus (val shell) (str ''/roles/users/'')) (item (item (val session) ''user'') ''id''))
         ''PUT'' (obj [(''roleIds'', arr [item (val voter_role) ''id''])]) (val admin) [204]) (
     bind_py (call A (str ''/api/shell/v1/auth/login'') ''POST'' (obj [(''email'', val email), (''password'',
         val password)]) none [200]) (\<lambda>session.
     ret session))))))) [JStr ''v1'', JStr ''v2'', JStr ''v3'', JStr ''v4'']) (\<lambda>voters.
     bind_py (eval (list_at voters 0)) (\<lambda>v1.
     bind_py (eval (list_at voters 1)) (\<lambda>v2.
     bind_py (eval (list_at voters 2)) (\<lambda>v3.
     bind_py (eval (list_at voters 3)) (\<lambda>v4.
     bind_py (call A (plus (plus (val gov) (str ''/settings/'')) (val community)) ''GET'' none (val m) [200])
         (\<lambda>r19.
     then_py (check (is_val (item (val r19) ''ordinaryGovernanceEnabled'') (JBool False)) []) (
     bind_py (call A (plus (val base) (str ''/references'')) ''POST'' (obj [(''name'', str ''Honey 1kg''), (''scope'',
         str ''One kilogram of raw honey''), (''attributes'', obj []), (''quantityBasis'', str ''1''),
         (''quantityUnit'', str ''kg'')]) (val m) [200]) (\<lambda>definition.
     bind_py (eval (item (val definition) ''id'')) (\<lambda>definition_id.
     bind_py (call A (plus (plus (plus (val base) (str ''/references/'')) (val definition_id)) (str ''/proposals''))
         ''POST'' (obj [(''kind'', str ''CONVENTION''), (''lowerValue'', str ''10''), (''upperValue'', str ''10''),
         (''explanation'', str ''Community convention, not statistics''), (''origin'', str ''Assembly''),
         (''validDays'', num 90)]) (val m) [200]) (\<lambda>legacy_proposal.
     then_py (call A (plus (plus (plus (val base) (str ''/references/proposals/'')) (item (val legacy_proposal)
         ''id'')) (str ''/publish'')) ''POST'' (obj [(''decision'', str ''Legacy delegated publish'')]) (val m) [200])
         (
     bind_py (eval (item (item (val v1) ''user'') ''id'')) (\<lambda>r23.
     bind_py (eval (item (item (val v2) ''user'') ''id'')) (\<lambda>r24.
     bind_py (eval (item (item (val v3) ''user'') ''id'')) (\<lambda>r25.
     bind_py (eval (item (item (val v4) ''user'') ''id'')) (\<lambda>r26.
     then_py (for_py (\<lambda>voter.
     then_py (call A (plus (plus (plus (plus (val gov) (str ''/members/'')) (val community)) (str ''/'')) (val voter))
         ''POST'' (obj []) (val m) [200]) (
     ret ())) [manager_id, r23, r24, r25, r26]) (
     then_py (call A (plus (plus (val gov) (str ''/settings/'')) (val community)) ''PUT'' (obj [(''enabled'', yes)])
         (val m) [200]) (
     then_py (call A (plus (plus (val gov) (str ''/policy/'')) (val community)) ''POST'' (obj [(''quorumNumerator'',
         num 1), (''quorumDenominator'', num 2), (''approvalNumerator'', num 2), (''approvalDenominator'', num 3),
         (''votingWindowHours'', num 1), (''abstentionRule'', str ''COUNTS_TOWARD_QUORUM_NOT_APPROVAL''),
         (''explanation'', str ''v0.1 initial policy'')]) (val m) [200]) (
     bind_py (call A (plus (plus (plus (val base) (str ''/references/'')) (val definition_id)) (str ''/proposals''))
         ''POST'' (obj [(''kind'', str ''CONVENTION''), (''lowerValue'', str ''20''), (''upperValue'', str ''20''),
         (''explanation'', str ''Second convention''), (''origin'', str ''Assembly''), (''validDays'', num 90)])
         (val m) [200]) (\<lambda>proposal.
     then_py (call A (plus (plus (plus (val base) (str ''/references/proposals/'')) (item (val proposal) ''id''))
         (str ''/publish'')) ''POST'' (obj [(''decision'', str ''Bypass attempt'')]) (val m) [409]) (
     then_py (call A (plus (plus (plus (plus (val gov) (str ''/proposals/'')) (val definition_id))
         (str ''/reference/'')) (item (val proposal) ''id'')) ''POST'' (obj []) (item (val pedro) ''accessToken'')
         [403]) (
     bind_py (eval (fmt A [str ''/api/stir/tenants/'', item (at (item (val bea) ''tenants'') 0) ''id'']))
         (\<lambda>other_base.
     then_py (call A (plus (plus (plus (plus (val other_base) (str ''/references/governance/ordinary/proposals/''))
         (val definition_id)) (str ''/reference/'')) (item (val proposal) ''id'')) ''POST'' (obj []) (item (val bea)
         ''accessToken'') [400, 403, 404]) (
     then_py (call A (plus (plus (plus (val gov) (str ''/proposal/'')) (val definition_id)) (str ''/vote'')) ''POST''
         (obj [(''choice'', str ''APPROVE'')]) (val admin) [401, 403, 404]) (
     bind_py (call A (plus (plus (plus (plus (val gov) (str ''/proposals/'')) (val definition_id))
         (str ''/reference/'')) (item (val proposal) ''id'')) ''POST'' (obj []) (val m) [200]) (\<lambda>ordinary.
     bind_py (eval (item (val ordinary) ''id'')) (\<lambda>proposal_id.
     then_py (check (eq A (item (val ordinary) ''electorateSize'') (num 5)) []) (
     then_py (call A (plus (plus (plus (val gov) (str ''/proposal/'')) (val proposal_id)) (str ''/vote'')) ''POST''
         (obj [(''choice'', str ''APPROVE'')]) (val admin) [401, 403, 404]) (
     then_py (call A (plus (plus (plus (val gov) (str ''/proposal/'')) (val proposal_id)) (str ''/vote'')) ''POST''
         (obj [(''choice'', str ''APPROVE'')]) (item (val v1) ''accessToken'') [200]) (
     then_py (call A (plus (plus (plus (val gov) (str ''/proposal/'')) (val proposal_id)) (str ''/vote'')) ''POST''
         (obj [(''choice'', str ''REJECT'')]) (item (val v1) ''accessToken'') [409]) (
     then_py (call A (plus (plus (plus (val gov) (str ''/proposal/'')) (val proposal_id)) (str ''/vote'')) ''POST''
         (obj [(''choice'', str ''APPROVE'')]) (item (val v2) ''accessToken'') [200]) (
     then_py (call A (plus (plus (plus (val gov) (str ''/proposal/'')) (val proposal_id)) (str ''/vote'')) ''POST''
         (obj [(''choice'', str ''APPROVE'')]) (item (val v3) ''accessToken'') [200]) (
     bind_py (call A (plus (plus (val gov) (str ''/proposal/'')) (val proposal_id)) ''GET'' none (val m) [200])
         (\<lambda>tally.
     then_py (check (both (eq A (item (val tally) ''votesAPPROVE'') (num 3)) (eq A (item (val tally)
         ''electorateSize'') (num 5))) []) (
     print_py (''PASS HTTP ORDINARY GOVERNANCE: disabled-by-default direct publish unaffected, publisher bypass '' @
         ''blocked once enabled, permission/tenant boundaries on every new endpoint, SuperAdmin cannot '' @
         ''vote, double vote rejected, a real vote reaches quorum and majority over the real electorate '' @
         ''roll.'')))))))))))))))))))))))))))))))))))))))))))))))))))))))"

definition ordinary_main_plan :: "plan" where
  "ordinary_main_plan =
     reference_fixtures_plan @ [answered ''POST'' ''/api/shell/v1/auth/login'' [200], answered ''POST'' ''/roles''
         [200, 201], answered ''PUT'' ''/permissions'' [200], answered ''POST'' ''/users'' [200, 201], answered
         ''POST'' ''/api/shell/v1/auth/login'' [200], answered ''PUT'' ''/roles/users/'' [204], answered ''POST''
         ''/api/shell/v1/auth/login'' [200]] @ sql_events @ [answered ''POST'' ''/roles'' [200, 201], answered ''PUT''
         ''/permissions'' [200]] @ concat (replicate 4 ([answered ''POST'' ''/users'' [200, 201], answered ''POST''
         ''/api/shell/v1/auth/login'' [200], answered ''PUT'' ''/roles/users/'' [204], answered ''POST''
         ''/api/shell/v1/auth/login'' [200]])) @ [answered ''GET'' ''/settings/'' [200], answered ''POST''
         ''/references'' [200], answered ''POST'' ''/proposals'' [200], answered ''POST'' ''/publish'' [200]] @ concat
         (replicate 5 ([answered ''POST'' ''/'' [200]])) @ [answered ''PUT'' ''/settings/'' [200], answered ''POST''
         ''/policy/'' [200], answered ''POST'' ''/proposals'' [200], answered ''POST'' ''/publish'' [409], answered
         ''POST'' ''/reference/'' [403], answered ''POST'' ''/reference/'' [400, 403, 404], answered ''POST''
         ''/vote'' [401, 403, 404], answered ''POST'' ''/reference/'' [200], answered ''POST'' ''/vote'' [401, 403,
         404], answered ''POST'' ''/vote'' [200], answered ''POST'' ''/vote'' [409], answered ''POST'' ''/vote''
         [200], answered ''POST'' ''/vote'' [200], answered ''GET'' ''/proposal/'' [200]]"

section \<open>Conformance\<close>

lemma ordinary_main_conforms: "conforms ordinary_main_plan (ordinary_main A)"
  unfolding ordinary_main_plan_def ordinary_main_def append.simps by (intro py_conf) simp_all

lemmas ordinary_main_steps [py_conf] =
  ordinary_main_conforms conforms_bind [OF ordinary_main_conforms] conforms_then [OF ordinary_main_conforms]
  conforms_bind_last [OF ordinary_main_conforms] conforms_then_last [OF ordinary_main_conforms]

end
