(* ===== verification/ValueGovernance.thy ===== *)
theory ValueGovernance
  imports References
begin

text \<open>
  Community value governance over HTTP (scripts/community_value_governance_e2e.py): raw observations
      against the published evidence, reference policies and their floors, and integrity cases
      decided by a second publisher.
\<close>

section \<open>The script\<close>

definition make_login :: "('k, 'x) services \<Rightarrow> json \<Rightarrow> json \<Rightarrow> json \<Rightarrow> json \<Rightarrow> json \<Rightarrow> ('x host, json \<times> json) py" where
  "make_login A admin tenant role_id label suffix =
     bind_py (eval (fmt A [val label, str ''-'', val suffix, str ''@stir.test''])) (\<lambda>email.
     bind_py (token_urlsafe A 24) (\<lambda>password.
     then_py (call A (fmt A [str ''/api/shell/v1/tenants/'', val tenant, str ''/users'']) ''POST'' (obj [(''email'',
         val email), (''displayName'', val label), (''authProvider'', str ''local''), (''subject'', val email),
         (''password'', val password), (''role'', str ''member''), (''enabled'', yes)]) (val admin) [200, 201]) (
     bind_py (call A (str ''/api/shell/v1/auth/login'') ''POST'' (obj [(''email'', val email), (''password'',
         val password)]) none [200]) (\<lambda>session.
     then_py (call A (plus (fmt A [str ''/api/shell/v1/tenants/'', val tenant, str ''/roles/users/'']) (item (item
         (val session) ''user'') ''id'')) ''PUT'' (obj [(''roleIds'', arr [val role_id])]) (val admin) [204]) (
     ret (email, password))))))"

definition make_login_plan :: "plan" where
  "make_login_plan =
     [answered ''POST'' ''/users'' [200, 201], answered ''POST'' ''/api/shell/v1/auth/login'' [200], answered ''PUT''
         ''/roles/users/'' [204]]"

definition value_agree :: "('k, 'x) services \<Rightarrow> json \<Rightarrow> json \<Rightarrow> json \<Rightarrow> json \<Rightarrow> json \<Rightarrow> json \<Rightarrow> json \<Rightarrow> ('x host, json) py" where
  "value_agree A base listing definition a amount buyer_token consent =
     bind_py (call A (plus (plus (plus (val base) (str ''/listings/'')) (item (val listing) ''id''))
         (str ''/offers'')) ''POST'' (obj [(''message'', str ''Free proposal''), (''quantity'', str ''1''),
         (''unitLabel'', str ''bag''), (''proposedAmount'', val amount), (''proposedUnitRef'', item (val definition)
         ''unit_ref''), (''shareReferenceObservation'', val consent)]) (val buyer_token) [201]) (\<lambda>n.
     call A (plus (plus (plus (val base) (str ''/negotiations/'')) (item (val n) ''id'')) (str ''/accept'')) ''POST''
         (obj [(''offerId'', item (at (item (val n) ''offers'') (- 1)) ''id''), (''expectedVersion'', item (val n)
         ''version''), (''shareReferenceObservation'', val consent)]) (val a) [200])"

definition value_agree_plan :: "plan" where
  "value_agree_plan =
     [answered ''POST'' ''/offers'' [201], answered ''POST'' ''/accept'' [200]]"

definition value_main :: "('k, 'x) services \<Rightarrow> ('x host, unit) py" where
  "value_main A =
     bind_py (reference_fixtures A) (\<lambda>(tenant, base, ana, pedro, carlos, bea, binding).
     bind_py (eval (item (val ana) ''accessToken'')) (\<lambda>a.
     bind_py (eval (item (val pedro) ''accessToken'')) (\<lambda>p.
     bind_py (read_secret A ''login_password'') (\<lambda>r2.
     bind_py (call A (str ''/api/shell/v1/auth/login'') ''POST'' (obj [(''email'', str ''admin@stir.test''),
         (''password'', val r2)]) none [200]) (\<lambda>r3.
     bind_py (eval (item (val r3) ''accessToken'')) (\<lambda>admin.
     bind_py (uuid4_hex A) (\<lambda>r4.
     bind_py (eval (upto (val r4) 8)) (\<lambda>suffix2.
     bind_py (call A (fmt A [str ''/api/shell/v1/tenants/'', val tenant, str ''/roles'']) ''POST'' (obj [(''key'',
         plus (str ''publisher2-'') (val suffix2)), (''name'', str ''Second publisher''), (''description'',
         str ''Local governance test''), (''enabled'', yes)]) (val admin) [200, 201]) (\<lambda>publisher_role.
     then_py (call A (plus (plus (fmt A [str ''/api/shell/v1/tenants/'', val tenant, str ''/roles/'']) (item (val
         publisher_role) ''id'')) (str ''/permissions'')) ''PUT'' (plus (val MEMBER) (arr
         [str ''stir.references.publish''])) (val admin) [200]) (
     bind_py (eval (item (val publisher_role) ''id'')) (\<lambda>r7.
     bind_py (make_login A admin tenant r7 (JStr ''diego'') suffix2) (\<lambda>(diego_email, diego_password).
     bind_py (call A (str ''/api/shell/v1/auth/login'') ''POST'' (obj [(''email'', val diego_email), (''password'',
         val diego_password)]) none [200]) (\<lambda>diego_session.
     bind_py (eval (item (val diego_session) ''accessToken'')) (\<lambda>diego.
     then_py (sql_e A (fmt A [str ''update idax_core.tenant_user set role='admin' where tenant_id='', sq, val tenant,
         sq, str '' and user_id='', sq, item (item (val diego_session) ''user'') ''id'', sq, str '';'']) False) (
     bind_py (call A (plus (val base) (str ''/references'')) ''POST'' (obj [(''name'', str ''Flour 1kg''), (''scope'',
         str ''One 1kg bag of flour''), (''attributes'', obj [(''weight'', str ''1kg'')]), (''quantityBasis'',
         str ''1''), (''quantityUnit'', str ''bag'')]) (val a) [200]) (\<lambda>definition.
     bind_py (eval (plus (plus (val base) (str ''/references/'')) (item (val definition) ''id''))) (\<lambda>ref.
     bind_py (call A (plus (val base) (str ''/listings'')) ''POST'' (obj [(''direction'', str ''OFFER''), (''title'',
         str ''Flour with a reference''), (''description'', str ''Test bag''), (''category'', str ''home''),
         (''resourceKind'', str ''physical''), (''referenceDefinitionId'', item (val definition) ''id'')]) (val a)
         [201]) (\<lambda>listing.
     bind_py (value_agree A base listing definition a (JStr ''5'') p (JBool False)) (\<lambda>first.
     bind_py (call A (plus (val ref) (str ''/evidence-manifest'')) ''GET'' none (val a) [200]) (\<lambda>manifest.
     then_py (check (both (eq A (item (val manifest) ''included'') (arr [])) (eq A (item (val manifest)
         ''exclusions'') (obj [])))
         (''today's own observations are outside snapshot()'s < cutoff window - invisible to any manifest '' @
         ''today'')) (
     then_py (call A (plus (val ref) (str ''/observations'')) ''GET'' none (val p) [403]) (
     then_py (call A (plus (val ref) (str ''/evidence-manifest'')) ''GET'' none (val p) [403]) (
     then_py (for_py (\<lambda>amount.
     then_py (value_agree A base listing definition a amount p (JBool True)) (
     ret ())) [JStr ''10'', JStr ''11'', JStr ''12'', JStr ''13'', JStr ''14'']) (
     bind_py (call A (plus (val ref) (str ''/observations'')) ''GET'' none (val a) [200]) (\<lambda>observations.
     then_py (check (eq A (len (val observations)) (num 12))
         ''every proposal and every agreement stays in the raw list, 6 deals x 2 rows'') (
     bind_py (eval (keep_e (val observations) (\<lambda>obs. eq A (item (val obs) ''source'') (str ''AGREEMENT''))))
         (\<lambda>agreement_rows.
     bind_py (eval (keep_e (val observations) (\<lambda>obs. eq A (item (val obs) ''source'') (str ''PROPOSAL''))))
         (\<lambda>proposal_rows.
     then_py (check (both (eq A (len (val agreement_rows)) (num 6)) (eq A (len (val proposal_rows)) (num 6))) []) (
     then_py (check (all_e (val agreement_rows) (\<lambda>obs. both (truth (item (val obs) ''participant_a'')) (truth
         (item (val obs) ''participant_b'')))) ''publisher view includes real participants'') (
     then_py (check (in_set A (item (val first) ''id'') (set_each (val agreement_rows) (\<lambda>obs. item (val obs)
         ''source_id''))) ''the very first Agreement is still in the raw list'') (
     bind_py (call A (plus (val ref) (str ''/evidence-manifest'')) ''GET'' none (val a) [200]) (\<lambda>r19.
     then_py (check (eq A (val r19) (val manifest)) []) (
     bind_py (call A (val ref) ''GET'' none (val a) [200]) (\<lambda>r20.
     bind_py (eval (item (val r20) ''evidence'')) (\<lambda>evidence.
     then_py (check (eq A (item (val evidence) ''status'') (str ''INSUFFICIENT_DATA'')) []) (
     then_py (call A (plus (val ref) (str ''/policies'')) ''POST'' (obj [(''windowDays'', num 90),
         (''minimumObservations'', num 5), (''minimumParticipants'', num 6), (''maximumParticipantShare'',
         str ''0.40''), (''freshnessDays'', num 30), (''explanation'', str ''SuperAdmin attempt'')]) (val admin) [401,
         403, 404]) (
     then_py (call A (plus (val base) (str ''/references'')) ''POST'' (obj [(''name'', str ''SuperAdmin Definition''),
         (''scope'', str ''Should never be created''), (''attributes'', obj []), (''quantityBasis'', str ''1''),
         (''quantityUnit'', str ''unit'')]) (val admin) [401, 403, 404]) (
     then_py (call A (plus (val ref) (str ''/proposals'')) ''POST'' (obj [(''kind'', str ''CONVENTION''),
         (''lowerValue'', str ''1''), (''upperValue'', str ''1''), (''explanation'', str ''SuperAdmin attempt''),
         (''origin'', str ''SuperAdmin''), (''validDays'', num 30)]) (val admin) [401, 403, 404]) (
     bind_py (eval (plus (val base) (str ''/references/proposals/''))) (\<lambda>r24.
     bind_py (uuid4_str A) (\<lambda>r25.
     then_py (call A (plus (plus (val r24) (val r25)) (str ''/publish'')) ''POST'' (obj [(''decision'',
         str ''SuperAdmin attempt'')]) (val admin) [401, 403, 404]) (
     bind_py (eval (plus (val base) (str ''/references/integrity/signals''))) (\<lambda>r27.
     bind_py (uuid4_str A) (\<lambda>r28.
     then_py (call A (val r27) ''POST'' (obj [(''observationId'', val r28), (''signalCode'',
         str ''OUTLIER_PENDING_REVIEW''), (''reason'', str ''SuperAdmin attempt''), (''evidenceRefs'', arr [])])
         (val admin) [401, 403, 404]) (
     bind_py (eval (plus (val base) (str ''/references/integrity/cases/''))) (\<lambda>r30.
     bind_py (uuid4_str A) (\<lambda>r31.
     then_py (call A (plus (plus (val r30) (val r31)) (str ''/decisions'')) ''POST'' (obj [(''status'',
         str ''UNDER_REVIEW''), (''reason'', str ''SuperAdmin attempt'')]) (val admin) [401, 403, 404]) (
     bind_py (call A (val ref) ''GET'' none (val admin) [200]) (\<lambda>r33.
     then_py (check (eq A (item (item (val r33) ''definition'') ''id'') (item (val definition) ''id'')) []) (
     bind_py (call A (plus (val ref) (str ''/observations'')) ''GET'' none (val admin) [200]) (\<lambda>r34.
     then_py (check (is_list (val r34)) []) (
     bind_py (call A (plus (val ref) (str ''/policies'')) ''POST'' (obj [(''windowDays'', num 60),
         (''minimumObservations'', num 7), (''minimumParticipants'', num 6), (''maximumParticipantShare'',
         str ''0.30''), (''freshnessDays'', num 20), (''explanation'', str ''Tighten after reviewing the sample'')])
         (val a) [200]) (\<lambda>tightened.
     then_py (check (eq A (item (val tightened) ''minimum_observations'') (num 7)) []) (
     bind_py (call A (val ref) ''GET'' none (val p) [200]) (\<lambda>r36.
     then_py (check (eq A (item (item (val r36) ''policy'') ''id'') (item (val tightened) ''id'')) []) (
     then_py (call A (plus (val ref) (str ''/policies'')) ''POST'' (obj [(''windowDays'', num 60),
         (''minimumObservations'', num 7), (''minimumParticipants'', num 6), (''maximumParticipantShare'',
         str ''0.30''), (''freshnessDays'', num 20), (''explanation'', str ''Sneak a protected field''),
         (''independenceChecksRequired'', no)]) (val a) [409]) (
     bind_py (eval (at (val agreement_rows) 0)) (\<lambda>suspect.
     bind_py (call A (plus (val base) (str ''/references/integrity/signals'')) ''POST'' (obj [(''observationId'',
         item (val suspect) ''id''), (''signalCode'', str ''HIGH_COUNTERPARTY_CONCENTRATION''), (''reason'',
         str ''Same counterparty for every recent deal''), (''evidenceRefs'', arr [str ''private-note-1''])]) (val a)
         [200]) (\<lambda>signal.
     then_py (check (eq A (item (val signal) ''status'') (str ''SIGNAL'')) []) (
     then_py (call A (plus (plus (plus (val base) (str ''/references/integrity/cases/'')) (item (val signal) ''id''))
         (str ''/decisions'')) ''POST'' (obj [(''status'', str ''FINAL''), (''reason'', str ''Skip review'')]) (val a)
         [409]) (
     then_py (call A (plus (plus (plus (val base) (str ''/references/integrity/cases/'')) (item (val signal) ''id''))
         (str ''/decisions'')) ''POST'' (obj [(''status'', str ''UNDER_REVIEW''), (''reason'',
         str ''Looking into it'')]) (val a) [200]) (
     then_py (call A (plus (plus (plus (val base) (str ''/references/integrity/cases/'')) (item (val signal) ''id''))
         (str ''/decisions'')) ''POST'' (obj [(''status'', str ''FINAL''), (''reason'',
         str ''Self-approval attempt'')]) (val a) [409]) (
     bind_py (call A (plus (plus (plus (val base) (str ''/references/integrity/definitions/'')) (item (val definition)
         ''id'')) (str ''/cases'')) ''GET'' none (val a) [200]) (\<lambda>cases.
     then_py (check (any_e (val cases) (\<lambda>c. both (eq A (item (val c) ''id'') (item (val signal) ''id'')) (eq A
         (item (val c) ''status'') (str ''UNDER_REVIEW'')))) []) (
     bind_py (call A (plus (plus (plus (val base) (str ''/references/integrity/cases/'')) (item (val signal) ''id''))
         (str ''/decisions'')) ''POST'' (obj [(''status'', str ''FINAL''), (''reason'',
         str ''Confirmed: every deal was with the same counterparty'')]) (val diego) [200]) (\<lambda>finalized.
     then_py (check (eq A (item (val finalized) ''status'') (str ''FINAL'')) []) (
     bind_py (call A (plus (plus (plus (val base) (str ''/references/integrity/cases/'')) (item (val signal) ''id''))
         (str ''/history'')) ''GET'' none (val a) [200]) (\<lambda>r44.
     then_py (check (eq A (each_e (val r44) (\<lambda>h. item (val h) ''status'')) (arr [str ''SIGNAL'',
         str ''UNDER_REVIEW'', str ''FINAL''])) []) (
     bind_py (eval (at (val agreement_rows) 1)) (\<lambda>dismissable.
     bind_py (call A (plus (val base) (str ''/references/integrity/signals'')) ''POST'' (obj [(''observationId'',
         item (val dismissable) ''id''), (''signalCode'', str ''OUTLIER_PENDING_REVIEW''), (''reason'',
         str ''Looks unusual but probably fine''), (''evidenceRefs'', arr [])]) (val a) [200])
         (\<lambda>dismiss_signal.
     then_py (call A (plus (plus (plus (val base) (str ''/references/integrity/cases/'')) (item (val dismiss_signal)
         ''id'')) (str ''/decisions'')) ''POST'' (obj [(''status'', str ''UNDER_REVIEW''), (''reason'',
         str ''Checking'')]) (val a) [200]) (
     bind_py (call A (plus (plus (plus (val base) (str ''/references/integrity/cases/'')) (item (val dismiss_signal)
         ''id'')) (str ''/decisions'')) ''POST'' (obj [(''status'', str ''DISMISSED''), (''reason'',
         str ''Confirmed legitimate, no finding'')]) (val diego) [200]) (\<lambda>dismissed.
     then_py (check (eq A (item (val dismissed) ''status'') (str ''DISMISSED'')) []) (
     bind_py (call A (plus (val ref) (str ''/evidence-manifest'')) ''GET'' none (val a) [200]) (\<lambda>still_cached.
     then_py (check (negate (member A (item (val dismissable) ''id'') (item (val still_cached) ''exclusions'')))
         ''a dismissed signal excludes nothing'') (
     bind_py (sql_e A (fmt A [str ''select count(*) from stir.reference_observation where tenant_id='', sq,
         val tenant, sq, str '';'']) False) (\<lambda>r49.
     bind_py (call A (plus (val ref) (str ''/observations'')) ''GET'' none (val a) [200]) (\<lambda>r50.
     then_py (check (eq A (val r49) (show_e A (len (val r50))))
         ''no raw observation was ever deleted by any of the review decisions'') (
     then_py (call A (plus (val ref) (str ''/observations'')) ''GET'' none (item (val bea) ''accessToken'') [400, 403,
         404]) (
     then_py (call A (plus (val ref) (str ''/evidence-manifest'')) ''GET'' none (item (val bea) ''accessToken'') [400,
         403, 404]) (
     then_py (call A (plus (plus (plus (val base) (str ''/references/integrity/definitions/'')) (item (val definition)
         ''id'')) (str ''/cases'')) ''GET'' none (item (val bea) ''accessToken'') [400, 403, 404]) (
     bind_py (eval (fmt A [str ''/api/stir/tenants/'', item (at (item (val bea) ''tenants'') 0) ''id'']))
         (\<lambda>other_base.
     then_py (call A (plus (plus (plus (val other_base) (str ''/references/'')) (item (val definition) ''id''))
         (str ''/observations'')) ''GET'' none (item (val bea) ''accessToken'') [403, 404]) (
     print_py (''PASS HTTP GOVERNANCE: raw observation history survives regardless of same-day '' @
         ''evidence-manifest caching (anti-live-differencing proven directly; per-reason-code '' @
         ''classification proven at the PostgreSQL level with backdated observations, not live same-day '' @
         ''HTTP), platform SuperAdmin explicitly excluded from community governance, ordinary policy '' @
         ''governance inside constitutional floors with floor(400)/protected-field(409) rejection, market '' @
         ''integrity SIGNAL->UNDER_REVIEW->FINAL and ->DISMISSED by a genuinely different publisher, '' @
         ''tenant isolation.'')))))))))))))))))))))))))))))))))))))))))))))))))))))))))))))))))))))))))))))))))))))"

definition value_main_plan :: "plan" where
  "value_main_plan =
     reference_fixtures_plan @ [answered ''POST'' ''/api/shell/v1/auth/login'' [200], answered ''POST'' ''/roles''
         [200, 201], answered ''PUT'' ''/permissions'' [200]] @ make_login_plan @ [answered ''POST''
         ''/api/shell/v1/auth/login'' [200]] @ sql_events @ [answered ''POST'' ''/references'' [200], answered
         ''POST'' ''/listings'' [201]] @ value_agree_plan @ [answered ''GET'' ''/evidence-manifest'' [200], answered
         ''GET'' ''/observations'' [403], answered ''GET'' ''/evidence-manifest'' [403]] @ concat (replicate 5
         (value_agree_plan)) @ [answered ''GET'' ''/observations'' [200], answered ''GET'' ''/evidence-manifest''
         [200], answered ''GET'' [] [200], answered ''POST'' ''/policies'' [401, 403, 404], answered ''POST''
         ''/references'' [401, 403, 404], answered ''POST'' ''/proposals'' [401, 403, 404], answered ''POST''
         ''/publish'' [401, 403, 404], answered ''POST'' [] [401, 403, 404], answered ''POST'' ''/decisions'' [401,
         403, 404], answered ''GET'' [] [200], answered ''GET'' ''/observations'' [200], answered ''POST''
         ''/policies'' [200], answered ''GET'' [] [200], answered ''POST'' ''/policies'' [409], answered ''POST''
         ''/references/integrity/signals'' [200], answered ''POST'' ''/decisions'' [409], answered ''POST''
         ''/decisions'' [200], answered ''POST'' ''/decisions'' [409], answered ''GET'' ''/cases'' [200], answered
         ''POST'' ''/decisions'' [200], answered ''GET'' ''/history'' [200], answered ''POST''
         ''/references/integrity/signals'' [200], answered ''POST'' ''/decisions'' [200], answered ''POST''
         ''/decisions'' [200], answered ''GET'' ''/evidence-manifest'' [200]] @ sql_events @ [answered ''GET''
         ''/observations'' [200], answered ''GET'' ''/observations'' [400, 403, 404], answered ''GET''
         ''/evidence-manifest'' [400, 403, 404], answered ''GET'' ''/cases'' [400, 403, 404], answered ''GET''
         ''/observations'' [403, 404]]"

section \<open>Conformance\<close>

lemma make_login_conforms: "conforms make_login_plan (make_login A admin tenant role_id label suffix)"
  unfolding make_login_plan_def make_login_def append.simps by (intro py_conf) simp_all

lemmas make_login_steps [py_conf] =
  make_login_conforms conforms_bind [OF make_login_conforms] conforms_then [OF make_login_conforms]
  conforms_bind_last [OF make_login_conforms] conforms_then_last [OF make_login_conforms]

lemma make_login_logs [py_logs]: "(\<And>m u s. P (Called m u s)) \<Longrightarrow> logs P (make_login A admin tenant role_id label suffix)"
  unfolding make_login_def by (intro py_logs) simp_all

lemma value_agree_conforms: "conforms value_agree_plan (value_agree A base listing definition a amount buyer_token consent)"
  unfolding value_agree_plan_def value_agree_def append.simps by (intro py_conf) simp_all

lemmas value_agree_steps [py_conf] =
  value_agree_conforms conforms_bind [OF value_agree_conforms] conforms_then [OF value_agree_conforms]
  conforms_bind_last [OF value_agree_conforms] conforms_then_last [OF value_agree_conforms]

lemma value_main_conforms: "conforms value_main_plan (value_main A)"
  unfolding value_main_plan_def value_main_def append.simps by (intro py_conf) simp_all

lemmas value_main_steps [py_conf] =
  value_main_conforms conforms_bind [OF value_main_conforms] conforms_then [OF value_main_conforms]
  conforms_bind_last [OF value_main_conforms] conforms_then_last [OF value_main_conforms]

end
