(* ===== verification/MarketIntegrity.thy ===== *)
theory MarketIntegrity
  imports References
begin

text \<open>
  The seven keys of a market constitution over HTTP (scripts/market_integrity_e2e.py): bootstrap
      signatures, proposals that need every seat, one suspension by the guardian, recovery and
      removal.
\<close>

section \<open>The script\<close>

definition integrity_propose :: "('k, 'x) services \<Rightarrow> json \<Rightarrow> json \<Rightarrow> json \<Rightarrow> json \<Rightarrow> json \<Rightarrow> json \<Rightarrow> json \<Rightarrow> ('x host, json) py" where
  "integrity_propose A token api community action after affected reason =
     bind_py (eval (plus (plus (plus (val api) (str ''/'')) (val community)) (str ''/proposals''))) (\<lambda>r1.
     bind_py (uuid4_str A) (\<lambda>r2.
     call A (val r1) ''POST'' (obj [(''proposalId'', val r2), (''actionType'', val action), (''after'', val after),
         (''affectedFields'', val affected), (''reason'', val reason), (''evidenceRefs'', arr
         [str ''assembly-record-1''])]) (val token) [200]))"

definition integrity_propose_plan :: "plan" where
  "integrity_propose_plan =
     [answered ''POST'' [] [200]]"

definition sign_seat :: "('k, 'x) services \<Rightarrow> json \<Rightarrow> json \<Rightarrow> 'k list \<Rightarrow> json list \<Rightarrow> json \<Rightarrow> int \<Rightarrow> 'k option \<Rightarrow> json \<Rightarrow> ('x host, json) py" where
  "sign_seat A token api keys credentials p seat key credential =
     bind_py (eval (loads_e A (item (val p) ''payloadJson''))) (\<lambda>payload.
     bind_py (ret (seat - 1)) (\<lambda>i.
     call A (plus (plus (plus (val api) (str ''/proposals/'')) (item (val p) ''id'')) (str ''/signatures'')) ''POST''
         (obj [(''seatOrdinal'', num seat), (''credentialId'', or_e (val credential) (list_at credentials i)),
         (''signatureBase64url'', sign_e A (key_or key (list_at keys i)) DOMAIN (val payload))]) (val token) [200]))"

definition sign_seat_plan :: "plan" where
  "sign_seat_plan =
     [answered ''POST'' ''/signatures'' [200]]"

definition integrity_execute :: "('k, 'x) services \<Rightarrow> json \<Rightarrow> json \<Rightarrow> json \<Rightarrow> 'k option \<Rightarrow> 'k option \<Rightarrow> int list \<Rightarrow> ('x host, json) py" where
  "integrity_execute A token api p guardian_key new_key expected =
     bind_py (eval (loads_e A (item (val p) ''payloadJson''))) (\<lambda>payload.
     bind_py (eval (obj [(''guardianSignature'', case guardian_key of None \<Rightarrow> none | Some k \<Rightarrow>
         sign_e A (Inr k) GUARDIAN (val payload)), (''newKeyPossessionSignature'', case new_key of None \<Rightarrow>
         none | Some k \<Rightarrow> sign_e A (Inr k) POSSESSION (val payload))])) (\<lambda>body.
     call A (plus (plus (plus (val api) (str ''/proposals/'')) (item (val p) ''id'')) (str ''/activate'')) ''POST''
         (val body) (val token) expected))"

definition integrity_execute_plan :: "int list \<Rightarrow> plan" where
  "integrity_execute_plan expected =
     [answered ''POST'' ''/activate'' expected]"

definition integrity_main :: "('k, 'x) services \<Rightarrow> ('x host, unit) py" where
  "integrity_main A =
     bind_py (reference_fixtures A) (\<lambda>(tenant, base, ana, pedro, carlos, bea, binding).
     bind_py (eval (item (val ana) ''accessToken'')) (\<lambda>token.
     bind_py (eval (item (val binding) ''communityId'')) (\<lambda>community.
     bind_py (uuid4_str A) (\<lambda>authority.
     bind_py (eval (plus (val base) (str ''/references/governance''))) (\<lambda>api.
     bind_py (repeat_py 7 (generate_key A)) (\<lambda>keys.
     bind_py (generate_key A) (\<lambda>guardian.
     bind_py (repeat_py (length keys) (uuid4_str A)) (\<lambda>credentials.
     bind_py (repeat_py (length keys) (uuid4_str A)) (\<lambda>controllers.
     bind_py (uuid4_str A) (\<lambda>guardian_id.
     bind_py (eval (arr (map (\<lambda>i. obj [(''ordinal'', num (i + 1)), (''controllerId'', list_at controllers i),
         (''credentialId'', list_at credentials i), (''publicKey'', rawkey_e A (list_at keys i))]) [0..6])))
         (\<lambda>public_seats.
     bind_py (eval (obj [(''schema'', str ''STIR-MARKET-CONSTITUTION-1''), (''provenanceRequired'', yes),
         (''historyImmutable'', yes), (''independenceChecksRequired'', yes), (''concentrationChecksRequired'', yes),
         (''minimumObservationFloor'', num 5), (''minimumParticipantFloor'', num 6),
         (''maximumParticipantShareCeiling'', str ''0.50''), (''guardianMayGovern'', no),
         (''constitutionalThreshold'', num 7)])) (\<lambda>constitution.
     bind_py (eval (obj [(''format'', str ''STIR-SEVEN-KEYS-BOOTSTRAP-1''), (''tenantId'', val tenant),
         (''communityId'', val community), (''authorityId'', val authority), (''seats'', val public_seats),
         (''guardianCredentialId'', val guardian_id), (''guardianPublicKey'', rawkey_e A (val guardian)),
         (''constitutionDigest'', digest_e (val constitution))])) (\<lambda>bootstrap.
     bind_py (eval (arr (map (\<lambda>i. spread (at (val public_seats) i) [(''possessionSignature'', sign_e A
         (list_at keys i) BOOTSTRAP (val bootstrap))]) [0..6]))) (\<lambda>seats.
     bind_py (eval (obj [(''authorityId'', val authority), (''communityId'', val community), (''seats'', val seats),
         (''guardianCredentialId'', val guardian_id), (''guardianPublicKey'', rawkey_e A (val guardian)),
         (''guardianPossessionSignature'', sign_e A (val guardian) BOOTSTRAP (val bootstrap))])) (\<lambda>creation.
     bind_py (call A (plus (val api) (str ''/bootstrap'')) ''POST'' (val creation) (val token) [200]) (\<lambda>view.
     then_py (check (both (eq A (item (val view) ''threshold'') (num 7)) (eq A (len (item (val view) ''seats''))
         (num 7))) []) (
     bind_py (call A (plus (val base) (str ''/references'')) ''POST'' (obj [(''name'', str ''Integrity service''),
         (''scope'', str ''One hour of service''), (''attributes'', obj []), (''quantityBasis'', str ''1''),
         (''quantityUnit'', str ''hour'')]) (val token) [200]) (\<lambda>definition.
     bind_py (eval (obj [(''windowDays'', num 90), (''minimumObservations'', num 8), (''minimumParticipants'', num 6),
         (''maximumParticipantShare'', str ''0.40''), (''freshnessDays'', num 30), (''explanation'',
         str ''Ordinary bounded adjustment'')])) (\<lambda>policy.
     bind_py (call A (plus (plus (plus (val base) (str ''/references/'')) (item (val definition) ''id''))
         (str ''/policies'')) ''POST'' (val policy) (val token) [200]) (\<lambda>adjusted.
     then_py (check (eq A (item (val adjusted) ''version'') (num 2)) []) (
     then_py (call A (plus (plus (plus (val base) (str ''/references/'')) (item (val definition) ''id''))
         (str ''/policies'')) ''POST'' (spread (val policy) [(''independenceChecksRequired'', no)]) (val token) [409])
         (
     bind_py (eval (spread (val constitution) [(''independenceChecksRequired'', no)])) (\<lambda>changed.
     bind_py (eval (arr [str ''independenceChecksRequired''])) (\<lambda>r8.
     bind_py (integrity_propose A token api community (JStr ''AMEND_CONSTITUTION'') changed r8 (JStr
         ''Explicit community decision'')) (\<lambda>p.
     then_py (for_py (\<lambda>seat.
     then_py (sign_seat A token api keys credentials p seat None JNull) (
     ret ())) [1..6]) (
     then_py (integrity_execute A token api p None None ([409])) (
     bind_py (call A (plus (plus (val api) (str ''/proposals/'')) (item (val p) ''id'')) ''GET'' none (item (val
         pedro) ''accessToken'') [200]) (\<lambda>r12.
     then_py (check (eq A (item (val r12) ''signatureCount'') (num 6)) []) (
     then_py (sign_seat A token api keys credentials p 7 None JNull) (
     then_py (integrity_execute A token api p None None ([200])) (
     bind_py (call A (plus (plus (val api) (str ''/'')) (val community)) ''GET'' none (item (val pedro)
         ''accessToken'') [200]) (\<lambda>r15.
     then_py (check (eq A (item (val r15) ''constitutionVersion'') (num 2)) []) (
     bind_py (call A (plus (plus (val api) (str ''/'')) (val community)) ''GET'' none (val token) [200])
         (\<lambda>r16.
     bind_py (eval (item (val r16) ''nextSequence'')) (\<lambda>sequence.
     bind_py (now_iso A) (\<lambda>declared.
     bind_py (eval (obj [(''format'', str ''STIR-KEY-SUSPENSION-1''), (''tenantId'', val tenant), (''communityId'',
         val community), (''authorityId'', val authority), (''seat'', num 4), (''credentialId'', list_at credentials
         3), (''reasonCode'', str ''KEY_COMPROMISED''), (''evidenceRefs'', arr [str ''incident-1'']), (''sequence'',
         val sequence), (''declaredAt'', val declared)])) (\<lambda>suspension.
     bind_py (eval (obj [(''seatOrdinal'', num 4), (''credentialId'', list_at credentials 3), (''expectedSequence'',
         val sequence), (''declaredAt'', val declared), (''reasonCode'', str ''KEY_COMPROMISED''), (''evidenceRefs'',
         arr [str ''incident-1'']), (''guardianSignature'', sign_e A (val guardian) GUARDIAN (val suspension))]))
         (\<lambda>body.
     then_py (call A (plus (plus (plus (val api) (str ''/'')) (val community)) (str ''/emergency-suspensions''))
         ''POST'' (val body) (val token) [200]) (
     then_py (call A (plus (plus (plus (val api) (str ''/'')) (val community)) (str ''/emergency-suspensions''))
         ''POST'' (spread (val body) [(''seatOrdinal'', num 5)]) (val token) [409]) (
     bind_py (eval (spread (val changed) [(''concentrationChecksRequired'', no)])) (\<lambda>r19.
     bind_py (eval (arr [str ''concentrationChecksRequired''])) (\<lambda>r20.
     bind_py (integrity_propose A token api community (JStr ''AMEND_CONSTITUTION'') r19 r20 (JStr
         ''Explicit community decision'')) (\<lambda>frozen.
     then_py (integrity_execute A token api frozen None None ([409])) (
     bind_py (generate_key A) (\<lambda>replacement_key.
     bind_py (eval (list_at credentials 3)) (\<lambda>r23.
     bind_py (uuid4_str A) (\<lambda>r24.
     bind_py (eval (rawkey_e A (val replacement_key))) (\<lambda>r25.
     bind_py (uuid4_str A) (\<lambda>r26.
     bind_py (uuid4_str A) (\<lambda>r27.
     bind_py (eval (obj [(''affectedSeat'', num 4), (''oldCredentialId'', val r23), (''newCredentialId'', val r24),
         (''newPublicKey'', val r25), (''controllerId'', val r26), (''finalResolutionId'', val r27),
         (''finalResolutionDigest'', str (replicate 64 (CHR ''0''))), (''reason'',
         str ''Proposed controller replacement'')])) (\<lambda>r28.
     bind_py (eval (arr [str ''controllerId'', str ''credentialId''])) (\<lambda>r29.
     bind_py (integrity_propose A token api community (JStr ''REPLACE_CONTROLLER'') r28 r29 (JStr
         ''Explicit community decision'')) (\<lambda>replacement.
     then_py (integrity_execute A token api replacement (Some guardian) (Some replacement_key) ([409])) (
     bind_py (generate_key A) (\<lambda>newkey.
     bind_py (uuid4_str A) (\<lambda>newcred.
     bind_py (eval (obj [(''affectedSeat'', num 4), (''oldCredentialId'', list_at credentials 3),
         (''newCredentialId'', val newcred), (''newPublicKey'', rawkey_e A (val newkey)), (''controllerId'', list_at
         controllers 3), (''continuityEvidenceRefs'', arr [str ''continuity-1'']), (''reason'',
         str ''Same controller credential rotation'')])) (\<lambda>recovery.
     bind_py (eval (arr [str ''credentialId''])) (\<lambda>r33.
     bind_py (integrity_propose A token api community (JStr ''ROTATE_CREDENTIAL'') recovery r33 (JStr
         ''Explicit community decision'')) (\<lambda>r.
     then_py (for_py (\<lambda>seat.
     then_py (sign_seat A token api keys credentials r seat None JNull) (
     ret ())) [1, 2, 3, 5, 6]) (
     then_py (integrity_execute A token api r (Some guardian) (Some newkey) ([409])) (
     then_py (sign_seat A token api keys credentials r 7 None JNull) (
     then_py (integrity_execute A token api r (Some guardian) (Some newkey) ([200])) (
     bind_py (call A (plus (plus (val api) (str ''/'')) (val community)) ''GET'' none (val token) [200])
         (\<lambda>r39.
     bind_py (eval (item (val r39) ''seats'')) (\<lambda>seats_after.
     then_py (check (both (eq A (item (at (val seats_after) 3) ''credential_id'') (val newcred)) (eq A (item (at
         (val seats_after) 3) ''status'') (str ''ACTIVE''))) []) (
     bind_py (call A (plus (plus (plus (val api) (str ''/'')) (val community)) (str ''/credentials'')) ''GET'' none
         (val token) [200]) (\<lambda>r40.
     then_py (check (any_e (val r40) (\<lambda>entry. eq A (item (val entry) ''status'') (str ''REVOKED''))) []) (
     then_py (call A (plus (plus (plus (val api) (str ''/proposals/'')) (item (val frozen) ''id''))
         (str ''/signatures'')) ''POST'' (obj [(''seatOrdinal'', num 4), (''credentialId'', list_at credentials 3),
         (''signatureBase64url'', sign_e A (list_at keys 3) DOMAIN (loads_e A (item (val frozen) ''payloadJson'')))])
         (val token) [409]) (
     bind_py (eval (obj [(''guardianCredentialId'', val guardian_id), (''status'', str ''REMOVED'')])) (\<lambda>r42.
     bind_py (eval (arr [str ''guardianStatus''])) (\<lambda>r43.
     bind_py (integrity_propose A token api community (JStr ''REMOVE_GUARDIAN'') r42 r43 (JStr
         ''Explicit community decision'')) (\<lambda>removal.
     then_py (for_py (\<lambda>seat.
     then_py (sign_seat A token api keys credentials removal seat None JNull) (
     ret ())) [1, 2, 3, 5, 6]) (
     then_py (integrity_execute A token api removal None None ([200])) (
     bind_py (call A (plus (plus (val api) (str ''/'')) (val community)) ''GET'' none (val token) [200])
         (\<lambda>r47.
     then_py (check (eq A (item (val r47) ''guardianStatus'') (str ''REMOVED'')) []) (
     then_py (call A (plus (plus (plus (val api) (str ''/'')) (val community)) (str ''/emergency-suspensions''))
         ''POST'' (val body) (val token) [409]) (
     bind_py (call A (plus (plus (plus (val api) (str ''/'')) (val community)) (str ''/events'')) ''GET'' none
         (item (val pedro) ''accessToken'') [200]) (\<lambda>events.
     then_py (check (both (truth (val events)) (all_e (val events) (\<lambda>event. negate (member A
         (str ''payload_json'') (val event))))) []) (
     bind_py (call A (plus (plus (plus (val api) (str ''/'')) (val community)) (str ''/audit'')) ''GET'' none
         (item (val pedro) ''accessToken'') [200]) (\<lambda>r50.
     then_py (check (is_val (item (val r50) ''valid'') (JBool True)) []) (
     bind_py (eval (fmt A [str ''/api/stir/tenants/'', item (at (item (val bea) ''tenants'') 0) ''id'',
         str ''/references/governance''])) (\<lambda>other_base.
     then_py (call A (plus (plus (val other_base) (str ''/'')) (val community)) ''GET'' none (item (val bea)
         ''accessToken'') [404]) (
     print_py (''PASS HTTP SEVEN KEYS: 6/7 blocked, 7/7 activated, one guardian suspension, constitutional '' @
         ''freeze, 6/6 recovery, old credential history, 5/7 guardian removal, tenant isolation and '' @
         ''redaction.''))))))))))))))))))))))))))))))))))))))))))))))))))))))))))))))))))))))))))))))))))))"

definition integrity_main_plan :: "plan" where
  "integrity_main_plan =
     reference_fixtures_plan @ [answered ''POST'' ''/bootstrap'' [200], answered ''POST'' ''/references'' [200],
         answered ''POST'' ''/policies'' [200], answered ''POST'' ''/policies'' [409]] @ integrity_propose_plan @
         concat (replicate 6 (sign_seat_plan)) @ integrity_execute_plan ([409]) @ [answered ''GET'' ''/proposals/''
         [200]] @ sign_seat_plan @ integrity_execute_plan ([200]) @ [answered ''GET'' ''/'' [200], answered ''GET''
         ''/'' [200], answered ''POST'' ''/emergency-suspensions'' [200], answered ''POST'' ''/emergency-suspensions''
         [409]] @ integrity_propose_plan @ integrity_execute_plan ([409]) @ integrity_propose_plan @
         integrity_execute_plan ([409]) @ integrity_propose_plan @ concat (replicate 5 (sign_seat_plan)) @
         integrity_execute_plan ([409]) @ sign_seat_plan @ integrity_execute_plan ([200]) @ [answered ''GET'' ''/''
         [200], answered ''GET'' ''/credentials'' [200], answered ''POST'' ''/signatures'' [409]] @
         integrity_propose_plan @ concat (replicate 5 (sign_seat_plan)) @ integrity_execute_plan ([200]) @ [answered
         ''GET'' ''/'' [200], answered ''POST'' ''/emergency-suspensions'' [409], answered ''GET'' ''/events'' [200],
         answered ''GET'' ''/audit'' [200], answered ''GET'' ''/'' [404]]"

section \<open>Conformance\<close>

lemma integrity_propose_conforms: "conforms integrity_propose_plan (integrity_propose A token api community action after affected reason)"
  unfolding integrity_propose_plan_def integrity_propose_def append.simps by (intro py_conf) simp_all

lemmas integrity_propose_steps [py_conf] =
  integrity_propose_conforms conforms_bind [OF integrity_propose_conforms] conforms_then [OF integrity_propose_conforms]
  conforms_bind_last [OF integrity_propose_conforms] conforms_then_last [OF integrity_propose_conforms]

lemma sign_seat_conforms: "conforms sign_seat_plan (sign_seat A token api keys credentials p seat key credential)"
  unfolding sign_seat_plan_def sign_seat_def append.simps by (intro py_conf) simp_all

lemmas sign_seat_steps [py_conf] =
  sign_seat_conforms conforms_bind [OF sign_seat_conforms] conforms_then [OF sign_seat_conforms]
  conforms_bind_last [OF sign_seat_conforms] conforms_then_last [OF sign_seat_conforms]

lemma integrity_execute_conforms: "conforms (integrity_execute_plan expected) (integrity_execute A token api p guardian_key new_key expected)"
  unfolding integrity_execute_plan_def integrity_execute_def append.simps by (intro py_conf) simp_all

lemmas integrity_execute_steps [py_conf] =
  integrity_execute_conforms conforms_bind [OF integrity_execute_conforms] conforms_then [OF integrity_execute_conforms]
  conforms_bind_last [OF integrity_execute_conforms] conforms_then_last [OF integrity_execute_conforms]

lemma integrity_main_conforms: "conforms integrity_main_plan (integrity_main A)"
  unfolding integrity_main_plan_def integrity_main_def append.simps by (intro py_conf) simp_all

lemmas integrity_main_steps [py_conf] =
  integrity_main_conforms conforms_bind [OF integrity_main_conforms] conforms_then [OF integrity_main_conforms]
  conforms_bind_last [OF integrity_main_conforms] conforms_then_last [OF integrity_main_conforms]

end
