(* ===== verification/Boundary.thy ===== *)
theory Boundary
  imports References
begin

text \<open>
  The governed-state boundary (scripts/governed_boundary_e2e.py): requests from inside the ordinary
      container straight to the verifier, each of which has to be refused and leave the constitution
      as it was.
\<close>

section \<open>The script\<close>

definition PROJECT :: string where
  "PROJECT = ''stir-claude-mvp''"

definition COMPOSE :: "path \<Rightarrow> string list" where
  "COMPOSE root = [''docker'', ''compose'', ''-p'', PROJECT, ''-f'', path_text (root @ [''compose.yml'']),
     ''-f'', path_text (root @ [''compose.release.yml''])]"

definition VERIFIER :: string where
  "VERIFIER = ''http://governed-verifier:8096''"

definition compose_run :: "('k, 'x) services \<Rightarrow> string list \<Rightarrow> string option \<Rightarrow> ('x host, proc) py" where
  "compose_run A args input_text = run_io (docker A) (COMPOSE (root_dir A) @ args) input_text"

text \<open>
  \<open>attack\<close>: a request from inside the ordinary container, by \<open>wget -S\<close>, which prints the status lines
  to its standard error; \<open>re.findall\<close> collects their three digits, and the last one counts.
\<close>

definition dumps_e :: "exp \<Rightarrow> exp" where
  "dumps_e e = bind_sum e (\<lambda>v. Inr (JStr (ascii_escape (dumps '' '' v))))"

definition b64_e :: "exp \<Rightarrow> exp" where
  "b64_e e = bind_sum e (\<lambda>v.
     case v of JStr s \<Rightarrow> Inr (JStr (b64url (encode s)))
             | _ \<Rightarrow> Inl (TypeError ''object has no attribute encode''))"

definition attack_args :: "(json \<Rightarrow> string) \<Rightarrow> string \<Rightarrow> json \<Rightarrow> json \<Rightarrow> string list" where
  "attack_args R url body token =
     [''exec'', ''-T'', ''stir'', ''wget'', ''-S'', ''-q'', ''-O'', ''-'', ''--header=Content-Type: application/json'']
     @ (if truthy token then [''--header=Authorization: Bearer '' @ text_of R token] else [])
     @ [''--post-data'', ascii_escape (dumps '' '' body), url]"

function http_statuses :: "string \<Rightarrow> string list" where
  "http_statuses s =
     (if length s < 12 then []
      else if starts_with ''HTTP/1.1 '' s \<and> list_all (\<lambda>c. digit_in 10 c \<noteq> None) (take 3 (drop 9 s))
           then take 3 (drop 9 s) # http_statuses (drop 12 s)
           else http_statuses (drop 1 s))"
  by pat_completeness auto

termination
  by (relation "measure length") auto

declare http_statuses.simps [simp del]

definition attack :: "('k, 'x) services \<Rightarrow> json \<Rightarrow> json \<Rightarrow> json \<Rightarrow> ('x host, json) py" where
  "attack A path body token =
     bind_py (lift_py (as_str path)) (\<lambda>p.
     bind_py (compose_run A (attack_args (repr_json A) (VERIFIER @ p) body token) None) (\<lambda>result.
     let statuses = http_statuses (stderr result) in
     if statuses = [] then ret (JInt 0)
     else bind_py (lift_py (py_int 10 (last statuses))) (\<lambda>n. ret (JInt n))))"

text \<open>A command of the isolated project, and such an attack.\<close>

fun composed :: "(string list \<Rightarrow> bool) \<Rightarrow> event \<Rightarrow> bool" where
  "composed P (Ran args prj) = (\<exists>root rest. args = COMPOSE root @ rest \<and> P rest)"
| "composed P e = False"

definition attack_plan :: plan where
  "attack_plan = [composed (\<lambda>args. \<exists>R p body token. args = attack_args R (VERIFIER @ p) body token)]"

text \<open>
  The parts of the constitutional matrix that only build values: the paths of a proposal, and the
  signature of a seat, over the proposal's payload unless another one is given.
\<close>

definition sign_path :: "json \<Rightarrow> json \<Rightarrow> exp" where
  "sign_path api p = plus (plus (plus (val api) (str ''/proposals/'')) (item (val p) ''id'')) (str ''/signatures'')"

definition activate_path :: "json \<Rightarrow> json \<Rightarrow> exp" where
  "activate_path api p = plus (plus (plus (val api) (str ''/proposals/'')) (item (val p) ''id'')) (str ''/activate'')"

definition sig :: "('k, 'x) services \<Rightarrow> json list \<Rightarrow> json \<Rightarrow> int \<Rightarrow> exn + 'k \<Rightarrow> string \<Rightarrow> exp \<Rightarrow> exp \<Rightarrow> exp" where
  "sig A credentials p seat key domain payload credential =
     bind_sum key (\<lambda>k. bind_sum payload (\<lambda>given. bind_sum credential (\<lambda>cred.
     bind_sum (if given \<noteq> JNull then Inr given else loads_e A (item (val p) ''payloadJson'')) (\<lambda>signed.
       obj [(''seatOrdinal'', num seat), (''credentialId'', or_e (val cred) (list_at credentials (seat - 1))),
         (''signatureBase64url'', sign_e A (Inr k) domain (val signed))]))))"

definition expect_rejected :: "('k, 'x) services \<Rightarrow> json \<Rightarrow> json \<Rightarrow> json \<Rightarrow> json \<Rightarrow> json \<Rightarrow> ('x host, json) py" where
  "expect_rejected A name path body token expected =
     bind_py (attack A path body token) (\<lambda>status.
     then_py (check (negate (is_val (val expected) JNull)) []) (
     then_py (check (eq A (val status) (val expected)) []) (
     then_py (print_e (fmt A [str ''PASS: '', val name, str '' -> '', val status])) (
     ret status))))"

definition expect_rejected_plan :: "plan" where
  "expect_rejected_plan =
     attack_plan"

definition effective_constitution :: "('k, 'x) services \<Rightarrow> json \<Rightarrow> ('x host, json) py" where
  "effective_constitution A tenant =
     sql_e A (fmt A [str ''select coalesce(string_agg(digest_sha256, ',' order by version), '', str [CHR 0x27, CHR
         0x27], str '') from stir.market_constitution where tenant_id='', sq, val tenant, sq, str '';'']) False"

definition effective_constitution_plan :: "plan" where
  "effective_constitution_plan =
     sql_events"

definition matrix_propose :: "('k, 'x) services \<Rightarrow> json \<Rightarrow> json \<Rightarrow> json \<Rightarrow> json \<Rightarrow> json \<Rightarrow> ('x host, json) py" where
  "matrix_propose A api community token after affected =
     bind_py (eval (plus (plus (plus (val api) (str ''/'')) (val community)) (str ''/proposals''))) (\<lambda>r1.
     bind_py (uuid4_str A) (\<lambda>r2.
     call A (val r1) ''POST'' (obj [(''proposalId'', val r2), (''actionType'', str ''AMEND_CONSTITUTION''),
         (''after'', val after), (''affectedFields'', val affected), (''reason'',
         str ''Explicit community decision''), (''evidenceRefs'', arr [str ''assembly-record-1''])]) (val token)
         [200]))"

definition matrix_propose_plan :: "plan" where
  "matrix_propose_plan =
     [answered ''POST'' [] [200]]"

definition mutation_matrix :: "('k, 'x) services \<Rightarrow> json \<Rightarrow> json \<Rightarrow> json \<Rightarrow> json \<Rightarrow> json \<Rightarrow> 'k list \<Rightarrow> 'k \<Rightarrow> json \<Rightarrow> json list \<Rightarrow> json \<Rightarrow> ('x host, unit) py" where
  "mutation_matrix A tenant api community authority token keys guardian guardian_id credentials constitution =
     bind_py (eval (obj [(''guardianSignature'', none), (''newKeyPossessionSignature'', none)])) (\<lambda>empty.
     bind_py (effective_constitution A tenant) (\<lambda>before.
     bind_py (eval (spread (val constitution) [(''independenceChecksRequired'', no)])) (\<lambda>changed.
     bind_py (eval (arr [str ''independenceChecksRequired''])) (\<lambda>r2.
     bind_py (matrix_propose A api community token changed r2) (\<lambda>p.
     bind_py (eval (loads_e A (item (val p) ''payloadJson''))) (\<lambda>payload.
     then_py (for_py (\<lambda>seat.
     then_py (call A (sign_path api p) ''POST'' (sig A credentials p seat (list_at keys (seat - 1)) DOMAIN none none)
         (val token) [200]) (
     ret ())) [1..6]) (
     bind_py (eval (activate_path api p)) (\<lambda>r5.
     then_py (expect_rejected A (JStr ''exact 6-of-7 valid signatures cannot activate'') r5 empty token (JInt 409)) (
     bind_py (eval (sign_path api p)) (\<lambda>r7.
     bind_py (eval (sig A credentials p 1 (list_at keys 0) DOMAIN none none)) (\<lambda>r8.
     then_py (expect_rejected A (JStr ''duplicate signature by an already-signed seat'') r7 r8 token (JInt 409)) (
     bind_py (eval (sign_path api p)) (\<lambda>r10.
     bind_py (uuid4_str A) (\<lambda>r11.
     bind_py (eval (sig A credentials p 7 (list_at keys 6) DOMAIN (spread (val payload) [(''communityId'', val r11)])
         none)) (\<lambda>r12.
     then_py (expect_rejected A (JStr ''wrong community: seat 7 signs a payload naming another community'') r10 r12
         token (JInt 400)) (
     bind_py (eval (sign_path api p)) (\<lambda>r14.
     bind_py (eval (sig A credentials p 7 (list_at keys 6) GUARDIAN none none)) (\<lambda>r15.
     then_py (expect_rejected A (JStr ''wrong domain: seat 7 signs under the Guardian domain'') r14 r15 token (JInt
         400)) (
     bind_py (eval (sign_path api p)) (\<lambda>r17.
     bind_py (eval (sig A credentials p 7 (list_at keys 6) DOMAIN (spread (val payload) [(''reason'',
         str ''tampered'')]) none)) (\<lambda>r18.
     then_py (expect_rejected A (JStr ''modified payload: seat 7 signs a tampered reason'') r17 r18 token (JInt 400))
         (
     bind_py (eval (sign_path api p)) (\<lambda>r20.
     bind_py (eval (obj [(''seatOrdinal'', num 7), (''credentialId'', val guardian_id), (''signatureBase64url'',
         sign_e A (val guardian) DOMAIN (val payload))])) (\<lambda>r21.
     then_py (expect_rejected A (JStr ''Guardian counted as constitutional seat 7'') r20 r21 token (JInt 409)) (
     bind_py (eval (sign_path api p)) (\<lambda>r23.
     bind_py (uuid4_str A) (\<lambda>r24.
     bind_py (eval (sig A credentials p 7 (list_at keys 6) DOMAIN none (val r24))) (\<lambda>r25.
     then_py (expect_rejected A (JStr ''unknown credential presented for seat 7'') r23 r25 token (JInt 409)) (
     bind_py (effective_constitution A tenant) (\<lambda>r27.
     then_py (check (eq A (val r27) (val before)) ''a rejected constitutional attack changed effective state'') (
     bind_py (call A (plus (plus (plus (val api) (str ''/'')) (val community)) (str ''/events'')) ''GET'' none
         (val token) [200]) (\<lambda>r28.
     bind_py (eval (len (val r28))) (\<lambda>events_before.
     then_py (call A (sign_path api p) ''POST'' (sig A credentials p 7 (list_at keys 6) DOMAIN none none) (val token)
         [200]) (
     then_py (call A (activate_path api p) ''POST'' (val empty) (val token) [200]) (
     bind_py (effective_constitution A tenant) (\<lambda>after.
     then_py (check (either_of (eq A (val before) (str [])) (begins (val after) (plus (val before) (str '',''))))
         ''legitimate mutation must append exactly one version'') (
     then_py (check (eq A (len (split_e (val after) (CHR '',''))) (plus (if_e (truth (val before)) (len (split_e
         (val before) (CHR '',''))) (num 0)) (num 1))) ''effective constitution must change exactly once'') (
     bind_py (call A (plus (plus (val api) (str ''/'')) (val community)) ''GET'' none (val token) [200])
         (\<lambda>r32.
     then_py (check (eq A (item (val r32) ''constitutionVersion'') (num 2)) []) (
     then_py (print_py (''PASS: legitimate 7-of-7 constitutional mutation after bootstrap, effective state changed ''
         @ ''exactly once'')) (
     bind_py (eval (activate_path api p)) (\<lambda>r33.
     then_py (expect_rejected A (JStr ''replay of the executed mutation cannot change state again'') r33 empty token
         (JInt 409)) (
     bind_py (eval (sign_path api p)) (\<lambda>r35.
     bind_py (eval (sig A credentials p 7 (list_at keys 6) DOMAIN none none)) (\<lambda>r36.
     then_py (expect_rejected A (JStr ''replay of a signature for the executed proposal'') r35 r36 token (JInt 409)) (
     bind_py (effective_constitution A tenant) (\<lambda>r38.
     then_py (check (eq A (val r38) (val after)) ''replay changed effective constitutional state'') (
     bind_py (call A (plus (plus (plus (val api) (str ''/'')) (val community)) (str ''/events'')) ''GET'' none
         (val token) [200]) (\<lambda>events_after.
     then_py (check (greater (len (val events_after)) (val events_before))
         ''the legitimate mutation must leave audit evidence'') (
     bind_py (call A (plus (plus (plus (val api) (str ''/'')) (val community)) (str ''/audit'')) ''GET'' none
         (val token) [200]) (\<lambda>r40.
     then_py (check (is_val (item (val r40) ''valid'') (JBool True)) []) (
     then_py (print_py ''PASS: legitimate mutation produced governance events and the audit chain verifies'') (
     bind_py (call A (plus (plus (val api) (str ''/'')) (val community)) ''GET'' none (val token) [200])
         (\<lambda>r41.
     bind_py (eval (item (val r41) ''nextSequence'')) (\<lambda>sequence.
     bind_py (now_iso A) (\<lambda>declared.
     bind_py (eval (obj [(''format'', str ''STIR-KEY-SUSPENSION-1''), (''tenantId'', val tenant), (''communityId'',
         val community), (''authorityId'', val authority), (''seat'', num 4), (''credentialId'', list_at credentials
         3), (''reasonCode'', str ''KEY_COMPROMISED''), (''evidenceRefs'', arr [str ''incident-1'']), (''sequence'',
         minus (val sequence) (num 1)), (''declaredAt'', val declared)])) (\<lambda>suspension.
     bind_py (eval (plus (plus (plus (val api) (str ''/'')) (val community)) (str ''/emergency-suspensions'')))
         (\<lambda>r43.
     bind_py (eval (obj [(''seatOrdinal'', num 4), (''credentialId'', list_at credentials 3), (''expectedSequence'',
         minus (val sequence) (num 1)), (''declaredAt'', val declared), (''reasonCode'', str ''KEY_COMPROMISED''),
         (''evidenceRefs'', arr [str ''incident-1'']), (''guardianSignature'', sign_e A (val guardian) GUARDIAN
         (val suspension))])) (\<lambda>r44.
     then_py (expect_rejected A (JStr ''stale sequence on a Guardian suspension'') r43 r44 token (JInt 409)) (
     bind_py (eval (spread (val suspension) [(''sequence'', val sequence)])) (\<lambda>suspension.
     then_py (call A (plus (plus (plus (val api) (str ''/'')) (val community)) (str ''/emergency-suspensions''))
         ''POST'' (obj [(''seatOrdinal'', num 4), (''credentialId'', list_at credentials 3), (''expectedSequence'',
         val sequence), (''declaredAt'', val declared), (''reasonCode'', str ''KEY_COMPROMISED''), (''evidenceRefs'',
         arr [str ''incident-1'']), (''guardianSignature'', sign_e A (val guardian) GUARDIAN (val suspension))])
         (val token) [200]) (
     bind_py (eval (spread (val changed) [(''concentrationChecksRequired'', no)])) (\<lambda>r47.
     bind_py (eval (arr [str ''concentrationChecksRequired''])) (\<lambda>r48.
     bind_py (matrix_propose A api community token r47 r48) (\<lambda>later.
     bind_py (eval (sign_path api later)) (\<lambda>r50.
     bind_py (eval (sig A credentials later 4 (list_at keys 3) DOMAIN none none)) (\<lambda>r51.
     then_py (expect_rejected A (JStr ''suspended credential of seat 4 cannot sign'') r50 r51 token (JInt 409)) (
     print_py
         ''COMPLETE: constitutional mutation matrix executed''))))))))))))))))))))))))))))))))))))))))))))))))))))))))))))))))))))"

definition mutation_matrix_plan :: "plan" where
  "mutation_matrix_plan =
     effective_constitution_plan @ matrix_propose_plan @ concat (replicate 6 ([answered ''POST'' [] [200]])) @
         expect_rejected_plan @ expect_rejected_plan @ expect_rejected_plan @ expect_rejected_plan @
         expect_rejected_plan @ expect_rejected_plan @ expect_rejected_plan @ effective_constitution_plan @ [answered
         ''GET'' ''/events'' [200], answered ''POST'' [] [200], answered ''POST'' [] [200]] @
         effective_constitution_plan @ [answered ''GET'' ''/'' [200]] @ expect_rejected_plan @ expect_rejected_plan @
         effective_constitution_plan @ [answered ''GET'' ''/events'' [200], answered ''GET'' ''/audit'' [200],
         answered ''GET'' ''/'' [200]] @ expect_rejected_plan @ [answered ''POST'' ''/emergency-suspensions'' [200]] @
         matrix_propose_plan @ expect_rejected_plan"

definition boundary_main :: "('k, 'x) services \<Rightarrow> ('x host, unit) py" where
  "boundary_main A =
     bind_py (reference_fixtures A) (\<lambda>(tenant, base, ana, pedro, carlos, bea, binding).
     bind_py (eval (item (val binding) ''communityId'')) (\<lambda>community.
     bind_py (sql_e A
         (str (''select tenant_id from idax_core.tenant where code like 'stir-ref-b-%' order by created_at desc '' @
         ''limit 1;'')) False) (\<lambda>other_tenant.
     bind_py (eval (fmt A [str ''/api/stir/tenants/'', val tenant, str ''/references/governance''])) (\<lambda>api.
     bind_py (uuid4_str A) (\<lambda>authority.
     bind_py (repeat_py 7 (generate_key A)) (\<lambda>keys.
     bind_py (generate_key A) (\<lambda>guardian.
     bind_py (repeat_py (length keys) (uuid4_str A)) (\<lambda>credentials.
     bind_py (repeat_py (length keys) (uuid4_str A)) (\<lambda>controllers.
     bind_py (uuid4_str A) (\<lambda>guardian_id.
     bind_py (eval (arr (map (\<lambda>i. obj [(''ordinal'', num (i + 1)), (''controllerId'', list_at controllers i),
         (''credentialId'', list_at credentials i), (''publicKey'', rawkey_e A (list_at keys i))]) [0..6])))
         (\<lambda>seats.
     bind_py (eval (obj [(''schema'', str ''STIR-MARKET-CONSTITUTION-1''), (''provenanceRequired'', yes),
         (''historyImmutable'', yes), (''independenceChecksRequired'', yes), (''concentrationChecksRequired'', yes),
         (''minimumObservationFloor'', num 5), (''minimumParticipantFloor'', num 6),
         (''maximumParticipantShareCeiling'', str ''0.50''), (''guardianMayGovern'', no),
         (''constitutionalThreshold'', num 7)])) (\<lambda>constitution.
     bind_py (eval (obj [(''format'', str ''STIR-SEVEN-KEYS-BOOTSTRAP-1''), (''tenantId'', val tenant),
         (''communityId'', val community), (''authorityId'', val authority), (''seats'', val seats),
         (''guardianCredentialId'', val guardian_id), (''guardianPublicKey'', rawkey_e A (val guardian)),
         (''constitutionDigest'', digest_e (val constitution))])) (\<lambda>bootstrap.
     bind_py (eval (obj [(''authorityId'', val authority), (''communityId'', val community), (''seats'', arr (map
         (\<lambda>i. spread (at (val seats) i) [(''possessionSignature'', sign_e A (list_at keys i) BOOTSTRAP
         (val bootstrap))]) [0..6])), (''guardianCredentialId'', val guardian_id), (''guardianPublicKey'', rawkey_e A
         (val guardian)), (''guardianPossessionSignature'', sign_e A (val guardian) BOOTSTRAP (val bootstrap))]))
         (\<lambda>creation.
     bind_py (effective_constitution A tenant) (\<lambda>r5.
     then_py (check (eq A (val r5) (str [])) ''fresh tenant must start with no constitution'') (
     bind_py (call A (plus (val api) (str ''/bootstrap'')) ''POST'' (val creation) (item (val ana) ''accessToken'')
         [200]) (\<lambda>view.
     then_py (check (both (eq A (item (val view) ''threshold'') (num 7)) (eq A (len (item (val view) ''seats''))
         (num 7))) []) (
     bind_py (effective_constitution A tenant) (\<lambda>legit.
     then_py (check (negate (eq A (val legit) (str [])))
         ''legitimate bootstrap must persist an effective constitution'') (
     then_py (print_py ''PASS: legitimate 7/7 bootstrap by tenant administrator, persisted through the verifier'') (
     bind_py (eval (plus (val api) (str ''/bootstrap''))) (\<lambda>r8.
     bind_py (eval (spread (val creation) [(''actorId'', show_e A (item (item (val ana) ''user'') ''id''))]))
         (\<lambda>r9.
     bind_py (eval (item (val pedro) ''accessToken'')) (\<lambda>r10.
     then_py (expect_rejected A (JStr ''forged actorId: a plain user asserts the administrator as actor'') r8 r9 r10
         (JInt 400)) (
     bind_py (eval (plus (val api) (str ''/bootstrap''))) (\<lambda>r12.
     bind_py (eval (item (val pedro) ''accessToken'')) (\<lambda>r13.
     then_py (expect_rejected A (JStr ''valid JWT of a plain tenant user without bootstrap authority'') r12 creation
         r13 (JInt 403)) (
     bind_py (eval (fmt A [str ''/api/stir/tenants/'', val other_tenant, str ''/references/governance/bootstrap'']))
         (\<lambda>r15.
     bind_py (eval (item (val ana) ''accessToken'')) (\<lambda>r16.
     then_py (expect_rejected A (JStr ''forged tenant: administrator token used on another tenant path'') r15 creation
         r16 (JInt 403)) (
     bind_py (eval (plus (val api) (str ''/bootstrap''))) (\<lambda>r18.
     bind_py (eval (plus (plus (plus (b64_e (dumps_e (obj [(''alg'', str ''none'')]))) (str ''.'')) (b64_e (dumps_e
         (obj [(''sub'', str ''ana'')])))) (str ''.''))) (\<lambda>r19.
     then_py (expect_rejected A (JStr ''unsigned token (alg none)'') r18 creation r19 (JInt 401)) (
     bind_py next_fresh (\<lambda>rogue.
     bind_py (eval (b64_e (dumps_e (obj [(''alg'', str ''RS256''), (''typ'', str ''JWT'')])))) (\<lambda>header.
     bind_py (eval (b64_e (dumps_e (obj [(''sub'', str ''ana''), (''userId'', show_e A (item (item (val ana) ''user'')
         ''id'')), (''tenantId'', val tenant), (''roles'', arr [str ''admin'']), (''iss'', str ''idax-local'')]))))
         (\<lambda>claims.
     bind_py (eval (bind_sum (fmt A [val header, str ''.'', val claims]) as_str)) (\<lambda>signing_input.
     bind_py (ret (JStr (b64url (rsa_sign A rogue (encode signing_input))))) (\<lambda>forged_sig.
     bind_py (eval (plus (val api) (str ''/bootstrap''))) (\<lambda>r21.
     bind_py (eval (fmt A [val header, str ''.'', val claims, str ''.'', val forged_sig])) (\<lambda>r22.
     then_py (expect_rejected A (JStr ''JWT signed with a key the verifier does not trust'') r21 creation r22 (JInt
         401)) (
     bind_py (eval (plus (val api) (str ''/bootstrap''))) (\<lambda>r24.
     bind_py (eval (spread (val creation) [(''sevenKeysVerified'', yes), (''authorized'', yes), (''final'', yes)]))
         (\<lambda>r25.
     bind_py (eval (item (val ana) ''accessToken'')) (\<lambda>r26.
     then_py (expect_rejected A (JStr ''fabricated verification flags (sevenKeysVerified, authorized, final)'') r24
         r25 r26 (JInt 400)) (
     bind_py (eval (plus (val api) (str ''/bootstrap''))) (\<lambda>r28.
     bind_py (eval (spread (val creation) [(''seats'', upto (item (val creation) ''seats'') 6)])) (\<lambda>r29.
     bind_py (eval (item (val ana) ''accessToken'')) (\<lambda>r30.
     then_py (expect_rejected A (JStr ''six seats instead of seven'') r28 r29 r30 (JInt 400)) (
     bind_py (eval (plus (val api) (str ''/bootstrap''))) (\<lambda>r32.
     bind_py (eval (spread (val creation) [(''seats'', plus (upto (item (val creation) ''seats'') 6) (arr [at
         (item (val creation) ''seats'') 0]))])) (\<lambda>r33.
     bind_py (eval (item (val ana) ''accessToken'')) (\<lambda>r34.
     then_py (expect_rejected A (JStr ''duplicate seat ordinal'') r32 r33 r34 (JInt 409)) (
     bind_py (eval (plus (val api) (str ''/bootstrap''))) (\<lambda>r36.
     bind_py (eval (item (val ana) ''accessToken'')) (\<lambda>r37.
     then_py (expect_rejected A (JStr ''replay of a completed bootstrap (no replacement path)'') r36 creation r37
         (JInt 409)) (
     bind_py (effective_constitution A tenant) (\<lambda>r39.
     then_py (check (eq A (val r39) (val legit)) ''a forged request changed the effective constitution'') (
     then_py (print_py ''PASS: no forged request created, replaced or altered effective constitutional state'') (
     bind_py (eval (fmt A [str ''update stir.constitutional_seat set public_key = repeat('Z',43) where tenant_id='',
         sq, val tenant, sq, str '';''])) (\<lambda>attack_a.
     bind_py (eval (fmt A [str ''insert into stir.market_constitution values (gen_random_uuid(),'', sq, val tenant,
         sq, str '','', sq, val community, sq, str '','', sq, val authority, sq, str '',9,'{}','', sq, str (replicate
         64 (CHR ''a'')), sq, str '',now());''])) (\<lambda>attack_b.
     bind_py (eval (str ''set role idax_governed_verifier;'')) (\<lambda>attack_c.
     then_py (for_py (\<lambda>statement.
     bind_py (read_secret A ''runtime_password'') (\<lambda>secret.
     bind_py (eval (as_str secret)) (\<lambda>pw.
     bind_py (eval (as_str statement)) (\<lambda>sql_text.
     bind_py (compose_run A [''exec'', ''-T'', ''-e'', ''PGPASSWORD='' @ pw, ''postgres'', ''psql'', ''-X'', ''-v'',
         ''ON_ERROR_STOP=1'', ''-h'', ''postgres'', ''-U'', ''idax_backend'', ''-d'', ''idax''] (Some sql_text))
         (\<lambda>out.
     then_py (check (Inr (returncode out \<noteq> 0 \<and> contains ''permission denied'' (stderr out))) []) (
     print_e (fmt A [str ''PASS: idax_backend denied: '', upto (val statement) 70]))))))) [attack_a, attack_b,
         attack_c]) (
     bind_py (eval (item (val ana) ''accessToken'')) (\<lambda>r40.
     then_py (mutation_matrix A tenant api community authority r40 keys guardian guardian_id credentials constitution)
         (
     bind_py (compose_run A [''exec'', ''-T'', ''stir'', ''sh'', ''-c'', ''ls /run/secrets''] None) (\<lambda>secrets.
     then_py (check (Inr (\<not> contains ''governed_verifier_password'' (stdout secrets)))
         ''verifier password is mounted into the ordinary runtime'') (
     bind_py (compose_run A [''exec'', ''-T'', ''stir'', ''sh'', ''-c'', ''env''] None) (\<lambda>env_out.
     then_py (check (Inr (\<not> contains ''governed'' (lower (stdout env_out))))
         ''verifier configuration leaked into the ordinary runtime environment'') (
     then_py (print_py ''PASS: ordinary runtime container has no verifier secret and no verifier environment'') (
     print_py ''GOVERNED BOUNDARY E2E: PASS'')))))))))))))))))))))))))))))))))))))))))))))))))))))))))))))))))))))))"

definition boundary_main_plan :: "plan" where
  "boundary_main_plan =
     reference_fixtures_plan @ sql_events @ effective_constitution_plan @ [answered ''POST'' ''/bootstrap'' [200]] @
         effective_constitution_plan @ expect_rejected_plan @ expect_rejected_plan @ expect_rejected_plan @
         expect_rejected_plan @ expect_rejected_plan @ expect_rejected_plan @ expect_rejected_plan @
         expect_rejected_plan @ expect_rejected_plan @ effective_constitution_plan @ concat (replicate 3 ([composed
         (\<lambda>args. \<exists>pw. args = [''exec'', ''-T'', ''-e'', ''PGPASSWORD='' @ pw, ''postgres'', ''psql'',
         ''-X'', ''-v'', ''ON_ERROR_STOP=1'', ''-h'', ''postgres'', ''-U'', ''idax_backend'', ''-d'', ''idax''])])) @
         mutation_matrix_plan @ [composed (\<lambda>args. args = [''exec'', ''-T'', ''stir'', ''sh'', ''-c'',
         ''ls /run/secrets'']), composed (\<lambda>args. args = [''exec'', ''-T'', ''stir'', ''sh'', ''-c'',
         ''env''])]"

section \<open>Conformance\<close>

lemma composed_Ran: "P args \<Longrightarrow> composed P (Ran (COMPOSE root @ args) prj)"
  by auto

lemma compose_run_steps [py_conf]:
  "P args \<Longrightarrow> (\<And>x. conforms ps (f x)) \<Longrightarrow> conforms (composed P # ps) (bind_py (compose_run A args inp) f)"
  "P args \<Longrightarrow> conforms [composed P] (compose_run A args inp)"
  unfolding compose_run_def
  by (auto intro!: conforms_bind_cons conforms_follows [OF follows_run_io] composed_Ran simp del: composed.simps)

lemma attack_conforms: "conforms attack_plan (attack A path body token)"
  unfolding attack_plan_def attack_def Let_def
  by (intro conforms_bind_quiet [OF follows_lift] compose_run_steps conforms_both conforms_quiet
      follows_bind_quiet follows_lift follows_ret) blast

lemmas attack_steps [py_conf] = attack_conforms conforms_bind [OF attack_conforms] conforms_bind_last [OF attack_conforms]


lemma expect_rejected_conforms: "conforms expect_rejected_plan (expect_rejected A name path body token expected)"
  unfolding expect_rejected_plan_def expect_rejected_def append.simps by (intro py_conf)

lemmas expect_rejected_steps [py_conf] =
  expect_rejected_conforms conforms_bind [OF expect_rejected_conforms] conforms_then [OF expect_rejected_conforms]
  conforms_bind_last [OF expect_rejected_conforms] conforms_then_last [OF expect_rejected_conforms]

lemma effective_constitution_conforms: "conforms effective_constitution_plan (effective_constitution A tenant)"
  unfolding effective_constitution_plan_def effective_constitution_def append.simps by (intro py_conf)

lemmas effective_constitution_steps [py_conf] =
  effective_constitution_conforms conforms_bind [OF effective_constitution_conforms] conforms_then [OF effective_constitution_conforms]
  conforms_bind_last [OF effective_constitution_conforms] conforms_then_last [OF effective_constitution_conforms]

lemma matrix_propose_conforms: "conforms matrix_propose_plan (matrix_propose A api community token after affected)"
  unfolding matrix_propose_plan_def matrix_propose_def append.simps by (intro py_conf) simp_all

lemmas matrix_propose_steps [py_conf] =
  matrix_propose_conforms conforms_bind [OF matrix_propose_conforms] conforms_then [OF matrix_propose_conforms]
  conforms_bind_last [OF matrix_propose_conforms] conforms_then_last [OF matrix_propose_conforms]

lemma mutation_matrix_conforms: "conforms mutation_matrix_plan (mutation_matrix A tenant api community authority token keys guardian guardian_id credentials constitution)"
  unfolding mutation_matrix_plan_def mutation_matrix_def append.simps by (intro py_conf) simp_all

lemmas mutation_matrix_steps [py_conf] =
  mutation_matrix_conforms conforms_bind [OF mutation_matrix_conforms] conforms_then [OF mutation_matrix_conforms]
  conforms_bind_last [OF mutation_matrix_conforms] conforms_then_last [OF mutation_matrix_conforms]

lemma boundary_main_conforms: "conforms boundary_main_plan (boundary_main A)"
  unfolding boundary_main_plan_def boundary_main_def append.simps by (intro py_conf) simp_all

lemmas boundary_main_steps [py_conf] =
  boundary_main_conforms conforms_bind [OF boundary_main_conforms] conforms_then [OF boundary_main_conforms]
  conforms_bind_last [OF boundary_main_conforms] conforms_then_last [OF boundary_main_conforms]

end
