(* ===== verification/Marketplace.thy ===== *)
theory Marketplace
  imports Script
begin

text \<open>
  The marketplace over HTTP (scripts/marketplace_e2e.py): two parties reach an agreement, and
      neither an uninvolved member nor another tenant sees it.
\<close>

section \<open>The script\<close>

definition MARKET_PERMISSIONS :: json where
  "MARKET_PERMISSIONS = JArr (map JStr [''stir.listings.read'', ''stir.listings.create'',
      ''stir.listings.update'', ''stir.participants.read'', ''stir.participants.update'',
      ''stir.negotiations.read'', ''stir.negotiations.create'', ''stir.negotiations.update'',
      ''stir.agreements.read''])"

definition market_make_user :: "('k, 'x) services \<Rightarrow> json \<Rightarrow> json \<Rightarrow> json \<Rightarrow> json \<Rightarrow> json \<Rightarrow> ('x host, json) py" where
  "market_make_user A admin tenant role_id label suffix =
     bind_py (eval (fmt A [val label, str ''-'', val suffix, str ''@stir.test''])) (\<lambda>email.
     bind_py (token_urlsafe A 32) (\<lambda>password.
     bind_py (eval (fmt A [str ''/api/shell/v1/tenants/'', val tenant])) (\<lambda>base.
     then_py (call A (plus (val base) (str ''/users'')) ''POST'' (obj [(''email'', val email), (''displayName'',
         val label), (''authProvider'', str ''local''), (''subject'', val email), (''password'', val password),
         (''role'', str ''member''), (''enabled'', yes)]) (val admin) [200, 201]) (
     bind_py (call A (str ''/api/shell/v1/auth/login'') ''POST'' (obj [(''email'', val email), (''password'',
         val password)]) none [200]) (\<lambda>session.
     then_py (call A (plus (plus (val base) (str ''/roles/users/'')) (item (item (val session) ''user'') ''id''))
         ''PUT'' (obj [(''roleIds'', arr [val role_id])]) (val admin) [204]) (
     call A (str ''/api/shell/v1/auth/login'') ''POST'' (obj [(''email'', val email), (''password'', val password)])
         none [200]))))))"

definition market_make_user_plan :: "plan" where
  "market_make_user_plan =
     [answered ''POST'' ''/users'' [200, 201], answered ''POST'' ''/api/shell/v1/auth/login'' [200], answered ''PUT''
         ''/roles/users/'' [204], answered ''POST'' ''/api/shell/v1/auth/login'' [200]]"

definition setup_tenant :: "('k, 'x) services \<Rightarrow> json \<Rightarrow> json \<Rightarrow> json \<Rightarrow> string list \<Rightarrow> ('x host, json) py" where
  "setup_tenant A admin tenant suffix labels =
     bind_py (eval (plus (str ''stir_marketplace_'') (val suffix))) (\<lambda>role.
     bind_py (call A (fmt A [str ''/api/shell/v1/tenants/'', val tenant, str ''/roles'']) ''POST'' (obj [(''key'',
         val role), (''name'', str ''STIR marketplace E2E''), (''description'', str ''Isolated development fixture''),
         (''enabled'', yes)]) (val admin) [200, 201]) (\<lambda>created_role.
     then_py (call A (plus (plus (fmt A [str ''/api/shell/v1/tenants/'', val tenant, str ''/roles/'']) (item (val
         created_role) ''id'')) (str ''/permissions'')) ''PUT'' (val MARKET_PERMISSIONS) (val admin) [200]) (
     bind_py (eval (item (val created_role) ''id'')) (\<lambda>created_id.
     bind_py (map_py (\<lambda>label. bind_py (market_make_user A admin tenant created_id (JStr label) suffix)
         (\<lambda>user. ret (label, user))) labels) (\<lambda>members.
     ret (JObj (obj_merge [] members)))))))"

definition setup_tenant_plan :: "string list \<Rightarrow> plan" where
  "setup_tenant_plan labels =
     [answered ''POST'' ''/roles'' [200, 201], answered ''PUT'' ''/permissions'' [200]] @ concat (replicate (length
         labels) market_make_user_plan)"

definition marketplace_main :: "('k, 'x) services \<Rightarrow> ('x host, unit) py" where
  "marketplace_main A =
     bind_py (read_secret A ''login_password'') (\<lambda>r1.
     bind_py (call A (str ''/api/shell/v1/auth/login'') ''POST'' (obj [(''email'', str ''admin@stir.test''),
         (''password'', val r1)]) none [200]) (\<lambda>r2.
     bind_py (eval (item (val r2) ''accessToken'')) (\<lambda>admin.
     bind_py (uuid4_hex A) (\<lambda>r3.
     bind_py (eval (upto (val r3) 10)) (\<lambda>suffix.
     bind_py (sql_e A (fmt A [str ''select tenant_id from idax_core.tenant_create('stir-mkt-a-'', val suffix, sq,
         str '', 'STIR Marketplace A', 'active', false);'']) False) (\<lambda>tenant_a.
     bind_py (sql_e A (fmt A [str ''select tenant_id from idax_core.tenant_create('stir-mkt-b-'', val suffix, sq,
         str '', 'STIR Marketplace B', 'active', false);'']) False) (\<lambda>tenant_b.
     bind_py (setup_tenant A admin tenant_a suffix ([''ana'', ''pedro'', ''carlos''])) (\<lambda>users_a.
     bind_py (setup_tenant A admin tenant_b suffix ([''bea''])) (\<lambda>users_b.
     bind_py (eval (item (val users_a) ''ana'')) (\<lambda>ana.
     bind_py (eval (item (val users_a) ''pedro'')) (\<lambda>pedro.
     bind_py (eval (item (val users_a) ''carlos'')) (\<lambda>carlos.
     bind_py (eval (item (val users_b) ''bea'')) (\<lambda>bea.
     bind_py (eval (fmt A [str ''/api/stir/tenants/'', val tenant_a])) (\<lambda>base_a.
     then_py (call A (plus (val base_a) (str ''/participants/me'')) ''PUT'' (obj [(''displayName'', plus (str
         ''Ana '') (val suffix)), (''bio'', str ''Grows tomatoes''), (''location'', str ''Girona'')]) (item (val ana)
         ''accessToken'') [200]) (
     then_py (call A (plus (val base_a) (str ''/participants/me'')) ''PUT'' (obj [(''displayName'', plus (str
         ''Pedro '') (val suffix)), (''bio'', str ''Looks for fresh produce''), (''location'', str ''Girona'')])
         (item (val pedro) ''accessToken'') [200]) (
     bind_py (call A (plus (val base_a) (str ''/listings'')) ''POST'' (obj [(''direction'', str ''OFFER''),
         (''title'', plus (str ''20kg tomatoes '') (val suffix)), (''description'',
         str ''Ripe San Marzano tomatoes''), (''category'', str ''home''), (''resourceKind'', str ''physical''),
         (''location'', str ''Girona'')]) (item (val ana) ''accessToken'') [201]) (\<lambda>listing.
     bind_py (call A (plus (val base_a) (fmt A [str ''/listings?q='', val suffix])) ''GET'' none (item (val pedro)
         ''accessToken'') [200]) (\<lambda>found.
     then_py (check (any_e (item (val found) ''content'') (\<lambda>row. both (eq A (item (val row) ''id'') (item (val
         listing) ''id'')) (eq A (item (val row) ''ownerDisplayName'') (plus (str ''Ana '') (val suffix))))) []) (
     bind_py (call A (plus (plus (val base_a) (str ''/participants/'')) (item (val listing) ''ownerId'')) ''GET'' none
         (item (val pedro) ''accessToken'') [200]) (\<lambda>public_view.
     then_py (check (eq A (item (val public_view) ''displayName'') (plus (str ''Ana '') (val suffix))) []) (
     bind_py (call A (plus (val base_a) (fmt A [str ''/listings/'', item (val listing) ''id'', str ''/offers'']))
         ''POST'' (obj [(''message'', str ''I would like 15kg''), (''quantity'', num 15), (''unitLabel'', str ''kg''),
         (''proposedAmount'', str ''10.00''), (''terms'', str ''Pickup Saturday'')]) (item (val pedro)
         ''accessToken'') [201]) (\<lambda>negotiation.
     then_py (check (both (eq A (item (val negotiation) ''status'') (str ''OPEN'')) (both (eq A (len (item (val
         negotiation) ''offers'')) (num 1)) (eq A (item (at (item (val negotiation) ''offers'') 0) ''authorId'')
         (item (item (val pedro) ''user'') ''id'')))) []) (
     bind_py (call A (plus (val base_a) (fmt A [str ''/negotiations/'', item (val negotiation) ''id''])) ''GET'' none
         (item (val ana) ''accessToken'') [200]) (\<lambda>ana_view.
     then_py (check (eq A (item (val ana_view) ''id'') (item (val negotiation) ''id'')) []) (
     bind_py (call A (plus (val base_a) (fmt A [str ''/negotiations/'', item (val negotiation) ''id'',
         str ''/offers''])) ''POST'' (obj [(''message'', str ''I can do 20kg for that price''), (''quantity'',
         num 20), (''unitLabel'', str ''kg''), (''proposedAmount'', str ''10.00''), (''terms'',
         str ''Pickup Saturday morning''), (''expectedVersion'', item (val ana_view) ''version'')]) (item (val ana)
         ''accessToken'') [200]) (\<lambda>countered.
     then_py (check (both (eq A (len (item (val countered) ''offers'')) (num 2)) (both (eq A (item (at (item (val
         countered) ''offers'') 0) ''status'') (str ''SUPERSEDED'')) (eq A (item (at (item (val countered) ''offers'')
         1) ''authorId'') (item (item (val ana) ''user'') ''id'')))) []) (
     bind_py (call A (plus (val base_a) (fmt A [str ''/negotiations/'', item (val negotiation) ''id''])) ''GET'' none
         (item (val pedro) ''accessToken'') [200]) (\<lambda>pedro_view.
     bind_py (eval (at (item (val pedro_view) ''offers'') (- 1))) (\<lambda>head.
     bind_py (call A (plus (val base_a) (fmt A [str ''/negotiations/'', item (val negotiation) ''id'',
         str ''/accept''])) ''POST'' (obj [(''offerId'', item (val head) ''id''), (''expectedVersion'', item (val
         pedro_view) ''version'')]) (item (val pedro) ''accessToken'') [200]) (\<lambda>agreement.
     then_py (check (eq A (item (val agreement) ''economicPhase'') (str ''AWAITING_ECONOMIC_EXECUTION'')) []) (
     then_py (check (eq A (len (item (item (val agreement) ''snapshot'') ''digestSha256'')) (num 64)) []) (
     then_py (check (eq A (item (val agreement) ''listingId'') (item (val listing) ''id'')) []) (
     bind_py (call A (plus (val base_a) (fmt A [str ''/negotiations/'', item (val negotiation) ''id''])) ''GET'' none
         (item (val ana) ''accessToken'') [200]) (\<lambda>closed.
     then_py (check (both (eq A (item (val closed) ''status'') (str ''ACCEPTED'')) (eq A (item (val closed)
         ''agreementId'') (item (val agreement) ''id''))) []) (
     then_py (check (eq A (item (at (item (val closed) ''offers'') (- 1)) ''status'') (str ''ACCEPTED'')) []) (
     bind_py (call A (plus (val base_a) (fmt A [str ''/agreements/'', item (val agreement) ''id''])) ''GET'' none
         (item (val ana) ''accessToken'') [200]) (\<lambda>ana_agreement.
     bind_py (call A (plus (val base_a) (fmt A [str ''/agreements/'', item (val agreement) ''id''])) ''GET'' none
         (item (val pedro) ''accessToken'') [200]) (\<lambda>pedro_agreement.
     then_py (check (both (eq A (item (item (val ana_agreement) ''snapshot'') ''digestSha256'') (item (item
         (val pedro_agreement) ''snapshot'') ''digestSha256'')) (eq A (item (item (val pedro_agreement) ''snapshot'')
         ''digestSha256'') (item (item (val agreement) ''snapshot'') ''digestSha256''))) []) (
     then_py (call A (plus (plus (val base_a) (str ''/listings/'')) (item (val listing) ''id'')) ''GET'' none
         (item (val carlos) ''accessToken'') [200]) (
     then_py (call A (plus (val base_a) (fmt A [str ''/negotiations/'', item (val negotiation) ''id''])) ''GET'' none
         (item (val carlos) ''accessToken'') [404]) (
     then_py (call A (plus (val base_a) (fmt A [str ''/agreements/'', item (val agreement) ''id''])) ''GET'' none
         (item (val carlos) ''accessToken'') [404]) (
     then_py (call A (plus (val base_a) (fmt A [str ''/negotiations/'', item (val negotiation) ''id'',
         str ''/decline''])) ''POST'' (obj [(''expectedVersion'', item (val closed) ''version'')]) (item (val carlos)
         ''accessToken'') [400, 403, 404, 409]) (
     then_py (call A (plus (plus (val base_a) (str ''/listings/'')) (item (val listing) ''id'')) ''GET'' none
         (item (val bea) ''accessToken'') [400, 403, 404]) (
     then_py (call A (plus (val base_a) (fmt A [str ''/negotiations/'', item (val negotiation) ''id''])) ''GET'' none
         (item (val bea) ''accessToken'') [400, 403, 404]) (
     then_py (call A (plus (val base_a) (fmt A [str ''/agreements/'', item (val agreement) ''id''])) ''GET'' none
         (item (val bea) ''accessToken'') [400, 403, 404]) (
     then_py (print_py (''PASS: Ana/Pedro profile setup, listing publish/discovery, offer, counteroffer, accept, '' @
         ''Agreement + AgreementSnapshot, both parties read identical digest.'')) (
     then_py (print_py (''PASS: Carlos (same tenant, uninvolved) sees the public Listing but not the negotiation or ''
         @ ''agreement, and cannot act on it.'')) (
     print_py
         ''PASS: Tenant B participant cannot see the listing, negotiation or agreement at all.''))))))))))))))))))))))))))))))))))))))))))))))))"

definition marketplace_main_plan :: "plan" where
  "marketplace_main_plan =
     [answered ''POST'' ''/api/shell/v1/auth/login'' [200]] @ sql_events @ sql_events @ setup_tenant_plan [''ana'',
         ''pedro'', ''carlos''] @ setup_tenant_plan [''bea''] @ [answered ''PUT'' ''/participants/me'' [200], answered
         ''PUT'' ''/participants/me'' [200], answered ''POST'' ''/listings'' [201], answered ''GET'' ''/listings?q=''
         [200], answered ''GET'' ''/participants/'' [200], answered ''POST'' ''/offers'' [201], answered ''GET''
         ''/negotiations/'' [200], answered ''POST'' ''/offers'' [200], answered ''GET'' ''/negotiations/'' [200],
         answered ''POST'' ''/accept'' [200], answered ''GET'' ''/negotiations/'' [200], answered ''GET''
         ''/agreements/'' [200], answered ''GET'' ''/agreements/'' [200], answered ''GET'' ''/listings/'' [200],
         answered ''GET'' ''/negotiations/'' [404], answered ''GET'' ''/agreements/'' [404], answered ''POST''
         ''/decline'' [400, 403, 404, 409], answered ''GET'' ''/listings/'' [400, 403, 404], answered ''GET''
         ''/negotiations/'' [400, 403, 404], answered ''GET'' ''/agreements/'' [400, 403, 404]]"

section \<open>Conformance\<close>

lemma market_make_user_conforms: "conforms market_make_user_plan (market_make_user A admin tenant role_id label suffix)"
  unfolding market_make_user_plan_def market_make_user_def append.simps by (intro py_conf) simp_all

lemmas market_make_user_steps [py_conf] =
  market_make_user_conforms conforms_bind [OF market_make_user_conforms] conforms_then [OF market_make_user_conforms]
  conforms_bind_last [OF market_make_user_conforms] conforms_then_last [OF market_make_user_conforms]

lemma setup_tenant_conforms: "conforms (setup_tenant_plan labels) (setup_tenant A admin tenant suffix labels)"
  unfolding setup_tenant_plan_def setup_tenant_def append.simps by (intro py_conf) simp_all

lemmas setup_tenant_steps [py_conf] =
  setup_tenant_conforms conforms_bind [OF setup_tenant_conforms] conforms_then [OF setup_tenant_conforms]
  conforms_bind_last [OF setup_tenant_conforms] conforms_then_last [OF setup_tenant_conforms]

lemma marketplace_main_conforms: "conforms marketplace_main_plan (marketplace_main A)"
  unfolding marketplace_main_plan_def marketplace_main_def append.simps by (intro py_conf) simp_all

lemmas marketplace_main_steps [py_conf] =
  marketplace_main_conforms conforms_bind [OF marketplace_main_conforms] conforms_then [OF marketplace_main_conforms]
  conforms_bind_last [OF marketplace_main_conforms] conforms_then_last [OF marketplace_main_conforms]

end
