(* ===== verification/Smoke.thy ===== *)
theory Smoke
  imports Exchange
begin

text \<open>
  The smoke check (scripts/smoke.py): a disposable participant, requests without a token and with
      forged ones, and the life of one listing.
\<close>

section \<open>The script\<close>

text \<open>
  The forged token: the third part of the token with its first character replaced by another one.
\<close>

definition tamper :: "string \<Rightarrow> exn + string" where
  "tamper token =
     (let parts = pieces (CHR ''.'') [] token in
      if length parts \<le> 2 then Inl IndexError
      else case parts ! 2 of
          [] \<Rightarrow> Inl IndexError
        | c # rest \<Rightarrow> Inr (join ''.'' (parts[2 := (if c \<noteq> CHR ''A'' then CHR ''A'' else CHR ''B'') # rest])))"

definition smoke_main :: "('k, 'x) services \<Rightarrow> ('x host, unit) py" where
  "smoke_main A =
     bind_py (asks (\<lambda>h. JStr (case env h ''STIR_TEST_LOGIN_EMAIL'' of None \<Rightarrow> ''admin@stir.test'' |
         Some e \<Rightarrow> e))) (\<lambda>login_email.
     then_py (call A (str ''/actuator/health/readiness'') ''GET'' none none [200]) (
     bind_py (read_secret A ''login_password'') (\<lambda>r2.
     bind_py (call A (str ''/api/shell/v1/auth/login'') ''POST'' (obj [(''email'', val login_email), (''password'',
         val r2)]) none [200]) (\<lambda>session.
     bind_py (eval (item (val session) ''accessToken'')) (\<lambda>admin.
     bind_py (eval (item (at (item (val session) ''tenants'') 0) ''id'')) (\<lambda>tenant.
     bind_py (uuid4_hex A) (\<lambda>r4.
     bind_py (eval (upto (val r4) 8)) (\<lambda>suffix.
     bind_py (call A (fmt A [str ''/api/shell/v1/tenants/'', val tenant, str ''/roles'']) ''POST'' (obj [(''key'',
         plus (str ''smoke-participant-'') (val suffix)), (''name'', str ''Smoke participant''), (''description'',
         str ''Local smoke fixture''), (''enabled'', yes)]) (val admin) [200, 201]) (\<lambda>role_row.
     then_py (call A (fmt A [str ''/api/shell/v1/tenants/'', val tenant, str ''/roles/'', item (val role_row) ''id'',
         str ''/permissions'']) ''PUT'' (val PERMISSIONS) (val admin) [200]) (
     bind_py (eval (item (val role_row) ''id'')) (\<lambda>r7.
     bind_py (make_user A admin tenant r7 (JStr ''smoke'') suffix) (\<lambda>session.
     bind_py (eval (item (val session) ''accessToken'')) (\<lambda>token.
     bind_py (eval (fmt A [str ''/api/stir/tenants/'', val tenant, str ''/listings''])) (\<lambda>base.
     then_py (call A (val base) ''GET'' none none [401]) (
     then_py (call A (val base) ''GET'' none (str ''invalid'') [401]) (
     bind_py (eval (split_e (val token) (CHR ''.''))) (\<lambda>parts.
     bind_py (eval (bind_sum (val token) (\<lambda>v. bind_sum (as_str v) (\<lambda>t. bind_sum (tamper t)
         (\<lambda>s. Inr (JStr s)))))) (\<lambda>forged.
     then_py (call A (val base) ''GET'' none (val forged) [401]) (
     then_py (call A (plus (val base) (str ''/catalogs'')) ''GET'' none (val token) [200]) (
     bind_py (uuid4_str A) (\<lambda>r13.
     bind_py (eval (obj [(''direction'', str ''OFFER''), (''title'', plus (str ''Smoke '') (val r13)),
         (''description'', str ''Reusable chair''), (''category'', str ''home''), (''resourceKind'',
         str ''physical''), (''location'', str ''Town centre'')])) (\<lambda>payload.
     bind_py (call A (val base) ''POST'' (val payload) (val token) [201]) (\<lambda>listing.
     then_py (check (both (eq A (item (val listing) ''tenantId'') (val tenant)) (eq A (item (val listing) ''ownerId'')
         (item (item (val session) ''user'') ''id''))) []) (
     bind_py (call A (plus (val base) (str ''?mine=true&direction=OFFER&category=home'')) ''GET'' none (val token)
         [200]) (\<lambda>found.
     then_py (check (any_e (item (val found) ''content'') (\<lambda>row. eq A (item (val row) ''id'') (item (val
         listing) ''id''))) []) (
     then_py (call A (plus (plus (val base) (str ''/'')) (item (val listing) ''id'')) ''GET'' none (val token) [200])
         (
     bind_py (call A (plus (plus (val base) (str ''/'')) (item (val listing) ''id'')) ''PUT'' (spread (val payload)
         [(''title'', str ''Updated smoke''), (''version'', item (val listing) ''version'')]) (val token) [200])
         (\<lambda>changed.
     then_py (call A (plus (plus (val base) (str ''/'')) (item (val listing) ''id'')) ''PUT'' (spread (val payload)
         [(''version'', item (val listing) ''version'')]) (val token) [409]) (
     bind_py (call A (plus (plus (plus (val base) (str ''/'')) (item (val listing) ''id'')) (str ''/close'')) ''POST''
         (obj [(''version'', item (val changed) ''version'')]) (val token) [200]) (\<lambda>closed.
     then_py (check (eq A (item (val closed) ''status'') (str ''CLOSED'')) []) (
     bind_py (call A (plus (plus (plus (val base) (str ''/'')) (item (val listing) ''id'')) (str ''/close'')) ''POST''
         (obj [(''version'', item (val closed) ''version'')]) (val token) [200]) (\<lambda>repeated.
     then_py (check (both (eq A (item (val repeated) ''version'') (item (val closed) ''version'')) (eq A (item (val
         repeated) ''status'') (str ''CLOSED''))) []) (
     then_py (call A (plus (plus (val base) (str ''/'')) (item (val listing) ''id'')) ''DELETE'' none (val token)
         [405]) (
     then_py (call A (plus (plus (val base) (str ''/'')) (item (val listing) ''id'')) ''PUT'' (spread (val payload)
         [(''version'', item (val closed) ''version'')]) (val token) [409]) (
     then_py (call A (plus (val base) (str ''?size=1000'')) ''GET'' none (val token) [400]) (
     then_py (print_py
         (''PASS: login, tenant, auth 401, catalogs, create/read/filter/edit, stale update 409, close, '' @
         ''closed edit 409, bounded pagination.'')) (
     print_py
         ''Created one closed smoke listing in the local development database.'')))))))))))))))))))))))))))))))))))))"

definition smoke_main_plan :: "plan" where
  "smoke_main_plan =
     [answered ''GET'' ''/actuator/health/readiness'' [200], answered ''POST'' ''/api/shell/v1/auth/login'' [200],
         answered ''POST'' ''/roles'' [200, 201], answered ''PUT'' ''/permissions'' [200]] @ make_user_plan @
         [answered ''GET'' [] [401], answered ''GET'' [] [401], answered ''GET'' [] [401], answered ''GET''
         ''/catalogs'' [200], answered ''POST'' [] [201], answered ''GET''
         ''?mine=true&direction=OFFER&category=home'' [200], answered ''GET'' ''/'' [200], answered ''PUT'' ''/''
         [200], answered ''PUT'' ''/'' [409], answered ''POST'' ''/close'' [200], answered ''POST'' ''/close'' [200],
         answered ''DELETE'' ''/'' [405], answered ''PUT'' ''/'' [409], answered ''GET'' ''?size=1000'' [400]]"

section \<open>Conformance\<close>

lemma smoke_main_conforms: "conforms smoke_main_plan (smoke_main A)"
  unfolding smoke_main_plan_def smoke_main_def append.simps by (intro py_conf) simp_all

lemmas smoke_main_steps [py_conf] =
  smoke_main_conforms conforms_bind [OF smoke_main_conforms] conforms_then [OF smoke_main_conforms]
  conforms_bind_last [OF smoke_main_conforms] conforms_then_last [OF smoke_main_conforms]

end
