(* ===== verification/Isolation.thy ===== *)
theory Isolation
  imports Script
begin

text \<open>
  Tenant isolation over HTTP and SQL (scripts/multitenant.py, main): two tenants with a participant
      and a listing each, what each cannot reach of the other, and what the runtime database
      identity may do.
\<close>

section \<open>The script\<close>

definition tenant_setup :: "('k, 'x) services \<Rightarrow> json \<Rightarrow> json \<Rightarrow> int \<Rightarrow> json \<Rightarrow> ('x host, json \<times> json) py" where
  "tenant_setup A admin suffix i tenant =
     bind_py (eval (fmt A [str ''/api/shell/v1/tenants/'', val tenant])) (\<lambda>base.
     bind_py (eval (plus (str ''stir_e2e_'') (val suffix))) (\<lambda>role.
     bind_py (call A (plus (val base) (str ''/roles'')) ''POST'' (obj [(''key'', val role), (''name'',
         str ''STIR E2E participant''), (''description'', str ''Isolated development fixture''), (''enabled'', yes)])
         (val admin) [200, 201]) (\<lambda>created_role.
     then_py (call A (plus (plus (plus (val base) (str ''/roles/'')) (item (val created_role) ''id''))
         (str ''/permissions'')) ''PUT'' (arr [str ''stir.listings.read'', str ''stir.listings.create'',
         str ''stir.listings.update'']) (val admin) [200]) (
     bind_py (eval (fmt A [str ''participant-'', num i, str ''-'', val suffix, str ''@stir.test''])) (\<lambda>email.
     bind_py (token_urlsafe A 32) (\<lambda>password.
     then_py (call A (plus (val base) (str ''/users'')) ''POST'' (obj [(''email'', val email), (''displayName'',
         str ''STIR E2E participant''), (''authProvider'', str ''local''), (''subject'', val email), (''password'',
         val password), (''role'', str ''member''), (''enabled'', yes)]) (val admin) [200, 201]) (
     bind_py (call A (str ''/api/shell/v1/auth/login'') ''POST'' (obj [(''email'', val email), (''password'',
         val password)]) none [200]) (\<lambda>session.
     then_py (call A (plus (plus (val base) (str ''/roles/users/'')) (item (item (val session) ''user'') ''id''))
         ''PUT'' (obj [(''roleIds'', arr [item (val created_role) ''id''])]) (val admin) [204]) (
     bind_py (call A (str ''/api/shell/v1/auth/login'') ''POST'' (obj [(''email'', val email), (''password'',
         val password)]) none [200]) (\<lambda>session.
     bind_py (eval (fmt A [str ''/api/stir/tenants/'', val tenant, str ''/listings''])) (\<lambda>path.
     bind_py (eval (obj [(''direction'', if_e (eq A (num i) (num 0)) (str ''OFFER'') (str ''WANTED'')), (''title'',
         plus (str ''Isolation '') (val suffix)), (''description'', str ''Test resource''), (''category'',
         str ''general''), (''resourceKind'', str ''service'')])) (\<lambda>payload.
     bind_py (uuid4_str A) (\<lambda>r8.
     bind_py (call_with A (val path) ''POST'' (val payload) (item (val session) ''accessToken'') [201]
         [(''X-Owner-Id'', val r8)]) (\<lambda>listing.
     then_py (check (both (eq A (item (val listing) ''ownerId'') (item (item (val session) ''user'') ''id'')) (eq A
         (item (val listing) ''tenantId'') (val tenant))) []) (
     ret (session, listing))))))))))))))))"

definition tenant_setup_plan :: "plan" where
  "tenant_setup_plan =
     [answered ''POST'' ''/roles'' [200, 201], answered ''PUT'' ''/permissions'' [200], answered ''POST'' ''/users''
         [200, 201], answered ''POST'' ''/api/shell/v1/auth/login'' [200], answered ''PUT'' ''/roles/users/'' [204],
         answered ''POST'' ''/api/shell/v1/auth/login'' [200], answered ''POST'' [] [201]]"

definition tenant_probe :: "('k, 'x) services \<Rightarrow> json \<Rightarrow> json list \<Rightarrow> json list \<Rightarrow> int \<Rightarrow> json list \<Rightarrow> ('x host, json list) py" where
  "tenant_probe A suffix sessions tenants i listings =
     bind_py (ret (1 - i)) (\<lambda>other.
     bind_py (eval (item (list_at sessions i) ''accessToken'')) (\<lambda>token.
     bind_py (eval (fmt A [str ''/api/stir/tenants/'', list_at tenants i, str ''/listings''])) (\<lambda>base.
     bind_py (eval (fmt A [str ''/api/stir/tenants/'', list_at tenants other, str ''/listings''])) (\<lambda>foreign.
     then_py (call A (plus (plus (val base) (str ''/'')) (item (list_at listings i) ''id'')) ''GET'' none (val token)
         [200]) (
     bind_py (eval (obj [(''direction'', item (list_at listings i) ''direction''), (''title'', item (list_at listings
         i) ''title''), (''description'', item (list_at listings i) ''description''), (''category'', item (list_at
         listings i) ''category''), (''resourceKind'', item (list_at listings i) ''resourceKind''), (''version'',
         item (list_at listings i) ''version'')])) (\<lambda>own_payload.
     bind_py (call A (plus (plus (val base) (str ''/'')) (item (list_at listings i) ''id'')) ''PUT'' (spread
         (val own_payload) [(''description'', str ''Updated by its ordinary owner'')]) (val token) [200])
         (\<lambda>updated.
     bind_py (ret (listings[nat i := updated])) (\<lambda>listings.
     then_py (check (eq A (item (list_at listings i) ''version'') (plus (item (val own_payload) ''version'') (num 1)))
         []) (
     bind_py (eval (plus (str ''?q='') (val suffix))) (\<lambda>r3.
     bind_py (eval (plus (str ''?category=general&resourceKind=service&status=ACTIVE&q='') (val suffix)))
         (\<lambda>r4.
     then_py (for_py (\<lambda>query.
     bind_py (call A (plus (val base) (val query)) ''GET'' none (val token) [200]) (\<lambda>r3.
     bind_py (eval (item (val r3) ''content'')) (\<lambda>rows.
     check (both (eq A (len (val rows)) (num 1)) (eq A (item (at (val rows) 0) ''id'') (item (list_at listings i)
         ''id''))) []))) [JStr [], r3, r4]) (
     bind_py (call A (plus (plus (val base) (str ''?q='')) (item (list_at listings other) ''id'')) ''GET'' none
         (val token) [200]) (\<lambda>r4.
     then_py (check (eq A (item (val r4) ''content'') (arr [])) []) (
     then_py (call A (plus (plus (val base) (str ''/'')) (item (list_at listings other) ''id'')) ''GET'' none
         (val token) [404]) (
     bind_py (eval (obj [(''direction'', str ''OFFER''), (''title'', str ''Intrusion''), (''description'',
         str ''Denied''), (''category'', str ''general''), (''resourceKind'', str ''service''), (''version'',
         num 0)])) (\<lambda>payload.
     then_py (call A (plus (plus (val base) (str ''/'')) (item (list_at listings other) ''id'')) ''PUT'' (val payload)
         (val token) [404]) (
     then_py (call A (plus (plus (plus (val base) (str ''/'')) (item (list_at listings other) ''id''))
         (str ''/close'')) ''POST'' (obj [(''version'', num 0)]) (val token) [404]) (
     then_py (call A (val foreign) ''GET'' none (val token) [400, 403, 404]) (
     then_py (call A (plus (plus (val foreign) (str ''/'')) (item (list_at listings other) ''id'')) ''PUT''
         (val payload) (val token) [400, 403, 404]) (
     then_py (call A (plus (plus (plus (val foreign) (str ''/'')) (item (list_at listings other) ''id''))
         (str ''/close'')) ''POST'' (obj [(''version'', num 0)]) (val token) [400, 403, 404]) (
     then_py (call_with A (val base) ''GET'' none (val token) [400, 403] [(''X-Tenant'', list_at tenants other)]) (
     then_py (call A (val base) ''POST'' (spread (val payload) [(''ownerId'', item (item (list_at sessions other)
         ''user'') ''id'')]) (val token) [400]) (
     ret listings)))))))))))))))))))))))"

definition tenant_probe_plan :: "plan" where
  "tenant_probe_plan =
     [answered ''GET'' ''/'' [200], answered ''PUT'' ''/'' [200]] @ concat (replicate 3 ([answered ''GET'' [] [200]]))
         @ [answered ''GET'' ''?q='' [200], answered ''GET'' ''/'' [404], answered ''PUT'' ''/'' [404], answered
         ''POST'' ''/close'' [404], answered ''GET'' [] [400, 403, 404], answered ''PUT'' ''/'' [400, 403, 404],
         answered ''POST'' ''/close'' [400, 403, 404], answered ''GET'' [] [400, 403], answered ''POST'' [] [400]]"

definition runtime_checks :: "('k, 'x) services \<Rightarrow> json list \<Rightarrow> json list \<Rightarrow> ('x host, unit) py" where
  "runtime_checks A tenants listings =
     bind_py (sql_e A
         (str ''select current_user,rolsuper,rolbypassrls,has_schema_privilege(current_user,'stir','CREATE'),has_database_privilege(current_user,'idax','CREATE') from pg_roles where rolname=current_user;'')
         True) (\<lambda>flags.
     then_py (check (eq A (val flags) (str ''idax_backend|f|f|f|f'')) []) (
     then_py (print_e (fmt A [str ''Runtime identity:'', str '' '', val flags])) (
     bind_py (sql_e A
         (str (''select r.rolname from pg_auth_members m join pg_roles r on r.oid=m.roleid join pg_roles u on '' @
         ''u.oid=m.member where u.rolname=current_user order by r.rolname;'')) True) (\<lambda>memberships.
     bind_py (eval (bind_sum (as_str memberships) (\<lambda>s. Inr (splitlines s)))) (\<lambda>granted.
     then_py (check (Inr ({''idax_app'', ''idax_admin''} \<subseteq> set granted)) []) (
     bind_py (eval (bind_sum (as_str memberships) (\<lambda>s. Inr (JStr (replace_all [CHR 0x0A] '', '' s)))))
         (\<lambda>roles_text.
     then_py (print_e (fmt A [str ''Granted roles: '', val roles_text])) (
     bind_py (sql_e A (str (''select relname,relrowsecurity,relforcerowsecurity from pg_class where '' @
         ''oid='stir.listing'::regclass;'')) True) (\<lambda>table.
     then_py (check (eq A (val table) (str ''listing|t|t'')) []) (
     then_py (print_e (fmt A [str ''RLS enabled/forced:'', str '' '', val table])) (
     bind_py (sql_e A
         (str (''select policyname,roles,cmd,qual,with_check from pg_policies where schemaname='stir' order by '' @
         ''tablename,policyname;'')) True) (\<lambda>r4.
     then_py (print_e (fmt A [str ''Policies:'', str '' '', val r4])) (
     bind_py (sql_e A
         (str (''select distinct usename from pg_stat_activity where datname='idax' and backend_type='client '' @
         ''backend' and application_name='PostgreSQL JDBC Driver';'')) False) (\<lambda>runtime_sessions.
     bind_py (eval (bind_sum (as_str runtime_sessions) (\<lambda>s. Inr (splitlines s)))) (\<lambda>observed.
     then_py (check (Inr (set observed \<subseteq> {''idax_backend'', ''idax_governed_verifier'', ''stir_auditor''}
         \<and> {''idax_backend'', ''idax_governed_verifier''} \<subseteq> set observed)) []) (
     then_py (print_e (fmt A [str ''Live JDBC session identities:'', str '' '', val runtime_sessions])) (
     bind_py (sql_e A (str ''select count(*) from stir.listing;'') True) (\<lambda>count1.
     then_py (check (eq A (val count1) (str ''0'')) []) (
     then_py (for_py (\<lambda>role.
     bind_py (sql_e A (fmt A [str ''begin; set local role '', val role, str ''; select set_config('app.tenant_id','',
         sq, list_at tenants 0, sq, str '',true); select count(*) from stir.listing where tenant_id='', sq, list_at
         tenants 1, sq, str ''; select count(*) from stir.listing where tenant_id='', sq, list_at tenants 0, sq,
         str ''; rollback;'']) True) (\<lambda>output.
     bind_py (eval (bind_sum (as_str output) (\<lambda>s. Inr (splitlines s)))) (\<lambda>shown_lines.
     check (Inr (butlast (drop (length shown_lines - 3) shown_lines) = [''0'', ''1''])) []))) [JStr ''idax_app'', JStr
         ''idax_admin'']) (
     bind_py (eval (map_in (\<lambda>r. item (val r) ''id'') listings)) (\<lambda>created.
     then_py (write_text (root_dir A @ [''.local'', ''e2e-fixtures.json'']) (ascii_escape (dumps '' '' (JObj
         [(''tenants'', JArr tenants), (''listingIds'', JArr created)])))) (
     then_py (print_py
         (''PASS: A/B ordinary owner read/update; foreign UUID read/update/close 404; foreign path denied; '' @
         ''cross-tenant query isolated; contradictory X-Tenant denied; owner forgery rejected.'')) (
     print_py (''PASS: live idax_backend login NOSUPERUSER/NOBYPASSRLS/no schema or database CREATE; no tenant '' @
         ''sees zero rows; idax_app and idax_admin both isolate A/B.''))))))))))))))))))))))))"

definition runtime_checks_plan :: "plan" where
  "runtime_checks_plan =
     sql_events @ sql_events @ sql_events @ sql_events @ sql_events @ sql_events @ concat (replicate 2 (sql_events))"

definition isolation_main :: "('k, 'x) services \<Rightarrow> ('x host, unit) py" where
  "isolation_main A =
     bind_py (read_secret A ''login_password'') (\<lambda>r1.
     bind_py (call A (str ''/api/shell/v1/auth/login'') ''POST'' (obj [(''email'', str ''admin@stir.test''),
         (''password'', val r1)]) none [200]) (\<lambda>r2.
     bind_py (eval (item (val r2) ''accessToken'')) (\<lambda>admin.
     bind_py (uuid4_hex A) (\<lambda>r3.
     bind_py (eval (upto (val r3) 10)) (\<lambda>suffix.
     bind_py (sql_e A (fmt A [str ''select tenant_id from idax_core.tenant_create('stir-e2e-a-'', val suffix, sq,
         str '', 'STIR E2E a', 'active', false);'']) False) (\<lambda>tenant_a.
     bind_py (sql_e A (fmt A [str ''select tenant_id from idax_core.tenant_create('stir-e2e-b-'', val suffix, sq,
         str '', 'STIR E2E b', 'active', false);'']) False) (\<lambda>tenant_b.
     bind_py (ret [tenant_a, tenant_b]) (\<lambda>tenants.
     bind_py (tenant_setup A admin suffix 0 tenant_a) (\<lambda>(session_a, listing_a).
     bind_py (tenant_setup A admin suffix 1 tenant_b) (\<lambda>(session_b, listing_b).
     bind_py (ret [session_a, session_b]) (\<lambda>sessions.
     bind_py (ret [listing_a, listing_b]) (\<lambda>listings.
     bind_py (tenant_probe A suffix sessions tenants 0 listings) (\<lambda>listings.
     bind_py (tenant_probe A suffix sessions tenants 1 listings) (\<lambda>listings.
     runtime_checks A tenants listings))))))))))))))"

definition isolation_main_plan :: "plan" where
  "isolation_main_plan =
     [answered ''POST'' ''/api/shell/v1/auth/login'' [200]] @ sql_events @ sql_events @ tenant_setup_plan @
         tenant_setup_plan @ tenant_probe_plan @ tenant_probe_plan @ runtime_checks_plan"

section \<open>Conformance\<close>

lemma tenant_setup_conforms: "conforms tenant_setup_plan (tenant_setup A admin suffix i tenant)"
  unfolding tenant_setup_plan_def tenant_setup_def append.simps by (intro py_conf) simp_all

lemmas tenant_setup_steps [py_conf] =
  tenant_setup_conforms conforms_bind [OF tenant_setup_conforms] conforms_then [OF tenant_setup_conforms]
  conforms_bind_last [OF tenant_setup_conforms] conforms_then_last [OF tenant_setup_conforms]

lemma tenant_probe_conforms: "conforms tenant_probe_plan (tenant_probe A suffix sessions tenants i listings)"
  unfolding tenant_probe_plan_def tenant_probe_def append.simps by (intro py_conf) simp_all

lemmas tenant_probe_steps [py_conf] =
  tenant_probe_conforms conforms_bind [OF tenant_probe_conforms] conforms_then [OF tenant_probe_conforms]
  conforms_bind_last [OF tenant_probe_conforms] conforms_then_last [OF tenant_probe_conforms]

lemma runtime_checks_conforms: "conforms runtime_checks_plan (runtime_checks A tenants listings)"
  unfolding runtime_checks_plan_def runtime_checks_def append.simps by (intro py_conf) simp_all

lemmas runtime_checks_steps [py_conf] =
  runtime_checks_conforms conforms_bind [OF runtime_checks_conforms] conforms_then [OF runtime_checks_conforms]
  conforms_bind_last [OF runtime_checks_conforms] conforms_then_last [OF runtime_checks_conforms]

lemma isolation_main_conforms: "conforms isolation_main_plan (isolation_main A)"
  unfolding isolation_main_plan_def isolation_main_def append.simps by (intro py_conf) simp_all

lemmas isolation_main_steps [py_conf] =
  isolation_main_conforms conforms_bind [OF isolation_main_conforms] conforms_then [OF isolation_main_conforms]
  conforms_bind_last [OF isolation_main_conforms] conforms_then_last [OF isolation_main_conforms]

end
