(* ===== verification/Ledger.thy ===== *)
theory Ledger
  imports Marketplace Exchange
begin

text \<open>
  The transaction for the ledger proof (scripts/ledger_integration_e2e.py): the tenant it runs in,
      two administrators who exchange through the normal path, and the report of the committed
      transaction.
\<close>

section \<open>The script\<close>

text \<open>
  Where the login password is and which tenant the transaction runs in come from the environment. A
  path given there is taken as absolute.
\<close>

definition ledger_secrets :: "path \<Rightarrow> 'x host \<Rightarrow> path" where
  "ledger_secrets root h =
     (case env h ''STIR_LEDGER_SECRETS'' of
        None \<Rightarrow> root @ [''.local'', ''secrets'']
      | Some p \<Rightarrow> filter (\<lambda>c. c \<noteq> [] \<and> c \<noteq> ''.'') (pieces (CHR ''/'') [] p))"

definition ledger_code :: "'x host \<Rightarrow> string" where
  "ledger_code h = (case env h ''STIR_LEDGER_TENANT_CODE'' of None \<Rightarrow> [] | Some c \<Rightarrow> c)"

definition ledger_password :: "('k, 'x) services \<Rightarrow> ('x host, json) py" where
  "ledger_password A =
     bind_py (asks (ledger_secrets (root_dir A))) (\<lambda>dir.
     bind_py (read_text (dir @ [''login_password''])) (\<lambda>s. ret (JStr (strip s))))"

definition ledger_tenant :: "('k, 'x) services \<Rightarrow> string \<Rightarrow> json \<Rightarrow> json \<Rightarrow> ('x host, json) py" where
  "ledger_tenant A tenant_code admin admin_session =
     (if tenant_code \<noteq> []
      then bind_py (call A (str ''/api/shell/v1/platform/tenants'') ''GET'' none (val admin) [200]) (\<lambda>platform_tenants.
           bind_py (eval (keep_e (val platform_tenants) (\<lambda>t. eq A (get (val t) ''code'') (str tenant_code)))) (\<lambda>matches.
           if \<not> truthy matches then raise (SystemExit ''No platform tenant with that code - it must already exist'')
           else eval (item (at (val matches) 0) ''id'')))
      else eval (item (at (item (val admin_session) ''tenants'') 0) ''id''))"

definition ledger_tenant_plan :: "string \<Rightarrow> plan" where
  "ledger_tenant_plan tenant_code =
     (if tenant_code \<noteq> [] then [answered ''GET'' ''/api/shell/v1/platform/tenants'' [200]] else [])"

text \<open>The report: the identifiers of the answer, those of its trade, and the names of its keys.\<close>

definition upper :: "string \<Rightarrow> string" where
  "upper s = map (\<lambda>c. if between 97 122 c then char_of ((of_char c :: nat) - 32) else c) s"

fun type_name :: "json \<Rightarrow> string" where
  "type_name JNull = ''NoneType''"
| "type_name (JBool b) = ''bool''"
| "type_name (JInt n) = ''int''"
| "type_name (JFloat x) = ''float''"
| "type_name (JStr s) = ''str''"
| "type_name (JArr vs) = ''list''"
| "type_name (JObj kvs) = ''dict''"

definition ledger_report :: "('k, 'x) services \<Rightarrow> json \<Rightarrow> ('x host, unit) py" where
  "ledger_report A result =
     then_py (for_py (\<lambda>key. bind_py (lift_py (both (is_dict (val result)) (member A (str key) (val result)))) (\<lambda>b.
         if b then print_e (fmt A [str (upper key), str '' '', item (val result) key]) else ret ()))
       [''transactionId'', ''journalTransactionId'', ''trade'', ''executionState'', ''status'', ''communityId'',
        ''communitySequence'', ''protocolDigest'', ''osTrisTransactionId'']) (
     then_py (case result of
         JObj kvs \<Rightarrow> (case map_of kvs ''trade'' of
             Some (JObj trade) \<Rightarrow> for_py (\<lambda>(key, v).
               if contains ''id'' (lower key) \<or> contains ''state'' (lower key) \<or> contains ''status'' (lower key)
               then print_e (fmt A [str ''TRADE_'', str (upper key), str '' '', val v]) else ret ()) trade
           | _ \<Rightarrow> ret ())
       | _ \<Rightarrow> ret ()) (
     print_e (fmt A [str ''COMMIT_RESPONSE_KEYS '', case result of
         JObj kvs \<Rightarrow> val (JArr (map (\<lambda>(k, v). JStr k) (sort_by_key kvs)))
       | _ \<Rightarrow> str (type_name result)])))"

definition ledger_exchange :: "('k, 'x) services \<Rightarrow> json \<Rightarrow> json \<Rightarrow> ('x host, unit) py" where
  "ledger_exchange A admin tenant =
     bind_py (eval (fmt A [str ''/api/stir/tenants/'', val tenant])) (\<lambda>base.
     bind_py (uuid4_hex A) (\<lambda>r1.
     bind_py (eval (upto (val r1) 8)) (\<lambda>suffix.
     bind_py (call A (fmt A [str ''/api/shell/v1/tenants/'', val tenant, str ''/roles'']) ''POST'' (obj [(''key'',
         plus (str ''ledger_e2e_'') (val suffix)), (''name'', str ''Ledger integration E2E''), (''description'',
         str ''Release fixture''), (''enabled'', yes)]) (val admin) [200, 201]) (\<lambda>role.
     then_py (call A (plus (plus (fmt A [str ''/api/shell/v1/tenants/'', val tenant, str ''/roles/'']) (item (val
         role) ''id'')) (str ''/permissions'')) ''PUT'' (val MARKET_PERMISSIONS) (val admin) [200]) (
     bind_py (eval (fmt A [str ''ana-'', val suffix, str ''@stir.test''])) (\<lambda>ana_email.
     bind_py (token_urlsafe A 24) (\<lambda>ana_password.
     then_py (call A (fmt A [str ''/api/shell/v1/tenants/'', val tenant, str ''/users'']) ''POST'' (obj [(''email'',
         val ana_email), (''displayName'', str ''ana''), (''authProvider'', str ''local''), (''subject'',
         val ana_email), (''password'', val ana_password), (''role'', str ''admin''), (''enabled'', yes)]) (val admin)
         [200, 201]) (
     bind_py (call A (str ''/api/shell/v1/auth/login'') ''POST'' (obj [(''email'', val ana_email), (''password'',
         val ana_password)]) none [200]) (\<lambda>ana_login.
     then_py (call A (plus (fmt A [str ''/api/shell/v1/tenants/'', val tenant, str ''/roles/users/'']) (item (item
         (val ana_login) ''user'') ''id'')) ''PUT'' (obj [(''roleIds'', arr [item (val role) ''id''])]) (val admin)
         [204]) (
     bind_py (call A (str ''/api/shell/v1/auth/login'') ''POST'' (obj [(''email'', val ana_email), (''password'',
         val ana_password)]) none [200]) (\<lambda>ana.
     bind_py (eval (fmt A [str ''pedro-'', val suffix, str ''@stir.test''])) (\<lambda>pedro_email.
     bind_py (token_urlsafe A 24) (\<lambda>pedro_password.
     then_py (call A (fmt A [str ''/api/shell/v1/tenants/'', val tenant, str ''/users'']) ''POST'' (obj [(''email'',
         val pedro_email), (''displayName'', str ''pedro''), (''authProvider'', str ''local''), (''subject'',
         val pedro_email), (''password'', val pedro_password), (''role'', str ''admin''), (''enabled'', yes)])
         (val admin) [200, 201]) (
     bind_py (call A (str ''/api/shell/v1/auth/login'') ''POST'' (obj [(''email'', val pedro_email), (''password'',
         val pedro_password)]) none [200]) (\<lambda>pedro_login.
     then_py (call A (plus (fmt A [str ''/api/shell/v1/tenants/'', val tenant, str ''/roles/users/'']) (item (item
         (val pedro_login) ''user'') ''id'')) ''PUT'' (obj [(''roleIds'', arr [item (val role) ''id''])]) (val admin)
         [204]) (
     bind_py (call A (str ''/api/shell/v1/auth/login'') ''POST'' (obj [(''email'', val pedro_email), (''password'',
         val pedro_password)]) none [200]) (\<lambda>pedro.
     then_py (call A (plus (val base) (str ''/participants/me'')) ''PUT'' (obj [(''displayName'', plus (str ''Ana '')
         (val suffix)), (''bio'', str ''Ledger E2E''), (''location'', str ''Girona'')]) (item (val ana)
         ''accessToken'') [200]) (
     then_py (call A (plus (val base) (str ''/participants/me'')) ''PUT'' (obj [(''displayName'', plus (str
         ''Pedro '') (val suffix)), (''bio'', str ''Ledger E2E''), (''location'', str ''Girona'')]) (item (val pedro)
         ''accessToken'') [200]) (
     then_py (call A (plus (val base) (str ''/economic/marketplace/bootstrap'')) ''POST'' (obj [(''communityName'',
         plus (str ''Ledger E2E '') (val suffix)), (''unitCode'', str ''LED''), (''unitScale'', num 0)]) (item (val
         ana) ''accessToken'') [200, 201, 409]) (
     bind_py (activate_economic A base ana) (\<lambda>ana_key.
     bind_py (activate_economic A base pedro) (\<lambda>pedro_key.
     bind_py (eval (plus (str ''Ledger E2E '') (val suffix))) (\<lambda>r19.
     bind_py (open_and_accept A base ana pedro (JStr ''OFFER'') r19 (JStr ''home'') (JInt 10) JNull)
         (\<lambda>(agreement, amount).
     bind_py (eval (item (val agreement) ''id'')) (\<lambda>agreement_id.
     bind_py (run_exchange A base pedro ana agreement_id pedro_key ana_key) (\<lambda>result.
     then_py (print_e (fmt A [str ''STIR_AGREEMENT_ID'', str '' '', val agreement_id])) (
     then_py (print_e (fmt A [str ''AGREED_AMOUNT'', str '' '', val amount])) (
     then_py (print_e (fmt A [str ''TENANT_ID'', str '' '', val tenant])) (
     then_py (ledger_report A result) (
     print_py ''LEDGER_E2E_CONTROLLED_TRANSACTION: COMMITTED''))))))))))))))))))))))))))))))"

definition ledger_exchange_plan :: "plan" where
  "ledger_exchange_plan =
     [answered ''POST'' ''/roles'' [200, 201], answered ''PUT'' ''/permissions'' [200], answered ''POST'' ''/users''
         [200, 201], answered ''POST'' ''/api/shell/v1/auth/login'' [200], answered ''PUT'' ''/roles/users/'' [204],
         answered ''POST'' ''/api/shell/v1/auth/login'' [200], answered ''POST'' ''/users'' [200, 201], answered
         ''POST'' ''/api/shell/v1/auth/login'' [200], answered ''PUT'' ''/roles/users/'' [204], answered ''POST''
         ''/api/shell/v1/auth/login'' [200], answered ''PUT'' ''/participants/me'' [200], answered ''PUT''
         ''/participants/me'' [200], answered ''POST'' ''/economic/marketplace/bootstrap'' [200, 201, 409]] @
         activate_economic_plan @ activate_economic_plan @ open_and_accept_plan JNull @ run_exchange_plan"

definition ledger_run :: "('k, 'x) services \<Rightarrow> string \<Rightarrow> ('x host, unit) py" where
  "ledger_run A tenant_code =
     bind_py (ledger_password A) (\<lambda>password.
     bind_py (call A (str ''/api/shell/v1/auth/login'') ''POST'' (obj [(''email'', str ''admin@stir.test''),
         (''password'', val password)]) none [200]) (\<lambda>admin_session.
     bind_py (eval (item (val admin_session) ''accessToken'')) (\<lambda>admin.
     bind_py (ledger_tenant A tenant_code admin admin_session) (\<lambda>tenant.
     ledger_exchange A admin tenant))))"

definition ledger_run_plan :: "string \<Rightarrow> plan" where
  "ledger_run_plan tenant_code =
     [answered ''POST'' ''/api/shell/v1/auth/login'' [200]] @ ledger_tenant_plan tenant_code @ ledger_exchange_plan"

definition ledger_main :: "('k, 'x) services \<Rightarrow> ('x host, unit) py" where
  "ledger_main A = bind_py (asks ledger_code) (ledger_run A)"

section \<open>Conformance\<close>

lemma ledger_tenant_conforms: "conforms (ledger_tenant_plan c) (ledger_tenant A c admin session)"
  unfolding ledger_tenant_plan_def ledger_tenant_def
  by (intro conforms_if py_conf conforms_both conforms_raise) simp_all

lemma ledger_report_quiet [py_plan]: "follows [] (ledger_report A result)"
  unfolding ledger_report_def
  by (intro follows_then_quiet follows_quiet_for follows_bind_quiet follows_lift quiet_print_e)
    (auto intro!: quiet_print_e follows_ret follows_quiet_for split: json.splits option.splits)

lemma ledger_password_quiet [py_plan]: "follows [] (ledger_password A)"
  unfolding ledger_password_def by (intro follows_bind_quiet py_plan)

lemmas ledger_steps [py_conf] =
  conforms_bind [OF ledger_tenant_conforms] conforms_then_quiet [OF ledger_report_quiet]
  conforms_bind_quiet [OF ledger_password_quiet]


lemma ledger_exchange_conforms: "conforms ledger_exchange_plan (ledger_exchange A admin tenant)"
  unfolding ledger_exchange_plan_def ledger_exchange_def append.simps by (intro py_conf) simp_all

lemmas ledger_exchange_steps [py_conf] =
  ledger_exchange_conforms conforms_bind [OF ledger_exchange_conforms] conforms_then [OF ledger_exchange_conforms]
  conforms_bind_last [OF ledger_exchange_conforms] conforms_then_last [OF ledger_exchange_conforms]

lemma ledger_run_conforms: "conforms (ledger_run_plan tenant_code) (ledger_run A tenant_code)"
  unfolding ledger_run_plan_def ledger_run_def append.simps by (intro py_conf) simp_all

lemmas ledger_run_steps [py_conf] =
  ledger_run_conforms conforms_bind [OF ledger_run_conforms] conforms_then [OF ledger_run_conforms]
  conforms_bind_last [OF ledger_run_conforms] conforms_then_last [OF ledger_run_conforms]

end
