(* ===== verification/Custody.thy ===== *)
theory Custody
  imports References Webauthn
begin

text \<open>
  Seats held by hardware keys (scripts/webauthn_hardware_custody_e2e.py, main): registration, a
      bootstrap with both kinds of credential, replayed and forged assertions, a suspension by the
      guardian, two rotations and the history they leave. The counters of the authenticators are
      threaded as values.
\<close>

section \<open>The script\<close>

text \<open>
  The message a ceremony covers, and an assertion over it with the authenticator's counter. A
  registration runs both endpoints: it asks for a challenge, answers it, and keeps the public key.
\<close>

definition message_e :: "string \<Rightarrow> exp \<Rightarrow> exn + bytes" where
  "message_e domain e = bind_sum e (\<lambda>v. Inr (domain_message domain (canonical v)))"

definition assertion_e :: "('k, 'x) services \<Rightarrow> 'k \<Rightarrow> int \<Rightarrow> exn + bytes \<Rightarrow> exp" where
  "assertion_e A key counter message = bind_sum message (\<lambda>m.
     bind_sum (webauthn_assertion (keys_of A) key (nat counter) m RP_ID ORIGIN True) (\<lambda>ms. Inr (JObj ms)))"

definition register ::
  "('k, 'x) services \<Rightarrow> json \<Rightarrow> json \<Rightarrow> json \<Rightarrow> json \<Rightarrow> json \<Rightarrow> 'k \<Rightarrow> bytes \<Rightarrow> ('x host, json) py" where
  "register A token api authority context_name credential_id_uuid private_key webauthn_cred_id =
     bind_py (call A (plus (val api) (str ''/webauthn/register/begin'')) ''POST''
         (obj [(''authorityId'', val authority), (''context'', val context_name)]) (val token) [200]) (\<lambda>options.
     then_py (check (eq A (item (val options) ''rpId'') (str RP_ID)) []) (
     bind_py (eval (bind_sum (item (val options) ''challenge'') (\<lambda>c. bind_sum (as_str c) b64url_decode))) (\<lambda>challenge.
     bind_py (eval (webauthn_registration (keys_of A) private_key webauthn_cred_id challenge True)) (\<lambda>registration.
     bind_py (call A (plus (val api) (str ''/webauthn/register/finish'')) ''POST''
         (obj ([(''authorityId'', val authority), (''context'', val context_name), (''credentialId'', val credential_id_uuid)]
           @ map (\<lambda>(k, v). (k, val v)) registration)) (val token) [200]) (\<lambda>result.
     then_py (check (eq A (item (val result) ''algorithm'') (str ''ES256'')) []) (
     eval (item (val result) ''publicKeyBase64url'')))))))"

definition register_plan :: plan where
  "register_plan =
     [answered ''POST'' ''/webauthn/register/begin'' [200], answered ''POST'' ''/webauthn/register/finish'' [200]]"

definition custody_propose :: "('k, 'x) services \<Rightarrow> json \<Rightarrow> json \<Rightarrow> json \<Rightarrow> json \<Rightarrow> json \<Rightarrow> json \<Rightarrow> json \<Rightarrow> ('x host, json) py" where
  "custody_propose A token api community action after affected reason =
     bind_py (eval (plus (plus (plus (val api) (str ''/'')) (val community)) (str ''/proposals''))) (\<lambda>r1.
     bind_py (uuid4_str A) (\<lambda>r2.
     call A (val r1) ''POST'' (obj [(''proposalId'', val r2), (''actionType'', val action), (''after'', val after),
         (''affectedFields'', val affected), (''reason'', val reason), (''evidenceRefs'', arr
         [str ''assembly-record-1''])]) (val token) [200]))"

definition custody_propose_plan :: "plan" where
  "custody_propose_plan =
     [answered ''POST'' [] [200]]"

definition sign_seat_ed :: "('k, 'x) services \<Rightarrow> json \<Rightarrow> json \<Rightarrow> 'k list \<Rightarrow> json list \<Rightarrow> json \<Rightarrow> int \<Rightarrow> ('x host, json) py" where
  "sign_seat_ed A token api keys credentials p seat =
     bind_py (eval (loads_e A (item (val p) ''payloadJson''))) (\<lambda>payload.
     call A (plus (plus (plus (val api) (str ''/proposals/'')) (item (val p) ''id'')) (str ''/signatures'')) ''POST''
         (obj [(''seatOrdinal'', num seat), (''credentialId'', list_at credentials (seat - 1)),
         (''signatureBase64url'', sign_e A (list_at keys (seat - 1)) DOMAIN (val payload))]) (val token) [200])"

definition sign_seat_ed_plan :: "plan" where
  "sign_seat_ed_plan =
     [answered ''POST'' ''/signatures'' [200]]"

definition sign_seat7_webauthn :: "('k, 'x) services \<Rightarrow> json \<Rightarrow> json \<Rightarrow> int \<Rightarrow> 'k \<Rightarrow> json \<Rightarrow> json \<Rightarrow> int list \<Rightarrow> ('x host, json) py" where
  "sign_seat7_webauthn A token api webauthn_sign_count seat7_key seat7_credential p expected =
     bind_py (eval (loads_e A (item (val p) ''payloadJson''))) (\<lambda>payload.
     bind_py (ret (webauthn_sign_count + 1)) (\<lambda>webauthn_sign_count.
     bind_py (eval (message_e DOMAIN (val payload))) (\<lambda>message.
     bind_py (eval (assertion_e A seat7_key webauthn_sign_count (val message))) (\<lambda>envelope.
     call A (plus (plus (plus (val api) (str ''/proposals/'')) (item (val p) ''id'')) (str ''/signatures'')) ''POST''
         (obj [(''seatOrdinal'', num 7), (''credentialId'', val seat7_credential), (''credentialEnvelope'',
         val envelope)]) (val token) expected))))"

definition sign_seat7_webauthn_plan :: "int list \<Rightarrow> plan" where
  "sign_seat7_webauthn_plan expected =
     [answered ''POST'' ''/signatures'' expected]"

definition custody_bootstrap :: "('k, 'x) services \<Rightarrow> json \<Rightarrow> json \<Rightarrow> json \<Rightarrow> json \<Rightarrow> json \<Rightarrow> ('x host, 'k list \<times> json list \<times> json list \<times> 'k \<times> json \<times> 'k \<times> json) py" where
  "custody_bootstrap A tenant community authority token api =
     bind_py (repeat_py 6 (generate_key A)) (\<lambda>keys.
     bind_py (repeat_py 7 (uuid4_str A)) (\<lambda>credentials.
     bind_py (repeat_py 7 (uuid4_str A)) (\<lambda>controllers.
     bind_py (generate_key A) (\<lambda>webauthn_seat_key.
     bind_py (ret (encode ''seat7-credential'')) (\<lambda>webauthn_seat_credential_id.
     bind_py (uuid4_str A) (\<lambda>guardian_id.
     bind_py (generate_key A) (\<lambda>guardian_key.
     bind_py (ret (encode ''guardian-credential'')) (\<lambda>guardian_credential_id.
     bind_py (eval (list_at credentials 6)) (\<lambda>r2.
     bind_py (register A token api authority (JStr ''seat-7'') r2 webauthn_seat_key webauthn_seat_credential_id)
         (\<lambda>seat7_public_key.
     bind_py (register A token api authority (JStr ''guardian'') guardian_id guardian_key guardian_credential_id)
         (\<lambda>guardian_public_key.
     bind_py (eval (arr (map (\<lambda>i. obj [(''ordinal'', num (i + 1)), (''controllerId'', list_at controllers i),
         (''credentialId'', list_at credentials i), (''publicKey'', rawkey_e A (list_at keys i))]) [0..5])))
         (\<lambda>public_seats.
     bind_py (eval (plus (val public_seats) (arr [obj [(''ordinal'', num 7), (''controllerId'', list_at controllers
         6), (''credentialId'', list_at credentials 6), (''publicKey'', val seat7_public_key)]])))
         (\<lambda>public_seats.
     bind_py (eval (obj [(''schema'', str ''STIR-MARKET-CONSTITUTION-1''), (''provenanceRequired'', yes),
         (''historyImmutable'', yes), (''independenceChecksRequired'', yes), (''concentrationChecksRequired'', yes),
         (''minimumObservationFloor'', num 5), (''minimumParticipantFloor'', num 6),
         (''maximumParticipantShareCeiling'', str ''0.50''), (''guardianMayGovern'', no),
         (''constitutionalThreshold'', num 7)])) (\<lambda>constitution.
     bind_py (eval (obj [(''format'', str ''STIR-SEVEN-KEYS-BOOTSTRAP-1''), (''tenantId'', val tenant),
         (''communityId'', val community), (''authorityId'', val authority), (''seats'', val public_seats),
         (''guardianCredentialId'', val guardian_id), (''guardianPublicKey'', val guardian_public_key),
         (''constitutionDigest'', digest_e (val constitution))])) (\<lambda>bootstrap_message.
     bind_py (eval (message_e BOOTSTRAP (val bootstrap_message))) (\<lambda>bootstrap_bytes.
     bind_py (eval (arr (map (\<lambda>i. spread (at (val public_seats) i) [(''possessionSignature'', sign_e A
         (list_at keys i) BOOTSTRAP (val bootstrap_message))]) [0..5]))) (\<lambda>seats.
     bind_py (eval (plus (val seats) (arr [spread (at (val public_seats) 6) [(''credentialType'', str ''WEBAUTHN''),
         (''algorithm'', str ''ES256''), (''possessionEnvelope'', assertion_e A webauthn_seat_key 0
         (val bootstrap_bytes))]]))) (\<lambda>seats.
     bind_py (eval (obj [(''authorityId'', val authority), (''communityId'', val community), (''seats'', val seats),
         (''guardianCredentialId'', val guardian_id), (''guardianPublicKey'', val guardian_public_key),
         (''guardianCredentialType'', str ''WEBAUTHN''), (''guardianAlgorithm'', str ''ES256''),
         (''guardianPossessionEnvelope'', assertion_e A guardian_key 0 (val bootstrap_bytes))])) (\<lambda>creation.
     bind_py (call A (plus (val api) (str ''/bootstrap'')) ''POST'' (val creation) (val token) [200]) (\<lambda>view.
     then_py (check (both (eq A (item (val view) ''threshold'') (num 7)) (eq A (len (item (val view) ''seats''))
         (num 7))) []) (
     then_py (check (eq A (item (at (item (val view) ''seats'') 6) ''credential_type'') (str ''WEBAUTHN'')) []) (
     then_py (print_py (''PASS: mixed-credential bootstrap (6 SOFTWARE_ED25519 seats + 1 WEBAUTHN seat + WEBAUTHN '' @
         ''Guardian)'')) (
     ret (keys, credentials, controllers, webauthn_seat_key, guardian_id, guardian_key,
         constitution))))))))))))))))))))))))"

definition custody_bootstrap_plan :: "plan" where
  "custody_bootstrap_plan =
     register_plan @ register_plan @ [answered ''POST'' ''/bootstrap'' [200]]"

definition custody_replay :: "('k, 'x) services \<Rightarrow> json \<Rightarrow> json \<Rightarrow> json \<Rightarrow> 'k list \<Rightarrow> json list \<Rightarrow> 'k \<Rightarrow> json \<Rightarrow> ('x host, json \<times> json \<times> json \<times> int) py" where
  "custody_replay A token api community keys credentials webauthn_seat_key constitution =
     bind_py (ret (0 :: int)) (\<lambda>webauthn_sign_count.
     bind_py (ret webauthn_seat_key) (\<lambda>seat7_key.
     bind_py (eval (list_at credentials 6)) (\<lambda>seat7_credential.
     bind_py (eval (spread (val constitution) [(''independenceChecksRequired'', no)])) (\<lambda>changed.
     bind_py (eval (arr [str ''independenceChecksRequired''])) (\<lambda>r1.
     bind_py (custody_propose A token api community (JStr ''AMEND_CONSTITUTION'') changed r1 (JStr
         ''Explicit community decision'')) (\<lambda>p.
     then_py (for_py (\<lambda>seat.
     then_py (sign_seat_ed A token api keys credentials p seat) (
     ret ())) [1..6]) (
     then_py (sign_seat7_webauthn A token api webauthn_sign_count seat7_key seat7_credential p ([200])) (
     bind_py (ret (webauthn_sign_count + 1)) (\<lambda>webauthn_sign_count.
     bind_py (call A (plus (plus (plus (val api) (str ''/proposals/'')) (item (val p) ''id'')) (str ''/activate''))
         ''POST'' (obj []) (val token) [200]) (\<lambda>activated.
     then_py (check (eq A (item (val activated) ''state'') (str ''ACTIVATED'')) []) (
     bind_py (call A (plus (plus (val api) (str ''/'')) (val community)) ''GET'' none (val token) [200]) (\<lambda>r6.
     then_py (check (eq A (item (val r6) ''constitutionVersion'') (num 2)) []) (
     then_py (print_py
         ''PASS: WebAuthn seat produced a valid constitutional signature that activated a real amendment'') (
     bind_py (eval (spread (val changed) [(''concentrationChecksRequired'', no)])) (\<lambda>r7.
     bind_py (eval (arr [str ''concentrationChecksRequired''])) (\<lambda>r8.
     bind_py (custody_propose A token api community (JStr ''AMEND_CONSTITUTION'') r7 r8 (JStr
         ''Explicit community decision'')) (\<lambda>p2.
     then_py (for_py (\<lambda>seat.
     then_py (sign_seat_ed A token api keys credentials p2 seat) (
     ret ())) [1..6]) (
     bind_py (eval (loads_e A (item (val p2) ''payloadJson''))) (\<lambda>payload2.
     bind_py (eval (message_e DOMAIN (val payload2))) (\<lambda>message2.
     bind_py (ret (webauthn_sign_count + 1)) (\<lambda>webauthn_sign_count.
     bind_py (eval (assertion_e A webauthn_seat_key webauthn_sign_count (val message2))) (\<lambda>stale_envelope.
     then_py (call A (plus (plus (plus (val api) (str ''/proposals/'')) (item (val p2) ''id'')) (str ''/signatures''))
         ''POST'' (obj [(''seatOrdinal'', num 7), (''credentialId'', list_at credentials 6), (''credentialEnvelope'',
         val stale_envelope)]) (val token) [200]) (
     then_py (call A (plus (plus (plus (val api) (str ''/proposals/'')) (item (val p2) ''id'')) (str ''/signatures''))
         ''POST'' (obj [(''seatOrdinal'', num 7), (''credentialId'', list_at credentials 6), (''credentialEnvelope'',
         val stale_envelope)]) (val token) [400]) (
     bind_py (ret (webauthn_sign_count + 1)) (\<lambda>webauthn_sign_count.
     bind_py (eval (assertion_e A webauthn_seat_key webauthn_sign_count (val message2)))
         (\<lambda>fresh_envelope_same_proposal.
     then_py (call A (plus (plus (plus (val api) (str ''/proposals/'')) (item (val p2) ''id'')) (str ''/signatures''))
         ''POST'' (obj [(''seatOrdinal'', num 7), (''credentialId'', list_at credentials 6), (''credentialEnvelope'',
         val fresh_envelope_same_proposal)]) (val token) [409]) (
     bind_py (eval (spread (val changed) [(''minimumObservationFloor'', num 6)])) (\<lambda>r14.
     bind_py (eval (arr [str ''minimumObservationFloor''])) (\<lambda>r15.
     bind_py (custody_propose A token api community (JStr ''AMEND_CONSTITUTION'') r14 r15 (JStr
         ''Explicit community decision'')) (\<lambda>p3.
     then_py (call A (plus (plus (plus (val api) (str ''/proposals/'')) (item (val p3) ''id'')) (str ''/signatures''))
         ''POST'' (obj [(''seatOrdinal'', num 7), (''credentialId'', list_at credentials 6), (''credentialEnvelope'',
         val stale_envelope)]) (val token) [400]) (
     then_py (print_py
         (''PASS: a replayed WebAuthn assertion is caught by sign-counter clone detection, a fresh one is '' @
         ''still caught by already-signed dedup, and cross-proposal replay is rejected'')) (
     bind_py (eval (loads_e A (item (val p3) ''payloadJson''))) (\<lambda>payload3.
     bind_py (uuid4_str A) (\<lambda>r18.
     bind_py (eval (spread (val payload3) [(''communityId'', val r18)])) (\<lambda>forged_community.
     bind_py (eval (message_e DOMAIN (val forged_community))) (\<lambda>forged_message.
     bind_py (ret (webauthn_sign_count + 1)) (\<lambda>webauthn_sign_count.
     bind_py (eval (assertion_e A webauthn_seat_key webauthn_sign_count (val forged_message)))
         (\<lambda>cross_community_envelope.
     then_py (call A (plus (plus (plus (val api) (str ''/proposals/'')) (item (val p3) ''id'')) (str ''/signatures''))
         ''POST'' (obj [(''seatOrdinal'', num 7), (''credentialId'', list_at credentials 6), (''credentialEnvelope'',
         val cross_community_envelope)]) (val token) [400]) (
     bind_py (uuid4_str A) (\<lambda>r20.
     bind_py (eval (spread (val payload3) [(''tenantId'', val r20)])) (\<lambda>forged_tenant.
     bind_py (eval (message_e DOMAIN (val forged_tenant))) (\<lambda>forged_tenant_message.
     bind_py (ret (webauthn_sign_count + 1)) (\<lambda>webauthn_sign_count.
     bind_py (eval (assertion_e A webauthn_seat_key webauthn_sign_count (val forged_tenant_message)))
         (\<lambda>cross_tenant_envelope.
     then_py (call A (plus (plus (plus (val api) (str ''/proposals/'')) (item (val p3) ''id'')) (str ''/signatures''))
         ''POST'' (obj [(''seatOrdinal'', num 7), (''credentialId'', list_at credentials 6), (''credentialEnvelope'',
         val cross_tenant_envelope)]) (val token) [400]) (
     then_py (print_py ''PASS: cross-community and cross-tenant replay of a WebAuthn assertion rejected'') (
     ret (changed, p3, payload3, webauthn_sign_count)))))))))))))))))))))))))))))))))))))))))))))))"

definition custody_replay_plan :: "plan" where
  "custody_replay_plan =
     custody_propose_plan @ concat (replicate 6 (sign_seat_ed_plan)) @ sign_seat7_webauthn_plan ([200]) @ [answered
         ''POST'' ''/activate'' [200], answered ''GET'' ''/'' [200]] @ custody_propose_plan @ concat (replicate 6
         (sign_seat_ed_plan)) @ [answered ''POST'' ''/signatures'' [200], answered ''POST'' ''/signatures'' [400],
         answered ''POST'' ''/signatures'' [409]] @ custody_propose_plan @ [answered ''POST'' ''/signatures'' [400],
         answered ''POST'' ''/signatures'' [400], answered ''POST'' ''/signatures'' [400]]"

definition custody_suspend :: "('k, 'x) services \<Rightarrow> json \<Rightarrow> json \<Rightarrow> json \<Rightarrow> json \<Rightarrow> json \<Rightarrow> json list \<Rightarrow> 'k \<Rightarrow> 'k \<Rightarrow> json \<Rightarrow> json \<Rightarrow> ('x host, int) py" where
  "custody_suspend A tenant community authority token api credentials webauthn_seat_key guardian_key p3 payload3 =
     bind_py (call A (plus (plus (val api) (str ''/'')) (val community)) ''GET'' none (val token) [200]) (\<lambda>r1.
     bind_py (eval (item (val r1) ''nextSequence'')) (\<lambda>sequence.
     bind_py (now_iso A) (\<lambda>declared.
     bind_py (eval (obj [(''format'', str ''STIR-KEY-SUSPENSION-1''), (''tenantId'', val tenant), (''communityId'',
         val community), (''authorityId'', val authority), (''seat'', num 7), (''credentialId'', list_at credentials
         6), (''reasonCode'', str ''KEY_LOST''), (''evidenceRefs'', arr [str ''incident-1'']), (''sequence'',
         val sequence), (''declaredAt'', val declared)])) (\<lambda>suspension.
     bind_py (eval (message_e GUARDIAN (val suspension))) (\<lambda>suspend_message.
     bind_py (ret (1 :: int)) (\<lambda>guardian_sign_count.
     bind_py (ret (guardian_sign_count + 1)) (\<lambda>guardian_sign_count.
     bind_py (eval (obj [(''seatOrdinal'', num 7), (''credentialId'', list_at credentials 6), (''expectedSequence'',
         val sequence), (''declaredAt'', val declared), (''reasonCode'', str ''KEY_LOST''), (''evidenceRefs'', arr
         [str ''incident-1'']), (''guardianEnvelope'', assertion_e A guardian_key guardian_sign_count
         (val suspend_message))])) (\<lambda>suspend_body.
     then_py (call A (plus (plus (plus (val api) (str ''/'')) (val community)) (str ''/emergency-suspensions''))
         ''POST'' (val suspend_body) (val token) [200]) (
     then_py (call A (plus (plus (plus (val api) (str ''/proposals/'')) (item (val p3) ''id'')) (str ''/signatures''))
         ''POST'' (obj [(''seatOrdinal'', num 7), (''credentialId'', list_at credentials 6), (''credentialEnvelope'',
         assertion_e A webauthn_seat_key 99 (message_e DOMAIN (val payload3)))]) (val token) [409]) (
     then_py (print_py (''PASS: Guardian suspended the WebAuthn seat (Guardian itself signing via WebAuthn); the '' @
         ''suspended credential can no longer sign'')) (
     ret guardian_sign_count)))))))))))"

definition custody_suspend_plan :: "plan" where
  "custody_suspend_plan =
     [answered ''GET'' ''/'' [200], answered ''POST'' ''/emergency-suspensions'' [200], answered ''POST''
         ''/signatures'' [409]]"

definition custody_recovery :: "('k, 'x) services \<Rightarrow> json \<Rightarrow> json \<Rightarrow> json \<Rightarrow> json \<Rightarrow> json \<Rightarrow> 'k list \<Rightarrow> json list \<Rightarrow> json list \<Rightarrow> 'k \<Rightarrow> int \<Rightarrow> int \<Rightarrow> ('x host, 'k \<times> json) py" where
  "custody_recovery A tenant community authority token api keys credentials controllers guardian_key webauthn_sign_count guardian_sign_count =
     bind_py (generate_key A) (\<lambda>new_seat7_key.
     bind_py (ret (encode ''seat7-new-hardware'')) (\<lambda>new_seat7_cred_id.
     bind_py (uuid4_str A) (\<lambda>new_seat7_credential.
     bind_py (register A token api authority (JStr ''seat-7-incoming'') new_seat7_credential new_seat7_key
         new_seat7_cred_id) (\<lambda>new_seat7_public_key.
     bind_py (eval (obj [(''affectedSeat'', num 7), (''oldCredentialId'', list_at credentials 6),
         (''newCredentialId'', val new_seat7_credential), (''newPublicKey'', val new_seat7_public_key),
         (''controllerId'', list_at controllers 6), (''continuityEvidenceRefs'', arr [str ''continuity-2'']),
         (''reason'', str ''Hardware key rotation''), (''credentialType'', str ''WEBAUTHN''), (''algorithm'',
         str ''ES256'')])) (\<lambda>r3.
     bind_py (eval (arr [str ''affectedSeat'', str ''oldCredentialId'', str ''newCredentialId'', str ''newPublicKey'',
         str ''controllerId'', str ''continuityEvidenceRefs'', str ''reason''])) (\<lambda>r4.
     bind_py (custody_propose A token api community (JStr ''ROTATE_CREDENTIAL'') r3 r4 (JStr
         ''Explicit community decision'')) (\<lambda>rotate7.
     then_py (for_py (\<lambda>seat.
     then_py (sign_seat_ed A token api keys credentials rotate7 seat) (
     ret ())) [1, 2, 3, 4, 5, 6]) (
     bind_py (eval (loads_e A (item (val rotate7) ''payloadJson''))) (\<lambda>payload_r7.
     bind_py (ret (guardian_sign_count + 1)) (\<lambda>guardian_sign_count.
     bind_py (eval (obj [(''guardianEnvelope'', assertion_e A guardian_key guardian_sign_count (message_e GUARDIAN
         (val payload_r7))), (''newKeyPossessionEnvelope'', assertion_e A new_seat7_key 0 (message_e POSSESSION
         (val payload_r7)))])) (\<lambda>exec7.
     bind_py (call A (plus (plus (plus (val api) (str ''/proposals/'')) (item (val rotate7) ''id''))
         (str ''/activate'')) ''POST'' (val exec7) (val token) [200]) (\<lambda>activated7.
     then_py (check (eq A (item (val activated7) ''state'') (str ''ACTIVATED'')) []) (
     bind_py (call A (plus (plus (val api) (str ''/'')) (val community)) ''GET'' none (val token) [200]) (\<lambda>r8.
     bind_py (eval (item (val r8) ''seats'')) (\<lambda>seats_mid.
     then_py (check (both (eq A (item (at (val seats_mid) 6) ''credential_id'') (val new_seat7_credential)) (eq A
         (item (at (val seats_mid) 6) ''controller_id'') (list_at controllers 6))) []) (
     then_py (print_py ''PASS: WEBAUTHN -> WEBAUTHN rotation activated, controller preserved'') (
     bind_py (ret new_seat7_key) (\<lambda>seat7_key.
     bind_py (ret new_seat7_credential) (\<lambda>seat7_credential.
     bind_py (call A (plus (plus (val api) (str ''/'')) (val community)) ''GET'' none (val token) [200]) (\<lambda>r9.
     bind_py (eval (item (val r9) ''nextSequence'')) (\<lambda>seq2.
     bind_py (now_iso A) (\<lambda>declared2.
     bind_py (eval (obj [(''format'', str ''STIR-KEY-SUSPENSION-1''), (''tenantId'', val tenant), (''communityId'',
         val community), (''authorityId'', val authority), (''seat'', num 1), (''credentialId'', list_at credentials
         0), (''reasonCode'', str ''MOVE_TO_HARDWARE''), (''evidenceRefs'', arr [str ''migration-1'']), (''sequence'',
         val seq2), (''declaredAt'', val declared2)])) (\<lambda>suspension1.
     bind_py (ret (guardian_sign_count + 1)) (\<lambda>guardian_sign_count.
     then_py (call A (plus (plus (plus (val api) (str ''/'')) (val community)) (str ''/emergency-suspensions''))
         ''POST'' (obj [(''seatOrdinal'', num 1), (''credentialId'', list_at credentials 0), (''expectedSequence'',
         val seq2), (''declaredAt'', val declared2), (''reasonCode'', str ''MOVE_TO_HARDWARE''), (''evidenceRefs'',
         arr [str ''migration-1'']), (''guardianEnvelope'', assertion_e A guardian_key guardian_sign_count (message_e
         GUARDIAN (val suspension1)))]) (val token) [200]) (
     bind_py (generate_key A) (\<lambda>new_seat1_key.
     bind_py (ret (encode ''seat1-new-hardware'')) (\<lambda>new_seat1_cred_id.
     bind_py (uuid4_str A) (\<lambda>new_seat1_credential.
     bind_py (register A token api authority (JStr ''seat-1-incoming'') new_seat1_credential new_seat1_key
         new_seat1_cred_id) (\<lambda>new_seat1_public_key.
     bind_py (eval (obj [(''affectedSeat'', num 1), (''oldCredentialId'', list_at credentials 0),
         (''newCredentialId'', val new_seat1_credential), (''newPublicKey'', val new_seat1_public_key),
         (''controllerId'', list_at controllers 0), (''continuityEvidenceRefs'', arr [str ''continuity-1'']),
         (''reason'', str ''Software to hardware migration''), (''credentialType'', str ''WEBAUTHN''), (''algorithm'',
         str ''ES256'')])) (\<lambda>r13.
     bind_py (eval (arr [str ''affectedSeat'', str ''oldCredentialId'', str ''newCredentialId'', str ''newPublicKey'',
         str ''controllerId'', str ''continuityEvidenceRefs'', str ''reason''])) (\<lambda>r14.
     bind_py (custody_propose A token api community (JStr ''ROTATE_CREDENTIAL'') r13 r14 (JStr
         ''Explicit community decision'')) (\<lambda>rotate1.
     then_py (for_py (\<lambda>seat.
     then_py (sign_seat_ed A token api keys credentials rotate1 seat) (
     ret ())) [2, 3, 4, 5, 6]) (
     then_py (sign_seat7_webauthn A token api webauthn_sign_count seat7_key seat7_credential rotate1 ([200])) (
     bind_py (ret (webauthn_sign_count + 1)) (\<lambda>webauthn_sign_count.
     bind_py (eval (loads_e A (item (val rotate1) ''payloadJson''))) (\<lambda>payload_r1.
     bind_py (ret (guardian_sign_count + 1)) (\<lambda>guardian_sign_count.
     bind_py (eval (obj [(''guardianEnvelope'', assertion_e A guardian_key guardian_sign_count (message_e GUARDIAN
         (val payload_r1))), (''newKeyPossessionEnvelope'', assertion_e A new_seat1_key 0 (message_e POSSESSION
         (val payload_r1)))])) (\<lambda>exec1.
     bind_py (call A (plus (plus (plus (val api) (str ''/proposals/'')) (item (val rotate1) ''id''))
         (str ''/activate'')) ''POST'' (val exec1) (val token) [200]) (\<lambda>activated1.
     then_py (check (eq A (item (val activated1) ''state'') (str ''ACTIVATED'')) []) (
     bind_py (ret (0 :: int)) (\<lambda>new_seat1_sign_count.
     bind_py (call A (plus (plus (val api) (str ''/'')) (val community)) ''GET'' none (val token) [200])
         (\<lambda>r19.
     bind_py (eval (item (val r19) ''seats'')) (\<lambda>seats_after.
     then_py (check (both (eq A (item (at (val seats_after) 0) ''credential_id'') (val new_seat1_credential)) (eq A
         (item (at (val seats_after) 0) ''credential_type'') (str ''WEBAUTHN''))) []) (
     then_py (check (eq A (item (at (val seats_after) 0) ''controller_id'') (list_at controllers 0))
         ''same controller - only the credential changed'') (
     then_py (print_py
         ''PASS: same-controller rotation SOFTWARE_ED25519 -> WEBAUTHN activated, controller preserved'') (
     ret (new_seat1_key, new_seat1_credential)))))))))))))))))))))))))))))))))))))))))))))))"

definition custody_recovery_plan :: "plan" where
  "custody_recovery_plan =
     register_plan @ custody_propose_plan @ concat (replicate 6 (sign_seat_ed_plan)) @ [answered ''POST''
         ''/activate'' [200], answered ''GET'' ''/'' [200], answered ''GET'' ''/'' [200], answered ''POST''
         ''/emergency-suspensions'' [200]] @ register_plan @ custody_propose_plan @ concat (replicate 5
         (sign_seat_ed_plan)) @ sign_seat7_webauthn_plan ([200]) @ [answered ''POST'' ''/activate'' [200], answered
         ''GET'' ''/'' [200]]"

definition custody_history :: "('k, 'x) services \<Rightarrow> json \<Rightarrow> json \<Rightarrow> json \<Rightarrow> json \<Rightarrow> 'k list \<Rightarrow> json list \<Rightarrow> json \<Rightarrow> 'k \<Rightarrow> json \<Rightarrow> int \<Rightarrow> ('x host, unit) py" where
  "custody_history A token api community bea keys credentials changed new_seat1_key new_seat1_credential new_seat1_sign_count =
     bind_py (call A (plus (plus (plus (val api) (str ''/'')) (val community)) (str ''/credentials'')) ''GET'' none
         (val token) [200]) (\<lambda>history.
     then_py (check (any_e (val history) (\<lambda>h. both (eq A (item (val h) ''status'') (str ''REVOKED'')) (both
         (eq A (item (val h) ''credential_type'') (str ''SOFTWARE_ED25519'')) (eq A (item (val h) ''credential_id'')
         (list_at credentials 0))))) []) (
     then_py (check (any_e (val history) (\<lambda>h. both (eq A (item (val h) ''status'') (str ''REVOKED'')) (both
         (eq A (item (val h) ''credential_type'') (str ''WEBAUTHN'')) (eq A (item (val h) ''credential_id'') (list_at
         credentials 6))))) []) (
     then_py (check (any_e (val history) (\<lambda>h. both (eq A (item (val h) ''status'') (str ''ACTIVE'')) (both (eq
         A (item (val h) ''credential_type'') (str ''WEBAUTHN'')) (eq A (item (val h) ''credential_id'')
         (val new_seat1_credential))))) []) (
     then_py (print_py
         (''PASS: revoked credentials (both SOFTWARE_ED25519 and WEBAUTHN) remain in history with their '' @
         ''real type'')) (
     bind_py (eval (spread (val changed) [(''minimumParticipantFloor'', num 7)])) (\<lambda>r2.
     bind_py (eval (arr [str ''minimumParticipantFloor''])) (\<lambda>r3.
     bind_py (custody_propose A token api community (JStr ''AMEND_CONSTITUTION'') r2 r3 (JStr
         ''Explicit community decision'')) (\<lambda>frozen_check.
     then_py (for_py (\<lambda>seat.
     then_py (sign_seat_ed A token api keys credentials frozen_check seat) (
     ret ())) [2, 3, 4, 5, 6]) (
     then_py (call A (plus (plus (plus (val api) (str ''/proposals/'')) (item (val frozen_check) ''id''))
         (str ''/signatures'')) ''POST'' (obj [(''seatOrdinal'', num 1), (''credentialId'', val new_seat1_credential),
         (''credentialEnvelope'', assertion_e A new_seat1_key (new_seat1_sign_count + 1) (message_e DOMAIN (loads_e A
         (item (val frozen_check) ''payloadJson''))))]) (val token) [200]) (
     then_py (call A (plus (plus (plus (val api) (str ''/proposals/'')) (item (val frozen_check) ''id''))
         (str ''/activate'')) ''POST'' (obj []) (val token) [409]) (
     then_py (print_py
         ''PASS: 6-of-7 still cannot activate a constitutional action, regardless of credential type mix'') (
     bind_py (eval (fmt A [str ''/api/stir/tenants/'', item (at (item (val bea) ''tenants'') 0) ''id'',
         str ''/references/governance''])) (\<lambda>other_base.
     then_py (call A (plus (plus (val other_base) (str ''/'')) (val community)) ''GET'' none (item (val bea)
         ''accessToken'') [404]) (
     then_py (print_py ''PASS: tenant isolation holds for WebAuthn credentials exactly as for Ed25519 ones'') (
     print_py (''PASS HTTP WEBAUTHN HARDWARE CUSTODY: registration, proof-of-possession, valid constitutional '' @
         ''signature, replay/cross-proposal/cross-community/cross-tenant rejection, suspended credential '' @
         ''cannot sign, prior credential remains historically verifiable, software->WebAuthn and '' @
         ''WebAuthn->WebAuthn same-controller rotation both preserve the controller, 6-of-7 still cannot '' @
         ''activate, tenant isolation holds - the existing Ed25519 path kept working unchanged throughout.''))))))))))))))))"

definition custody_history_plan :: "plan" where
  "custody_history_plan =
     [answered ''GET'' ''/credentials'' [200]] @ custody_propose_plan @ concat (replicate 5 (sign_seat_ed_plan)) @
         [answered ''POST'' ''/signatures'' [200], answered ''POST'' ''/activate'' [409], answered ''GET'' ''/''
         [404]]"

definition custody_main :: "('k, 'x) services \<Rightarrow> ('x host, unit) py" where
  "custody_main A =
     bind_py (reference_fixtures A) (\<lambda>(tenant, base, ana, pedro, carlos, bea, binding).
     bind_py (eval (item (val ana) ''accessToken'')) (\<lambda>token.
     bind_py (eval (item (val binding) ''communityId'')) (\<lambda>community.
     bind_py (uuid4_str A) (\<lambda>authority.
     bind_py (eval (plus (val base) (str ''/references/governance''))) (\<lambda>api.
     bind_py (custody_bootstrap A tenant community authority token api) (\<lambda>(keys, credentials, controllers,
         webauthn_seat_key, guardian_id, guardian_key, constitution).
     bind_py (custody_replay A token api community keys credentials webauthn_seat_key constitution)
         (\<lambda>(changed, p3, payload3, webauthn_sign_count).
     bind_py (custody_suspend A tenant community authority token api credentials webauthn_seat_key guardian_key p3
         payload3) (\<lambda>guardian_sign_count.
     bind_py (custody_recovery A tenant community authority token api keys credentials controllers guardian_key
         webauthn_sign_count guardian_sign_count) (\<lambda>(new_seat1_key, new_seat1_credential).
     custody_history A token api community bea keys credentials changed new_seat1_key new_seat1_credential 0)))))))))"

definition custody_main_plan :: "plan" where
  "custody_main_plan =
     reference_fixtures_plan @ custody_bootstrap_plan @ custody_replay_plan @ custody_suspend_plan @
         custody_recovery_plan @ custody_history_plan"

section \<open>Conformance\<close>

lemma register_conforms: "conforms register_plan (register A token api authority c u k w)"
  unfolding register_plan_def register_def by (intro py_conf) simp_all

lemmas register_steps [py_conf] =
  register_conforms conforms_bind [OF register_conforms] conforms_then [OF register_conforms]


lemma custody_propose_conforms: "conforms custody_propose_plan (custody_propose A token api community action after affected reason)"
  unfolding custody_propose_plan_def custody_propose_def append.simps by (intro py_conf) simp_all

lemmas custody_propose_steps [py_conf] =
  custody_propose_conforms conforms_bind [OF custody_propose_conforms] conforms_then [OF custody_propose_conforms]
  conforms_bind_last [OF custody_propose_conforms] conforms_then_last [OF custody_propose_conforms]

lemma sign_seat_ed_conforms: "conforms sign_seat_ed_plan (sign_seat_ed A token api keys credentials p seat)"
  unfolding sign_seat_ed_plan_def sign_seat_ed_def append.simps by (intro py_conf) simp_all

lemmas sign_seat_ed_steps [py_conf] =
  sign_seat_ed_conforms conforms_bind [OF sign_seat_ed_conforms] conforms_then [OF sign_seat_ed_conforms]
  conforms_bind_last [OF sign_seat_ed_conforms] conforms_then_last [OF sign_seat_ed_conforms]

lemma sign_seat7_webauthn_conforms: "conforms (sign_seat7_webauthn_plan expected) (sign_seat7_webauthn A token api webauthn_sign_count seat7_key seat7_credential p expected)"
  unfolding sign_seat7_webauthn_plan_def sign_seat7_webauthn_def append.simps by (intro py_conf) simp_all

lemmas sign_seat7_webauthn_steps [py_conf] =
  sign_seat7_webauthn_conforms conforms_bind [OF sign_seat7_webauthn_conforms] conforms_then [OF sign_seat7_webauthn_conforms]
  conforms_bind_last [OF sign_seat7_webauthn_conforms] conforms_then_last [OF sign_seat7_webauthn_conforms]

lemma custody_bootstrap_conforms: "conforms custody_bootstrap_plan (custody_bootstrap A tenant community authority token api)"
  unfolding custody_bootstrap_plan_def custody_bootstrap_def append.simps by (intro py_conf) simp_all

lemmas custody_bootstrap_steps [py_conf] =
  custody_bootstrap_conforms conforms_bind [OF custody_bootstrap_conforms] conforms_then [OF custody_bootstrap_conforms]
  conforms_bind_last [OF custody_bootstrap_conforms] conforms_then_last [OF custody_bootstrap_conforms]

lemma custody_replay_conforms: "conforms custody_replay_plan (custody_replay A token api community keys credentials webauthn_seat_key constitution)"
  unfolding custody_replay_plan_def custody_replay_def append.simps by (intro py_conf) simp_all

lemmas custody_replay_steps [py_conf] =
  custody_replay_conforms conforms_bind [OF custody_replay_conforms] conforms_then [OF custody_replay_conforms]
  conforms_bind_last [OF custody_replay_conforms] conforms_then_last [OF custody_replay_conforms]

lemma custody_suspend_conforms: "conforms custody_suspend_plan (custody_suspend A tenant community authority token api credentials webauthn_seat_key guardian_key p3 payload3)"
  unfolding custody_suspend_plan_def custody_suspend_def append.simps by (intro py_conf) simp_all

lemmas custody_suspend_steps [py_conf] =
  custody_suspend_conforms conforms_bind [OF custody_suspend_conforms] conforms_then [OF custody_suspend_conforms]
  conforms_bind_last [OF custody_suspend_conforms] conforms_then_last [OF custody_suspend_conforms]

lemma custody_recovery_conforms: "conforms custody_recovery_plan (custody_recovery A tenant community authority token api keys credentials controllers guardian_key webauthn_sign_count guardian_sign_count)"
  unfolding custody_recovery_plan_def custody_recovery_def append.simps by (intro py_conf) simp_all

lemmas custody_recovery_steps [py_conf] =
  custody_recovery_conforms conforms_bind [OF custody_recovery_conforms] conforms_then [OF custody_recovery_conforms]
  conforms_bind_last [OF custody_recovery_conforms] conforms_then_last [OF custody_recovery_conforms]

lemma custody_history_conforms: "conforms custody_history_plan (custody_history A token api community bea keys credentials changed new_seat1_key new_seat1_credential new_seat1_sign_count)"
  unfolding custody_history_plan_def custody_history_def append.simps by (intro py_conf) simp_all

lemmas custody_history_steps [py_conf] =
  custody_history_conforms conforms_bind [OF custody_history_conforms] conforms_then [OF custody_history_conforms]
  conforms_bind_last [OF custody_history_conforms] conforms_then_last [OF custody_history_conforms]

lemma custody_main_conforms: "conforms custody_main_plan (custody_main A)"
  unfolding custody_main_plan_def custody_main_def append.simps by (intro py_conf)

lemmas custody_main_steps [py_conf] =
  custody_main_conforms conforms_bind [OF custody_main_conforms] conforms_then [OF custody_main_conforms]
  conforms_bind_last [OF custody_main_conforms] conforms_then_last [OF custody_main_conforms]

end
