(* ===== verification/Update.thy ===== *)
theory Update
  imports Host PyInt
begin

text \<open>
  The one-command update (scripts/update.py): the pull of this repository and of its siblings, each
  refused over tracked changes or off the main branch, the re-pinning of the vendor sources by
  initialize.py, and the deployment, for production with the environment its smoke check needs.
  git and the other scripts are commands of the parameter \<open>X\<close>; \<open>py\<close> is the path of the interpreter.
\<close>

section \<open>The script\<close>

definition SIBLINGS :: "string list" where
  "SIBLINGS = [''stir-frontend'', ''stir-backend'', ''stir-doc'']"

definition capture :: "'x exec \<Rightarrow> string list \<Rightarrow> ('x host, string) py" where
  "capture X args = bind_py (run_check X args None) (\<lambda>p. ret (strip (stdout p)))"

definition status_args :: "path \<Rightarrow> string list" where
  "status_args repo = [''git'', ''-C'', path_text repo, ''status'', ''--porcelain'']"

definition branch_args :: "path \<Rightarrow> string list" where
  "branch_args repo = [''git'', ''-C'', path_text repo, ''branch'', ''--show-current'']"

definition pull_args :: "path \<Rightarrow> string list" where
  "pull_args repo = [''git'', ''-C'', path_text repo, ''pull'', ''--ff-only'', ''origin'', ''main'']"

text \<open>The lines of \<open>git status --porcelain\<close> about tracked files.\<close>

definition tracked_changes :: "string \<Rightarrow> string list" where
  "tracked_changes out = filter (\<lambda>line. \<not> starts_with ''??'' line) (splitlines out)"

definition repo_name :: "path \<Rightarrow> string" where
  "repo_name repo = (if repo = [] then [] else last repo)"

definition pull :: "'x exec \<Rightarrow> path \<Rightarrow> ('x host, unit) py" where
  "pull X repo =
     bind_py (capture X (status_args repo)) (\<lambda>status.
     if join nl (tracked_changes status) \<noteq> []
     then raise (SystemExit (repo_name repo @ '' has uncommitted local changes - refusing to pull over them:''
            @ nl @ join nl (tracked_changes status) @ nl
            @ ''Commit, stash, or discard them yourself first (this script never does either).''))
     else bind_py (capture X (branch_args repo)) (\<lambda>branch.
     if branch \<noteq> ''main''
     then raise (SystemExit (repo_name repo @ '' is on branch \"'' @ branch
            @ ''\", not \"main\" - refusing to guess. Check it out yourself first.''))
     else then_py (print_py (''--- git pull: '' @ repo_name repo @ '' ---''))
       (bind_py (run_check X (pull_args repo) None) (\<lambda>p. ret ()))))"

text \<open>\<open>read_env\<close>: the first line of \<open>.env\<close> that sets the key.\<close>

fun env_value :: "string \<Rightarrow> string list \<Rightarrow> string option" where
  "env_value key [] = None"
| "env_value key (l # ls) =
     (let line = strip l in
      if line = [] \<or> starts_with ''#'' line then env_value key ls
      else case cut_at (CHR ''='') line of
          None \<Rightarrow> env_value key ls
        | Some (k, v) \<Rightarrow> if strip k = key then Some (strip v) else env_value key ls)"

definition read_env :: "path \<Rightarrow> string \<Rightarrow> ('x host, string option) py" where
  "read_env root key =
     bind_py (asks (\<lambda>h. exists_path (fs h) (root @ [''.env'']))) (\<lambda>there.
     if there then bind_py (read_text (root @ [''.env''])) (\<lambda>s. ret (env_value key (splitlines s)))
     else ret None)"

text \<open>\<open>subprocess.run(args, check=True, env=e)\<close>: the command sees another environment.\<close>

definition run_in_env :: "'x exec \<Rightarrow> (string \<rightharpoonup> string) \<Rightarrow> string list \<Rightarrow> ('x host, unit) py" where
  "run_in_env X e args h =
     (case run_check X args None (h\<lparr>env := e\<rparr>) of
        (Inl x, h') \<Rightarrow> (Inl x, h'\<lparr>env := env h\<rparr>)
      | (Inr p, h') \<Rightarrow> (Inr (), h'\<lparr>env := env h\<rparr>))"

definition deploy_env :: "path \<Rightarrow> bool \<Rightarrow> ('x host, string \<rightharpoonup> string) py" where
  "deploy_env root live =
     bind_py (asks env) (\<lambda>e.
     if live then
       bind_py (read_env root ''STIR_PUBLIC_BASE_URL'') (\<lambda>base_url.
       bind_py (read_env root ''STIR_ADMIN_EMAIL'') (\<lambda>admin_email.
       if base_url \<in> {None, Some []} \<or> admin_email \<in> {None, Some []}
       then raise (SystemExit ''--prod needs STIR_PUBLIC_BASE_URL and STIR_ADMIN_EMAIL set in .env for the post-deploy smoke check.'')
       else ret (e(''STIR_TEST_URL'' := base_url, ''STIR_TEST_LOGIN_EMAIL'' := admin_email))))
     else ret e)"

definition initialize_args :: "string \<Rightarrow> string list" where
  "initialize_args py = [py, ''scripts/initialize.py'']"

definition deploy_args :: "string \<Rightarrow> bool \<Rightarrow> string list" where
  "deploy_args py live = [py, ''scripts/deploy.py''] @ (if live then [''--prod''] else [])"

definition pull_sibling :: "'x exec \<Rightarrow> path \<Rightarrow> string \<Rightarrow> ('x host, unit) py" where
  "pull_sibling X root name =
     bind_py (asks (\<lambda>h. is_dir (fs h) (butlast root @ [name]))) (\<lambda>there.
       if there then pull X (butlast root @ [name]) else ret ())"

definition update_main :: "'x exec \<Rightarrow> string \<Rightarrow> path \<Rightarrow> bool \<Rightarrow> ('x host, unit) py" where
  "update_main X py root live =
     bind_py (asks (\<lambda>h. exists_path (fs h) (root @ [''.local'', ''production'']))) (\<lambda>marker.
     if live \<and> \<not> marker
     then raise (SystemExit ''--prod was passed but .local/production does not exist on this host - refusing.'')
     else
       then_py (pull X root)
       (then_py (for_py (pull_sibling X root) SIBLINGS)
       (then_py (print_py ''--- initialize.py: re-pinning public vendor sources ---'')
       (bind_py (run_check X (initialize_args py) None) (\<lambda>p.
        then_py (print_py (''--- deploy.py'' @ (if live then '' --prod'' else []) @ '': build, recreate, health check, smoke check ---''))
       (bind_py (deploy_env root live) (\<lambda>e.
        then_py (run_in_env X e (deploy_args py live))
        (print_py ''Update complete.''))))))))"

section \<open>Properties\<close>

lemma join_nothing: "join sep ls = [] \<Longrightarrow> list_all (\<lambda>l. l = []) ls"
  by (induction sep ls rule: join.induct) auto

lemma clean_lines:
  assumes "join nl (tracked_changes out) = []"
  shows "list_all (\<lambda>l. starts_with ''??'' l \<or> l = []) (splitlines out)"
  using join_nothing [OF assms] by (auto simp: tracked_changes_def list_all_iff)

text \<open>A command that fails or is refused leaves no other event.\<close>

lemma capture_trace: "capture X args h = (r, h') \<Longrightarrow> trace h' = trace h @ [Ran args (env h project_var)]"
  by (auto simp: capture_def bind_py_def ret_def dest!: run_check_state split: prod.splits sum.splits)

lemma git_args_differ: "pull_args repo \<noteq> status_args repo" "pull_args repo \<noteq> branch_args repo"
  by (simp_all add: status_args_def branch_args_def pull_args_def)

text \<open>
  C31: A repository is only pulled when there is nothing to lose: \<open>git pull\<close> runs only after
  \<open>git status\<close> succeeded and named untracked files alone, and \<open>git branch\<close> answered exactly \<open>main\<close>,
  whatever the commands do and however the pull ends.
\<close>

theorem pull_guarded:
  assumes ran: "Ran (pull_args repo) prj \<in> set (trace (snd (pull X repo h)))"
    and new: "Ran (pull_args repo) prj \<notin> set (trace h)"
  shows "\<exists>status branch h1 h2. capture X (status_args repo) h = (Inr status, h1)
     \<and> list_all (\<lambda>l. starts_with ''??'' l \<or> l = []) (splitlines status)
     \<and> capture X (branch_args repo) h1 = (Inr branch, h2) \<and> branch = ''main''"
proof -
  obtain s h1 where s: "capture X (status_args repo) h = (s, h1)" by force
  with capture_trace [OF s] new have n1: "Ran (pull_args repo) prj \<notin> set (trace h1)" by (auto simp: git_args_differ)
  obtain status where "s = Inr status" and clean: "join nl (tracked_changes status) = []"
    using ran s n1 by (cases s) (auto simp: pull_def bind_py_def raise_def split: if_splits)
  obtain b h2 where b: "capture X (branch_args repo) h1 = (b, h2)" by force
  with capture_trace [OF b] n1 have n2: "Ran (pull_args repo) prj \<notin> set (trace h2)" by (auto simp: git_args_differ)
  obtain branch where "b = Inr branch" and "branch = ''main''"
    using ran s \<open>s = Inr status\<close> clean b n2 by (cases b) (auto simp: pull_def bind_py_def raise_def split: if_splits)
  with s \<open>s = Inr status\<close> b clean_lines [OF clean] show ?thesis by blast
qed

text \<open>A checkout of this repository that is clean, beside a frontend that is not.\<close>

definition dirty_frontend :: "'x exec" where
  "dirty_frontend args inp v w =
     (Inr \<lparr>returncode = 0, stdout =
        (if args = status_args [''stir-frontend''] then '' M src/app.ts''
         else if ''branch'' \<in> set args then ''main'' else []), stderr = [], took = 1\<rparr>, w)"

definition two_repos :: "unit host" where
  "two_repos = \<lparr>fs = [([''stir-main''], Dir mode_755), ([''stir-frontend''], Dir mode_755)], env = Map.empty, now = 0, typed = [],
     fresh = 0, page_errors = [], trace = [], ext = ()\<rparr>"

lemma git_lines: "strip '' M src/app.ts'' = ''M src/app.ts''" "strip ''main'' = ''main''" "strip [] = []" "splitlines [] = []"
   "tracked_changes [] = []" "tracked_changes ''M src/app.ts'' = [''M src/app.ts'']"
  by code_simp+

theorem pull_guarded_witness:
  "\<exists>status branch h1 h2. capture dirty_frontend (status_args [''stir-main'']) two_repos = (Inr status, h1)
     \<and> list_all (\<lambda>l. starts_with ''??'' l \<or> l = []) (splitlines status)
     \<and> capture dirty_frontend (branch_args [''stir-main'']) h1 = (Inr branch, h2) \<and> branch = ''main''"
proof (rule pull_guarded)
  show "Ran (pull_args [''stir-main'']) None \<in> set (trace (snd (pull dirty_frontend [''stir-main''] two_repos)))"
    by (simp add: pull_def capture_def run_check_def run_io_def dirty_frontend_def py_run git_lines status_args_def branch_args_def pull_args_def
        elapsed_def print_run two_repos_def project_var_def path_text_def)
qed (simp add: two_repos_def)



text \<open>What a pull leaves in the log.\<close>

lemma pull_ran:
  assumes "pull X repo h = (Inr (), h')"
  shows "Ran (pull_args repo) (env h project_var) \<in> set (trace h')"
  using assms by (auto simp: pull_def bind_ok then_ok capture_def run_check_ok print_run split: if_splits dest!: run_io_state)

lemma pull_logs: "logs (\<lambda>e. True) (pull X repo)"
  unfolding pull_def capture_def by (intro py_logs logs_run_check) auto

text \<open>
  The refusal over uncommitted changes is not made up front: when the first sibling is refused
  (its working tree is dirty, or it is off the main branch), this repository has already been pulled,
  and the update ends with the sibling's exception, neither re-pinned nor deployed.
\<close>

theorem update_pulls_before_refusing:
  assumes guard: "live \<longrightarrow> exists_path (fs h) (root @ [''.local'', ''production''])"
    and root: "pull X root h = (Inr (), h1)"
    and sibling: "is_dir (fs h1) (butlast root @ [''stir-frontend''])"
    and refused: "pull X (butlast root @ [''stir-frontend'']) h1 = (Inl e, h2)"
  shows "update_main X py root live h = (Inl e, h2) \<and> Ran (pull_args root) (env h project_var) \<in> set (trace h2)"
proof
  have "pull_sibling X root ''stir-frontend'' h1 = (Inl e, h2)"
    using sibling refused by (simp add: pull_sibling_def bind_asks)
  then have "for_py (pull_sibling X root) SIBLINGS h1 = (Inl e, h2)"
    by (simp add: SIBLINGS_def then_py_def bind_py_def)
  with guard root show "update_main X py root live h = (Inl e, h2)"
    by (auto simp: update_main_def then_py_def bind_py_def asks_def)
  have "keeps (\<lambda>g. {Ran (pull_args root) (env h project_var)} \<subseteq> set (trace g)) (pull X (butlast root @ [''stir-frontend'']))"
    using pull_logs by (rule logs_keeps)
  with pull_ran [OF root] refused show "Ran (pull_args root) (env h project_var) \<in> set (trace h2)"
    by (auto dest: keepsE)
qed

lemma two_repos_pull:
  "\<exists>h1. pull dirty_frontend [''stir-main''] two_repos = (Inr (), h1) \<and> fs h1 = fs two_repos"
  by (simp add: pull_def capture_def run_check_def run_io_def dirty_frontend_def py_run git_lines status_args_def branch_args_def pull_args_def
        elapsed_def print_run path_text_def)

lemma frontend_refused:
  "\<exists>m h2. pull dirty_frontend [''stir-frontend''] h = (Inl (SystemExit m), h2)"
  by (simp add: pull_def capture_def run_check_def run_io_def dirty_frontend_def py_run git_lines status_args_def)

theorem update_pulls_before_refusing_witness:
  "\<exists>m h'. update_main dirty_frontend ''python'' [''stir-main''] False two_repos = (Inl (SystemExit m), h')
     \<and> Ran (pull_args [''stir-main'']) None \<in> set (trace h')"
proof -
  obtain h1 where h1: "pull dirty_frontend [''stir-main''] two_repos = (Inr (), h1)" "fs h1 = fs two_repos"
    using two_repos_pull by blast
  obtain m h2 where "pull dirty_frontend [''stir-frontend''] h1 = (Inl (SystemExit m), h2)"
    using frontend_refused by blast
  moreover have "is_dir (fs h1) [''stir-frontend'']" by (simp add: h1 two_repos_def is_dir_def fget_def)
  ultimately show ?thesis
    using update_pulls_before_refusing [of False two_repos "[''stir-main'']" dirty_frontend h1 "SystemExit m" h2 "''python''"] h1(1)
    by (auto simp: two_repos_def)
qed

end
