(* ===== verification/Status.thy ===== *)
theory Status
  imports Backup
begin

text \<open>
  The operational summary (scripts/status.py): container health, disk space, PostgreSQL, object
  storage and retained backups. What \<open>shutil.disk_usage\<close> reports and how its three numbers are
  rendered are parameters, a function from the directory to a line of text.
\<close>

section \<open>The script\<close>

definition run :: "'x exec \<Rightarrow> string list \<Rightarrow> ('x host, proc) py" where
  "run X args = run_io X args None"

text \<open>A line of \<open>docker compose ps\<close>: name and status separated by a tab.\<close>

definition ps_format :: string where
  "ps_format = ''{{.Name}}'' @ [CHR 0x09] @ ''{{.Status}}''"

definition ps_args :: "bool \<Rightarrow> string list" where
  "ps_args live = COMPOSE live @ [''ps'', ''--format'', ps_format]"

definition row_of :: "string \<Rightarrow> exn + string \<times> string" where
  "row_of line = (case cut_at (CHR 0x09) line of
     None \<Rightarrow> Inl (ValueError ''not enough values to unpack (expected 2, got 1)'')
   | Some r \<Rightarrow> Inr r)"

definition ps_lines :: "string \<Rightarrow> string list" where
  "ps_lines out = filter (\<lambda>line. strip line \<noteq> []) (splitlines (strip out))"

definition flag :: "string \<Rightarrow> string" where
  "flag status =
     (if contains ''healthy'' status
         \<or> (contains ''Up'' status \<and> \<not> contains ''starting'' status \<and> \<not> contains ''unhealthy'' status)
      then ''OK '' else ''!! '')"

text \<open>\<open>{name:<28}\<close>, for names of one byte per character.\<close>

definition ljust :: "nat \<Rightarrow> string \<Rightarrow> string" where
  "ljust n s = s @ replicate (n - length s) (CHR '' '')"

definition row_line :: "string \<times> string \<Rightarrow> string" where
  "row_line r = flag (snd r) @ ljust 28 (fst r) @ '' '' @ snd r"

definition show_rows :: "string list \<Rightarrow> ('x host, unit) py" where
  "show_rows lines =
     for_py (\<lambda>line. bind_py (lift_py (row_of line)) (\<lambda>r. print_py (row_line r))) lines"

definition ready_args :: "bool \<Rightarrow> string \<Rightarrow> string list" where
  "ready_args live password =
     COMPOSE live @ [''exec'', ''-T'', ''-e'', ''PGPASSWORD='' @ password, ''postgres'',
       ''pg_isready'', ''-U'', ''postgres'', ''-d'', ''idax'']"

definition storage_args :: "bool \<Rightarrow> string list" where
  "storage_args live =
     COMPOSE live @ [''exec'', ''-T'', ''minio'', ''curl'', ''-fsS'', ''http://localhost:9000/minio/health/live'']"

definition postgres_password :: "path \<Rightarrow> ('x host, string) py" where
  "postgres_password root =
     bind_py (asks (\<lambda>h. exists_path (fs h) (secret_file root ''postgres_password''))) (\<lambda>there.
     if there then bind_py (read_text (secret_file root ''postgres_password'')) (\<lambda>s. ret (strip s)) else ret [])"

definition show_postgres :: "'x exec \<Rightarrow> path \<Rightarrow> bool \<Rightarrow> ('x host, unit) py" where
  "show_postgres X root live =
     bind_py (postgres_password root) (\<lambda>password.
     if password \<noteq> []
     then bind_py (run X (ready_args live password)) (\<lambda>pg.
          print_py (''PostgreSQL: '' @ (if returncode pg = 0 then ''OK reachable and accepting connections''
            else ''NOT reachable: '' @ strip (stdout pg) @ strip (stderr pg))))
     else print_py ''PostgreSQL: skipped (no .local/secrets/postgres_password on this host)'')"

definition show_backups :: "path \<Rightarrow> ('x host, unit) py" where
  "show_backups root =
     bind_py (asks fs) (\<lambda>f.
     if exists_path f (backups_dir root)
     then (let runs = sort (subdirs f (backups_dir root)) in
          then_py (print_py [])
          (print_py (''Backups: '' @ show_nat (length runs) @ '' retained, most recent: ''
            @ (if runs \<noteq> [] then last runs else ''none''))))
     else then_py (print_py []) (print_py ''Backups: none taken yet (.local/backups does not exist)''))"

definition summary :: "'x exec \<Rightarrow> (path \<Rightarrow> string) \<Rightarrow> path \<Rightarrow> bool \<Rightarrow> ('x host, unit) py" where
  "summary X disk root live =
     then_py (print_py (''STIR status - '' @ (if live then ''PRODUCTION'' else ''development'') @ '' compose project''))
     (then_py (print_py (replicate 60 (CHR ''='')))
     (bind_py (run X (ps_args live)) (\<lambda>ps.
      if returncode ps \<noteq> 0
      then print_py (''Could not reach the Docker daemon or compose project: '' @ strip (stderr ps))
      else
        then_py (if ps_lines (stdout ps) = [] then print_py ''No containers are running for this compose project.'' else ret ())
        (then_py (show_rows (ps_lines (stdout ps)))
        (then_py (print_py [])
        (then_py (print_py ''Disk (host filesystem):'')
        (then_py (print_py (disk root))
        (bind_py (run X [''docker'', ''system'', ''df'']) (\<lambda>df.
         then_py (if returncode df = 0
                  then then_py (print_py ''Docker disk usage:'')
                       (for_py (\<lambda>line. print_py ('' '' @ '' '' @ line)) (splitlines (strip (stdout df))))
                  else ret ())
        (then_py (print_py [])
        (then_py (show_postgres X root live)
        (bind_py (run X (storage_args live)) (\<lambda>storage.
         then_py (print_py (''Object storage: '' @ (if returncode storage = 0 then ''OK reachable'' else ''NOT reachable'')))
        (show_backups root))))))))))))))"

definition status_main :: "'x exec \<Rightarrow> (path \<Rightarrow> string) \<Rightarrow> path \<Rightarrow> ('x host, unit) py" where
  "status_main X disk root = bind_py (asks (IS_PRODUCTION root)) (summary X disk root)"

section \<open>It only reads\<close>

text \<open>
  What the summary leaves in the log: commands among its four kinds, and printed lines.
\<close>

fun reading :: "bool \<Rightarrow> event \<Rightarrow> bool" where
  "reading live (Ran args prj) =
     (args \<in> {ps_args live, [''docker'', ''system'', ''df''], storage_args live} \<or> (\<exists>pw. args = ready_args live pw))"
| "reading live (Printed s) = True"
| "reading live e = False"

lemma reads_run: "reading live (Ran args None) \<Longrightarrow> logs (reading live) (run X args)"
  unfolding run_def by (intro logs_run_io) simp

lemma reads_postgres: "logs (reading live) (show_postgres X root live)"
  unfolding show_postgres_def postgres_password_def
  by (intro logs_bind logs_if logs_print logs_read logs_ret logs_asks reads_run) auto

lemma reads_rows: "logs (reading live) (show_rows lines)"
  unfolding show_rows_def by (intro logs_for logs_bind logs_lift logs_print) simp

lemma reads_backups: "logs (reading live) (show_backups root)"
  unfolding show_backups_def Let_def by (intro logs_bind logs_asks logs_if logs_then logs_print) simp_all

lemmas reads = logs_then logs_if logs_print logs_ret logs_for logs_bind reads_run reads_postgres reads_rows reads_backups

section \<open>Properties\<close>

lemma summary_reads: "logs (reading live) (summary X disk root live)"
  unfolding summary_def by (intro reads) simp_all

text \<open>
  the summary never changes anything: whatever docker answers and however the run ends, every event it adds
  to the log is a printed line or one of its four read-only commands (\<open>ps\<close>, \<open>system df\<close>, \<open>pg_isready\<close>, the
  health URL of the object storage); no file is written, removed or changed.
\<close>

theorem status_read_only:
  "\<exists>es. trace (snd (status_main X disk root h)) = trace h @ es
     \<and> list_all (reading (IS_PRODUCTION root h)) es"
proof -
  have "status_main X disk root h = summary X disk root (IS_PRODUCTION root h) h"
    by (simp add: status_main_def py_run)
  then show ?thesis using summary_reads unfolding logs_def by metis
qed

text \<open>
  The flag of a row is wrong for the containers that need attention: a status with \<open>unhealthy\<close> in it, such as
  \<open>Up 5 minutes (unhealthy)\<close>, is flagged OK, since \<open>healthy\<close> is a part of it; and the test for \<open>unhealthy\<close>
  after the \<open>or\<close> never decides anything.
\<close>

theorem status_unhealthy_is_ok:
  "take 3 (row_line (name, u @ ''unhealthy'' @ v)) = ''OK ''
   \<and> (flag status = ''OK '' \<longleftrightarrow> contains ''healthy'' status \<or> (contains ''Up'' status \<and> \<not> contains ''starting'' status))"
proof
  have "contains ''healthy'' (u @ ''un'' @ ''healthy'' @ v)" unfolding contains_append by (metis append_assoc)
  then show "take 3 (row_line (name, u @ ''unhealthy'' @ v)) = ''OK ''" by (simp add: row_line_def flag_def)
  show "flag status = ''OK '' \<longleftrightarrow> contains ''healthy'' status \<or> (contains ''Up'' status \<and> \<not> contains ''starting'' status)"
    using contains_trans [of "''healthy''" "''unhealthy''" status] by (auto simp: flag_def)
qed

end
