(* ===== verification/Sample.thy ===== *)
theory Sample
  imports Script
begin

text \<open>
  A small instance of the services, for the examples: a server that gives the answers of a list, one
  per call, a docker whose every command succeeds silently, a browser where every call does, and keys
  and generators that are constant.
\<close>

definition stub_keys :: "nat crypto" where
  "stub_keys = \<lparr>keygen = (\<lambda>n. n), public_raw = (\<lambda>k. replicate 32 0), ed_sign = (\<lambda>k m. replicate 64 0), ec_x = (\<lambda>k. 0), ec_y = (\<lambda>k. 0),
     es_sign = (\<lambda>k m. replicate 64 0)\<rparr>"

type_synonym answers = "(int \<times> string) list"

fun next_answer :: "answers server" where
  "next_answer meth url b hdrs [] = (Inl ConnectionErr, [])"
| "next_answer meth url b hdrs (a # rest) = (Inr a, rest)"

definition silent :: "'x exec" where
  "silent args inp v w = (Inr \<lparr>returncode = 0, stdout = [], stderr = [], took = 1\<rparr>, w)"

text \<open>A browser where every call succeeds and answers nothing.\<close>

definition idle_browser :: "'x driver" where
  "idle_browser l m args w = (Inr JNull, [], w)"

definition stub :: "(nat, answers) services" where
  "stub =
     \<lparr>server = next_answer, docker = silent, keys_of = stub_keys, root_dir = [], base_url = ''http://localhost:8089'',
      digit_limit = 4300, depth_limit = 1000, repr_json = (\<lambda>v. []), float_eq = (\<lambda>a b. False),
      float_int = (\<lambda>s. Inl (ValueError [])), to_float = (\<lambda>v. Inl (ValueError [])),
      urandom = (\<lambda>n i. replicate n 0), uuid_hex = (\<lambda>n. replicate 32 (CHR ''0'')), token_text = (\<lambda>k n. ''token''),
      iso_millis = (\<lambda>t. ''2026-01-01T00:00:00.000Z''), clock_millis = (\<lambda>t. 1000 * t),
      rsa_sign = (\<lambda>n m. []), playwright = idle_browser\<rparr>"

definition stub_host :: "answers \<Rightarrow> files \<Rightarrow> (string \<times> string) list \<Rightarrow> answers host" where
  "stub_host replies f e = \<lparr>fs = f, env = map_of e, now = 0, typed = [], fresh = 0, page_errors = [], trace = [], ext = replies\<rparr>"

lemma stub_host [simp]:
  "fs (stub_host r f e) = f" "env (stub_host r f e) = map_of e" "now (stub_host r f e) = 0" "trace (stub_host r f e) = []"
  "fresh (stub_host r f e) = 0" "page_errors (stub_host r f e) = []" "ext (stub_host r f e) = r"
  by (simp_all add: stub_host_def)

lemma spares_silent: "spares silent p"
  by (simp add: spares_def silent_def)

text \<open>A silent command only takes a second and leaves its event.\<close>

lemma silent_run:
  "run_io silent args inp h =
     (Inr \<lparr>returncode = 0, stdout = [], stderr = [], took = 1\<rparr>,
      h\<lparr>now := now h + 1, trace := trace h @ [Ran args (env h project_var)]\<rparr>)"
  "run_check silent args inp h = run_io silent args inp h"
  by (simp_all add: run_check_def run_io_def silent_def elapsed_def py_run)

lemma stub_docker [simp]: "docker stub = silent" "root_dir stub = []" "base_url stub = ''http://localhost:8089''"
  by (simp_all add: stub_def)

end
