(* ===== verification/Initialize.thy ===== *)
theory Initialize
  imports Sample
begin

text \<open>
  The initialisation of a checkout (scripts/initialize.py, scripts/prepare_shell.py): vendor clones at
  the commits of upstream.lock.json, the reviewed patches, the local secrets and the RSA key pair.
  git and openssl are commands of the services; \<open>nt\<close> says whether the host is Windows, and \<open>which\<close> is
  the answer of \<open>shutil.which('openssl')\<close>.
\<close>

section \<open>The reviewed patches\<close>

definition patches :: "(string \<times> string list) list" where
  "patches =
     [(''idax-ledger'', [''idax-ledger-0.3-migration-switch.patch'']),
      (''ostris'', [''ostris-0.3-migration-switch.patch'', ''ostris-0.4-public-application-surface.patch''])]"

definition git_in :: "path \<Rightarrow> string list \<Rightarrow> string list" where
  "git_in repo args = [''git'', ''-C'', path_text repo] @ args"

definition apply_patch :: "'x exec \<Rightarrow> path \<Rightarrow> string \<Rightarrow> string \<Rightarrow> ('x host, unit) py" where
  "apply_patch X root name filename =
     (let repo = root @ [''vendor'', name]; patch = path_text (root @ [''patches'', filename]) in
      bind_py (run_io X (git_in repo [''apply'', ''--check'', ''--reverse'', patch]) None) (\<lambda>reverse.
      if returncode reverse = 0 then ret ()
      else bind_py (run_io X (git_in repo [''apply'', ''--check'', ''--index'', patch]) None) (\<lambda>check.
        if returncode check \<noteq> 0 then raise (RuntimeError (''Unexpected modified vendor source: '' @ name))
        else bind_py (run_check X (git_in repo [''apply'', ''--index'', patch]) None) (\<lambda>p. ret ()))))"

definition prepare_repo :: "'x exec \<Rightarrow> path \<Rightarrow> string \<times> string list \<Rightarrow> ('x host, unit) py" where
  "prepare_repo X root entry =
     bind_py (run_check X (git_in (root @ [''vendor'', fst entry]) [''ls-files'', ''--others'', ''--exclude-standard'']) None) (\<lambda>p.
     if bstrip (stdout p) \<noteq> [] then raise (RuntimeError (''Unexpected untracked vendor source: '' @ fst entry))
     else for_py (apply_patch X root (fst entry)) (snd entry))"

definition prepare :: "'x exec \<Rightarrow> path \<Rightarrow> ('x host, unit) py" where
  "prepare X root = for_py (prepare_repo X root) patches"

section \<open>The vendor clones\<close>

definition git_output :: "'x exec \<Rightarrow> string list \<Rightarrow> ('x host, string) py" where
  "git_output X args = bind_py (run_check X args None) (\<lambda>p. ret (strip (stdout p)))"

definition git :: "'x exec \<Rightarrow> string list \<Rightarrow> ('x host, unit) py" where
  "git X args = bind_py (run_check X args None) (\<lambda>p. ret ())"

definition head_args :: "path \<Rightarrow> string list" where
  "head_args target = git_in target [''rev-parse'', ''HEAD'']"

definition field_text :: "json \<Rightarrow> string \<Rightarrow> exn + string" where
  "field_text spec k = bind_sum (item (val spec) k) as_str"

definition clone :: "'x exec \<Rightarrow> path \<Rightarrow> json \<Rightarrow> ('x host, unit) py" where
  "clone X target spec =
     bind_py (lift_py (field_text spec ''url'')) (\<lambda>url.
     then_py (git X [''git'', ''-c'', ''credential.helper='', ''clone'', ''--no-checkout'', url, path_text target])
     (bind_py (lift_py (field_text spec ''commit'')) (\<lambda>commit.
      git X (git_in target [''checkout'', ''--detach'', commit]))))"

definition repin :: "'x exec \<Rightarrow> path \<Rightarrow> json \<Rightarrow> string \<Rightarrow> ('x host, string) py" where
  "repin X target spec actual =
     then_py (git X (git_in target [''checkout'', ''--force'', actual]))
     (then_py (git X (git_in target [''clean'', ''-fd'']))
     (bind_py (lift_py (field_text spec ''commit'')) (\<lambda>commit.
      then_py (git X (git_in target [''fetch'', ''origin'', commit]))
     (then_py (git X (git_in target [''checkout'', ''--detach'', commit]))
     (git_output X (head_args target))))))"

definition vendor_one :: "('k, 'x) services \<Rightarrow> string \<times> json \<Rightarrow> ('x host, unit) py" where
  "vendor_one A entry =
     (let X = docker A; name = fst entry; spec = snd entry; target = root_dir A @ [''vendor'', name] in
      bind_py (asks (\<lambda>h. exists_path (fs h) target)) (\<lambda>there.
      then_py (if \<not> there then clone X target spec else ret ())
     (bind_py (git_output X (head_args target)) (\<lambda>actual.
      bind_py (git_output X (git_in target [''remote'', ''get-url'', ''origin''])) (\<lambda>origin.
      bind_py (lift_py (item (val spec) ''url'')) (\<lambda>url.
      if JStr origin \<noteq> url then raise (SystemExit (name @ '': unexpected origin''))
      else bind_py (lift_py (item (val spec) ''commit'')) (\<lambda>commit.
      bind_py (if JStr actual \<noteq> commit then repin X target spec actual else ret actual) (\<lambda>actual.
      if JStr actual \<noteq> commit
      then raise (SystemExit (name @ '': wrong upstream commit even after re-fetching; ''
             @ ''the pinned commit may not exist on '' @ origin))
      else ret ()))))))))"

definition lock_entries :: "('k, 'x) services \<Rightarrow> string \<Rightarrow> exn + (string \<times> json) list" where
  "lock_entries A text = bind_sum (loads (digit_limit A) (depth_limit A) text) (\<lambda>v.
     case v of JObj kvs \<Rightarrow> Inr kvs | _ \<Rightarrow> Inl (TypeError ''object has no attribute items''))"

section \<open>The local secrets\<close>

definition secret_names :: "string list" where
  "secret_names =
     [''postgres_password'', ''bootstrap_token'', ''login_password'', ''runtime_password'', ''storage_access_key'',
      ''storage_secret_key'', ''stir_auditor_password'', ''governed_verifier_password'']"

definition secret_dir :: "path \<Rightarrow> path" where
  "secret_dir root = root @ [''.local'', ''secrets'']"

definition ensure_secret :: "('k, 'x) services \<Rightarrow> bool \<Rightarrow> string \<Rightarrow> ('x host, unit) py" where
  "ensure_secret A nt name =
     (let p = secret_dir (root_dir A) @ [name] in
      bind_py (asks (\<lambda>h. exists_path (fs h) p)) (\<lambda>there.
      then_py (if \<not> there then bind_py next_fresh (\<lambda>n. write_text p (token_text A 36 n)) else ret ())
      (when_py (\<not> nt) (chmod p mode_644))))"

definition find_openssl :: "string option \<Rightarrow> bool \<Rightarrow> 'x host \<Rightarrow> string option" where
  "find_openssl which nt h =
     (if which \<in> {None, Some []} \<and> nt then
        (let candidate = filter (\<lambda>c. c \<noteq> []) (pieces (CHR ''/'') [] (case env h ''ProgramFiles'' of None \<Rightarrow> [] | Some d \<Rightarrow> d))
             @ [''Git'', ''usr'', ''bin'', ''openssl.exe''] in
         if exists_path (fs h) candidate then Some (path_text candidate) else which)
      else which)"

definition ensure_keys :: "('k, 'x) services \<Rightarrow> bool \<Rightarrow> string \<Rightarrow> ('x host, unit) py" where
  "ensure_keys A nt openssl =
     (let private = secret_dir (root_dir A) @ [''jwt_private_key'']; public = secret_dir (root_dir A) @ [''jwt_public_key''] in
      bind_py (asks (\<lambda>h. exists_path (fs h) private)) (\<lambda>there.
      then_py (if \<not> there then git (docker A) [openssl, ''genpkey'', ''-algorithm'', ''RSA'', ''-pkeyopt'', ''rsa_keygen_bits:3072'',
                 ''-out'', path_text private] else ret ())
     (bind_py (asks (\<lambda>h. exists_path (fs h) public)) (\<lambda>there.
      then_py (if \<not> there then git (docker A) [openssl, ''pkey'', ''-in'', path_text private, ''-pubout'', ''-out'', path_text public]
               else ret ())
      (when_py (\<not> nt) (then_py (chmod private mode_644) (chmod public mode_644)))))))"

definition key_pair :: "('k, 'x) services \<Rightarrow> bool \<Rightarrow> string option \<Rightarrow> ('x host, unit) py" where
  "key_pair A nt openssl =
     (case openssl of
        Some (c # cs) \<Rightarrow>
          then_py (ensure_keys A nt (c # cs))
            (print_py (''Public inputs pinned; secrets preserved/generated. Login: admin@stir.test; password in '' @
               ''.local/secrets/login_password''))
      | _ \<Rightarrow> raise (SystemExit ''OpenSSL is required for local RSA keys''))"

definition local_secrets :: "('k, 'x) services \<Rightarrow> bool \<Rightarrow> string option \<Rightarrow> ('x host, unit) py" where
  "local_secrets A nt which =
     then_py (mkdirs (secret_dir (root_dir A)))
     (then_py (when_py (\<not> nt) (chmod (secret_dir (root_dir A)) mode_700))
     (then_py (for_py (ensure_secret A nt) secret_names)
     (bind_py (asks (find_openssl which nt)) (key_pair A nt))))"

definition initialize_main :: "('k, 'x) services \<Rightarrow> bool \<Rightarrow> string option \<Rightarrow> ('x host, unit) py" where
  "initialize_main A nt which =
     then_py (mkdirs (root_dir A @ [''vendor'']))
     (bind_py (read_text (root_dir A @ [''upstream.lock.json''])) (\<lambda>text.
      bind_py (lift_py (lock_entries A text)) (\<lambda>entries.
      then_py (for_py (vendor_one A) entries)
     (then_py (prepare (docker A) (root_dir A))
     (bind_py (run_check (docker A) (git_in (root_dir A @ [''vendor'', ''idax-core-runtime'']) [''status'', ''--porcelain'']) None) (\<lambda>p.
      if bstrip (stdout p) \<noteq> [] then raise (SystemExit ''Unexpected Core vendor modifications'')
      else local_secrets A nt which))))))"

section \<open>Existing secrets\<close>

lemma holds_ensure:
  fixes A :: "('k, 'x) services"
  shows "keeps (holds p c) (ensure_secret A nt name)"
proof (rule keepsI)
  fix h :: "'x host"
  assume h: "holds p c h"
  let ?q = "secret_dir (root_dir A) @ [name]"
  show "holds p c (snd (ensure_secret A nt name h))"
  proof (cases "exists_path (fs h) ?q")
    case True
    then have "ensure_secret A nt name h = when_py (\<not> nt) (chmod ?q mode_644) h"
      by (simp add: ensure_secret_def Let_def py_run)
    moreover have "keeps (holds p c) (when_py (\<not> nt) (chmod ?q mode_644))"
      by (intro keeps_when holds_chmod)
    ultimately show ?thesis using h by (auto dest: keepsD)
  next
    case False
    with h have "?q \<noteq> p" using holds_exists by blast
    with h show ?thesis
      by (auto simp: holds_def ensure_secret_def Let_def py_run next_fresh_def write_text_def chmod_def fget_fput
          split: option.splits node.splits)
  qed
qed

text \<open>The invariant of every step, by the rules of the combinators.\<close>

lemma holds_git:
  assumes "spares X p"
  shows "keeps (holds p c) (git X args)" and "keeps (holds p c) (git_output X args)"
  using assms unfolding git_def git_output_def by (auto intro!: keeps_bind holds_run_check keeps_ret)

lemma holds_vendor:
  assumes "spares (docker A) p"
  shows "keeps (holds p c) (vendor_one A entry)"
  unfolding vendor_one_def Let_def clone_def repin_def using assms
  by (intro py_keeps holds_git) auto

lemma holds_prepare:
  assumes "spares X p"
  shows "keeps (holds p c) (prepare X root)"
  unfolding prepare_def prepare_repo_def apply_patch_def Let_def using assms
  by (intro py_keeps holds_run_check holds_run_io) auto

lemma holds_keys: "spares (docker A) p \<Longrightarrow> keeps (holds p c) (ensure_keys A nt openssl)"
  unfolding ensure_keys_def Let_def by (intro py_keeps holds_git holds_chmod) auto

lemma holds_key_pair: "spares (docker A) p \<Longrightarrow> keeps (holds p c) (key_pair A nt openssl)"
  unfolding key_pair_def
  by (auto intro!: py_keeps holds_keys holds_print split: option.splits list.splits)

lemma holds_local: "spares (docker A) p \<Longrightarrow> keeps (holds p c) (local_secrets A nt which)"
  unfolding local_secrets_def by (intro py_keeps holds_mkdirs holds_chmod holds_ensure holds_key_pair)

lemma holds_initialize: "spares (docker A) p \<Longrightarrow> keeps (holds p c) (initialize_main A nt which)"
  unfolding initialize_main_def
  by (intro py_keeps holds_mkdirs holds_read holds_vendor holds_prepare holds_run_check holds_local) auto

section \<open>New secrets\<close>

text \<open>\<open>present p h\<close>: there is something at the path \<open>p\<close>; nothing the script does itself removes it.\<close>

definition present :: "path \<Rightarrow> 'x host \<Rightarrow> bool" where
  "present p h \<longleftrightarrow> exists_path (fs h) p"

lemma present_run_check: "spares X p \<Longrightarrow> keeps (present p) (run_check X args inp)"
  by (rule keepsI)
    (auto simp: present_def exists_path_def run_check_def run_io_def py_run dest: spares_fget split: prod.splits sum.splits)

lemma present_chmod: "keeps (present p) (chmod q m)"
  by (rule keepsI) (auto simp: present_def exists_path_def chmod_def py_run fget_fput split: option.splits)

lemma present_write: "keeps (present p) (write_text q c)"
  by (rule keepsI) (auto simp: present_def exists_path_def write_text_def fget_fput)

lemma present_print: "keeps (present p) (print_py s)"
  by (rule keepsI) (simp add: present_def print_run)

lemma present_fresh: "keeps (present p) next_fresh"
  by (rule keepsI) (simp add: present_def next_fresh_def py_run)

lemma present_ensure: "keeps (present p) (ensure_secret A nt name)"
  unfolding ensure_secret_def Let_def by (intro py_keeps present_chmod present_write present_fresh)

lemma present_key_pair: "spares (docker A) p \<Longrightarrow> keeps (present p) (key_pair A nt openssl)"
  unfolding key_pair_def ensure_keys_def Let_def git_def
  by (auto intro!: py_keeps present_chmod present_run_check present_print split: option.splits list.splits)

lemma ensure_present:
  "ensure_secret A nt name h = (Inr u, h') \<Longrightarrow> present (secret_dir (root_dir A) @ [name]) h'"
  by (auto simp: ensure_secret_def Let_def py_run present_def exists_path_def next_fresh_def write_text_def chmod_def fget_fput
      split: if_splits option.splits)

lemma local_present:
  assumes run: "local_secrets A nt which h = (Inr (), h')" and name: "name \<in> set secret_names"
    and p: "p = secret_dir (root_dir A) @ [name]" and X: "spares (docker A) p"
  shows "present p h'"
proof -
  obtain g g' where g: "for_py (ensure_secret A nt) secret_names g = (Inr (), g')"
    and rest: "key_pair A nt (find_openssl which nt g') g' = (Inr (), h')"
    using run by (auto simp: local_secrets_def then_ok when_ok bind_asks)
  have "present p g'" using g name
    by (rule for_py_done) (auto simp: p intro: ensure_present present_ensure)
  with rest show ?thesis using present_key_pair [OF X] by (metis keepsE)
qed

lemma initialize_ends:
  "initialize_main A nt which h = (Inr (), h') \<Longrightarrow> \<exists>g. local_secrets A nt which g = (Inr (), h')"
  unfolding initialize_main_def bind_ok then_ok by (auto split: if_splits)

section \<open>Properties\<close>

text \<open>
  C30: Initialising again never changes a secret, and leaves none missing: a secret file that exists
  has the same content after any run of the script, whether it succeeds or raises, and after a run
  that succeeds each of the eight secrets is there (for programs, git and openssl, that leave the
  file alone).
\<close>

theorem initialize_secrets:
  assumes name: "name \<in> set secret_names" and p: "p = secret_dir (root_dir A) @ [name]"
    and X: "spares (docker A) p" and run: "initialize_main A nt which h = (r, h')"
  shows "(fget (fs h) p = Some (File m c) \<longrightarrow> (\<exists>m'. fget (fs h') p = Some (File m' c)))
     \<and> (r = Inr () \<longrightarrow> exists_path (fs h') p)"
proof (intro conjI impI)
  assume "fget (fs h) p = Some (File m c)"
  then have "holds p c h" by (simp add: holds_def)
  with holds_initialize [OF X] run show "\<exists>m'. fget (fs h') p = Some (File m' c)"
    by (metis holds_def keepsE)
next
  assume "r = Inr ()"
  with run initialize_ends show "exists_path (fs h') p"
    using local_present [OF _ name p X] by (metis present_def)
qed

text \<open>A checkout where everything is in place.\<close>

definition ready_files :: files where
  "ready_files =
     [([''upstream.lock.json''], File mode_644 ''{}''), ([], Dir mode_755), ([''vendor''], Dir mode_755), ([''.local''], Dir mode_755),
      ([''.local'', ''secrets''], Dir mode_755)]
     @ map (\<lambda>n. ([''.local'', ''secrets'', n], File mode_644 ''kept'')) (secret_names @ [''jwt_private_key'', ''jwt_public_key''])"

lemma bstrip_Nil: "bstrip [] = []" by code_simp

lemma ready_lock: "lock_entries stub ''{}'' = Inr []"
  by code_simp

lemma ready_prepare: "\<exists>h'. prepare silent root h = (Inr (), h') \<and> fs h' = fs h"
  by (simp add: prepare_def patches_def prepare_repo_def apply_patch_def Let_def silent_run py_run bstrip_Nil)

lemma ready_mkdirs:
  "mkdirs [''vendor''] h = (Inr (), h)" "mkdirs [''.local'', ''secrets''] h = (Inr (), h)" if "fs h = ready_files" for h :: "'x host"
  using that by (simp_all add: mkdirs_def modify_def ready_files_def exists_path_def fget_def)

lemma ready_exists:
  "name \<in> set secret_names \<Longrightarrow> exists_path ready_files [''.local'', ''secrets'', name]"
  "exists_path ready_files [''.local'', ''secrets'', ''jwt_private_key'']"
  "exists_path ready_files [''.local'', ''secrets'', ''jwt_public_key'']"
  by (auto simp: ready_files_def exists_path_def fget_def secret_names_def)

lemma ready_secrets:
  "set ns \<subseteq> set secret_names \<Longrightarrow> fs h = ready_files \<Longrightarrow> for_py (ensure_secret stub True) ns h = (Inr (), h)"
  by (induction ns) (simp_all add: ensure_secret_def Let_def py_run secret_dir_def ready_exists)

lemma ready_read: "fs h = ready_files \<Longrightarrow> read_text [''upstream.lock.json''] h = (Inr ''{}'', h)"
  by (simp add: read_text_def py_run ready_files_def fget_def)

lemma ready_run:
  "\<exists>h'. initialize_main stub True (Some ''openssl'') (stub_host [] ready_files []) = (Inr (), h')"
proof -
  let ?h = "stub_host [] ready_files []"
  obtain h1 where p: "prepare silent [] ?h = (Inr (), h1)" "fs h1 = ready_files"
    using ready_prepare [of "[]" ?h] by auto
  show ?thesis
    by (simp add: initialize_main_def local_secrets_def key_pair_def py_run ready_mkdirs ready_lock ready_read p silent_run
      bstrip_Nil ready_secrets secret_dir_def find_openssl_def ensure_keys_def ready_exists Let_def print_run)
qed

theorem initialize_secrets_witness:
  "\<exists>h'. initialize_main stub True (Some ''openssl'') (stub_host [] ready_files []) = (Inr (), h')
     \<and> (\<exists>m. fget (fs h') [''.local'', ''secrets'', ''login_password''] = Some (File m ''kept''))"
proof -
  obtain h' where h': "initialize_main stub True (Some ''openssl'') (stub_host [] ready_files []) = (Inr (), h')"
    using ready_run by blast
  have "fget (fs (stub_host [] ready_files [])) [''.local'', ''secrets'', ''login_password''] = Some (File mode_644 ''kept'')"
    by (simp add: ready_files_def fget_def secret_names_def)
  with h' initialize_secrets [of "''login_password''" "[''.local'', ''secrets'', ''login_password'']" stub True "Some ''openssl''"
      "stub_host [] ready_files []" "Inr ()" h' mode_644 "''kept''"]
  show ?thesis by (auto simp: secret_names_def secret_dir_def spares_silent)
qed

end
