(* ===== verification/Xrpl.thy ===== *)
theory Xrpl
  imports Script
begin

text \<open>
  The private XRPL network of the ledger (deploy/idax-ledger): the bootstrap of the nodes
  (init_xrpl_network.py), the anchoring account and its funding (init_anchoring_account.py) and the health
  report (xrpl_health.py). Command line values are arguments; \<open>resolve\<close> is \<open>expanduser().resolve()\<close>, \<open>user\<close>
  the \<open>uid:gid\<close> of the process and \<open>pretty\<close> the indented JSON of the report.
\<close>

section \<open>JSON-RPC\<close>

text \<open>
  A call as the standard opener makes it: a status that is not a success raises, and the body is
  parsed as JSON, an empty one too.
\<close>

definition rpc_body :: "string \<Rightarrow> json \<Rightarrow> string" where
  "rpc_body meth params = ascii_escape (dumps '' '' (JObj [(''method'', JStr meth), (''params'', JArr [params])]))"

definition post_json :: "('k, 'x) services \<Rightarrow> string \<Rightarrow> string \<Rightarrow> ('x host, json) py" where
  "post_json A url body =
     bind_py (exchange A ''POST'' url (Some body) [(''Content-Type'', ''application/json'')]) (\<lambda>(status, data).
       if status < 200 \<or> 300 \<le> status then raise (URLError (''HTTP Error '' @ show_int status))
       else if \<not> utf8_ok data then raise UnicodeDecodeError
       else lift_py (loads (digit_limit A) (depth_limit A) data))"

definition rpc :: "('k, 'x) services \<Rightarrow> string \<Rightarrow> string \<Rightarrow> json \<Rightarrow> ('x host, json) py" where
  "rpc A url meth params =
     bind_py (post_json A url (rpc_body meth params)) (\<lambda>answer.
     bind_py (eval (item (val answer) ''result'')) (\<lambda>result.
     bind_py (lift_py (truth (get (val result) ''error''))) (\<lambda>failed.
       if failed \<and> meth \<noteq> ''account_info'' then raise (SystemExit (meth @ '' failed'')) else ret result)))"

section \<open>The health report\<close>

definition NODES :: "(string \<times> string \<times> string) list" where
  "NODES =
     [(''validator-01'', ''http://127.0.0.1:5006'', ''proposing''),
      (''validator-02'', ''http://127.0.0.1:5007'', ''proposing''),
      (''validator-03'', ''http://127.0.0.1:5008'', ''proposing''),
      (''api-01'', ''http://127.0.0.1:5010'', ''full'')]"

definition server_info :: "('k, 'x) services \<Rightarrow> string \<Rightarrow> ('x host, json) py" where
  "server_info A url =
     bind_py (post_json A url (rpc_body ''server_info'' (JObj []))) (\<lambda>answer.
     eval (item (item (val answer) ''result'') ''info''))"

text \<open>\<open>(info.get('peers') or 0) >= 2\<close>; a float is at least 2 when its integer part is.\<close>

definition enough_peers :: "('k, 'x) services \<Rightarrow> exp \<Rightarrow> test" where
  "enough_peers A e = bind_sum (or_e e (num 0)) (\<lambda>v.
     case v of
       JFloat x \<Rightarrow> Inr (case float_int A x of Inr n \<Rightarrow> 2 \<le> n | Inl _ \<Rightarrow> x = ''Infinity'')
     | _ \<Rightarrow> (case whole_number v of
               Some n \<Rightarrow> Inr (2 \<le> n)
             | None \<Rightarrow> Inl (TypeError ''>= not supported between these instances'')))"

definition node_ok :: "('k, 'x) services \<Rightarrow> string \<Rightarrow> string \<Rightarrow> json \<Rightarrow> json \<Rightarrow> test" where
  "node_ok A name expected info validated =
     both (both (eq A (get (val info) ''server_state'') (str expected)) (negate (is_val (get (val validated) ''seq'') JNull)))
       (if starts_with ''validator'' name then enough_peers A (get (val info) ''peers'') else Inr True)"

definition health_row :: "string \<Rightarrow> json \<Rightarrow> json \<Rightarrow> exp" where
  "health_row name info validated =
     obj [(''node'', str name), (''networkId'', get (val info) ''network_id''), (''serverState'', get (val info) ''server_state''),
       (''peers'', get (val info) ''peers''), (''validatedLedgerSeq'', get (val validated) ''seq''),
       (''validatedLedgerHash'', get (val validated) ''hash''), (''completeLedgers'', get (val info) ''complete_ledgers''),
       (''validatorPublicKey'', get (val info) ''pubkey_validator''), (''buildVersion'', get (val info) ''build_version'')]"

definition node_report :: "('k, 'x) services \<Rightarrow> string \<times> string \<times> string \<Rightarrow> ('x host, json \<times> bool) py" where
  "node_report A node = (case node of (name, url, expected) \<Rightarrow>
     bind_py (server_info A url) (\<lambda>info.
     bind_py (eval (or_e (get (val info) ''validated_ledger'') (obj []))) (\<lambda>validated.
     bind_py (eval (health_row name info validated)) (\<lambda>row.
     bind_py (lift_py (node_ok A name expected info validated)) (\<lambda>ok. ret (row, ok))))))"

text \<open>\<open>{value:9}\<close> takes a string or a number; \<open>None\<close>, lists and dictionaries have no such format.\<close>

definition padded :: "('k, 'x) services \<Rightarrow> nat \<Rightarrow> exp \<Rightarrow> exp" where
  "padded A n e = bind_sum e (\<lambda>v.
     case v of
       JStr s \<Rightarrow> Inr (JStr (s @ replicate (n - length s) (CHR '' '')))
     | JBool b \<Rightarrow> Inr (JStr (replicate (n - 1) (CHR '' '') @ (if b then ''1'' else ''0'')))
     | JInt i \<Rightarrow> Inr (JStr (replicate (n - length (show_int i)) (CHR '' '') @ show_int i))
     | JFloat x \<Rightarrow> (let s = repr_json A v in Inr (JStr (replicate (n - length s) (CHR '' '') @ s)))
     | _ \<Rightarrow> Inl (TypeError ''unsupported format string passed to __format__''))"

definition row_text :: "('k, 'x) services \<Rightarrow> json \<Rightarrow> exp" where
  "row_text A row =
     fmt A [padded A 13 (item (val row) ''node''), str '' net='', item (val row) ''networkId'',
       str '' state='', padded A 9 (item (val row) ''serverState''), str '' peers='', item (val row) ''peers'',
       str '' validated='', item (val row) ''validatedLedgerSeq'', str '' complete='', item (val row) ''completeLedgers'',
       str '' build='', item (val row) ''buildVersion'']"

definition health_main :: "('k, 'x) services \<Rightarrow> (json \<Rightarrow> string) \<Rightarrow> string list \<Rightarrow> ('x host, int) py" where
  "health_main A pretty argv =
     bind_py (map_py (node_report A) NODES) (\<lambda>rows.
     let healthy = list_all snd rows in
     then_py (if ''--json'' \<in> set argv
              then print_py (pretty (JObj [(''healthy'', JBool healthy), (''nodes'', JArr (map fst rows))]))
              else then_py (for_py (\<lambda>row. print_e (row_text A row)) (map fst rows))
                     (print_py (if healthy then ''HEALTHY'' else ''NOT HEALTHY'')))
     (ret (if healthy then 0 else 1)))"

end
