(* ===== verification/Anchoring.thy ===== *)
theory Anchoring
  imports Xrpl Sample
begin

text \<open>
  The anchoring account of the ledger (deploy/idax-ledger/init_anchoring_account.py): its seed, kept
  once and never made again, and the funding payment, signed, submitted and waited for until a
  validated ledger holds it or ninety seconds have passed.
\<close>

section \<open>The script\<close>

definition anchor_dir :: "path \<Rightarrow> path" where
  "anchor_dir runtime = runtime @ [''anchoring'']"

definition seed_path :: "path \<Rightarrow> path" where
  "seed_path runtime = anchor_dir runtime @ [''secrets'', ''anchor.seed'']"

definition str_text :: "json \<Rightarrow> exn + string" where
  "str_text v = (case v of JStr s \<Rightarrow> Inr s | _ \<Rightarrow> Inl (TypeError ''data must be str''))"

text \<open>The wallet of the kept seed, or a new one, whose seed is written before it is used.\<close>

definition anchor_wallet :: "('k, 'x) services \<Rightarrow> string \<Rightarrow> path \<Rightarrow> ('x host, json) py" where
  "anchor_wallet A url runtime =
     bind_py (asks (\<lambda>h. exists_path (fs h) (seed_path runtime))) (\<lambda>there.
     if there then
       bind_py (read_text (seed_path runtime)) (\<lambda>seed.
       rpc A url ''wallet_propose'' (JObj [(''seed'', JStr (strip seed))]))
     else
       bind_py (rpc A url ''wallet_propose'' (JObj [])) (\<lambda>wallet.
       bind_py (eval (item (val wallet) ''master_seed'')) (\<lambda>seed.
       bind_py (lift_py (str_text seed)) (\<lambda>s.
       then_py (write_text (seed_path runtime) s)
       (then_py (chmod (seed_path runtime) mode_600)
       (ret wallet))))))"

definition payment :: "('k, 'x) services \<Rightarrow> int \<Rightarrow> int \<Rightarrow> json \<Rightarrow> json \<Rightarrow> json \<Rightarrow> json \<Rightarrow> exp" where
  "payment A network_id funding_drops root_address address root_info last_ledger =
     obj [(''TransactionType'', str ''Payment''), (''Account'', val root_address), (''Destination'', val address),
       (''Amount'', str (show_int funding_drops)), (''Fee'', str ''10''),
       (''Sequence'', int_e A (item (item (val root_info) ''account_data'') ''Sequence'')),
       (''LastLedgerSequence'', val last_ledger), (''NetworkID'', num network_id), (''Flags'', num 2147483648)]"

text \<open>
  One look at the transaction: \<open>except Exception\<close> turns an error into \<open>None\<close>, but \<open>SystemExit\<close>, which
  \<open>rpc\<close> raises for an error answer, is not an \<open>Exception\<close> and passes.
\<close>

definition look :: "('k, 'x) services \<Rightarrow> string \<Rightarrow> json \<Rightarrow> ('x host, json) py" where
  "look A url tx_hash h =
     (case rpc A url ''tx'' (JObj [(''transaction'', tx_hash)]) h of
        (Inl (SystemExit m), h') \<Rightarrow> (Inl (SystemExit m), h')
      | (Inl e, h') \<Rightarrow> (Inr JNull, h')
      | (Inr v, h') \<Rightarrow> (Inr v, h'))"

definition is_validated :: "json \<Rightarrow> test" where
  "is_validated v = both (truth (val v)) (truth (get (val v) ''validated''))"

lemma exchange_now: "now (snd (exchange A meth url b hdrs h)) = now h"
  by (auto simp: exchange_def split: prod.splits sum.splits)

lemma rpc_now: "now (snd (rpc A url meth params h)) = now h"
  using exchange_now [of A "''POST''" url "Some (rpc_body meth params)" "[(''Content-Type'', ''application/json'')]" h]
  by (auto simp: rpc_def post_json_def bind_py_def lift_py_def eval_def raise_def ret_def
      split: prod.splits sum.splits if_splits)

lemma look_end: "snd (look A url tx h) = snd (rpc A url ''tx'' (JObj [(''transaction'', tx)]) h)"
proof -
  obtain r h' where "rpc A url ''tx'' (JObj [(''transaction'', tx)]) h = (r, h')" by force
  then show ?thesis by (cases r rule: sum.exhaust) (simp_all add: look_def split: exn.splits)
qed

lemma look_now: "look A url tx h = (r, h') \<Longrightarrow> now h' = now h"
  using rpc_now look_end by (metis snd_conv)

function wait_funding :: "('k, 'x) services \<Rightarrow> string \<Rightarrow> json \<Rightarrow> int \<Rightarrow> json \<Rightarrow> ('x host, json) py" where
  "wait_funding A url tx_hash deadline validated h =
     (if now h < deadline then
        (case look A url tx_hash (snd (sleep 2 h)) of
           (Inl e, h') \<Rightarrow> (Inl e, h')
         | (Inr v, h') \<Rightarrow>
             (case is_validated v of
                Inl e \<Rightarrow> (Inl e, h')
              | Inr b \<Rightarrow> if b then (Inr v, h') else wait_funding A url tx_hash deadline v h'))
      else (Inr validated, h))"
  by pat_completeness auto

termination
  by (relation "measure (\<lambda>(A, url, tx, deadline, v, h). nat (deadline - now h))")
    (auto simp: sleep_def dest!: look_now [OF sym] look_now)

declare wait_funding.simps [simp del]

definition funded :: "('k, 'x) services \<Rightarrow> json \<Rightarrow> test" where
  "funded A v =
     both (is_validated v) (eq A (item (item (val v) ''meta'') ''TransactionResult'') (str ''tesSUCCESS''))"

definition fund ::
  "('k, 'x) services \<Rightarrow> string \<Rightarrow> int \<Rightarrow> int \<Rightarrow> string \<Rightarrow> json \<Rightarrow> ('x host, int) py" where
  "fund A url network_id funding_drops root_seed address =
     bind_py (rpc A url ''wallet_propose'' (JObj [(''seed'', JStr root_seed)])) (\<lambda>root.
     bind_py (eval (item (val root) ''account_id'')) (\<lambda>root_address.
     bind_py (rpc A url ''account_info'' (JObj [(''account'', root_address), (''ledger_index'', JStr ''validated'')])) (\<lambda>root_info.
     bind_py (rpc A url ''server_info'' (JObj [])) (\<lambda>server.
     bind_py (eval (plus (int_e A (item (item (item (val server) ''info'') ''validated_ledger'') ''seq'')) (num 20))) (\<lambda>last_ledger.
     bind_py (eval (payment A network_id funding_drops root_address address root_info last_ledger)) (\<lambda>transaction.
     bind_py (rpc A url ''sign'' (JObj [(''secret'', JStr root_seed), (''tx_json'', transaction), (''offline'', JBool True)])) (\<lambda>signed.
     bind_py (eval (item (val signed) ''tx_blob'')) (\<lambda>blob.
     bind_py (rpc A url ''submit'' (JObj [(''tx_blob'', blob)])) (\<lambda>submitted.
     bind_py (lift_py (eq A (get (val submitted) ''engine_result'') (str ''tesSUCCESS''))) (\<lambda>accepted.
     if \<not> accepted then raise (SystemExit ''funding submit failed'')
     else
       bind_py (eval (item (item (val submitted) ''tx_json'') ''hash'')) (\<lambda>tx_hash.
       bind_py (asks (\<lambda>h. now h + 90)) (\<lambda>deadline.
       bind_py (wait_funding A url tx_hash deadline JNull) (\<lambda>validated.
       bind_py (lift_py (funded A validated)) (\<lambda>ok.
       if \<not> ok then raise (SystemExit ''funding transaction was not validated successfully'')
       else
         then_py (print_e (fmt A [str ''IDAX Ledger anchoring account: '', val address]))
         (then_py (print_e (fmt A [str ''funded with '', num funding_drops, str '' drops; funding transaction '', val tx_hash,
            str '' validated in ledger '', item (val validated) ''ledger_index'']))
         (ret 0))))))))))))))))"

definition anchoring_main ::
  "('k, 'x) services \<Rightarrow> string \<Rightarrow> int \<Rightarrow> int \<Rightarrow> string \<Rightarrow> (string \<Rightarrow> path) \<Rightarrow> ('x host, int) py" where
  "anchoring_main A url network_id funding_drops runtime_arg resolve =
     (if runtime_arg = [] then raise (SystemExit ''IDAX_LEDGER_RUNTIME_PATH is required'')
      else
        (let runtime = resolve runtime_arg in
         then_py (mkdirs (anchor_dir runtime @ [''secrets'']))
        (then_py (chmod (anchor_dir runtime @ [''secrets'']) mode_700)
        (bind_py (anchor_wallet A url runtime) (\<lambda>wallet.
         bind_py (eval (item (val wallet) ''account_id'')) (\<lambda>address.
         bind_py (eval (plus (val address) (str nl))) (\<lambda>address_line.
         then_py (bind_py (lift_py (str_text address_line)) (write_text (anchor_dir runtime @ [''address.txt''])))
        (bind_py (rpc A url ''account_info'' (JObj [(''account'', address), (''ledger_index'', JStr ''validated'')])) (\<lambda>existing.
         bind_py (lift_py (truth (get (val existing) ''account_data''))) (\<lambda>there.
         if there then
           then_py (print_e (fmt A [str ''IDAX Ledger anchoring account: '', val address]))
           (then_py (print_py ''already funded; seed kept in the runtime secrets directory'')
           (ret 0))
         else
           bind_py (asks (\<lambda>h. env h ''IDAX_LEDGER_FUNDING_SEED'')) (\<lambda>root_seed.
           case root_seed of
             Some (c # cs) \<Rightarrow> fund A url network_id funding_drops (c # cs) address
           | _ \<Rightarrow> raise (SystemExit ''set IDAX_LEDGER_FUNDING_SEED in the process environment to fund the anchoring account''))))))))))))"

section \<open>Properties\<close>

text \<open>What a call leaves: at most one event, and the clock where it was.\<close>

lemma rpc_log: "length (shown (trace (snd (rpc A url meth params h)))) \<le> Suc (length (shown (trace h)))"
  by (auto simp: rpc_def post_json_def exchange_def bind_py_def lift_py_def eval_def raise_def ret_def
      split: prod.splits sum.splits if_splits)

lemma look_log: "look A url tx h = (r, h') \<Longrightarrow> length (shown (trace h')) \<le> Suc (length (shown (trace h)))"
  using rpc_log look_end by (metis snd_conv)

lemma sleep_parts [simp]:
  "now (snd (sleep n h)) = now h + n" "shown (trace (snd (sleep n h))) = shown (trace h)" "ext (snd (sleep n h)) = ext h"
  by (simp_all add: sleep_def)

text \<open>
  C32: The wait for the funding payment ends: with a deadline in \<open>d\<close> seconds it asks for the transaction
  at most once per started pause of two seconds, so at most 45 times in the ninety seconds of
  the script, whatever the node answers.
\<close>

theorem funding_wait_bounded:
  "length (shown (trace (snd (wait_funding A url tx (now h + d) v h))))
     \<le> length (shown (trace h)) + nat ((d + 1) div 2)"
proof (induction "nat d" arbitrary: d v h rule: less_induct)
  case less
  show ?case
  proof (cases "0 < d")
    case False
    then show ?thesis by (simp add: wait_funding.simps)
  next
    case True
    obtain r h' where l: "look A url tx (snd (sleep 2 h)) = (r, h')" by force
    have one: "length (shown (trace h')) \<le> Suc (length (shown (trace h)))" and t: "now h' = now h + 2"
      using look_log [OF l] look_now [OF l] by simp_all
    have n: "1 \<le> nat ((d + 1) div 2)" using True by linarith
    have step: "nat ((d + 1) div 2) = Suc (nat ((d - 2 + 1) div 2))" using True by linarith
    have small: "nat (d - 2) < nat d" using True by simp
    have "length (shown (trace (snd (wait_funding A url tx (now h' + (d - 2)) w h'))))
        \<le> length (shown (trace h')) + nat ((d - 2 + 1) div 2)" for w
      by (rule less.hyps [OF small])
    moreover have "now h' + (d - 2) = now h + d" using t by simp
    ultimately have "length (shown (trace (snd (wait_funding A url tx (now h + d) w h'))))
        \<le> length (shown (trace h')) + nat ((d - 2 + 1) div 2)" for w by metis
    also have "\<dots> \<le> length (shown (trace h)) + nat ((d + 1) div 2)" using one step by linarith
    finally have rest: "length (shown (trace (snd (wait_funding A url tx (now h + d) w h'))))
        \<le> length (shown (trace h)) + nat ((d + 1) div 2)" for w .
    show ?thesis
      using l one n rest True by (subst wait_funding.simps) (auto split: sum.splits)
  qed
qed

text \<open>
  C33: An error answer ends the wait at once: a node that has not seen the transaction yet answers with
  an \<open>error\<close>, for which \<open>rpc\<close> raises \<open>SystemExit\<close>; that is not an \<open>Exception\<close>, so the \<open>except\<close> does not
  turn it into another look, and the script ends although the payment was submitted and time is left.
\<close>

theorem funding_wait_aborts_on_error_answer:
  assumes time: "now h < deadline"
    and answer: "server A ''POST'' url (Some (rpc_body ''tx'' (JObj [(''transaction'', tx)])))
      [(''Content-Type'', ''application/json'')] (ext h) = (Inr (200, body), x)"
    and body: "utf8_ok body" "loads (digit_limit A) (depth_limit A) body = Inr (JObj [(''result'', JObj r)])"
    and error: "map_of r ''error'' = Some e" "truthy e"
  shows "\<exists>h'. wait_funding A url tx deadline v h = (Inl (SystemExit ''tx failed''), h') \<and> now h' = now h + 2"
proof -
  have "\<exists>h'. rpc A url ''tx'' (JObj [(''transaction'', tx)]) (snd (sleep 2 h)) = (Inl (SystemExit ''tx failed''), h')"
    using answer body error
    by (simp add: rpc_def post_json_def exchange_def bind_py_def lift_py_def eval_def raise_def item_def get_def truth_def)
  then obtain h' where "look A url tx (snd (sleep 2 h)) = (Inl (SystemExit ''tx failed''), h')"
    by (auto simp: look_def)
  with time look_now [OF this] show ?thesis
    by (subst wait_funding.simps) simp
qed

definition not_found :: string where
  "not_found = ''{\"result\":{\"error\":\"txnNotFound\"}}''"

definition found :: string where
  "found = ''{\"result\":{\"validated\":true}}''"

theorem funding_wait_aborts_on_error_answer_witness:
  "\<exists>h'. wait_funding stub ''http://127.0.0.1:5006'' (JStr ''ABC'') 90 JNull (stub_host [(200, not_found), (200, found)] [] [])
     = (Inl (SystemExit ''tx failed''), h')"
proof -
  have "utf8_ok not_found" "loads 4300 1000 not_found = Inr (JObj [(''result'', JObj [(''error'', JStr ''txnNotFound'')])])"
    by code_simp+
  then show ?thesis
    using funding_wait_aborts_on_error_answer [of "stub_host [(200, not_found), (200, found)] [] []" 90 stub
      "''http://127.0.0.1:5006''" "JStr ''ABC''" not_found "[(200, found)]" "[(''error'', JStr ''txnNotFound'')]" "JStr ''txnNotFound''" JNull]
    by (auto simp: stub_def)
qed

text \<open>The steps that leave every file, and those that write another one.\<close>

lemma holds_exchange: "keeps (holds p c) (exchange A meth url b hdrs)"
  by (rule keepsI) (auto simp: holds_def exchange_def split: prod.splits sum.splits)

lemma holds_eval: "keeps (holds p c) (eval e)"
  unfolding eval_def by (rule keeps_lift)

lemma holds_rpc: "keeps (holds p c) (rpc A url meth params)"
  unfolding rpc_def post_json_def
  by (intro py_keeps holds_exchange holds_eval) (auto intro!: py_keeps split: prod.splits)

lemma holds_print_e: "keeps (holds p c) (print_e e)"
  unfolding print_e_def by (intro py_keeps holds_print)

lemma holds_write: "q \<noteq> p \<Longrightarrow> keeps (holds p c) (write_text q s)"
  by (rule keepsI) (auto simp: holds_def write_text_def fget_fput)

lemma holds_sleep: "holds p c h \<Longrightarrow> holds p c (snd (sleep n h))"
  by (simp add: holds_def sleep_def)

lemma holds_look: "holds p c h \<Longrightarrow> look A url tx h = (r, h') \<Longrightarrow> holds p c h'"
  using holds_rpc look_end by (metis keepsD snd_conv)

lemma holds_wait:
  fixes A :: "('k, 'x) services"
  shows "keeps (holds p c) (wait_funding A url tx deadline v)"
proof (rule keepsI)
  fix h :: "'x host"
  show "holds p c h \<Longrightarrow> holds p c (snd (wait_funding A url tx deadline v h))"
  proof (induction A url tx deadline v h rule: wait_funding.induct)
    case (1 A url tx deadline v h)
    show ?case
    proof (cases "now h < deadline")
      case True
      obtain r h' where l: "look A url tx (snd (sleep 2 h)) = (r, h')" by force
      have "holds p c h'" using holds_look [OF holds_sleep [OF 1(2)] l] .
      with l True 1 show ?thesis by (subst wait_funding.simps) (auto split: sum.splits)
    qed (use 1 in \<open>simp add: wait_funding.simps\<close>)
  qed
qed

lemma holds_fund: "keeps (holds p c) (fund A url network_id funding_drops root_seed address)"
  unfolding fund_def by (intro py_keeps holds_rpc holds_eval holds_wait holds_print_e)

lemma holds_anchor_wallet:
  fixes A :: "('k, 'x) services"
  shows "keeps (holds (seed_path runtime) c) (anchor_wallet A url runtime)"
proof (rule keepsI)
  fix h :: "'x host"
  let ?again = "bind_py (read_text (seed_path runtime)) (\<lambda>seed. rpc A url ''wallet_propose'' (JObj [(''seed'', JStr (strip seed))]))"
  assume h: "holds (seed_path runtime) c h"
  then have "anchor_wallet A url runtime h = ?again h" by (simp add: anchor_wallet_def bind_asks holds_exists)
  moreover have "keeps (holds (seed_path runtime) c) ?again" by (intro py_keeps holds_read holds_rpc)
  ultimately show "holds (seed_path runtime) c (snd (anchor_wallet A url runtime h))" using h by (auto dest: keepsD)
qed

lemma address_not_seed: "anchor_dir runtime @ [''address.txt''] \<noteq> seed_path runtime"
  by (simp add: seed_path_def)

text \<open>
  The seed of the anchoring account is never written over: whatever the node answers and however
  the run ends, an existing seed file keeps its content.
\<close>

theorem anchoring_seed_kept:
  assumes "fget (fs h) (seed_path (resolve runtime_arg)) = Some (File m seed)"
  shows "\<exists>m'. fget (fs (snd (anchoring_main A url network_id drops runtime_arg resolve h))) (seed_path (resolve runtime_arg))
     = Some (File m' seed)"
proof -
  have "keeps (holds (seed_path (resolve runtime_arg)) seed) (anchoring_main A url network_id drops runtime_arg resolve)"
    unfolding anchoring_main_def Let_def
    by (intro py_keeps holds_mkdirs holds_chmod holds_rpc holds_eval holds_write holds_print_e holds_print address_not_seed
        holds_anchor_wallet) (auto intro: keeps_raise holds_fund split: option.splits list.splits)
  then show ?thesis using assms unfolding holds_def by (auto dest: keepsD)
qed

theorem anchoring_seed_kept_witness:
  "\<exists>m'. fget (fs (snd (anchoring_main stub ''http://127.0.0.1:5006'' 1 1 ''rt'' (\<lambda>s. [s])
      (stub_host [] [([''rt'', ''anchoring'', ''secrets'', ''anchor.seed''], File mode_600 ''sEd'')] []))))
      [''rt'', ''anchoring'', ''secrets'', ''anchor.seed''] = Some (File m' ''sEd'')"
  using anchoring_seed_kept [of "stub_host [] [([''rt'', ''anchoring'', ''secrets'', ''anchor.seed''], File mode_600 ''sEd'')] []"
      "\<lambda>s. [s]" "''rt''" mode_600 "''sEd''" stub "''http://127.0.0.1:5006''" 1 1]
  by (simp add: seed_path_def anchor_dir_def fget_def)

end
