(* ===== verification/XrplNetwork.thy ===== *)
theory XrplNetwork
  imports Sample
begin

text \<open>
  The bootstrap of the private XRPL network (deploy/idax-ledger/init_xrpl_network.py): the directories
  and validator keys of the nodes, the configuration made from the template, with a fresh token for a
  validator and none for the API node. \<open>user\<close> is the \<open>uid:gid\<close> of the process and \<open>resolve\<close> is
  \<open>expanduser().resolve()\<close>; docker is a command of the services.
\<close>

section \<open>The script\<close>

definition VALIDATORS :: "string list" where
  "VALIDATORS = [''validator-01'', ''validator-02'', ''validator-03'']"

definition API_NODE :: string where
  "API_NODE = ''api-01''"

definition NODE_IPS :: "(string \<times> string) list" where
  "NODE_IPS =
     [(''validator-01'', ''172.27.0.11''), (''validator-02'', ''172.27.0.12''), (''validator-03'', ''172.27.0.13''),
      (''api-01'', ''172.27.0.14'')]"

definition keys_args :: "string \<Rightarrow> string \<Rightarrow> path \<Rightarrow> string \<Rightarrow> string list" where
  "keys_args user img secrets_dir command =
     [''docker'', ''run'', ''--rm'', ''--user'', user, ''-v'', path_text secrets_dir @ '':/keys'',
      ''--entrypoint'', ''validator-keys'', img, command, ''--keyfile'', ''/keys/validator-keys.json'']"

definition validator_keys :: "('k, 'x) services \<Rightarrow> string \<Rightarrow> string \<Rightarrow> path \<Rightarrow> string \<Rightarrow> ('x host, string) py" where
  "validator_keys A user img secrets_dir command =
     bind_py (run_check (docker A) (keys_args user img secrets_dir command) None) (\<lambda>p. ret (stdout p))"

definition token_mark :: string where
  "token_mark = ''[validator_token]''"

definition token_block :: "string \<Rightarrow> exn + string" where
  "token_block out =
     (let lines = splitlines out in
      if token_mark \<notin> set lines then Inl (SystemExit ''validator-keys produced no [validator_token] block'')
      else Inr (join nl (map strip (takeWhile (\<lambda>l. strip l \<noteq> []) (tl (dropWhile (\<lambda>l. l \<noteq> token_mark) lines))))))"

definition secrets_of :: "path \<Rightarrow> string \<Rightarrow> path" where
  "secrets_of runtime node = runtime @ [node, ''secrets'']"

definition keyfile_of :: "path \<Rightarrow> string \<Rightarrow> path" where
  "keyfile_of runtime node = secrets_of runtime node @ [''validator-keys.json'']"

text \<open>The first pass: directories, keys that are missing, and the public key of a validator.\<close>

definition prepare_node ::
  "('k, 'x) services \<Rightarrow> string \<Rightarrow> string \<Rightarrow> path \<Rightarrow> string \<Rightarrow> ('x host, (string \<times> json) list) py" where
  "prepare_node A user img runtime node =
     then_py (for_py (\<lambda>sub. mkdirs (runtime @ [node, sub])) [''secrets'', ''config'', ''data'', ''log''])
     (then_py (chmod (secrets_of runtime node) mode_700)
     (if node \<in> set VALIDATORS then
        bind_py (asks (\<lambda>h. exists_path (fs h) (keyfile_of runtime node))) (\<lambda>there.
        then_py (if \<not> there then bind_py (validator_keys A user img (secrets_of runtime node) ''create_keys'') (\<lambda>out. ret ())
                 else ret ())
       (bind_py (read_text (keyfile_of runtime node)) (\<lambda>s.
        bind_py (eval (item (loads (digit_limit A) (depth_limit A) s) ''public_key'')) (\<lambda>k.
        ret [(node, k)]))))
      else ret []))"

definition validators_txt :: "(string \<times> json) list \<Rightarrow> exn + string" where
  "validators_txt keys =
     bind_sum (eval_list (map (\<lambda>n. need (KeyError n) (map_of keys n)) VALIDATORS)) (\<lambda>vs.
     bind_sum (map_in (\<lambda>v. bind_sum (as_str v) (\<lambda>s. Inr (JStr s))) vs) (\<lambda>ts.
     Inr (''[validators]'' @ nl @ join nl (map (\<lambda>t. case t of JStr s \<Rightarrow> s | _ \<Rightarrow> []) ts) @ nl)))"

text \<open>\<open>re.sub(r'\[validator_token\]\s*__VALIDATOR_TOKEN__\s*', '', config)\<close>\<close>

definition placeholder :: string where
  "placeholder = ''__VALIDATOR_TOKEN__''"

lemma drop_token_shorter:
  "length (lstrip (drop (length placeholder) (lstrip (drop (length token_mark) (c # cs))))) \<le> length cs"
  using length_lstrip [of "drop (length token_mark) (c # cs)"]
    length_lstrip [of "drop (length placeholder) (lstrip (drop (length token_mark) (c # cs)))"]
  by (simp add: token_mark_def placeholder_def)

function drop_token :: "string \<Rightarrow> string" where
  "drop_token [] = []"
| "drop_token (c # cs) =
     (let rest = lstrip (drop (length token_mark) (c # cs)) in
      if starts_with token_mark (c # cs) \<and> starts_with placeholder rest
      then drop_token (lstrip (drop (length placeholder) rest))
      else c # drop_token cs)"
  by pat_completeness auto

termination
  using drop_token_shorter by (relation "measure length") (auto simp: less_Suc_eq_le)

declare drop_token.simps [simp del]

definition node_config :: "string \<Rightarrow> int \<Rightarrow> string \<Rightarrow> string option \<Rightarrow> string" where
  "node_config template network_id node token =
     (let c = replace_all ''__NETWORK_ID__'' (show_int network_id) template;
          c = (if node \<in> set VALIDATORS
               then replace_first (''validator-03 51235'' @ nl) (''validator-03 51235'' @ nl @ API_NODE @ '' 51235'' @ nl) c
               else c);
          c = (case token of None \<Rightarrow> drop_token c | Some t \<Rightarrow> replace_all placeholder t c)
      in fold (\<lambda>(name, address). replace_all (name @ '' 51235'') (address @ '' 51235'')) NODE_IPS c)"

definition config_of :: "path \<Rightarrow> string \<Rightarrow> path" where
  "config_of runtime node = runtime @ [node, ''config'', ''xrpld.cfg'']"

definition node_token :: "('k, 'x) services \<Rightarrow> string \<Rightarrow> string \<Rightarrow> path \<Rightarrow> string \<Rightarrow> ('x host, string option) py" where
  "node_token A user img runtime node =
     (if node \<in> set VALIDATORS
      then bind_py (validator_keys A user img (secrets_of runtime node) ''create_token'') (\<lambda>out.
           bind_py (lift_py (token_block out)) (\<lambda>t. ret (Some t)))
      else ret None)"

definition install_config :: "path \<Rightarrow> string \<Rightarrow> string \<Rightarrow> string \<Rightarrow> ('x host, unit) py" where
  "install_config runtime unl node config =
     (if contains ''__'' config then raise (SystemExit (''unresolved template placeholder for '' @ node))
      else
        then_py (write_text (config_of runtime node) config)
        (then_py (write_text (runtime @ [node, ''config'', ''validators.txt'']) unl)
        (then_py (chmod (config_of runtime node) mode_600)
        (when_py (node \<in> set VALIDATORS) (chmod (keyfile_of runtime node) mode_600)))))"

definition configure_node ::
  "('k, 'x) services \<Rightarrow> string \<Rightarrow> string \<Rightarrow> int \<Rightarrow> path \<Rightarrow> string \<Rightarrow> string \<Rightarrow> string \<Rightarrow> ('x host, unit) py" where
  "configure_node A user img network_id runtime template unl node =
     bind_py (node_token A user img runtime node)
       (\<lambda>token. install_config runtime unl node (node_config template network_id node token))"

definition network_main ::
  "('k, 'x) services \<Rightarrow> string \<Rightarrow> int \<Rightarrow> string \<Rightarrow> string \<Rightarrow> path \<Rightarrow> (string \<Rightarrow> path) \<Rightarrow> ('x host, int) py" where
  "network_main A user network_id img runtime_arg template_path resolve =
     (if img = [] \<or> runtime_arg = [] then raise (SystemExit ''XRPLD_IMAGE and IDAX_LEDGER_RUNTIME_PATH are required'')
      else
        (let runtime = resolve runtime_arg in
         bind_py (read_text template_path) (\<lambda>template.
         bind_py (map_py (prepare_node A user img runtime) (VALIDATORS @ [API_NODE])) (\<lambda>keys.
         bind_py (lift_py (validators_txt (concat keys))) (\<lambda>unl.
         then_py (for_py (configure_node A user img network_id runtime template unl) (VALIDATORS @ [API_NODE]))
        (then_py (print_py (''XRPL network id: '' @ show_int network_id))
        (then_py (for_py (\<lambda>node. print_e (fmt A [str node, str '' validator public key: '',
            need (KeyError node) (map_of (concat keys) node)])) VALIDATORS)
        (then_py (print_py (API_NODE @ '': non-validating API node (no validator token)''))
        (then_py (print_py (''runtime root: '' @ path_text runtime))
        (ret 0))))))))))"

section \<open>Properties\<close>

lemma paths_differ:
  "runtime @ [node, ''config'', ''validators.txt''] \<noteq> config_of runtime node" "keyfile_of runtime node \<noteq> config_of runtime node"
  "config_of runtime node \<noteq> runtime @ [node, ''config'', ''validators.txt'']" "config_of runtime node \<noteq> keyfile_of runtime node"
  by (simp_all add: config_of_def keyfile_of_def secrets_of_def)

lemma install_done:
  "install_config runtime unl node config h = (Inr u, h')
     \<Longrightarrow> \<not> contains ''__'' config \<and> fget (fs h') (config_of runtime node) = Some (File mode_600 config)"
  by (auto simp: install_config_def py_run write_text_def chmod_def fget_fput paths_differ split: if_splits option.splits node.splits)


definition small_template :: string where
  "small_template = ''[network_id]'' @ nl @ ''__NETWORK_ID__'' @ nl @ ''[ips_fixed]'' @ nl @ ''validator-03 51235'' @ nl
     @ ''[validator_token]'' @ nl @ ''__VALIDATOR_TOKEN__'' @ nl"

lemma api_config: "node_config small_template 21 ''api-01'' None
   = ''[network_id]'' @ nl @ ''21'' @ nl @ ''[ips_fixed]'' @ nl @ ''172.27.0.13 51235'' @ nl"
  by code_simp

lemma api_configured:
  "\<exists>h'. configure_node stub ''0:0'' ''xrpld'' 21 [''rt''] small_template ''[validators]'' ''api-01'' (stub_host [] [] []) = (Inr (), h')"
proof -
  have "\<not> contains ''__'' (''[network_id]'' @ nl @ ''21'' @ nl @ ''[ips_fixed]'' @ nl @ ''172.27.0.13 51235'' @ nl)" by code_simp
  then show ?thesis
    by (simp add: configure_node_def node_token_def VALIDATORS_def api_config install_config_def py_run write_text_def chmod_def
        fget_fput paths_differ)
qed


text \<open>
  A token is made anew on every run: configuring a validator always starts by running
  \<open>validator-keys create_token\<close> on its key file, whatever a configuration from an earlier run holds.
\<close>

theorem token_made_anew:
  assumes "node \<in> set VALIDATORS"
  shows "\<exists>es. trace (snd (configure_node A user img network_id runtime template unl node h))
     = trace h @ Ran (keys_args user img (secrets_of runtime node) ''create_token'') (env h project_var) # es"
proof -
  let ?args = "keys_args user img (secrets_of runtime node) ''create_token''"
  obtain r h1 where c: "run_check (docker A) ?args None h = (r, h1)" by force
  have t: "trace h1 = trace h @ [Ran ?args (env h project_var)]" using run_check_state [OF c] by simp
  show ?thesis
  proof (cases r)
    case (Inl e)
    with assms c t show ?thesis by (simp add: configure_node_def node_token_def validator_keys_def bind_py_def)
  next
    case (Inr p)
    let ?rest = "bind_py (bind_py (lift_py (token_block (stdout p))) (\<lambda>t. ret (Some t)))
      (\<lambda>token. install_config runtime unl node (node_config template network_id node token))"
    have "configure_node A user img network_id runtime template unl node h = ?rest h1"
      using assms c Inr by (simp add: configure_node_def node_token_def validator_keys_def bind_py_def ret_def)
    moreover have "logs (\<lambda>e. True) ?rest"
      unfolding install_config_def by (intro py_logs logs_write logs_chmod) simp_all
    then obtain es where "trace (snd (?rest h1)) = trace h1 @ es" unfolding logs_def by blast
    ultimately show ?thesis using t by simp
  qed
qed

theorem token_made_anew_witness:
  "\<exists>es. trace (snd (configure_node stub ''0:0'' ''xrpld'' 21 [''rt''] small_template ''[validators]'' ''validator-01''
      (stub_host [] [] []))) = Ran (keys_args ''0:0'' ''xrpld'' [''rt'', ''validator-01'', ''secrets''] ''create_token'') None # es"
  using token_made_anew [of "''validator-01''" stub "''0:0''" "''xrpld''" 21 "[''rt'']" small_template "''[validators]''"
      "stub_host [] [] []"]
  by (simp add: VALIDATORS_def secrets_of_def)

end
