(* ===== verification/RestoreProof.thy ===== *)
theory RestoreProof
  imports Sample Backup
begin

text \<open>
  The round trip of backup and restore (scripts/backup_restore_e2e.py): marker data, backup.py, the
  destruction of both volumes of an isolated Compose project, restore.py and the proof that the
  marker is back. backup.py and restore.py run as commands, \<open>py\<close> is the path of the interpreter, and
  \<open>form\<close> is the multipart encoding of an upload by the requests package: its content type and body.
\<close>

section \<open>Commands\<close>

definition PHOTO :: "path \<Rightarrow> path" where
  "PHOTO root = root @ [''.local'', ''test-assets'', ''test-photo.jpg'']"

definition photo_digest :: "string \<Rightarrow> string" where
  "photo_digest content = hexdigest (sha256 (encode content))"

definition run_proof :: "('k, 'x) services \<Rightarrow> string list \<Rightarrow> ('x host, unit) py" where
  "run_proof A args = bind_py (run_check (docker A) args None) (\<lambda>p. ret ())"

definition compose_args :: "string \<Rightarrow> string list \<Rightarrow> string list" where
  "compose_args project args = [''docker'', ''compose'', ''-p'', project] @ args"

definition docker_compose :: "('k, 'x) services \<Rightarrow> string list \<Rightarrow> ('x host, unit) py" where
  "docker_compose A args = bind_py compose_project (\<lambda>project. run_proof A (compose_args project args))"

section \<open>The marker\<close>

definition PROOF_URL :: string where
  "PROOF_URL = ''http://localhost:8089''"

definition bearer_header :: "json \<Rightarrow> exn + string \<times> string" where
  "bearer_header token = bind_sum (as_str token) (\<lambda>t. Inr (''Authorization'', ''Bearer '' @ t))"

text \<open>A call of the requests package: any status comes back; \<open>json()\<close> parses the body.\<close>

definition http :: "('k, 'x) services \<Rightarrow> string \<Rightarrow> exp \<Rightarrow> string option \<Rightarrow> (string \<times> string) list \<Rightarrow> ('x host, int \<times> string) py" where
  "http A meth url body hdrs =
     bind_py (lift_py url) (\<lambda>u. bind_py (lift_py (as_str u)) (\<lambda>s. exchange A meth s body hdrs))"

definition json_of :: "('k, 'x) services \<Rightarrow> string \<Rightarrow> exp" where
  "json_of A data = loads (digit_limit A) (depth_limit A) data"

text \<open>The listing and its photo, posted with the token of the user.\<close>

definition publish ::
  "('k, 'x) services \<Rightarrow> (string \<Rightarrow> string \<times> string) \<Rightarrow> json \<Rightarrow> json \<Rightarrow> json \<Rightarrow> ('x host, json \<times> json) py" where
  "publish A form base title token =
     bind_py (lift_py (bearer_header token)) (\<lambda>auth.
     bind_py (http A ''POST'' (plus (val base) (str ''/listings''))
       (body_text (JObj [(''direction'', JStr ''OFFER''), (''title'', title),
          (''description'', JStr ''Proves the backup/restore round trip''), (''category'', JStr ''general''),
          (''resourceKind'', JStr ''physical'')])) [auth, (''Content-Type'', ''application/json'')]) (\<lambda>(status, data).
     then_py (check (Inr (status = 201)) [])
     (bind_py (eval (item (json_of A data) ''id'')) (\<lambda>listing_id.
      bind_py (read_text (PHOTO (root_dir A))) (\<lambda>photo.
      bind_py (http A ''POST'' (plus (val base) (fmt A [str ''/listings/'', val listing_id, str ''/photos'']))
        (Some (snd (form photo))) [auth, (''Content-Type'', fst (form photo))]) (\<lambda>(status, data).
      then_py (check (Inr (status = 201)) [])
     (bind_py (eval (item (json_of A data) ''id'')) (\<lambda>attachment_id.
      ret (listing_id, attachment_id)))))))))"

definition create_marker :: "('k, 'x) services \<Rightarrow> (string \<Rightarrow> string \<times> string) \<Rightarrow> ('x host, json) py" where
  "create_marker A form =
     bind_py (read_secret A ''login_password'') (\<lambda>login.
     bind_py (call A (str ''/api/shell/v1/auth/login'') ''POST'' (obj [(''email'', str ''admin@stir.test''),
         (''password'', val login)]) none [200]) (\<lambda>first.
     bind_py (eval (item (val first) ''accessToken'')) (\<lambda>admin.
     bind_py (uuid4_hex A) (\<lambda>u.
     bind_py (eval (upto (val u) 8)) (\<lambda>suffix.
     bind_py (eval (plus (str ''STIR Backup Restore E2E '') (val suffix))) (\<lambda>tenant_name.
     bind_py (sql_e A (fmt A [str ''select tenant_id from idax_core.tenant_create('', sq, str ''stir-backup-restore-'', val suffix,
         sq, str '', '', sq, val tenant_name, sq, str '', '', sq, str ''active'', sq, str '', false);'']) False) (\<lambda>tenant.
     bind_py (call A (fmt A [str ''/api/shell/v1/tenants/'', val tenant, str ''/roles'']) ''POST''
         (obj [(''key'', plus (str ''stir_backup_restore_'') (val suffix)), (''name'', str ''backup restore e2e''),
           (''description'', str ''Isolated development fixture''), (''enabled'', yes)]) (val admin) [200, 201]) (\<lambda>role.
     then_py (call A (plus (plus (fmt A [str ''/api/shell/v1/tenants/'', val tenant, str ''/roles/'']) (item (val role) ''id''))
         (str ''/permissions'')) ''PUT'' (arr [str ''stir.listings.read'', str ''stir.listings.create'', str ''stir.listings.update''])
         (val admin) [200])
    (bind_py (eval (fmt A [str ''marker-'', val suffix, str ''@stir.test''])) (\<lambda>email.
     bind_py (token_urlsafe A 24) (\<lambda>password.
     then_py (call A (fmt A [str ''/api/shell/v1/tenants/'', val tenant, str ''/users'']) ''POST''
         (obj [(''email'', val email), (''displayName'', str ''Marker''), (''authProvider'', str ''local''),
           (''subject'', val email), (''password'', val password), (''role'', str ''member''), (''enabled'', yes)])
         (val admin) [200, 201])
    (bind_py (call A (str ''/api/shell/v1/auth/login'') ''POST'' (obj [(''email'', val email), (''password'', val password)]) none [200])
       (\<lambda>session.
     then_py (call A (plus (fmt A [str ''/api/shell/v1/tenants/'', val tenant, str ''/roles/users/''])
         (item (item (val session) ''user'') ''id'')) ''PUT'' (obj [(''roleIds'', arr [item (val role) ''id''])]) (val admin) [204])
    (bind_py (eval (item (val session) ''accessToken'')) (\<lambda>token.
     bind_py (eval (plus (str ''Backup restore marker '') (val suffix))) (\<lambda>title.
     bind_py (eval (fmt A [str PROOF_URL, str ''/api/stir/tenants/'', val tenant])) (\<lambda>base.
     bind_py (publish A form base title token) (\<lambda>(listing_id, attachment_id).
     ret (JObj [(''tenant'', tenant), (''tenant_name'', tenant_name), (''listing_id'', listing_id), (''title'', title),
        (''attachment_id'', attachment_id), (''email'', email), (''password'', password)])))))))))))))))))))"

definition marker_present_in_db :: "('k, 'x) services \<Rightarrow> json \<Rightarrow> ('x host, bool) py" where
  "marker_present_in_db A marker =
     bind_py (sql_e A (fmt A [str ''select count(*) from stir.listing where id = '', sq, item (val marker) ''listing_id'', sq,
         str '' and title = '', sq, item (val marker) ''title'', sq, str '';'']) False) (\<lambda>listing_count.
     bind_py (sql_e A (fmt A [str ''select count(*) from stir.attachment where id = '', sq, item (val marker) ''attachment_id'', sq,
         str '' and status = '', sq, str ''ACTIVE'', sq, str '';'']) False) (\<lambda>attachment_count.
     lift_py (both (eq A (int_e A (val listing_count)) (num 1)) (eq A (int_e A (val attachment_count)) (num 1)))))"

section \<open>Waiting for a service\<close>

definition state_args :: "string \<Rightarrow> string \<Rightarrow> string list" where
  "state_args project service = [''docker'', ''compose'', ''-p'', project, ''ps'', service, ''--format'', ''{{.Status}}'']"

definition service_up :: "('k, 'x) services \<Rightarrow> string \<Rightarrow> string \<Rightarrow> ('x host, bool) py" where
  "service_up A project service =
     bind_py (run_check (docker A) (state_args project service) None) (\<lambda>p. ret (contains ''healthy'' (stdout p)))"

lemma service_up_event:
  "service_up A project service h = (r, h') \<Longrightarrow>
     now h \<le> now h' \<and> trace h' = trace h @ [Ran (state_args project service) (env h project_var)]"
  by (auto simp: service_up_def bind_py_def ret_def dest!: run_check_state split: prod.splits sum.splits)

function up_loop :: "('k, 'x) services \<Rightarrow> string \<Rightarrow> string \<Rightarrow> int \<Rightarrow> ('x host, bool) py" where
  "up_loop A project service deadline h =
     (if now h < deadline then
        (case service_up A project service h of
           (Inl e, h') \<Rightarrow> (Inl e, h')
         | (Inr ok, h') \<Rightarrow> if ok then (Inr True, h') else up_loop A project service deadline (snd (sleep 5 h')))
      else (Inr False, h))"
  by pat_completeness auto
termination
  by (relation "measure (\<lambda>(A, project, service, deadline, h). nat (deadline - now h))")
    (auto simp: sleep_def dest!: sym [of _ "service_up _ _ _ _"] service_up_event)

declare up_loop.simps [simp del]

interpretation up: polling "service_up A project service" "up_loop A project service" 5
  for A project service
  by unfold_locales (rule up_loop.simps, auto dest!: service_up_event)

definition wait_up :: "('k, 'x) services \<Rightarrow> string \<Rightarrow> int \<Rightarrow> ('x host, unit) py" where
  "wait_up A service timeout =
     bind_py compose_project (\<lambda>project.
     bind_py (asks (\<lambda>h. now h + timeout)) (\<lambda>deadline.
     bind_py (up_loop A project service deadline) (\<lambda>ok.
     if ok then ret () else raise (SystemExit (service @ '' did not become healthy in time'')))))"

section \<open>The backup, checked\<close>

text \<open>The size \<open>stat\<close> reports; that of a directory is never zero.\<close>

fun node_size :: "node \<Rightarrow> nat" where
  "node_size (Dir m) = 4096"
| "node_size (File m c) = length c"

definition filled :: "files \<Rightarrow> path \<Rightarrow> bool" where
  "filled f p = (case fget f p of None \<Rightarrow> False | Some n \<Rightarrow> 0 < node_size n)"

definition size_text :: "files \<Rightarrow> path \<Rightarrow> string" where
  "size_text f p = (case fget f p of None \<Rightarrow> [] | Some n \<Rightarrow> show_nat (node_size n))"

text \<open>\<open>decode(errors='ignore')\<close>: the bytes that are part of no code point are left out.\<close>

function utf8_kept :: "string \<Rightarrow> string" where
  "utf8_kept s =
     (if s = [] then []
      else if utf8_len s = 0 then utf8_kept (tl s)
      else take (utf8_len s) s @ utf8_kept (drop (utf8_len s) s))"
  by pat_completeness auto
termination
  by (relation "measure length") auto

declare utf8_kept.simps [simp del]

definition check_backup :: "('k, 'x) services \<Rightarrow> json \<Rightarrow> path \<Rightarrow> ('x host, unit) py" where
  "check_backup A marker dir =
     (let dump = dir @ [''postgres.sql'']; archive = dir @ [''minio_data.tar.gz''] in
      bind_py (asks fs) (\<lambda>f.
      then_py (assert_py (filled f dump) ''postgres.sql missing or empty'')
     (then_py (assert_py (filled f archive) ''minio_data.tar.gz missing or empty'')
     (bind_py (read_text dump) (\<lambda>text.
      then_py (check (member A (item (val marker) ''title'') (str (utf8_kept text)))
          ''the marker Listing's title must actually be inside the SQL dump'')
     (then_py (print_py (''Backup at '' @ path_text dir @ '': postgres.sql='' @ size_text f dump @ ''B minio_data.tar.gz='' @
          size_text f archive @ ''B''))
     (print_py ''Confirmed the marker title is present in the raw SQL dump.'')))))))"

definition backup_args :: "string \<Rightarrow> path \<Rightarrow> string list" where
  "backup_args py root = [py, path_text (root @ [''scripts'', ''backup.py''])]"

text \<open>What \<open>glob('*')\<close> finds among the backups.\<close>

definition backups :: "path \<Rightarrow> files \<Rightarrow> string list" where
  "backups root f = (if exists_path f (backups_dir root) then children f (backups_dir root) else [])"

definition repr_e :: "('k, 'x) services \<Rightarrow> exp \<Rightarrow> exp" where
  "repr_e A e = bind_sum e (\<lambda>v. Inr (JStr (repr_json A v)))"

definition verified_backup ::
  "('k, 'x) services \<Rightarrow> (string \<Rightarrow> string \<times> string) \<Rightarrow> string \<Rightarrow> ('x host, string \<times> json \<times> path) py" where
  "verified_backup A form py =
     bind_py compose_project (\<lambda>project.
     then_py (verify_isolated_container (docker A) project ''postgres'')
    (then_py (print_py (''--- Verified target compose project: \"'' @ project @ ''\" (not stir-dev) ---''))
    (then_py (print_py ''--- Step 1: creating marker data (Listing + real uploaded photo) ---'')
    (bind_py (create_marker A form) (\<lambda>marker.
     bind_py (marker_present_in_db A marker) (\<lambda>there.
     then_py (assert_py there ''marker not found in database right after creation'')
    (then_py (print_e (fmt A [str ''Marker created: tenant='', item (val marker) ''tenant'', str '' listing='',
         item (val marker) ''listing_id'', str '' title='', repr_e A (item (val marker) ''title'')]))
    (then_py (print_py ''--- Step 2: backup.py ---'')
    (bind_py (asks (\<lambda>h. backups (root_dir A) (fs h))) (\<lambda>before.
     then_py (run_proof A (backup_args py (root_dir A)))
    (bind_py (asks (\<lambda>h. children (fs h) (backups_dir (root_dir A)))) (\<lambda>after.
     let made = filter (\<lambda>n. n \<notin> set before) after; dir = backups_dir (root_dir A) @ [hd made] in
     then_py (assert_py (length made = 1) [])
    (then_py (check_backup A marker dir) (ret (project, marker, dir)))))))))))))))"

section \<open>Destruction and restore\<close>

definition volumes_of :: "string \<Rightarrow> string list" where
  "volumes_of project = [project @ ''_postgres_data'', project @ ''_minio_data'']"

definition remove_args :: "string \<Rightarrow> string list" where
  "remove_args project = [''docker'', ''volume'', ''rm''] @ volumes_of project"

definition destroy :: "('k, 'x) services \<Rightarrow> string \<Rightarrow> ('x host, unit) py" where
  "destroy A project =
     then_py (print_py ''--- Step 3: destroying BOTH volumes outright ---'')
    (then_py (docker_compose A [''down''])
    (then_py (assert_py (''stir-dev'' \<notin> set (volumes_of project)) ''refusing to remove a stir-dev-named volume'')
    (then_py (run_proof A (remove_args project))
    (print_py (''Volumes removed: '' @ join '' '' (volumes_of project))))))"

definition gone :: "('k, 'x) services \<Rightarrow> json \<Rightarrow> ('x host, unit) py" where
  "gone A marker =
     bind_py (sql_e A (fmt A [str ''select count(*) from idax_core.tenant where tenant_id = '', sq, item (val marker) ''tenant'', sq,
         str '';'']) False) (\<lambda>left_over.
     then_py (check (eq A (int_e A (val left_over)) (num 0))
         ''marker tenant must be GONE after destroying the volume and starting fresh'')
    (print_py ''Confirmed: marker tenant no longer exists in the freshly-migrated, empty database.''))"

text \<open>\<open>except AssertionError: raise\<close>, \<open>except Exception\<close>; \<open>SystemExit\<close> is no \<open>Exception\<close>.\<close>

definition confirm_gone :: "('k, 'x) services \<Rightarrow> json \<Rightarrow> ('x host, unit) py" where
  "confirm_gone A marker h =
     (case gone A marker h of
        (Inr u, h') \<Rightarrow> (Inr u, h')
      | (Inl e, h') \<Rightarrow>
          (case e of
             AssertionError m \<Rightarrow> (Inl e, h')
           | SystemExit m \<Rightarrow> (Inl e, h')
           | _ \<Rightarrow> (Inl (SystemExit ''Could not confirm data was actually destroyed''), h')))"

definition restore_args :: "string \<Rightarrow> path \<Rightarrow> path \<Rightarrow> string list" where
  "restore_args py root dir = [py, path_text (root @ [''scripts'', ''restore.py'']), path_text dir, ''--yes'']"

text \<open>Up to six reads of the photo, five seconds apart; the last answer counts.\<close>

fun fetch_photo :: "('k, 'x) services \<Rightarrow> exp \<Rightarrow> (string \<times> string) list \<Rightarrow> nat \<Rightarrow> int \<times> string \<Rightarrow> ('x host, int \<times> string) py" where
  "fetch_photo A url hdrs 0 photo = ret photo"
| "fetch_photo A url hdrs (Suc n) photo =
     bind_py (http A ''GET'' url None hdrs) (\<lambda>photo.
     if fst photo = 200 then ret photo else then_py (sleep 5) (fetch_photo A url hdrs n photo))"

definition verify_restored :: "('k, 'x) services \<Rightarrow> string \<Rightarrow> json \<Rightarrow> ('x host, unit) py" where
  "verify_restored A expected marker =
     then_py (print_py ''--- Step 6: verifying the marker Listing, title and photo are all back ---'')
    (bind_py (marker_present_in_db A marker) (\<lambda>there.
     then_py (assert_py there ''marker Listing/attachment row missing after restore'')
    (then_py (print_py ''Confirmed: marker Listing row and attachment row are back in Postgres.'')
    (bind_py (call A (str ''/api/shell/v1/auth/login'') ''POST''
        (obj [(''email'', item (val marker) ''email''), (''password'', item (val marker) ''password'')]) none [200]) (\<lambda>session.
     bind_py (eval (item (val session) ''accessToken'')) (\<lambda>token.
     bind_py (eval (fmt A [str PROOF_URL, str ''/api/stir/tenants/'', item (val marker) ''tenant''])) (\<lambda>base.
     bind_py (lift_py (bearer_header token)) (\<lambda>auth.
     bind_py (http A ''GET'' (plus (val base) (fmt A [str ''/listings/'', item (val marker) ''listing_id''])) None [auth])
       (\<lambda>(status, data).
     then_py (check (both (Inr (status = 200)) (eq A (item (json_of A data) ''title'') (item (val marker) ''title'')))
        ''restored Listing must be reachable through the real API with its original title'')
    (bind_py (fetch_photo A (plus (val base) (fmt A [str ''/attachments/'', item (val marker) ''attachment_id'', str ''/content'']))
        [auth] 6 (0, [])) (\<lambda>(status, content).
     then_py (check (Inr (status = 200)) [])
    (then_py (check (Inr (photo_digest content = expected)) [])
    (print_py (''Confirmed: restored Listing reachable via the real API, and its photo bytes are bit-identical to '' @
        ''the original upload.''))))))))))))))"

definition destroy_and_restore :: "('k, 'x) services \<Rightarrow> string \<Rightarrow> string \<Rightarrow> string \<times> json \<times> path \<Rightarrow> ('x host, unit) py" where
  "destroy_and_restore A py expected made = (case made of (project, marker, dir) \<Rightarrow>
     then_py (destroy A project)
    (then_py (print_py ''--- Step 4: bringing the stack back up EMPTY ---'')
    (then_py (docker_compose A [''up'', ''-d''])
    (then_py (wait_up A ''postgres'' 120)
    (then_py (wait_up A ''stir'' 300)
    (then_py (confirm_gone A marker)
    (then_py (print_py ''--- Step 5: restore.py ---'')
    (then_py (run_proof A (restore_args py (root_dir A) dir))
    (then_py (docker_compose A [''up'', ''-d''])
    (then_py (wait_up A ''postgres'' 120)
    (then_py (wait_up A ''minio'' 120)
    (then_py (wait_up A ''stir'' 300)
    (then_py (verify_restored A expected marker)
    (then_py (print_py (''PASS: backup.py produced a real dump+archive containing the marker data; destroying both '' @
        ''Docker volumes genuinely erased it; restore.py brought back the exact same Listing, its '' @
        ''title, and its photo (verified by SHA-256) through the real running application.''))
    (print_py ''STIR 0.4 PUBLIC PILOT MVP (backup/restore): PASS'')))))))))))))))"

text \<open>The digest of the photo is taken when the script is loaded, before its \<open>main\<close>.\<close>

definition proof_main :: "('k, 'x) services \<Rightarrow> (string \<Rightarrow> string \<times> string) \<Rightarrow> string \<Rightarrow> ('x host, unit) py" where
  "proof_main A form py =
     bind_py (read_text (PHOTO (root_dir A))) (\<lambda>photo.
     bind_py (verified_backup A form py) (destroy_and_restore A py (photo_digest photo)))"

section \<open>What is destroyed\<close>

text \<open>The commands that remove volumes.\<close>

fun removes_volumes :: "event \<Rightarrow> bool" where
  "removes_volumes (Ran args prj) = (take 3 args = [''docker'', ''volume'', ''rm''])"
| "removes_volumes e = False"

lemma harmless_commands [simp]:
  "\<not> removes_volumes (Ran (ps_args p s) prj)" "\<not> removes_volumes (Ran (inspect_args cid) prj)"
  "\<not> removes_volumes (Ran (sql_args p pw) prj)" "\<not> removes_volumes (Ran (compose_args p args) prj)"
  "\<not> removes_volumes (Ran (state_args p s) prj)"
  "\<not> removes_volumes (Ran (backup_args py root) prj)" "\<not> removes_volumes (Ran (restore_args py root d) prj)"
  by (simp_all add: ps_args_def inspect_args_def sql_args_def compose_args_def state_args_def backup_args_def restore_args_def
      path_text_def)

declare removes_volumes.simps(1) [simp del]

definition contained :: "event \<Rightarrow> bool" where
  "contained e \<longleftrightarrow> \<not> removes_volumes e \<or> (\<exists>p prj. isolated p \<and> e = Ran (remove_args p) prj)"

abbreviation harmless :: "event \<Rightarrow> bool" where "harmless e \<equiv> \<not> removes_volumes e"

lemma harmless_sql: "logs harmless (sql_e A e rt)"
  by (intro logs_sql_e) simp_all

lemma harmless_http: "logs harmless (http A meth url body hdrs)"
  unfolding http_def by (intro py_logs) simp

lemma harmless_run: "(\<And>prj. harmless (Ran args prj)) \<Longrightarrow> logs harmless (run_proof A args)"
  unfolding run_proof_def by (intro py_logs logs_run_check)

lemma harmless_compose: "logs harmless (docker_compose A args)"
  unfolding docker_compose_def by (intro py_logs harmless_run) simp

lemma harmless_publish: "logs harmless (publish A form base title token)"
  unfolding publish_def by (intro py_logs harmless_http) (auto intro!: py_logs harmless_http split: prod.splits)

lemma harmless_marker: "logs harmless (create_marker A form)"
  unfolding create_marker_def
  by (intro py_logs harmless_sql harmless_publish) (auto intro!: py_logs split: prod.splits)

lemma harmless_present: "logs harmless (marker_present_in_db A marker)"
  unfolding marker_present_in_db_def by (intro py_logs harmless_sql)

lemma harmless_check: "logs harmless (check_backup A marker dir)"
  unfolding check_backup_def Let_def by (intro py_logs) simp_all

lemma harmless_backup: "logs harmless (verified_backup A form py)"
  unfolding verified_backup_def Let_def
  by (intro py_logs logs_verify harmless_marker harmless_present harmless_run harmless_check) simp_all

lemma harmless_wait: "logs harmless (wait_up A service t)"
proof -
  have "logs harmless (service_up A p service)" for p
    unfolding service_up_def by (intro py_logs logs_run_check) simp
  then have "logs harmless (up_loop A p service d)" for p d by (rule up.loop_logs) simp
  then show ?thesis unfolding wait_up_def by (intro py_logs)
qed

lemma harmless_gone: "logs harmless (confirm_gone A marker)"
proof -
  have "logs harmless (gone A marker)" unfolding gone_def by (intro py_logs harmless_sql) simp
  moreover have "snd (confirm_gone A marker h) = snd (gone A marker h)" for h
    by (auto simp: confirm_gone_def split: prod.splits sum.splits exn.splits)
  ultimately show ?thesis by (simp add: logs_def)
qed

lemma harmless_fetch: "logs harmless (fetch_photo A url hdrs n photo)"
  by (induction n arbitrary: photo) (auto intro!: py_logs harmless_http logs_sleep)

lemma harmless_verify: "logs harmless (verify_restored A expected marker)"
  unfolding verify_restored_def
  by (intro py_logs harmless_present harmless_http harmless_fetch) (auto intro!: py_logs harmless_fetch split: prod.splits)

lemma contained_harmless: "logs harmless m \<Longrightarrow> logs contained m"
  by (erule logs_mono) (simp add: contained_def)

lemma contained_destroy: "isolated p \<Longrightarrow> logs contained (destroy A p)"
  unfolding destroy_def run_proof_def
  by (intro py_logs logs_run_check contained_harmless [OF harmless_compose]) (auto simp: contained_def)

lemma contained_rest: "isolated (fst made) \<Longrightarrow> logs contained (destroy_and_restore A py expected made)"
  unfolding destroy_and_restore_def
  by (cases made, simp)
    (intro logs_then contained_destroy contained_harmless [OF harmless_compose] contained_harmless [OF harmless_wait]
      contained_harmless [OF harmless_gone] contained_harmless [OF harmless_run] contained_harmless [OF harmless_verify]
      logs_print; simp add: contained_def)

text \<open>What the first half of the script has made sure of.\<close>

definition backup_complete :: "('k, 'x) services \<Rightarrow> json \<Rightarrow> path \<Rightarrow> files \<Rightarrow> bool" where
  "backup_complete A marker dir f \<longleftrightarrow>
     filled f (dir @ [''postgres.sql'']) \<and> filled f (dir @ [''minio_data.tar.gz''])
     \<and> (\<exists>m text. fget f (dir @ [''postgres.sql'']) = Some (File m text)
          \<and> member A (item (val marker) ''title'') (str (utf8_kept text)) = Inr True)"

lemma check_backup_ok:
  "check_backup A marker dir h = (Inr u, h') \<Longrightarrow> backup_complete A marker dir (fs h')"
  by (auto simp: check_backup_def Let_def run_ok bind_asks check_def read_text_def print_run backup_complete_def lift_py_def
      split: option.splits node.splits)

lemma checked:
  "isolated p \<Longrightarrow> ensures (\<lambda>(project, marker, dir) h. isolated project \<and> backup_complete A marker dir (fs h))
     (then_py (check_backup A marker dir) (ret (p, marker, dir)))"
  by (auto simp: ensures_def then_ok dest: check_backup_ok)

lemma verified_backup_ok:
  "ensures (\<lambda>(project, marker, dir) h. isolated project \<and> backup_complete A marker dir (fs h)) (verified_backup A form py)"
  unfolding verified_backup_def Let_def
  by (rule ensures_bind_value [OF compose_isolated], (rule checked, assumption | rule ensures_then | rule ensures_bind)+)

section \<open>Properties\<close>

text \<open>
  C24: The proof of the restore never removes a volume outside an isolated project: whatever docker,
  the server and the two scripts answer and however the run ends, a \<open>docker volume rm\<close> it runs names
  exactly the two volumes of one Compose project that is neither empty nor \<open>stir-dev\<close>.
\<close>

theorem only_isolated_volumes_removed:
  "\<exists>es. trace (snd (proof_main A form py h)) = trace h @ es \<and> list_all contained es"
proof -
  have "ensures (\<lambda>made h. isolated (fst made)) (verified_backup A form py)"
    using verified_backup_ok unfolding ensures_def by fastforce
  then have l: "logs contained (bind_py (verified_backup A form py) (destroy_and_restore A py expected))" for expected
    by (intro logs_bind_value [OF contained_harmless [OF harmless_backup]] contained_rest)
  have "logs contained (proof_main A form py)"
    unfolding proof_main_def by (rule logs_bind [OF logs_read]) (rule l)
  then show ?thesis unfolding logs_def by blast
qed


text \<open>A docker that answers every command with the same text.\<close>

definition reports :: "string \<Rightarrow> 'x exec" where
  "reports out args inp v w = (Inr \<lparr>returncode = 0, stdout = out, stderr = [], took = 1\<rparr>, w)"

text \<open>
  Two of its checks decide nothing: the assertion that no volume is named \<open>stir-dev\<close> compares whole
  volume names, which always end in \<open>_postgres_data\<close> or \<open>_minio_data\<close>, so it never fails; and a
  service whose status says \<open>unhealthy\<close> counts as up, since \<open>healthy\<close> is a part of it.
\<close>

theorem idle_checks:
  "''stir-dev'' \<notin> set (volumes_of project)
   \<and> (\<exists>h'. service_up (A\<lparr>docker := reports (u @ ''unhealthy'' @ v)\<rparr>) project service h = (Inr True, h'))"
proof
  show "''stir-dev'' \<notin> set (volumes_of project)"
    by (auto simp: volumes_of_def dest: arg_cong [where f = last])
  have "contains ''healthy'' (u @ ''un'' @ ''healthy'' @ v)" unfolding contains_append by (metis append_assoc)
  then show "\<exists>h'. service_up (A\<lparr>docker := reports (u @ ''unhealthy'' @ v)\<rparr>) project service h = (Inr True, h')"
    by (simp add: service_up_def run_check_def run_io_def reports_def py_run)
qed

end
