(* ===== verification/Protocols.thy ===== *)
theory Protocols
  imports Sample AuditCommit Isolation
begin

text \<open>
  What the plans of the end-to-end scripts say of whole runs: the exchange commits after both
  authorizations, the script under faults keeps to its plan and to local stacks and repeats the
  helpers of the exchange faithfully, and the isolation script returns only after its refusals.
\<close>

lemma answered_called: "answered meth part allowed e \<longleftrightarrow> (\<exists>u s. e = Called meth u s \<and> contains part u \<and> s \<in> set allowed)"
  by (cases e) auto

section \<open>Whole runs\<close>

text \<open>A script that conforms to a plan, seen from one run.\<close>

lemma conforms_run:
  assumes "conforms ps m"
  shows "\<exists>made odd. shown (trace (snd (m h))) = shown (trace h) @ made @ odd
     \<and> list_all2 (\<lambda>p e. p e) (take (length made) ps) made
     \<and> (if isl (fst (m h)) then length odd \<le> 1 else length made = length ps \<and> odd = [])"
proof -
  obtain made odd qs where c: "shown (trace (snd (m h))) = shown (trace h) @ made @ odd" "list_all2 (\<lambda>p e. p e) qs made"
    "if isl (fst (m h)) then (\<exists>rest. ps = qs @ rest) \<and> length odd \<le> 1 else qs = ps \<and> odd = []"
    using assms unfolding conforms_def by metis
  have n: "length qs = length made" using c(2) by (rule list_all2_lengthD)
  have "take (length made) ps = qs" using c(3) n by (auto split: if_splits)
  with c n show ?thesis by (intro exI [of _ made] exI [of _ odd]) auto
qed

lemma conforms_success:
  assumes "conforms ps m" and "m h = (Inr x, h')"
  shows "\<exists>made. shown (trace h') = shown (trace h) @ made \<and> list_all2 (\<lambda>p e. p e) ps made"
  using conforms_run [OF assms(1), of h] assms(2) by auto

section \<open>The economic exchange\<close>


definition exchange_replies :: answers where
  "exchange_replies =
     [(200, ''{}''), (409, ''''), (200, ''{\"executionState\":\"AWAITING_SIGNATURES\"}''),
      (200, ''{\"authorizationPayload\":\"p\"}''), (200, ''{}''),
      (200, ''{\"authorizationPayload\":\"p\"}''), (200, ''{}''),
      (200, ''{\"executionState\":\"COMMITTED\"}'')]"

definition session :: json where
  "session = JObj [(''accessToken'', JStr ''t'')]"

lemma stub_simps: "server stub = next_answer" "digit_limit stub = 4300" "depth_limit stub = 1000" "keys_of stub = stub_keys"
  by (simp_all add: stub_def)

lemma bodies:
  "decode_body stub ''{}'' = Inr (JObj [])"
  "decode_body stub [] = Inr JNull"
  "decode_body stub ''{\"executionState\":\"AWAITING_SIGNATURES\"}'' = Inr (JObj [(''executionState'', JStr ''AWAITING_SIGNATURES'')])"
  "decode_body stub ''{\"executionState\":\"COMMITTED\"}'' = Inr (JObj [(''executionState'', JStr ''COMMITTED'')])"
  "decode_body stub ''{\"authorizationPayload\":\"p\"}'' = Inr (JObj [(''authorizationPayload'', JStr ''p'')])"
  by code_simp+

lemma token: "item (val session) ''accessToken'' = str ''t''" "item_of session ''accessToken'' = str ''t''"
  by (simp_all add: session_def item_def)

lemma stub_call:
  "call stub (str path) meth (val b) (str tok) allowed h =
     (case ext h of [] \<Rightarrow> (Inl ConnectionErr, h)
      | (s, d) # rest \<Rightarrow> (let h' = h\<lparr>ext := rest, trace := trace h @ [Called meth (''http://localhost:8089'' @ path) s]\<rparr> in
          if tok \<noteq> [] then (if s \<notin> set allowed then (Inl (unexpected meth path s), h') else (decode_body stub d, h'))
          else (if s \<notin> set allowed then (Inl (unexpected meth path s), h') else (decode_body stub d, h'))))"
  by (cases "ext h") (auto simp: call_def call_with_def request_def bearer_def exchange_def py_run stub_simps Let_def split: list.splits)

lemma exchanged:
  "\<exists>trade h'. run_exchange stub (JStr ''/a'') session session (JStr ''1'') (0, JStr ''k'', JStr ''c'') (0, JStr ''k'', JStr ''c'')
     (stub_host exchange_replies [] []) = (Inr trade, h')"
  by (simp add: run_exchange_def token stub_call plus_def fmt_def bind_py_def then_py_def ret_def raise_def lift_py_def assert_py_def
    exchange_replies_def bodies Let_def check_def eq_def item_def obj_def eval_def authorization_e_def)


section \<open>The copies of the helpers\<close>

lemma call_eval: "bind_py (eval p) (\<lambda>v. call A (val v) meth body token allowed) = call A p meth body token allowed"
  by (cases p) (auto simp: call_def call_with_def eval_def fun_eq_iff bind_py_def lift_py_def)

text \<open>
  The helpers that the script under faults repeats are those of the exchange script: with no fault
  plan its \<open>run_exchange\<close> does the same calls with the same results, and so do its \<open>make_user\<close>,
  \<open>open_and_accept\<close> and \<open>activate_economic\<close>, for every server.
\<close>

theorem audit_helpers_agree:
  "audit_run_exchange A base_a initiator owner agreement initiator_key owner_key JNull
     = run_exchange A base_a initiator owner agreement initiator_key owner_key
   \<and> audit_make_user A admin tenant role_id label suffix = make_user A admin tenant role_id label suffix
   \<and> audit_open_and_accept A base_a ana pedro direction title category first_amount counter_amount
       = open_and_accept A base_a ana pedro direction title category first_amount counter_amount
   \<and> audit_activate_economic A base_a ana = activate_economic A base_a ana
   \<and> AUDIT_PERMISSIONS = PERMISSIONS"
  by (simp add: audit_run_exchange_def run_exchange_def call_eval audit_make_user_def make_user_def audit_open_and_accept_def
      open_and_accept_def audit_activate_economic_def activate_economic_def AUDIT_PERMISSIONS_def PERMISSIONS_def
      economic_permissions_def)

section \<open>The guard of the script under faults\<close>

text \<open>
  C28: The script under faults only works on a local stack: unless the host of the URL it is given is
  exactly \<open>localhost\<close> or \<open>127.0.0.1\<close> (port, user part, path and letter case aside), it raises before
  its first call, command or file access.
\<close>

theorem audit_only_local:
  "if url_hostname (test_url h) \<in> {Inr (Some ''localhost''), Inr (Some ''127.0.0.1'')}
   then local_only h = (Inr (), h) else \<exists>e. audit_main A h = (Inl e, h)"
  by (auto simp: audit_main_def local_only_def py_run split: sum.splits)

lemma host_examples:
  "url_hostname ''http://localhost:8089'' = Inr (Some ''localhost'')"
  "url_hostname ''http://localhost@stir.example/x'' = Inr (Some ''stir.example'')"
  "url_hostname ''http://LOCALHOST:1/a?b'' = Inr (Some ''localhost'')"
  "url_hostname ''http://localhost.stir.example:80'' = Inr (Some ''localhost.stir.example'')"
  "url_hostname ''localhost:8089'' = Inr None"
  by code_simp+


section \<open>Tenant isolation\<close>

definition denied :: "event \<Rightarrow> bool" where
  "denied e \<longleftrightarrow> (\<exists>m u s. e = Called m u s \<and> s \<in> {400, 403, 404})"

text \<open>\<open>refusals ps n\<close>: events that match the plan \<open>ps\<close> have at least \<open>n\<close> refusals among them.\<close>

definition refusals :: "plan \<Rightarrow> nat \<Rightarrow> bool" where
  "refusals ps n \<longleftrightarrow> (\<forall>es. list_all2 (\<lambda>p e. p e) ps es \<longrightarrow> n \<le> length (filter denied es))"

lemma refusals_any: "refusals ps 0"
  by (simp add: refusals_def)

lemma refusals_hit: "set allowed \<subseteq> {400, 403, 404} \<Longrightarrow> refusals ps n \<Longrightarrow> refusals (answered meth part allowed # ps) (Suc n)"
  by (auto simp: refusals_def list_all2_Cons1 answered_called denied_def)

lemma refusals_skip: "refusals ps n \<Longrightarrow> refusals (p # ps) n"
  unfolding refusals_def list_all2_Cons1 by (auto intro: le_SucI)

lemma refusals_append: "refusals ps m \<Longrightarrow> refusals qs n \<Longrightarrow> refusals (ps @ qs) (m + n)"
  unfolding refusals_def list_all2_append1 by (auto intro!: add_mono)

lemma probe_refusals: "refusals tenant_probe_plan 8"
proof -
  have "refusals tenant_probe_plan (0 + (0 + Suc (Suc (Suc (Suc (Suc (Suc (Suc (Suc 0)))))))))"
    unfolding tenant_probe_plan_def
    by (intro refusals_append refusals_any refusals_skip [OF refusals_hit] refusals_hit) simp_all
  then show ?thesis by (simp add: numeral_eq_Suc)
qed

lemma isolation_refusals: "refusals isolation_main_plan 16"
proof -
  have "refusals isolation_main_plan (0 + (0 + (0 + (0 + (0 + (8 + (8 + 0)))))))"
    unfolding isolation_main_plan_def by (intro refusals_append refusals_any probe_refusals)
  then show ?thesis by simp
qed


end
