(* ===== verification/Identifiers.thy ===== *)
theory Identifiers
  imports Independence
begin

text \<open>
  The UUIDv7 generator of scripts/participant_independence_e2e.py, bit by bit and in its text form.
\<close>

unbundle bit_operations_syntax

lemma uuid7_masks:
  "(0xFFFFFFFFFFFF :: int) = mask 48" "(0x0FFF :: int) = mask 12" "(0x3FFFFFFFFFFFFFFF :: int) = mask 62"
  "(0x7000 :: int) = push_bit 12 (mask 3)"
  by (simp_all add: mask_eq_exp_minus_1 push_bit_eq_mult)

lemma one_bit: "bit (0x8000000000000000 :: int) k \<longleftrightarrow> k = 63" "bit (2 :: int) k \<longleftrightarrow> k = 1"
  using bit_exp_iff [of 63 k, where 'a = int] bit_exp_iff [of 1 k, where 'a = int] by simp_all

lemma uuid7_bits:
  "bit (uuid7_number clock a b) k \<longleftrightarrow>
     (if k < 62 then bit (int (from_be 0 b)) k else if k < 64 then k = 63
      else if k < 76 then bit (int (from_be 0 a)) (k - 64) else if k < 80 then k \<noteq> 79
      else k < 128 \<and> bit clock (k - 80))"
  unfolding uuid7_number_def Let_def uuid7_masks
  by (auto simp: bit_or_iff bit_and_iff bit_push_bit_iff bit_mask_iff one_bit)

lemma uuid7_range: "0 \<le> uuid7_number clock a b" "uuid7_number clock a b < 2 ^ 128"
proof -
  have "take_bit 128 (uuid7_number clock a b) = uuid7_number clock a b"
    by (rule bit_eqI) (auto simp: bit_take_bit_iff uuid7_bits)
  then show "0 \<le> uuid7_number clock a b" "uuid7_number clock a b < 2 ^ 128"
    by (metis take_bit_nonnegative, metis take_bit_int_less_exp)
qed

lemma uuid7_fields:
  "drop_bit 80 (uuid7_number clock a b) = take_bit 48 clock"
  "take_bit 4 (drop_bit 76 (uuid7_number clock a b)) = 7"
  "take_bit 2 (drop_bit 62 (uuid7_number clock a b)) = 2"
proof -
  show "drop_bit 80 (uuid7_number clock a b) = take_bit 48 clock"
    by (rule bit_eqI) (auto simp: bit_take_bit_iff bit_drop_bit_eq uuid7_bits)
  have 7: "(7 :: int) = mask 3" by (simp add: mask_eq_exp_minus_1)
  show "take_bit 4 (drop_bit 76 (uuid7_number clock a b)) = 7"
    unfolding 7 by (rule bit_eqI) (auto simp: bit_take_bit_iff bit_drop_bit_eq uuid7_bits bit_mask_iff)
  show "take_bit 2 (drop_bit 62 (uuid7_number clock a b)) = 2"
    by (rule bit_eqI) (auto simp: bit_take_bit_iff bit_drop_bit_eq uuid7_bits one_bit)
qed

lemma variant_digit: "x div 4 mod 4 = 2 \<Longrightarrow> x mod 16 \<in> {8, 9, 10, 11}" for x :: int
proof -
  assume "x div 4 mod 4 = 2"
  then have "x mod 16 = 8 \<or> x mod 16 = 9 \<or> x mod 16 = 10 \<or> x mod 16 = 11" by presburger
  then show ?thesis by blast
qed

lemma nibbles: "nibble 7 = CHR ''7''" "nibble 8 = CHR ''8''" "nibble 9 = CHR ''9''" "nibble 10 = CHR ''a''" "nibble 11 = CHR ''b''"
  by code_simp+

text \<open>The text: thirty-two hexadecimal digits, the first for the highest four bits.\<close>

lemma length_hex [simp]: "length (hex_digits k n) = k"
  by (induction k n rule: hex_digits.induct) simp_all

lemma hex_digit: "i < k \<Longrightarrow> hex_digits k n ! i = nibble (n div 16 ^ (k - 1 - i) mod 16)"
proof (induction k n arbitrary: i rule: hex_digits.induct)
  case (2 k n)
  show ?case
  proof (cases "i < k")
    case True
    then have "k - i = Suc (k - 1 - i)" by simp
    with 2 True show ?thesis by (simp add: nth_append div_mult2_eq)
  next
    case False
    with 2 have "i = k" by simp
    then show ?thesis by (simp add: nth_append)
  qed
qed simp

lemma dashed_nth:
  assumes "length s = 32"
  shows "length (dashed s) = 36" "dashed s ! 14 = s ! 12" "dashed s ! 19 = s ! 16"
  using assms by (simp_all add: dashed_def nth_append)

text \<open>
  C29: Every identifier the fixtures make is a canonical UUIDv7, whatever the clock and the random
  bytes: it always fits 128 bits, its text has 36 characters with the version digit 7 and a variant
  digit among 8, 9, a and b, and its first 48 bits are the milliseconds of the clock modulo \<open>2 ^ 48\<close>.
\<close>

theorem uuid7_canonical:
  "\<exists>s. uuid_text (uuid7_number clock a b) = Inr s \<and> length s = 36 \<and> s ! 14 = CHR ''7'' \<and> s ! 19 \<in> set ''89ab''
     \<and> uuid7_number clock a b div 2 ^ 80 = clock mod 2 ^ 48"
proof -
  let ?n = "uuid7_number clock a b" and ?s = "dashed (hex_digits 32 (nat (uuid7_number clock a b)))"
  have r: "0 \<le> ?n" "?n < 2 ^ 128" by (rule uuid7_range)+
  have nat_div: "nat ?n div m mod 16 = nat (?n div int m mod 16)" for m
    using r(1) by (simp add: nat_div_distrib nat_mod_distrib div_int_pos_iff)
  have v: "?n div 2 ^ 76 mod 16 = 7" using uuid7_fields(2) [of clock a b] by (simp add: take_bit_eq_mod drop_bit_eq_div)
  have w: "?n div 2 ^ 60 mod 16 \<in> {8, 9, 10, 11}"
  proof -
    have "?n div 2 ^ 62 mod 4 = 2" using uuid7_fields(3) [of clock a b] by (simp add: take_bit_eq_mod drop_bit_eq_div)
    moreover have "?n div 2 ^ 62 = ?n div 2 ^ 60 div 4" by (simp add: zdiv_zmult2_eq [symmetric])
    ultimately have "?n div 2 ^ 60 div 4 mod 4 = 2" by simp
    then show ?thesis by (rule variant_digit)
  qed
  have "?s ! 14 = nibble (nat (?n div 2 ^ 76 mod 16))" "?s ! 19 = nibble (nat (?n div 2 ^ 60 mod 16))"
    using nat_div [of "16 ^ 19"] nat_div [of "16 ^ 15"] by (simp_all add: dashed_nth hex_digit)
  with v w have "?s ! 14 = CHR ''7''" "?s ! 19 \<in> set ''89ab''" by (auto simp: nibbles)
  with r uuid7_fields(1) [of clock a b] show ?thesis by (simp add: uuid_text_def dashed_nth take_bit_eq_mod drop_bit_eq_div)
qed

end
