(* ===== verification/Browser.thy ===== *)
theory Browser
  imports Script
begin

text \<open>
  The browser scripts drive pages through Playwright (sync API): this theory has the locators and
  method calls they use, over the driver of the services, and the shape of their sessions. A locator
  is evaluated to the chain of methods that makes it; only method calls reach the driver, and each
  is one event of the log.
\<close>

section \<open>Letters of the user interface\<close>

abbreviation aacute :: string where "aacute \<equiv> [CHR 0xC3, CHR 0xA1]"
abbreviation eacute :: string where "eacute \<equiv> [CHR 0xC3, CHR 0xA9]"
abbreviation iacute :: string where "iacute \<equiv> [CHR 0xC3, CHR 0xAD]"
abbreviation oacute :: string where "oacute \<equiv> [CHR 0xC3, CHR 0xB3]"
abbreviation uacute :: string where "uacute \<equiv> [CHR 0xC3, CHR 0xBA]"
abbreviation ntilde :: string where "ntilde \<equiv> [CHR 0xC3, CHR 0xB1]"
abbreviation Aacute :: string where "Aacute \<equiv> [CHR 0xC3, CHR 0x81]"
abbreviation iquest :: string where "iquest \<equiv> [CHR 0xC2, CHR 0xBF]"
abbreviation iexcl :: string where "iexcl \<equiv> [CHR 0xC2, CHR 0xA1]"
abbreviation leftarrow :: string where "leftarrow \<equiv> [CHR 0xE2, CHR 0x86, CHR 0x90]"

section \<open>Locators\<close>

type_synonym loc = "exn + locator"
type_synonym param = "string \<times> (exn + argument)"

definition arg :: "exp \<Rightarrow> exn + argument" where
  "arg e = bind_sum e (\<lambda>v. Inr (Value v))"

definition target :: "loc \<Rightarrow> exn + argument" where
  "target l = bind_sum l (\<lambda>l. Inr (Target l))"

fun eval_params :: "param list \<Rightarrow> exn + (string \<times> argument) list" where
  "eval_params [] = Inr []"
| "eval_params ((k, e) # ps) = bind_sum e (\<lambda>a. bind_sum (eval_params ps) (\<lambda>as. Inr ((k, a) # as)))"

definition found :: "loc \<Rightarrow> string \<Rightarrow> param list \<Rightarrow> loc" where
  "found l m ps = bind_sum l (\<lambda>l. bind_sum (eval_params ps) (\<lambda>as. Inr (Found l m as)))"

text \<open>\<open>l.locator(e)\<close>, \<open>l.locator(e, has_text=t)\<close> and the other methods, by their names.\<close>

definition css :: "loc \<Rightarrow> exp \<Rightarrow> loc" where
  "css l e = found l ''locator'' [([], arg e)]"

definition css_text :: "loc \<Rightarrow> exp \<Rightarrow> exp \<Rightarrow> loc" where
  "css_text l e t = found l ''locator'' [([], arg e), (''has_text'', arg t)]"

definition by_role :: "loc \<Rightarrow> exp \<Rightarrow> loc" where
  "by_role l r = found l ''get_by_role'' [([], arg r)]"

definition named :: "loc \<Rightarrow> exp \<Rightarrow> exp \<Rightarrow> loc" where
  "named l r n = found l ''get_by_role'' [([], arg r), (''name'', arg n), (''exact'', arg yes)]"

abbreviation button :: "loc \<Rightarrow> exp \<Rightarrow> loc" where
  "button l n \<equiv> named l (str ''button'') n"

abbreviation exactly :: "param list" where "exactly \<equiv> [(''exact'', arg yes)]"
abbreviation loosely :: "param list" where "loosely \<equiv> [(''exact'', arg no)]"

definition by_label :: "loc \<Rightarrow> exp \<Rightarrow> param list \<Rightarrow> loc" where
  "by_label l t exact = found l ''get_by_label'' (([], arg t) # exact)"

definition by_text :: "loc \<Rightarrow> exp \<Rightarrow> param list \<Rightarrow> loc" where
  "by_text l t exact = found l ''get_by_text'' (([], arg t) # exact)"

definition by_test_id :: "loc \<Rightarrow> exp \<Rightarrow> loc" where
  "by_test_id l t = found l ''get_by_test_id'' [([], arg t)]"

definition having :: "loc \<Rightarrow> loc \<Rightarrow> loc" where
  "having l m = found l ''filter'' [(''has'', target m)]"

definition having_text :: "loc \<Rightarrow> exp \<Rightarrow> loc" where
  "having_text l t = found l ''filter'' [(''has_text'', arg t)]"

definition first_of :: "loc \<Rightarrow> loc" where "first_of l = found l ''first'' []"
definition last_of :: "loc \<Rightarrow> loc" where "last_of l = found l ''last'' []"
definition context_of :: "loc \<Rightarrow> loc" where "context_of l = found l ''context'' []"

definition nth_of :: "loc \<Rightarrow> int \<Rightarrow> loc" where
  "nth_of l i = found l ''nth'' [([], arg (num i))]"

section \<open>Method calls\<close>

text \<open>
  A call on the object or locator \<open>l\<close>: the driver answers, the reported page errors are what the
  listener \<open>lambda e: errors.append(str(e))\<close> adds to \<open>errors\<close>.
\<close>

definition driven ::
  "('k, 'x) services \<Rightarrow> locator \<Rightarrow> string \<Rightarrow> (string \<times> argument) list \<Rightarrow> ('x host, json) py" where
  "driven A l m as h =
     (case playwright A l m as (fs h, ext h) of
        (r, errors, f, x) \<Rightarrow>
          (r, h\<lparr>fs := f, ext := x, page_errors := page_errors h @ errors, trace := trace h @ [Browsed l m as]\<rparr>))"

definition act :: "('k, 'x) services \<Rightarrow> loc \<Rightarrow> string \<Rightarrow> param list \<Rightarrow> ('x host, json) py" where
  "act A l m ps = bind_py (lift_py l) (\<lambda>l. bind_py (lift_py (eval_params ps)) (driven A l m))"

definition does :: "('k, 'x) services \<Rightarrow> loc \<Rightarrow> string \<Rightarrow> param list \<Rightarrow> ('x host, unit) py" where
  "does A l m ps = then_py (act A l m ps) (ret ())"

definition click :: "('k, 'x) services \<Rightarrow> loc \<Rightarrow> ('x host, unit) py" where
  "click A l = does A l ''click'' []"

definition tick :: "('k, 'x) services \<Rightarrow> loc \<Rightarrow> ('x host, unit) py" where
  "tick A l = does A l ''check'' []"

definition fill :: "('k, 'x) services \<Rightarrow> loc \<Rightarrow> exp \<Rightarrow> ('x host, unit) py" where
  "fill A l e = does A l ''fill'' [([], arg e)]"

text \<open>\<open>l.select_option(e)\<close> when the keyword is empty, else \<open>label=\<close>, \<open>value=\<close> or \<open>index=\<close>.\<close>

definition select_option :: "('k, 'x) services \<Rightarrow> loc \<Rightarrow> string \<Rightarrow> exp \<Rightarrow> ('x host, unit) py" where
  "select_option A l keyword e = does A l ''select_option'' [(keyword, arg e)]"

definition goto :: "('k, 'x) services \<Rightarrow> loc \<Rightarrow> exp \<Rightarrow> ('x host, unit) py" where
  "goto A l e = does A l ''goto'' [([], arg e)]"

definition reload :: "('k, 'x) services \<Rightarrow> loc \<Rightarrow> ('x host, unit) py" where
  "reload A l = does A l ''reload'' []"

definition upload :: "('k, 'x) services \<Rightarrow> loc \<Rightarrow> path \<Rightarrow> ('x host, unit) py" where
  "upload A l p = does A l ''set_input_files'' [([], arg (str (path_text p)))]"

definition set_timeout :: "('k, 'x) services \<Rightarrow> loc \<Rightarrow> int \<Rightarrow> ('x host, unit) py" where
  "set_timeout A l n = does A l ''set_default_timeout'' [([], arg (num n))]"

text \<open>\<open>expect(l).m(...)\<close>, and a full-page screenshot to a file under the root.\<close>

definition expects :: "('k, 'x) services \<Rightarrow> loc \<Rightarrow> string \<Rightarrow> param list \<Rightarrow> ('x host, unit) py" where
  "expects A l m ps = does A l m ps"

definition visible_now :: "('k, 'x) services \<Rightarrow> loc \<Rightarrow> ('x host, unit) py" where
  "visible_now A l = expects A l ''to_be_visible'' []"

definition screenshot :: "('k, 'x) services \<Rightarrow> loc \<Rightarrow> path \<Rightarrow> ('x host, unit) py" where
  "screenshot A l p = does A l ''screenshot'' [(''path'', arg (str (path_text (root_dir A @ p)))), (''full_page'', arg yes)]"

text \<open>The two listeners: page errors are appended to \<open>errors\<close>, dialogs are accepted.\<close>

definition on_pageerror :: "('k, 'x) services \<Rightarrow> loc \<Rightarrow> ('x host, unit) py" where
  "on_pageerror A l = does A l ''on'' [([], arg (str ''pageerror'')), ([], arg (str ''errors.append''))]"

definition on_dialog :: "('k, 'x) services \<Rightarrow> loc \<Rightarrow> ('x host, unit) py" where
  "on_dialog A l = does A l ''on'' [([], arg (str ''dialog'')), ([], arg (str ''dialog.accept''))]"

text \<open>\<open>errors = []\<close> and \<open>assert not errors, ...\<close>.\<close>

definition no_errors :: "('x host, unit) py" where
  "no_errors = modify (\<lambda>h. h\<lparr>page_errors := []\<rparr>)"

definition assert_no_errors :: "('x host, unit) py" where
  "assert_no_errors = bind_py (asks page_errors) (\<lambda>es. assert_py (es = []) [])"

text \<open>\<open>json.dumps(e)\<close>, \<open>{e!r}\<close> in an f-string, and \<open>LIST + [...]\<close> for a list of permissions.\<close>

definition dumps_e :: "exp \<Rightarrow> exp" where
  "dumps_e e = bind_sum e (\<lambda>v. Inr (JStr (ascii_escape (dumps '' '' v))))"

definition repr_e :: "('k, 'x) services \<Rightarrow> exp \<Rightarrow> exp" where
  "repr_e A e = bind_sum e (\<lambda>v. Inr (JStr (repr_json A v)))"

definition also_permits :: "json \<Rightarrow> string list \<Rightarrow> json" where
  "also_permits permissions added = (case permissions of JArr vs \<Rightarrow> JArr (vs @ map JStr added) | v \<Rightarrow> v)"

text \<open>Statements one after another.\<close>

definition steps :: "('s, unit) py list \<Rightarrow> ('s, unit) py" where
  "steps ms = for_py (\<lambda>m. m) ms"

lemma steps_simps: "steps [] = ret ()" "steps (m # ms) = then_py m (steps ms)"
  by (simp_all add: steps_def)

section \<open>Sessions\<close>

text \<open>
  \<open>try: m finally: f\<close>, and \<open>try: m except Exception: f; raise\<close>: \<open>SystemExit\<close> is no \<open>Exception\<close>, and an
  exception of \<open>f\<close> replaces the first one.
\<close>

definition finally_py :: "('s, 'a) py \<Rightarrow> ('s, unit) py \<Rightarrow> ('s, 'a) py" where
  "finally_py m f s = (case m s of (r, t) \<Rightarrow> (case f t of (Inl e, u) \<Rightarrow> (Inl e, u) | (Inr x, u) \<Rightarrow> (r, u)))"

fun is_exception :: "exn \<Rightarrow> bool" where
  "is_exception (SystemExit m) = False"
| "is_exception e = True"

definition except_py :: "('s, 'a) py \<Rightarrow> ('s, unit) py \<Rightarrow> ('s, 'a) py" where
  "except_py m f s =
     (case m s of
        (Inl e, t) \<Rightarrow>
          if is_exception e then (case f t of (Inl e', u) \<Rightarrow> (Inl e', u) | (Inr x, u) \<Rightarrow> (Inl e, u)) else (Inl e, t)
      | (Inr x, t) \<Rightarrow> (Inr x, t))"

text \<open>\<open>try: m except Exception: pass\<close>.\<close>

definition ignore_py :: "('s, unit) py \<Rightarrow> ('s, unit) py" where
  "ignore_py m s = (case m s of (Inl e, t) \<Rightarrow> (if is_exception e then Inr () else Inl e, t) | (Inr x, t) \<Rightarrow> (Inr (), t))"

text \<open>\<open>with sync_playwright() as playwright: m\<close>.\<close>

definition with_playwright :: "('k, 'x) services \<Rightarrow> ('x host, 'a) py \<Rightarrow> ('x host, 'a) py" where
  "with_playwright A m = then_py (does A (Inr Root) ''start'' []) (finally_py m (does A (Inr Root) ''stop'' []))"

definition launch :: "('k, 'x) services \<Rightarrow> exp \<Rightarrow> ('x host, locator) py" where
  "launch A channel =
     bind_py (act A (Inr Root) ''chromium.launch'' [(''channel'', arg channel), (''headless'', arg yes)]) (\<lambda>b. ret (Handle b))"

definition close_browser :: "('k, 'x) services \<Rightarrow> locator \<Rightarrow> ('x host, unit) py" where
  "close_browser A browser = does A (Inr browser) ''close'' []"

text \<open>
  Launch a browser, run the body in \<open>try\<close> and close it in \<open>finally\<close>; \<open>first\<close> is what stands between the
  launch and the \<open>try\<close>.
\<close>

definition session ::
  "('k, 'x) services \<Rightarrow> exp \<Rightarrow> ('x host, unit) py \<Rightarrow> (locator \<Rightarrow> ('x host, unit) py) \<Rightarrow> ('x host, unit) py" where
  "session A channel first body =
     with_playwright A (bind_py (launch A channel) (\<lambda>browser.
       then_py first (finally_py (body browser) (close_browser A browser))))"

definition page_options :: "int \<Rightarrow> int \<Rightarrow> param list" where
  "page_options w h = [(''locale'', arg (str ''es-ES'')), (''viewport'', arg (obj [(''width'', num w), (''height'', num h)]))]"

text \<open>\<open>browser.new_context(...).new_page()\<close> and \<open>browser.new_page(...)\<close>.\<close>

definition new_page :: "('k, 'x) services \<Rightarrow> locator \<Rightarrow> int \<Rightarrow> int \<Rightarrow> ('x host, locator) py" where
  "new_page A browser w h =
     bind_py (act A (Inr browser) ''new_context'' (page_options w h)) (\<lambda>c.
     bind_py (act A (Inr (Handle c)) ''new_page'' []) (\<lambda>p. ret (Handle p)))"

definition lone_page :: "('k, 'x) services \<Rightarrow> locator \<Rightarrow> int \<Rightarrow> int \<Rightarrow> ('x host, locator) py" where
  "lone_page A browser w h = bind_py (act A (Inr browser) ''new_page'' (page_options w h)) (\<lambda>p. ret (Handle p))"

section \<open>Browser calls are no calls of the plans\<close>

text \<open>A plan lists HTTP calls and commands; what the browser does is in neither.\<close>

lemma quiet_driven: "follows [] (driven A l m as)"
  by (rule follows_quiet) (simp add: driven_def split: prod.splits)

lemma quiet_act [py_plan, py_conf]: "follows [] (act A l m ps)"
  unfolding act_def by (intro follows_bind_quiet follows_lift quiet_driven)

lemma quiet_does [py_plan, py_conf]: "follows [] (does A l m ps)"
  unfolding does_def by (intro follows_then_quiet quiet_act follows_ret)

lemma quiet_statements [py_plan, py_conf]:
  "follows [] (click A l)" "follows [] (tick A l)" "follows [] (fill A l e)" "follows [] (select_option A l k e)"
  "follows [] (goto A l e)" "follows [] (reload A l)" "follows [] (upload A l p)" "follows [] (set_timeout A l n)"
  "follows [] (expects A l m ps)" "follows [] (visible_now A l)" "follows [] (screenshot A l p)"
  "follows [] (on_pageerror A l)" "follows [] (on_dialog A l)" "follows [] (close_browser A b)"
  by (simp_all add: click_def tick_def fill_def select_option_def goto_def reload_def upload_def set_timeout_def
      expects_def visible_now_def screenshot_def on_pageerror_def on_dialog_def close_browser_def quiet_does)

lemma quiet_errors [py_plan, py_conf]: "follows [] no_errors" "follows [] assert_no_errors"
  unfolding no_errors_def assert_no_errors_def
  by (rule follows_quiet, simp) (intro follows_bind_quiet follows_asks follows_assert)

lemma quiet_steps [py_plan, py_conf]:
  "follows [] (steps [])" "follows [] m \<Longrightarrow> follows [] (steps ms) \<Longrightarrow> follows [] (steps (m # ms))"
  by (simp_all add: steps_simps follows_ret follows_then_quiet)

lemma quiet_new_page [py_plan, py_conf]: "follows [] (new_page A b w h)" "follows [] (lone_page A b w h)"
  unfolding new_page_def lone_page_def by (intro follows_bind_quiet quiet_act follows_ret)+

lemmas quiet_rules [py_conf] =
  follows_bind_quiet follows_then_quiet follows_when_quiet follows_quiet_for follows_print quiet_check quiet_eval
  quiet_print_e follows_ret

lemma conforms_steps [py_conf]:
  "follows [] (steps ms) \<Longrightarrow> conforms ps n \<Longrightarrow> conforms ps (then_py (steps ms) n)"
  "follows [] (steps ms) \<Longrightarrow> conforms [] (steps ms)"
  by (rule conforms_then_quiet conforms_quiet; assumption)+

lemmas conforms_browser_steps [py_conf] =
  quiet_act [THEN conforms_bind_quiet] quiet_does [THEN conforms_then_quiet] quiet_statements [THEN conforms_then_quiet]
  quiet_errors [THEN conforms_then_quiet] quiet_new_page [THEN conforms_bind_quiet]

section \<open>What a session logs\<close>

lemma logs_driven: "P (Browsed l m as) \<Longrightarrow> logs P (driven A l m as)"
  by (rule logsI) (auto simp: driven_def split: prod.splits)

lemma logs_act [py_logs]: "(\<And>l as. P (Browsed l m as)) \<Longrightarrow> logs P (act A l m ps)"
  unfolding act_def by (intro logs_bind logs_lift logs_driven)

lemma logs_does [py_logs]: "(\<And>l as. P (Browsed l m as)) \<Longrightarrow> logs P (does A l m ps)"
  unfolding does_def by (intro logs_then logs_act logs_ret)

lemma logs_statements [py_logs]:
  assumes "\<And>l m as. P (Browsed l m as)"
  shows "logs P (click A l)" "logs P (tick A l)" "logs P (fill A l e)" "logs P (select_option A l k e)"
    "logs P (goto A l e)" "logs P (reload A l)" "logs P (upload A l p)" "logs P (set_timeout A l n)"
    "logs P (expects A l m ps)" "logs P (visible_now A l)" "logs P (screenshot A l p)"
    "logs P (on_pageerror A l)" "logs P (on_dialog A l)" "logs P (close_browser A b)"
  using assms
  by (simp_all add: click_def tick_def fill_def select_option_def goto_def reload_def upload_def set_timeout_def
      expects_def visible_now_def screenshot_def on_pageerror_def on_dialog_def close_browser_def logs_does)

lemma logs_errors [py_logs]: "logs P no_errors" "logs P assert_no_errors"
  unfolding no_errors_def assert_no_errors_def by (simp add: logs_def) (intro logs_bind logs_asks logs_assert)

lemma logs_steps [py_logs]: "logs P (steps [])" "logs P m \<Longrightarrow> logs P (steps ms) \<Longrightarrow> logs P (steps (m # ms))"
  by (simp_all add: steps_simps logs_ret logs_then)

lemma logs_pair [py_logs]: "(\<And>a b. logs P (f a b)) \<Longrightarrow> logs P (case x of (a, b) \<Rightarrow> f a b)"
  by (cases x) simp

lemma logs_new_page [py_logs]:
  assumes "\<And>l m as. P (Browsed l m as)"
  shows "logs P (new_page A b w h)" "logs P (lone_page A b w h)"
  unfolding new_page_def lone_page_def using assms by (intro logs_bind logs_act logs_ret; simp)+

section \<open>Rules of sessions\<close>

lemma quiet_shown: "follows [] f \<Longrightarrow> shown (trace (snd (f h))) = shown (trace h)"
  unfolding follows_def by (erule allE [of _ h]) (auto split: if_splits)

lemma conforms_after:
  assumes m: "conforms ps m" and run: "m h = (r, t)" and same: "shown (trace t') = shown (trace t)"
    and worse: "isl r \<longrightarrow> isl r'"
  shows "\<exists>good bad qs. shown (trace t') = shown (trace h) @ good @ bad \<and> list_all2 (\<lambda>p c. p c) qs good
    \<and> (if isl r' then (\<exists>rest. ps = qs @ rest) \<and> length bad \<le> 1 else qs = ps \<and> bad = [])"
proof -
  obtain good bad qs where "shown (trace t) = shown (trace h) @ good @ bad" "list_all2 (\<lambda>p c. p c) qs good"
    "if isl r then (\<exists>rest. ps = qs @ rest) \<and> length bad \<le> 1 else qs = ps \<and> bad = []"
    using m run by (rule conformsD)
  then show ?thesis using same worse
    by (intro exI [of _ good] exI [of _ bad] exI [of _ qs]) (auto split: if_splits)
qed

lemma conforms_finally [py_conf]:
  assumes "conforms ps m" and "follows [] f"
  shows "conforms ps (finally_py m f)"
proof (rule conformsI)
  fix h r h'
  assume run: "finally_py m f h = (r, h')"
  obtain q t where m: "m h = (q, t)" by force
  have "h' = snd (f t)" and "isl q \<longrightarrow> isl r"
    using run m by (auto simp: finally_py_def split: prod.splits sum.splits)
  then show "\<exists>good bad qs. shown (trace h') = shown (trace h) @ good @ bad \<and> list_all2 (\<lambda>p c. p c) qs good
    \<and> (if isl r then (\<exists>rest. ps = qs @ rest) \<and> length bad \<le> 1 else qs = ps \<and> bad = [])"
    by (intro conforms_after [OF assms(1) m]) (simp_all add: quiet_shown [OF assms(2)])
qed

lemma conforms_except [py_conf]:
  assumes "conforms ps m" and "follows [] f"
  shows "conforms ps (except_py m f)"
proof (rule conformsI)
  fix h r h'
  assume run: "except_py m f h = (r, h')"
  obtain q t where m: "m h = (q, t)" by force
  have "h' = t \<or> h' = snd (f t)" and "isl q \<longrightarrow> isl r"
    using run m by (auto simp: except_py_def split: prod.splits sum.splits if_splits)
  then show "\<exists>good bad qs. shown (trace h') = shown (trace h) @ good @ bad \<and> list_all2 (\<lambda>p c. p c) qs good
    \<and> (if isl r then (\<exists>rest. ps = qs @ rest) \<and> length bad \<le> 1 else qs = ps \<and> bad = [])"
    by (intro conforms_after [OF assms(1) m]) (auto simp: quiet_shown [OF assms(2)])
qed

lemma quiet_ignore [py_plan, py_conf]:
  assumes "follows [] m"
  shows "follows [] (ignore_py m)"
proof (rule follows_quiet)
  fix h
  have "snd (ignore_py m h) = snd (m h)" by (simp add: ignore_py_def split: prod.splits sum.splits)
  then show "shown (trace (snd (ignore_py m h))) = shown (trace h)" using assms by (simp add: quiet_shown)
qed

lemma conforms_session [py_conf]:
  assumes "follows [] first" and "\<And>browser. conforms ps (body browser)"
  shows "conforms ps (session A channel first body)"
  unfolding session_def with_playwright_def launch_def
  by (intro conforms_then_quiet conforms_bind_quiet conforms_finally quiet_does quiet_act quiet_statements follows_bind_quiet
      follows_ret assms)

lemma logs_finally [py_logs]:
  assumes "logs P m" and "logs P f"
  shows "logs P (finally_py m f)"
proof (rule logsI)
  fix h
  obtain q t where m: "m h = (q, t)" by force
  obtain s u where f: "f t = (s, u)" by force
  have "snd (finally_py m f h) = u" using m f by (simp add: finally_py_def split: sum.splits)
  then show "\<exists>es. trace (snd (finally_py m f h)) = trace h @ es \<and> list_all P es"
    using logsE [OF assms(1) m] logsE [OF assms(2) f] by (metis append_assoc list_all_append)
qed

lemma logs_except [py_logs]:
  assumes "logs P m" and "logs P f"
  shows "logs P (except_py m f)"
proof (rule logsI)
  fix h
  obtain q t where m: "m h = (q, t)" by force
  obtain s u where f: "f t = (s, u)" by force
  have "snd (except_py m f h) \<in> {t, u}" using m f by (auto simp: except_py_def split: sum.splits)
  then show "\<exists>es. trace (snd (except_py m f h)) = trace h @ es \<and> list_all P es"
    using logsE [OF assms(1) m] logsE [OF assms(2) f] by (metis append_assoc insertE list_all_append singletonD)
qed

lemma logs_ignore [py_logs]: "logs P m \<Longrightarrow> logs P (ignore_py m)"
  by (rule logsI) (auto simp: ignore_py_def split: prod.splits sum.splits elim: logsE)

lemma logs_session [py_logs]:
  assumes "\<And>l m as. P (Browsed l m as)" and "logs P first" and "\<And>browser. logs P (body browser)"
  shows "logs P (session A channel first body)"
  unfolding session_def with_playwright_def launch_def
  using assms by (intro logs_then logs_bind logs_finally logs_does logs_act logs_statements logs_ret)

section \<open>Every session is closed\<close>

text \<open>
  A log is tidy when nothing but the library itself was called, or its last two events close a browser
  and stop the library.
\<close>

fun idle_event :: "event \<Rightarrow> bool" where
  "idle_event (Browsed l m as) = (l = Root)"
| "idle_event e = True"

definition tidy :: "event list \<Rightarrow> bool" where
  "tidy es \<longleftrightarrow> list_all idle_event es \<or> (\<exists>b es'. es = es' @ [Browsed b ''close'' [], Browsed Root ''stop'' []])"

lemma tidy_idle: "list_all idle_event es \<Longrightarrow> tidy es"
  by (simp add: tidy_def)

lemma tidy_closed: "tidy (es @ [Browsed b ''close'' [], Browsed Root ''stop'' []])"
  unfolding tidy_def by blast

lemma does_event:
  assumes "does A (Inr l) m [] h = (r, h')"
  shows "trace h' = trace h @ [Browsed l m []]"
  using assms by (auto simp: does_def act_def then_py_def bind_py_def lift_py_def driven_def ret_def split: prod.splits sum.splits)

lemma launch_event:
  assumes "launch A channel h = (r, h')"
  shows "\<exists>es. trace h' = trace h @ es \<and> list_all idle_event es"
proof -
  have "logs idle_event (launch A channel)"
    unfolding launch_def act_def by (simp add: bind_lift) (intro logs_bind logs_lift logs_driven logs_ret; simp)
  then show ?thesis using assms by (metis logsE)
qed

lemma browser_tidy:
  assumes run: "bind_py (launch A channel) (\<lambda>b. then_py first (finally_py (body b) (close_browser A b))) h = (r, h')"
    and first: "logs idle_event first" and body: "\<And>browser. logs (\<lambda>e. True) (body browser)"
  shows "(\<exists>es. trace h' = trace h @ es \<and> list_all idle_event es) \<or> (\<exists>b es. trace h' = trace h @ es @ [Browsed b ''close'' []])"
proof -
  obtain l g where l: "launch A channel h = (l, g)" by force
  then obtain es where es: "trace g = trace h @ es" "list_all idle_event es" using launch_event by metis
  obtain f g' where f: "first g = (f, g')" by force
  then obtain fs where fs: "trace g' = trace g @ fs" "list_all idle_event fs" using first by (metis logsE)
  show ?thesis
  proof (cases "isl l \<or> isl f")
    case True
    then have "h' = g \<or> h' = g'" using run l f by (auto simp: bind_py_def then_py_def split: sum.splits)
    with es fs show ?thesis by (metis append_assoc list_all_append)
  next
    case False
    then obtain b where b: "l = Inr b" by (cases l) auto
    obtain s t where s: "body b g' = (s, t)" by force
    then obtain bs where bs: "trace t = trace g' @ bs" using body by (metis logsE)
    obtain c u where c: "close_browser A b t = (c, u)" by force
    have "h' = u" using run l f b s c False
      by (auto simp: bind_py_def then_py_def finally_py_def split: sum.splits prod.splits)
    moreover have "trace u = trace t @ [Browsed b ''close'' []]" using c unfolding close_browser_def by (rule does_event)
    ultimately show ?thesis using es fs bs by (metis append_assoc)
  qed
qed

text \<open>Whatever a session does and however it ends, the log it leaves is tidy.\<close>

lemma session_tidy:
  assumes run: "session A channel first body h = (r, h')" and first: "logs idle_event first"
    and body: "\<And>browser. logs (\<lambda>e. True) (body browser)"
  shows "\<exists>es. trace h' = trace h @ es \<and> tidy es"
proof -
  let ?body = "\<lambda>b. then_py first (finally_py (body b) (close_browser A b))"
  obtain s h1 where s: "does A (Inr Root) ''start'' [] h = (s, h1)" by force
  have e1: "trace h1 = trace h @ [Browsed Root ''start'' []]" using s by (rule does_event)
  show ?thesis
  proof (cases s)
    case (Inl e)
    with run s have "h' = h1" by (simp add: session_def with_playwright_def then_py_def bind_py_def)
    with e1 show ?thesis by (intro exI [of _ "[Browsed Root ''start'' []]"]) (simp add: tidy_def)
  next
    case (Inr u)
    obtain q h2 where q: "bind_py (launch A channel) ?body h1 = (q, h2)" by force
    obtain z h3 where z: "does A (Inr Root) ''stop'' [] h2 = (z, h3)" by force
    have h3: "h' = h3" using run s Inr q z
      by (simp add: session_def with_playwright_def then_py_def bind_py_def finally_py_def split: sum.splits prod.splits)
    have e3: "trace h3 = trace h2 @ [Browsed Root ''stop'' []]" using z by (rule does_event)
    have "(\<exists>es. trace h2 = trace h1 @ es \<and> list_all idle_event es) \<or> (\<exists>b es. trace h2 = trace h1 @ es @ [Browsed b ''close'' []])"
      using q first body by (rule browser_tidy)
    then show ?thesis
    proof
      assume "\<exists>es. trace h2 = trace h1 @ es \<and> list_all idle_event es"
      then obtain es where "trace h2 = trace h1 @ es" "list_all idle_event es" by blast
      with e1 e3 h3 show ?thesis
        by (intro exI [of _ "[Browsed Root ''start'' []] @ es @ [Browsed Root ''stop'' []]"]) (simp add: tidy_idle)
    next
      assume "\<exists>b es. trace h2 = trace h1 @ es @ [Browsed b ''close'' []]"
      then obtain b es where "trace h2 = trace h1 @ es @ [Browsed b ''close'' []]" by blast
      with e1 e3 h3 show ?thesis
        using tidy_closed [of "Browsed Root ''start'' [] # es" b]
        by (intro exI [of _ "(Browsed Root ''start'' [] # es) @ [Browsed b ''close'' [], Browsed Root ''stop'' []]"]) simp
    qed
  qed
qed

text \<open>Whatever a run does, it adds a tidy part to the log.\<close>

definition leaves_tidy :: "('x host, 'a) py \<Rightarrow> bool" where
  "leaves_tidy m \<longleftrightarrow> (\<forall>h. \<exists>es. trace (snd (m h)) = trace h @ es \<and> tidy es)"

lemma leaves_tidy_session:
  assumes "logs idle_event first" and "\<And>browser. logs (\<lambda>e. True) (body browser)"
  shows "leaves_tidy (session A channel first body)"
  unfolding leaves_tidy_def
proof
  fix h
  obtain r h' where "session A channel first body h = (r, h')" by force
  with session_tidy [OF this assms] show "\<exists>es. trace (snd (session A channel first body h)) = trace h @ es \<and> tidy es"
    by simp
qed

lemma tidy_after:
  assumes "list_all idle_event es" and "tidy later"
  shows "tidy (es @ later)"
proof (cases "list_all idle_event later")
  case True
  with assms show ?thesis by (simp add: tidy_idle)
next
  case False
  with assms(2) obtain b gs where "later = gs @ [Browsed b ''close'' [], Browsed Root ''stop'' []]"
    unfolding tidy_def by blast
  then show ?thesis using tidy_closed [of "es @ gs" b] by simp
qed

lemma leaves_tidy_pair: "(\<And>a b. leaves_tidy (f a b)) \<Longrightarrow> leaves_tidy (case x of (a, b) \<Rightarrow> f a b)"
  by (cases x) simp

lemma leaves_tidy_bind:
  assumes prep: "logs idle_event m" and rest: "\<And>vs. leaves_tidy (f vs)"
  shows "leaves_tidy (bind_py m f)"
  unfolding leaves_tidy_def
proof
  fix h
  obtain q g where q: "m h = (q, g)" by force
  then obtain es where es: "trace g = trace h @ es" "list_all idle_event es" using prep by (metis logsE)
  show "\<exists>es. trace (snd (bind_py m f h)) = trace h @ es \<and> tidy es"
  proof (cases q)
    case (Inl e)
    with q es show ?thesis by (auto simp: bind_py_def intro: tidy_idle)
  next
    case (Inr vs)
    obtain later where later: "trace (snd (f vs g)) = trace g @ later" "tidy later"
      using rest unfolding leaves_tidy_def by metis
    have "tidy (es @ later)" using es(2) later(2) by (rule tidy_after)
    with q Inr es later show ?thesis by (simp add: bind_py_def)
  qed
qed

lemmas leaves_tidy_rules = leaves_tidy_bind leaves_tidy_pair leaves_tidy_session logs_ret logs_errors

section \<open>No page error before the report\<close>

text \<open>
  The list of page errors is empty, unless the driver reports one to a listener while a screenshot is taken
  or while it shuts down: the scripts look at the list before that.
\<close>

definition late_errors :: "('k, 'x) services \<Rightarrow> bool" where
  "late_errors A \<longleftrightarrow> (\<exists>l m as w. m \<in> {''screenshot'', ''close'', ''stop''} \<and> fst (snd (playwright A l m as w)) \<noteq> [])"

definition clean_end :: "('k, 'x) services \<Rightarrow> 'x host \<Rightarrow> bool" where
  "clean_end A h \<longleftrightarrow> page_errors h = [] \<or> late_errors A"

text \<open>What may follow the assertion keeps it.\<close>

lemma clean_does:
  assumes "m \<in> {''screenshot'', ''close'', ''stop''}"
  shows "keeps (clean_end A) (does A l m ps)"
proof -
  have "keeps (clean_end A) (driven A l' m as)" for l' as
  proof (rule keepsI)
    fix h
    assume "clean_end A h"
    moreover obtain r errors f x where "playwright A l' m as (fs h, ext h) = (r, errors, f, x)" by (metis prod_cases4)
    moreover from this have "errors \<noteq> [] \<Longrightarrow> late_errors A"
      using assms unfolding late_errors_def by (metis fst_conv snd_conv)
    ultimately show "clean_end A (snd (driven A l' m as h))" by (auto simp: driven_def clean_end_def)
  qed
  then show ?thesis unfolding does_def act_def by (intro py_keeps)
qed

lemma clean_host:
  "keeps (clean_end A) (print_py s)" "keeps (clean_end A) (write_text p c)" "keeps (clean_end A) (exchange B meth url b hdrs)"
  by (auto intro!: keepsI simp: clean_end_def print_run write_text_def exchange_def split: prod.splits sum.splits)

lemma clean_eval: "keeps (clean_end A) (eval e)"
  unfolding eval_def by (rule keeps_lift)

lemma clean_print_e: "keeps (clean_end A) (print_e e)"
  unfolding print_e_def by (intro py_keeps clean_host)

lemma clean_call: "keeps (clean_end A) (call B path meth body token allowed)"
  unfolding call_def call_with_def request_def
  by (intro py_keeps clean_host) (auto intro!: py_keeps clean_host split: prod.splits)

lemma clean_screenshot: "keeps (clean_end A) (screenshot A l p)"
  unfolding screenshot_def by (rule clean_does) simp

lemma keeps_steps: "keeps I (steps [])" "keeps I m \<Longrightarrow> keeps I (steps ms) \<Longrightarrow> keeps I (steps (m # ms))"
  by (simp_all add: steps_simps keeps_ret keeps_then)

lemmas clean_keeps = clean_screenshot clean_host(1) clean_print_e keeps_steps

lemma clean_then:
  assumes m: "ensures (\<lambda>x. clean_end A) m" and n: "keeps (clean_end A) n"
  shows "ensures (\<lambda>x. clean_end A) (then_py m n)"
  unfolding ensures_def
proof (intro allI impI)
  fix s x t
  assume "then_py m n s = (Inr x, t)"
  then obtain y g where "m s = (Inr y, g)" "n g = (Inr x, t)"
    by (auto simp: then_py_def bind_py_def split: prod.splits sum.splits)
  with ensuresD [OF m] keepsE [OF n] show "clean_end A t" by metis
qed

lemma clean_finally:
  assumes m: "ensures (\<lambda>x. clean_end A) m" and f: "keeps (clean_end A) f"
  shows "ensures (\<lambda>x. clean_end A) (finally_py m f)"
  unfolding ensures_def
proof (intro allI impI)
  fix s x t
  assume run: "finally_py m f s = (Inr x, t)"
  obtain q g where q: "m s = (q, g)" by force
  with run have "\<exists>y. q = Inr y" "t = snd (f g)"
    by (auto simp: finally_py_def split: prod.splits sum.splits)
  with q ensuresD [OF m] keepsD [OF f] show "clean_end A t" by blast
qed

lemma clean_except: "ensures Q m \<Longrightarrow> ensures Q (except_py m f)"
  unfolding ensures_def except_py_def by (auto split: prod.splits sum.splits if_splits)

lemma clean_assert: "ensures (\<lambda>x. clean_end A) assert_no_errors"
  unfolding ensures_def clean_end_def assert_no_errors_def
  by (auto simp: bind_asks assert_py_def py_run split: if_splits)

lemma clean_steps:
  "keeps (clean_end A) (steps ms) \<Longrightarrow> ensures (\<lambda>x. clean_end A) (steps (assert_no_errors # ms))"
  "ensures Q (steps ms) \<Longrightarrow> ensures Q (steps (m # ms))"
  by (simp_all add: steps_simps clean_then [OF clean_assert] ensures_then)

lemma clean_session:
  assumes "\<And>browser. ensures (\<lambda>x. clean_end A) (body browser)"
  shows "ensures (\<lambda>x. clean_end A) (session A channel first body)"
  unfolding session_def with_playwright_def close_browser_def
  by (intro ensures_then ensures_bind clean_finally assms clean_does) simp_all

lemma clean_pair: "(\<And>a b. ensures Q (f a b)) \<Longrightarrow> ensures Q (case x of (a, b) \<Rightarrow> f a b)"
  by (cases x) simp

text \<open>The assertion is the last of the steps, and something harmless follows them.\<close>

lemma clean_before:
  "ensures (\<lambda>x. clean_end A) (steps ms) \<Longrightarrow> ensures (\<lambda>x. clean_end A) (then_py (steps ms) (print_e e))"
  "ensures (\<lambda>x. clean_end A) (steps ms) \<Longrightarrow> (\<And>x. keeps (clean_end A) (k x))
     \<Longrightarrow> ensures (\<lambda>x. clean_end A) (then_py (steps ms) (bind_py (asks f) k))"
  by (intro clean_then clean_keeps keeps_bind keeps_asks; assumption)+

lemmas clean_rules =
  ensures_bind clean_before ensures_then clean_steps clean_keeps clean_session clean_pair clean_except

end
