(* ===== verification/EconomicBrowser.thy ===== *)
theory EconomicBrowser
  imports Marketplace Browser
begin

text \<open>
  The economic exchange in two browser sessions (scripts/economic_browser_smoke.py): activation, a
      wanted listing, a proposal, two signatures and the commit, through the rendered pages.
\<close>

section \<open>The script\<close>

definition ECONOMIC_PERMISSIONS :: json where
  "ECONOMIC_PERMISSIONS = also_permits MARKET_PERMISSIONS [''stir.economic.read'', ''stir.economic.manage'',
      ''OSTRIS_DISCOVERY_READ'', ''OSTRIS_COMMUNITY_MANAGE'', ''OSTRIS_PARTICIPANT_ACTIVATE'',
      ''OSTRIS_TRANSACTION_CREATE'', ''OSTRIS_TRANSACTION_READ'', ''OSTRIS_TRANSACTION_AUTHORIZE'',
      ''OSTRIS_TRANSACTION_COMMIT'']"

definition economic_make_login :: "('k, 'x) services \<Rightarrow> json \<Rightarrow> json \<Rightarrow> json \<Rightarrow> json \<Rightarrow> json \<Rightarrow> ('x host, json \<times> json) py" where
  "economic_make_login A admin tenant role_id label suffix =
     bind_py (eval (fmt A [val label, str ''-'', val suffix, str ''@stir.test''])) (\<lambda>email.
     bind_py (token_urlsafe A 24) (\<lambda>password.
     then_py (call A (fmt A [str ''/api/shell/v1/tenants/'', val tenant, str ''/users'']) ''POST'' (obj [(''email'',
         val email), (''displayName'', val label), (''authProvider'', str ''local''), (''subject'', val email),
         (''password'', val password), (''role'', str ''member''), (''enabled'', yes)]) (val admin) [200, 201]) (
     bind_py (call A (str ''/api/shell/v1/auth/login'') ''POST'' (obj [(''email'', val email), (''password'',
         val password)]) none [200]) (\<lambda>session.
     then_py (call A (plus (fmt A [str ''/api/shell/v1/tenants/'', val tenant, str ''/roles/users/'']) (item (item
         (val session) ''user'') ''id'')) ''PUT'' (obj [(''roleIds'', arr [val role_id])]) (val admin) [204]) (
     ret (email, password))))))"

definition economic_make_login_plan :: "plan" where
  "economic_make_login_plan =
     [answered ''POST'' ''/users'' [200, 201], answered ''POST'' ''/api/shell/v1/auth/login'' [200], answered ''PUT''
         ''/roles/users/'' [204]]"

definition economic_setup :: "('k, 'x) services \<Rightarrow> ('x host, json \<times> json \<times> json \<times> json \<times> json \<times> json \<times> json) py" where
  "economic_setup A =
     bind_py (read_secret A ''login_password'') (\<lambda>r1.
     bind_py (call A (str ''/api/shell/v1/auth/login'') ''POST'' (obj [(''email'', str ''admin@stir.test''),
         (''password'', val r1)]) none [200]) (\<lambda>r2.
     bind_py (eval (item (val r2) ''accessToken'')) (\<lambda>admin.
     bind_py (uuid4_hex A) (\<lambda>r3.
     bind_py (eval (upto (val r3) 8)) (\<lambda>suffix.
     bind_py (eval (str ''STIR Economic Browser E2E'')) (\<lambda>tenant_name.
     bind_py (sql_e A (fmt A [str ''select tenant_id from idax_core.tenant_create('stir-eco-browser-'', val suffix,
         sq, str '', '', sq, val tenant_name, sq, str '', 'active', false);'']) False) (\<lambda>tenant.
     bind_py (call A (fmt A [str ''/api/shell/v1/tenants/'', val tenant, str ''/roles'']) ''POST'' (obj [(''key'',
         plus (str ''stir_eco_browser_'') (val suffix)), (''name'', str ''STIR economic browser E2E''),
         (''description'', str ''Isolated development fixture''), (''enabled'', yes)]) (val admin) [200, 201])
         (\<lambda>role.
     then_py (call A (plus (plus (fmt A [str ''/api/shell/v1/tenants/'', val tenant, str ''/roles/'']) (item (val
         role) ''id'')) (str ''/permissions'')) ''PUT'' (val ECONOMIC_PERMISSIONS) (val admin) [200]) (
     bind_py (eval (item (val role) ''id'')) (\<lambda>r7.
     bind_py (economic_make_login A admin tenant r7 (JStr ''ana'') suffix) (\<lambda>(ana_email, ana_password).
     bind_py (eval (item (val role) ''id'')) (\<lambda>r9.
     bind_py (economic_make_login A admin tenant r9 (JStr ''pedro'') suffix) (\<lambda>(pedro_email, pedro_password).
     bind_py (eval (plus (str ''Bicycle repair '') (val suffix))) (\<lambda>title.
     ret (ana_email, ana_password, pedro_email, pedro_password, title, suffix, tenant_name)))))))))))))))"

definition economic_setup_plan :: "plan" where
  "economic_setup_plan =
     [answered ''POST'' ''/api/shell/v1/auth/login'' [200]] @ sql_events @ [answered ''POST'' ''/roles'' [200, 201],
         answered ''PUT'' ''/permissions'' [200]] @ economic_make_login_plan @ economic_make_login_plan"

definition economic_login :: "('k, 'x) services \<Rightarrow> json \<Rightarrow> locator \<Rightarrow> json \<Rightarrow> json \<Rightarrow> ('x host, unit) py" where
  "economic_login A tenant_name page email password =
     steps [
     goto A (val page) (str ''http://localhost:8089''),
     fill A (css (val page) (str ''input[type=email]'')) (val email),
     fill A (css (val page) (str ''input[type=password]'')) (val password),
     click A (css (val page) (str ''button[type=submit]'')),
     click A (having (css (val page) (str ''.module-card'')) (named (val page) (str ''heading'') (str ''STIR''))),
     select_option A (first_of (css (val page) (str ''.surface > header select''))) ''label'' (val tenant_name)]"

definition economic_back :: "('k, 'x) services \<Rightarrow> locator \<Rightarrow> ('x host, unit) py" where
  "economic_back A page =
     click A (button (val page) (str (leftarrow @ '' Marketplace'')))"

definition economic_ui :: "('k, 'x) services \<Rightarrow> locator \<Rightarrow> json \<Rightarrow> json \<Rightarrow> json \<Rightarrow> json \<Rightarrow> json \<Rightarrow> json \<Rightarrow> json \<Rightarrow> ('x host, unit) py" where
  "economic_ui A browser ana_email ana_password pedro_email pedro_password title suffix tenant_name =
     bind_py (new_page A browser 1440 1000) (\<lambda>ana.
     bind_py (new_page A browser 1440 1000) (\<lambda>pedro.
     steps [
     for_py (\<lambda>page.
     steps [
     set_timeout A (val page) 60000,
     on_pageerror A (val page)]) [ana, pedro],
     economic_login A tenant_name ana ana_email ana_password,
     click A (button (val ana) (str ''Mi perfil'')),
     fill A (by_label (val ana) (str ''Nombre visible'') exactly) (plus (str ''Ana '') (val suffix)),
     click A (button (val ana) (str ''Guardar'')),
     visible_now A (by_text (val ana) (str ''Perfil guardado.'') []),
     economic_back A ana,
     economic_login A tenant_name pedro pedro_email pedro_password,
     click A (button (val pedro) (str ''Mi perfil'')),
     fill A (by_label (val pedro) (str ''Nombre visible'') exactly) (plus (str ''Pedro '') (val suffix)),
     click A (button (val pedro) (str ''Guardar'')),
     visible_now A (by_text (val pedro) (str ''Perfil guardado.'') []),
     economic_back A pedro,
     click A (button (val ana) (str (''Activaci'' @ oacute @ ''n econ'' @ oacute @ ''mica''))),
     fill A (by_label (val ana) (str ''Nombre de la comunidad'') exactly) (plus (str ''Comunidad E2E '')
         (val suffix)),
     fill A (by_label (val ana) (str (''C'' @ oacute @ ''digo de la unidad'')) exactly) (str ''CRD''),
     fill A (by_label (val ana) (str ''Decimales'') exactly) (str ''0''),
     click A (button (val ana) (str (''Configurar comunidad econ'' @ oacute @ ''mica''))),
     click A (button (val ana) (str ''Activar intercambios'')),
     visible_now A (by_text (val ana) (str (''Tu intercambio econ'' @ oacute @ ''mico est'' @ aacute @ '' activo.''))
         []),
     economic_back A ana,
     click A (button (val pedro) (str (''Activaci'' @ oacute @ ''n econ'' @ oacute @ ''mica''))),
     click A (button (val pedro) (str ''Activar intercambios'')),
     visible_now A (by_text (val pedro) (str (''Tu intercambio econ'' @ oacute @ ''mico est'' @ aacute @
         '' activo.'')) []),
     economic_back A pedro,
     click A (button (val ana) (str (''+ Crear publicaci'' @ oacute @ ''n''))),
     select_option A (named (val ana) (str ''combobox'') (str ''Quiero'')) [] (str ''WANTED''),
     fill A (by_label (val ana) (str (''T'' @ iacute @ ''tulo'')) exactly) (val title),
     fill A (by_label (val ana) (str (''Descripci'' @ oacute @ ''n'')) exactly)
         (str ''Necesito reparar mi bicicleta''),
     click A (button (val ana) (str ''Guardar'')),
     visible_now A (having (css (val ana) (str ''.stir-card'')) (button (val ana) (val title))),
     fill A (by_label (val pedro) (str ''Buscar'') exactly) (val title),
     click A (button (val pedro) (val title)),
     click A (button (val pedro) (str ''Hacer una propuesta'')),
     fill A (by_label (val pedro) (str ''Mensaje'') exactly) (str ''Puedo arreglarla por 500''),
     fill A (by_label (val pedro) (str ''Importe propuesto'') exactly) (str ''500''),
     click A (button (val pedro) (str ''Enviar propuesta'')),
     visible_now A (by_text (val pedro) (str ''Abierta'') []),
     click A (button (val ana) (str ''Mis negociaciones'')),
     click A (button (val ana) (str ''Ver'')),
     visible_now A (by_text (val ana) (str ''Puedo arreglarla por 500'') []),
     click A (button (val ana) (str ''Aceptar'')),
     visible_now A (named (val ana) (str ''heading'') (str ''Acuerdo'')),
     click A (button (val ana) (str (''Iniciar intercambio econ'' @ oacute @ ''mico''))),
     click A (button (val ana) (str ''Firmar intercambio'')),
     visible_now A (by_text (val ana) (str ''Esperando la firma de la otra parte.'') []),
     economic_back A pedro,
     click A (button (val pedro) (str ''Mis acuerdos'')),
     click A (button (val pedro) (str ''Ver'')),
     click A (button (val pedro) (str ''Firmar intercambio'')),
     click A (button (val pedro) (str ''Confirmar intercambio'')),
     visible_now A (by_text (val pedro) (str ''Secuencia de la comunidad'') []),
     screenshot A (val pedro) [''.local'', ''browser-economic-committed.png''],
     click A (button (val pedro) (str ''Ver mi saldo'')),
     visible_now A (by_text (val pedro) (str ''Saldo:'') []),
     reload A (val ana),
     visible_now A (by_text (val ana) (str ''Secuencia de la comunidad'') []),
     assert_no_errors,
     print_py (''PASS: two real browser sessions (Ana, Pedro), each with its own WebCrypto Ed25519 key '' @
         ''generated and kept in that session's own IndexedDB, activated economic exchange, reached a '' @
         ''WANTED Agreement, both signed the osTRIS EXCHANGE proposal, and committed it - reaching a '' @
         ''visible COMMITTED state with no JavaScript page errors.'')]))"

definition economic_run :: "('k, 'x) services \<Rightarrow> ('x host, unit) py" where
  "economic_run A =
     bind_py (economic_setup A) (\<lambda>(ana_email, ana_password, pedro_email, pedro_password, title, suffix,
         tenant_name).
     session A (str ''msedge'') no_errors (\<lambda>browser. economic_ui A browser ana_email ana_password pedro_email
         pedro_password title suffix tenant_name))"

section \<open>Conformance\<close>

lemma economic_make_login_conforms: "conforms economic_make_login_plan (economic_make_login A admin tenant role_id label suffix)"
  unfolding economic_make_login_plan_def economic_make_login_def append.simps by (intro py_conf) simp_all

lemmas economic_make_login_steps [py_conf] =
  economic_make_login_conforms conforms_bind [OF economic_make_login_conforms] conforms_then [OF economic_make_login_conforms]
  conforms_bind_last [OF economic_make_login_conforms] conforms_then_last [OF economic_make_login_conforms]

lemma economic_make_login_logs [py_logs]: "(\<And>m u s. P (Called m u s)) \<Longrightarrow> logs P (economic_make_login A admin tenant role_id label suffix)"
  unfolding economic_make_login_def by (intro py_logs) simp_all

lemma economic_setup_conforms: "conforms economic_setup_plan (economic_setup A)"
  unfolding economic_setup_plan_def economic_setup_def append.simps by (intro py_conf) simp_all

lemmas economic_setup_steps [py_conf] =
  economic_setup_conforms conforms_bind [OF economic_setup_conforms] conforms_then [OF economic_setup_conforms]
  conforms_bind_last [OF economic_setup_conforms] conforms_then_last [OF economic_setup_conforms]

lemma economic_setup_logs [py_logs]: "(\<And>e. idle_event e \<Longrightarrow> P e) \<Longrightarrow> logs P (economic_setup A)"
  unfolding economic_setup_def by (intro py_logs logs_sql_e) simp_all

lemma economic_login_quiet [py_plan, py_conf]: "follows [] (economic_login A tenant_name page email password)"
  unfolding economic_login_def by (intro follows_bind_quiet follows_then_quiet py_plan)

lemmas economic_login_steps [py_conf] = conforms_bind_quiet [OF economic_login_quiet] conforms_then_quiet [OF economic_login_quiet]

lemma economic_login_logs [py_logs]: "(\<And>e. P e) \<Longrightarrow> logs P (economic_login A tenant_name page email password)"
  unfolding economic_login_def by (intro py_logs logs_sql_e) simp_all

lemma economic_back_quiet [py_plan, py_conf]: "follows [] (economic_back A page)"
  unfolding economic_back_def by (intro follows_bind_quiet follows_then_quiet py_plan)

lemmas economic_back_steps [py_conf] = conforms_bind_quiet [OF economic_back_quiet] conforms_then_quiet [OF economic_back_quiet]

lemma economic_back_logs [py_logs]: "(\<And>e. P e) \<Longrightarrow> logs P (economic_back A page)"
  unfolding economic_back_def by (intro py_logs logs_sql_e) simp_all

lemma economic_ui_quiet [py_plan, py_conf]: "follows [] (economic_ui A browser ana_email ana_password pedro_email pedro_password title suffix tenant_name)"
  unfolding economic_ui_def by (intro follows_bind_quiet follows_then_quiet py_plan)

lemmas economic_ui_steps [py_conf] = conforms_bind_quiet [OF economic_ui_quiet] conforms_then_quiet [OF economic_ui_quiet]

lemma economic_ui_logs [py_logs]: "(\<And>e. P e) \<Longrightarrow> logs P (economic_ui A browser ana_email ana_password pedro_email pedro_password title suffix tenant_name)"
  unfolding economic_ui_def by (intro py_logs logs_sql_e) simp_all

lemma economic_run_tidy: "leaves_tidy (economic_run A)"
  unfolding economic_run_def by (intro leaves_tidy_rules py_logs) simp_all

end
