(* ===== verification/MarketplaceBrowser.thy ===== *)
theory MarketplaceBrowser
  imports ValueGovernance Marketplace Browser
begin

text \<open>
  The marketplace in two browser sessions (scripts/marketplace_browser_smoke.py): a listing, a
      proposal, a counteroffer and an agreement, through the rendered pages.
\<close>

section \<open>The script\<close>

definition market_browser_setup :: "('k, 'x) services \<Rightarrow> ('x host, json \<times> json \<times> json \<times> json \<times> json \<times> json) py" where
  "market_browser_setup A =
     bind_py (read_secret A ''login_password'') (\<lambda>r1.
     bind_py (call A (str ''/api/shell/v1/auth/login'') ''POST'' (obj [(''email'', str ''admin@stir.test''),
         (''password'', val r1)]) none [200]) (\<lambda>r2.
     bind_py (eval (item (val r2) ''accessToken'')) (\<lambda>admin.
     bind_py (uuid4_hex A) (\<lambda>r3.
     bind_py (eval (upto (val r3) 8)) (\<lambda>suffix.
     bind_py (sql_e A (fmt A [str ''select tenant_id from idax_core.tenant_create('stir-browser-'', val suffix, sq,
         str '', 'STIR Browser E2E', 'active', false);'']) False) (\<lambda>tenant.
     bind_py (call A (fmt A [str ''/api/shell/v1/tenants/'', val tenant, str ''/roles'']) ''POST'' (obj [(''key'',
         plus (str ''stir_browser_'') (val suffix)), (''name'', str ''STIR browser E2E''), (''description'',
         str ''Isolated development fixture''), (''enabled'', yes)]) (val admin) [200, 201]) (\<lambda>role.
     then_py (call A (plus (plus (fmt A [str ''/api/shell/v1/tenants/'', val tenant, str ''/roles/'']) (item (val
         role) ''id'')) (str ''/permissions'')) ''PUT'' (val MARKET_PERMISSIONS) (val admin) [200]) (
     bind_py (eval (item (val role) ''id'')) (\<lambda>r7.
     bind_py (make_login A admin tenant r7 (JStr ''ana'') suffix) (\<lambda>(ana_email, ana_password).
     bind_py (eval (item (val role) ''id'')) (\<lambda>r9.
     bind_py (make_login A admin tenant r9 (JStr ''pedro'') suffix) (\<lambda>(pedro_email, pedro_password).
     bind_py (eval (plus (str ''Tomates '') (val suffix))) (\<lambda>title.
     ret (ana_email, ana_password, title, pedro_email, pedro_password, suffix))))))))))))))"

definition market_browser_setup_plan :: "plan" where
  "market_browser_setup_plan =
     [answered ''POST'' ''/api/shell/v1/auth/login'' [200]] @ sql_events @ [answered ''POST'' ''/roles'' [200, 201],
         answered ''PUT'' ''/permissions'' [200]] @ make_login_plan @ make_login_plan"

definition market_browser_login :: "('k, 'x) services \<Rightarrow> locator \<Rightarrow> json \<Rightarrow> json \<Rightarrow> ('x host, unit) py" where
  "market_browser_login A page email password =
     steps [
     goto A (val page) (str ''http://localhost:8089''),
     fill A (css (val page) (str ''input[type=email]'')) (val email),
     fill A (css (val page) (str ''input[type=password]'')) (val password),
     click A (css (val page) (str ''button[type=submit]'')),
     click A (having (css (val page) (str ''.module-card'')) (named (val page) (str ''heading'') (str ''STIR''))),
     select_option A (first_of (css (val page) (str ''.surface > header select''))) ''label''
         (str ''STIR Browser E2E'')]"

definition market_browser_ui :: "('k, 'x) services \<Rightarrow> locator \<Rightarrow> json \<Rightarrow> json \<Rightarrow> json \<Rightarrow> json \<Rightarrow> json \<Rightarrow> json \<Rightarrow> ('x host, unit) py" where
  "market_browser_ui A browser ana_email ana_password title pedro_email pedro_password suffix =
     bind_py (new_page A browser 1440 1000) (\<lambda>ana.
     bind_py (new_page A browser 1440 1000) (\<lambda>pedro.
     steps [
     for_py (\<lambda>page.
     steps [
     set_timeout A (val page) 60000,
     on_pageerror A (val page)]) [ana, pedro],
     market_browser_login A ana ana_email ana_password,
     click A (button (val ana) (str ''Mi perfil'')),
     fill A (by_label (val ana) (str ''Nombre visible'') exactly) (plus (str ''Ana '') (val suffix)),
     fill A (by_label (val ana) (str (''Biograf'' @ iacute @ ''a breve'')) exactly) (str ''Cultivo tomates''),
     click A (button (val ana) (str ''Guardar'')),
     visible_now A (by_text (val ana) (str ''Perfil guardado.'') []),
     click A (button (val ana) (str (leftarrow @ '' Marketplace''))),
     click A (button (val ana) (str (''+ Crear publicaci'' @ oacute @ ''n''))),
     fill A (by_label (val ana) (str (''T'' @ iacute @ ''tulo'')) exactly) (val title),
     fill A (by_label (val ana) (str (''Descripci'' @ oacute @ ''n'')) exactly) (str ''Tomates San Marzano maduros''),
     click A (button (val ana) (str ''Guardar'')),
     visible_now A (having (css (val ana) (str ''.stir-card'')) (button (val ana) (val title))),
     market_browser_login A pedro pedro_email pedro_password,
     fill A (by_label (val pedro) (str ''Buscar'') exactly) (val title),
     click A (button (val pedro) (val title)),
     click A (button (val pedro) (str ''Hacer una propuesta'')),
     fill A (by_label (val pedro) (str ''Mensaje'') exactly) (str ''Me interesan 15kg''),
     click A (button (val pedro) (str ''Enviar propuesta'')),
     visible_now A (by_text (val pedro) (str ''Abierta'') []),
     click A (button (val ana) (str ''Mis negociaciones'')),
     click A (button (val ana) (str ''Ver'')),
     visible_now A (by_text (val ana) (str ''Me interesan 15kg'') []),
     click A (button (val ana) (str ''Contraoferta'')),
     fill A (by_label (val ana) (str ''Mensaje'') exactly) (str ''Puedo hacer 20kg al mismo precio''),
     click A (button (val ana) (str ''Enviar contraoferta'')),
     visible_now A (by_text (val ana) (str ''Puedo hacer 20kg al mismo precio'') []),
     reload A (val pedro),
     visible_now A (by_text (val pedro) (str ''Puedo hacer 20kg al mismo precio'') []),
     click A (button (val pedro) (str ''Aceptar'')),
     visible_now A (named (val pedro) (str ''heading'') (str ''Acuerdo'')),
     visible_now A (by_text (val pedro) (str (''Sin intercambio econ'' @ oacute @ ''mico'')) []),
     screenshot A (val pedro) [''.local'', ''browser-agreement.png''],
     assert_no_errors,
     print_py (''PASS: two real browser sessions (Ana, Pedro) completed profile setup, listing publish, offer, '' @
         ''counteroffer and accept through the actual rendered UI, reaching a visible Agreement with no '' @
         ''JavaScript page errors.'')]))"

definition market_browser_run :: "('k, 'x) services \<Rightarrow> ('x host, unit) py" where
  "market_browser_run A =
     bind_py (market_browser_setup A) (\<lambda>(ana_email, ana_password, title, pedro_email, pedro_password, suffix).
     session A (str ''msedge'') no_errors (\<lambda>browser. market_browser_ui A browser ana_email ana_password title
         pedro_email pedro_password suffix))"

section \<open>Conformance\<close>

lemma market_browser_setup_conforms: "conforms market_browser_setup_plan (market_browser_setup A)"
  unfolding market_browser_setup_plan_def market_browser_setup_def append.simps by (intro py_conf) simp_all

lemmas market_browser_setup_steps [py_conf] =
  market_browser_setup_conforms conforms_bind [OF market_browser_setup_conforms] conforms_then [OF market_browser_setup_conforms]
  conforms_bind_last [OF market_browser_setup_conforms] conforms_then_last [OF market_browser_setup_conforms]

lemma market_browser_setup_logs [py_logs]: "(\<And>e. idle_event e \<Longrightarrow> P e) \<Longrightarrow> logs P (market_browser_setup A)"
  unfolding market_browser_setup_def by (intro py_logs logs_sql_e) simp_all

lemma market_browser_login_quiet [py_plan, py_conf]: "follows [] (market_browser_login A page email password)"
  unfolding market_browser_login_def by (intro follows_bind_quiet follows_then_quiet py_plan)

lemmas market_browser_login_steps [py_conf] = conforms_bind_quiet [OF market_browser_login_quiet] conforms_then_quiet [OF market_browser_login_quiet]

lemma market_browser_login_logs [py_logs]: "(\<And>e. P e) \<Longrightarrow> logs P (market_browser_login A page email password)"
  unfolding market_browser_login_def by (intro py_logs logs_sql_e) simp_all

lemma market_browser_ui_quiet [py_plan, py_conf]: "follows [] (market_browser_ui A browser ana_email ana_password title pedro_email pedro_password suffix)"
  unfolding market_browser_ui_def by (intro follows_bind_quiet follows_then_quiet py_plan)

lemmas market_browser_ui_steps [py_conf] = conforms_bind_quiet [OF market_browser_ui_quiet] conforms_then_quiet [OF market_browser_ui_quiet]

lemma market_browser_ui_logs [py_logs]: "(\<And>e. P e) \<Longrightarrow> logs P (market_browser_ui A browser ana_email ana_password title pedro_email pedro_password suffix)"
  unfolding market_browser_ui_def by (intro py_logs logs_sql_e) simp_all

lemma market_browser_run_tidy: "leaves_tidy (market_browser_run A)"
  unfolding market_browser_run_def by (intro leaves_tidy_rules py_logs) simp_all

end
