(* ===== verification/CredentialBrowser.thy ===== *)
theory CredentialBrowser
  imports EconomicBrowser
begin

text \<open>
  A second signing device in the browser (scripts/credential_device_lifecycle_browser_smoke.py): a
      second context of the same account is added as a signer, revokes the first, and completes an
      exchange.
\<close>

section \<open>The script\<close>

definition CREDENTIAL_PERMISSIONS :: json where
  "CREDENTIAL_PERMISSIONS = also_permits ECONOMIC_PERMISSIONS [''OSTRIS_CREDENTIAL_MANAGE'']"

text \<open>
  The loop over the two rows of devices: the first whose text does not name the second device is
  revoked, and the loop ends there.
\<close>

fun revoke_from :: "('k, 'x) services \<Rightarrow> locator \<Rightarrow> int list \<Rightarrow> ('x host, unit) py" where
  "revoke_from A rows [] = ret ()"
| "revoke_from A rows (i # rest) =
     bind_py (eval (nth_of (val rows) i)) (\<lambda>row.
     bind_py (act A (val row) ''inner_text'' []) (\<lambda>text.
     bind_py (eval (negate (member A (str (''Port'' @ aacute @ ''til de Ana'')) (or_e (val text) (str []))))) (\<lambda>other.
     if other then click A (button (val row) (str ''Revocar''))
     else revoke_from A rows rest)))"

definition revoke_other :: "('k, 'x) services \<Rightarrow> locator \<Rightarrow> ('x host, unit) py" where
  "revoke_other A rows = revoke_from A rows [0..1]"

definition credential_make_login :: "('k, 'x) services \<Rightarrow> json \<Rightarrow> json \<Rightarrow> json \<Rightarrow> json \<Rightarrow> json \<Rightarrow> ('x host, json \<times> json) py" where
  "credential_make_login A admin tenant role_id label suffix =
     bind_py (eval (fmt A [val label, str ''-'', val suffix, str ''@stir.test''])) (\<lambda>email.
     bind_py (token_urlsafe A 24) (\<lambda>password.
     then_py (call A (fmt A [str ''/api/shell/v1/tenants/'', val tenant, str ''/users'']) ''POST'' (obj [(''email'',
         val email), (''displayName'', val label), (''authProvider'', str ''local''), (''subject'', val email),
         (''password'', val password), (''role'', str ''member''), (''enabled'', yes)]) (val admin) [200, 201]) (
     bind_py (call A (str ''/api/shell/v1/auth/login'') ''POST'' (obj [(''email'', val email), (''password'',
         val password)]) none [200]) (\<lambda>session.
     then_py (call A (plus (fmt A [str ''/api/shell/v1/tenants/'', val tenant, str ''/roles/users/'']) (item (item
         (val session) ''user'') ''id'')) ''PUT'' (obj [(''roleIds'', arr [val role_id])]) (val admin) [204]) (
     ret (email, password))))))"

definition credential_make_login_plan :: "plan" where
  "credential_make_login_plan =
     [answered ''POST'' ''/users'' [200, 201], answered ''POST'' ''/api/shell/v1/auth/login'' [200], answered ''PUT''
         ''/roles/users/'' [204]]"

definition credential_setup :: "('k, 'x) services \<Rightarrow> ('x host, json \<times> json \<times> json \<times> json \<times> json \<times> json \<times> json) py" where
  "credential_setup A =
     bind_py (read_secret A ''login_password'') (\<lambda>r1.
     bind_py (call A (str ''/api/shell/v1/auth/login'') ''POST'' (obj [(''email'', str ''admin@stir.test''),
         (''password'', val r1)]) none [200]) (\<lambda>r2.
     bind_py (eval (item (val r2) ''accessToken'')) (\<lambda>admin.
     bind_py (uuid4_hex A) (\<lambda>r3.
     bind_py (eval (upto (val r3) 8)) (\<lambda>suffix.
     bind_py (eval (str ''STIR Credential Lifecycle Browser E2E'')) (\<lambda>tenant_name.
     bind_py (sql_e A (fmt A [str ''select tenant_id from idax_core.tenant_create('stir-cred-browser-'', val suffix,
         sq, str '', '', sq, val tenant_name, sq, str '', 'active', false);'']) False) (\<lambda>tenant.
     bind_py (call A (fmt A [str ''/api/shell/v1/tenants/'', val tenant, str ''/roles'']) ''POST'' (obj [(''key'',
         plus (str ''stir_cred_browser_'') (val suffix)), (''name'', str ''STIR credential browser E2E''),
         (''description'', str ''Isolated development fixture''), (''enabled'', yes)]) (val admin) [200, 201])
         (\<lambda>role.
     then_py (call A (plus (plus (fmt A [str ''/api/shell/v1/tenants/'', val tenant, str ''/roles/'']) (item (val
         role) ''id'')) (str ''/permissions'')) ''PUT'' (val CREDENTIAL_PERMISSIONS) (val admin) [200]) (
     bind_py (eval (item (val role) ''id'')) (\<lambda>r7.
     bind_py (credential_make_login A admin tenant r7 (JStr ''ana'') suffix) (\<lambda>(ana_email, ana_password).
     bind_py (eval (item (val role) ''id'')) (\<lambda>r9.
     bind_py (credential_make_login A admin tenant r9 (JStr ''pedro'') suffix) (\<lambda>(pedro_email,
         pedro_password).
     bind_py (eval (plus (str ''Guitar lessons '') (val suffix))) (\<lambda>title.
     ret (ana_email, ana_password, pedro_email, pedro_password, title, suffix, tenant_name)))))))))))))))"

definition credential_setup_plan :: "plan" where
  "credential_setup_plan =
     [answered ''POST'' ''/api/shell/v1/auth/login'' [200]] @ sql_events @ [answered ''POST'' ''/roles'' [200, 201],
         answered ''PUT'' ''/permissions'' [200]] @ credential_make_login_plan @ credential_make_login_plan"

definition credential_login :: "('k, 'x) services \<Rightarrow> json \<Rightarrow> locator \<Rightarrow> json \<Rightarrow> json \<Rightarrow> ('x host, unit) py" where
  "credential_login A tenant_name page email password =
     steps [
     goto A (val page) (str ''http://localhost:8089''),
     fill A (css (val page) (str ''input[type=email]'')) (val email),
     fill A (css (val page) (str ''input[type=password]'')) (val password),
     click A (css (val page) (str ''button[type=submit]'')),
     click A (having (css (val page) (str ''.module-card'')) (named (val page) (str ''heading'') (str ''STIR''))),
     select_option A (first_of (css (val page) (str ''.surface > header select''))) ''label'' (val tenant_name)]"

definition credential_back :: "('k, 'x) services \<Rightarrow> locator \<Rightarrow> ('x host, unit) py" where
  "credential_back A page =
     click A (button (val page) (str (leftarrow @ '' Marketplace'')))"

definition credential_ui :: "('k, 'x) services \<Rightarrow> locator \<Rightarrow> json \<Rightarrow> json \<Rightarrow> json \<Rightarrow> json \<Rightarrow> json \<Rightarrow> json \<Rightarrow> json \<Rightarrow> ('x host, unit) py" where
  "credential_ui A browser ana_email ana_password pedro_email pedro_password title suffix tenant_name =
     bind_py (new_page A browser 1440 1000) (\<lambda>ana1.
     bind_py (new_page A browser 1440 1000) (\<lambda>ana2.
     bind_py (new_page A browser 1440 1000) (\<lambda>pedro.
     then_py (steps [
     for_py (\<lambda>page.
     steps [
     set_timeout A (val page) 60000,
     on_pageerror A (val page)]) [ana1, ana2, pedro],
     credential_login A tenant_name ana1 ana_email ana_password,
     credential_login A tenant_name pedro pedro_email pedro_password,
     click A (button (val ana1) (str ''Mi perfil'')),
     fill A (by_label (val ana1) (str ''Nombre visible'') exactly) (plus (str ''Ana '') (val suffix)),
     click A (button (val ana1) (str ''Guardar'')),
     visible_now A (by_text (val ana1) (str ''Perfil guardado.'') []),
     credential_back A ana1,
     click A (button (val pedro) (str ''Mi perfil'')),
     fill A (by_label (val pedro) (str ''Nombre visible'') exactly) (plus (str ''Pedro '') (val suffix)),
     click A (button (val pedro) (str ''Guardar'')),
     visible_now A (by_text (val pedro) (str ''Perfil guardado.'') []),
     credential_back A pedro,
     click A (button (val ana1) (str (''Activaci'' @ oacute @ ''n econ'' @ oacute @ ''mica''))),
     fill A (by_label (val ana1) (str ''Nombre de la comunidad'') exactly) (plus (str ''Comunidad Cred E2E '')
         (val suffix)),
     fill A (by_label (val ana1) (str (''C'' @ oacute @ ''digo de la unidad'')) exactly) (str ''CRD''),
     fill A (by_label (val ana1) (str ''Decimales'') exactly) (str ''0''),
     click A (button (val ana1) (str (''Configurar comunidad econ'' @ oacute @ ''mica''))),
     click A (button (val ana1) (str ''Activar intercambios'')),
     visible_now A (by_text (val ana1) (str (''Tu intercambio econ'' @ oacute @ ''mico est'' @ aacute @ '' activo.''))
         []),
     visible_now A (named (val ana1) (str ''heading'') (str ''Dispositivos autorizados'')),
     click A (button (val pedro) (str (''Activaci'' @ oacute @ ''n econ'' @ oacute @ ''mica''))),
     click A (button (val pedro) (str ''Activar intercambios'')),
     visible_now A (by_text (val pedro) (str (''Tu intercambio econ'' @ oacute @ ''mico est'' @ aacute @
         '' activo.'')) []),
     credential_back A pedro,
     credential_login A tenant_name ana2 ana_email ana_password,
     click A (button (val ana2) (str (''Activaci'' @ oacute @ ''n econ'' @ oacute @ ''mica''))),
     visible_now A (by_text (val ana2) (str (''Tu intercambio econ'' @ oacute @ ''mico est'' @ aacute @ '' activo.''))
         []),
     visible_now A (by_text (val ana2) (str (''Este dispositivo/navegador todav'' @ iacute @ ''a no est'' @ aacute @
         '' registrado como firmante.'')) []),
     fill A (by_label (val ana2) (str ''Nombre del dispositivo'') exactly) (str (''Port'' @ aacute @ ''til de Ana'')),
     click A (button (val ana2) (str (''A'' @ ntilde @ ''adir este dispositivo''))),
     visible_now A (by_text (val ana2) (str (''Port'' @ aacute @ ''til de Ana'')) []),
     reload A (val ana1),
     expects A (by_text (val ana1) (str (''Port'' @ aacute @ ''til de Ana'')) []) ''to_be_visible'' [(''timeout'', arg
         (num 15000))]]) (
     bind_py (eval (having (css (val ana1) (str ''.stir-list li'')) (by_text (val ana1) (str ''Activo'') exactly)))
         (\<lambda>active_badges.
     then_py (expects A (val active_badges) ''to_have_count'' [([], arg (num 2))]) (
     bind_py (eval (css (val ana2) (str ''.stir-list li''))) (\<lambda>rows.
     steps [
     expects A (val rows) ''to_have_count'' [([], arg (num 2))],
     revoke_other A rows,
     expects A (by_text (val ana2) (str ''Revocado'') []) ''to_be_visible'' [(''timeout'', arg (num 15000))],
     reload A (val ana1),
     expects A (button (val ana1) (str ''Revocar'')) ''to_be_disabled'' [(''timeout'', arg (num 15000))],
     credential_back A ana2,
     click A (button (val ana2) (str (''+ Crear publicaci'' @ oacute @ ''n''))),
     select_option A (named (val ana2) (str ''combobox'') (str ''Quiero'')) [] (str ''OFFER''),
     fill A (by_label (val ana2) (str (''T'' @ iacute @ ''tulo'')) exactly) (val title),
     fill A (by_label (val ana2) (str (''Descripci'' @ oacute @ ''n'')) exactly)
         (str ''Clases de guitarra para principiantes''),
     click A (button (val ana2) (str ''Guardar'')),
     visible_now A (having (css (val ana2) (str ''.stir-card'')) (button (val ana2) (val title))),
     fill A (by_label (val pedro) (str ''Buscar'') exactly) (val title),
     click A (button (val pedro) (val title)),
     click A (button (val pedro) (str ''Hacer una propuesta'')),
     fill A (by_label (val pedro) (str ''Mensaje'') exactly) (str ''Me interesan las clases''),
     fill A (by_label (val pedro) (str ''Importe propuesto'') exactly) (str ''100''),
     click A (button (val pedro) (str ''Enviar propuesta'')),
     visible_now A (by_text (val pedro) (str ''Abierta'') []),
     click A (button (val ana2) (str ''Mis negociaciones'')),
     click A (button (val ana2) (str ''Ver'')),
     visible_now A (by_text (val ana2) (str ''Me interesan las clases'') []),
     click A (button (val ana2) (str ''Aceptar'')),
     visible_now A (named (val ana2) (str ''heading'') (str ''Acuerdo'')),
     click A (button (val ana2) (str (''Iniciar intercambio econ'' @ oacute @ ''mico''))),
     click A (button (val ana2) (str ''Firmar intercambio'')),
     visible_now A (by_text (val ana2) (str ''Esperando la firma de la otra parte.'') []),
     credential_back A pedro,
     click A (button (val pedro) (str ''Mis acuerdos'')),
     click A (button (val pedro) (str ''Ver'')),
     click A (button (val pedro) (str ''Firmar intercambio'')),
     click A (button (val pedro) (str ''Confirmar intercambio'')),
     visible_now A (by_text (val pedro) (str ''Secuencia de la comunidad'') []),
     assert_no_errors,
     print_py (''PASS: a second real browser device was added as an additional osTRIS signer for Ana's '' @
         ''already-active controller, the first device's credential was revoked from the second device, '' @
         ''the (now sole) surviving device was self-lockout-protected, and that surviving device '' @
         ''completed a real signed economic exchange with Pedro end to end - with no JavaScript page '' @
         ''errors.''),
     print_py ''STIR 0.4 PUBLIC PILOT MVP (credential/device lifecycle): PASS''])))))))"

definition credential_run :: "('k, 'x) services \<Rightarrow> ('x host, unit) py" where
  "credential_run A =
     bind_py (credential_setup A) (\<lambda>(ana_email, ana_password, pedro_email, pedro_password, title, suffix,
         tenant_name).
     session A (str ''msedge'') no_errors (\<lambda>browser. credential_ui A browser ana_email ana_password
         pedro_email pedro_password title suffix tenant_name))"

section \<open>Conformance\<close>

lemma revoke_other_quiet [py_plan, py_conf]: "follows [] (revoke_other A rows)"
proof -
  have "follows [] (revoke_from A rows is)" for "is"
    by (induction "is") (auto intro!: follows_bind_quiet quiet_eval quiet_act quiet_statements follows_ret)
  then show ?thesis unfolding revoke_other_def .
qed

lemma revoke_other_logs [py_logs]:
  assumes "\<And>e. P e"
  shows "logs P (revoke_other A rows)"
proof -
  have "logs P (revoke_from A rows is)" for "is"
    by (induction "is") (auto intro!: py_logs assms)
  then show ?thesis unfolding revoke_other_def .
qed

lemma credential_make_login_conforms: "conforms credential_make_login_plan (credential_make_login A admin tenant role_id label suffix)"
  unfolding credential_make_login_plan_def credential_make_login_def append.simps by (intro py_conf) simp_all

lemmas credential_make_login_steps [py_conf] =
  credential_make_login_conforms conforms_bind [OF credential_make_login_conforms] conforms_then [OF credential_make_login_conforms]
  conforms_bind_last [OF credential_make_login_conforms] conforms_then_last [OF credential_make_login_conforms]

lemma credential_make_login_logs [py_logs]: "(\<And>m u s. P (Called m u s)) \<Longrightarrow> logs P (credential_make_login A admin tenant role_id label suffix)"
  unfolding credential_make_login_def by (intro py_logs) simp_all

lemma credential_setup_conforms: "conforms credential_setup_plan (credential_setup A)"
  unfolding credential_setup_plan_def credential_setup_def append.simps by (intro py_conf) simp_all

lemmas credential_setup_steps [py_conf] =
  credential_setup_conforms conforms_bind [OF credential_setup_conforms] conforms_then [OF credential_setup_conforms]
  conforms_bind_last [OF credential_setup_conforms] conforms_then_last [OF credential_setup_conforms]

lemma credential_setup_logs [py_logs]: "(\<And>e. idle_event e \<Longrightarrow> P e) \<Longrightarrow> logs P (credential_setup A)"
  unfolding credential_setup_def by (intro py_logs logs_sql_e) simp_all

lemma credential_login_quiet [py_plan, py_conf]: "follows [] (credential_login A tenant_name page email password)"
  unfolding credential_login_def by (intro follows_bind_quiet follows_then_quiet py_plan)

lemmas credential_login_steps [py_conf] = conforms_bind_quiet [OF credential_login_quiet] conforms_then_quiet [OF credential_login_quiet]

lemma credential_login_logs [py_logs]: "(\<And>e. P e) \<Longrightarrow> logs P (credential_login A tenant_name page email password)"
  unfolding credential_login_def by (intro py_logs logs_sql_e) simp_all

lemma credential_back_quiet [py_plan, py_conf]: "follows [] (credential_back A page)"
  unfolding credential_back_def by (intro follows_bind_quiet follows_then_quiet py_plan)

lemmas credential_back_steps [py_conf] = conforms_bind_quiet [OF credential_back_quiet] conforms_then_quiet [OF credential_back_quiet]

lemma credential_back_logs [py_logs]: "(\<And>e. P e) \<Longrightarrow> logs P (credential_back A page)"
  unfolding credential_back_def by (intro py_logs logs_sql_e) simp_all

lemma credential_ui_quiet [py_plan, py_conf]: "follows [] (credential_ui A browser ana_email ana_password pedro_email pedro_password title suffix tenant_name)"
  unfolding credential_ui_def by (intro follows_bind_quiet follows_then_quiet py_plan)

lemmas credential_ui_steps [py_conf] = conforms_bind_quiet [OF credential_ui_quiet] conforms_then_quiet [OF credential_ui_quiet]

lemma credential_ui_logs [py_logs]: "(\<And>e. P e) \<Longrightarrow> logs P (credential_ui A browser ana_email ana_password pedro_email pedro_password title suffix tenant_name)"
  unfolding credential_ui_def by (intro py_logs logs_sql_e) simp_all

lemma credential_run_tidy: "leaves_tidy (credential_run A)"
  unfolding credential_run_def by (intro leaves_tidy_rules py_logs) simp_all

end
