(* ===== verification/ModerationBrowser.thy ===== *)
theory ModerationBrowser
  imports Browser
begin

text \<open>
  Moderation in three browser sessions (scripts/moderation_browser_smoke.py): a report, the queue
      only a moderator reaches, and a hidden listing.
\<close>

section \<open>The script\<close>

definition MEMBER_PERMISSIONS :: json where
  "MEMBER_PERMISSIONS = JArr (map JStr [''stir.listings.read'', ''stir.listings.create'',
      ''stir.listings.update'', ''stir.participants.read'', ''stir.participants.update'',
      ''stir.content.report''])"

definition MODERATOR_PERMISSIONS :: json where
  "MODERATOR_PERMISSIONS = JArr (map JStr [''stir.listings.read'', ''stir.moderation.manage''])"

definition moderation_make_login :: "('k, 'x) services \<Rightarrow> json \<Rightarrow> json \<Rightarrow> json \<Rightarrow> json \<Rightarrow> json \<Rightarrow> ('x host, json \<times> json) py" where
  "moderation_make_login A admin tenant role_id label suffix =
     bind_py (eval (fmt A [val label, str ''-'', val suffix, str ''@stir.test''])) (\<lambda>email.
     bind_py (token_urlsafe A 24) (\<lambda>password.
     then_py (call A (fmt A [str ''/api/shell/v1/tenants/'', val tenant, str ''/users'']) ''POST'' (obj [(''email'',
         val email), (''displayName'', val label), (''authProvider'', str ''local''), (''subject'', val email),
         (''password'', val password), (''role'', str ''member''), (''enabled'', yes)]) (val admin) [200, 201]) (
     bind_py (call A (str ''/api/shell/v1/auth/login'') ''POST'' (obj [(''email'', val email), (''password'',
         val password)]) none [200]) (\<lambda>session.
     then_py (call A (plus (fmt A [str ''/api/shell/v1/tenants/'', val tenant, str ''/roles/users/'']) (item (item
         (val session) ''user'') ''id'')) ''PUT'' (obj [(''roleIds'', arr [val role_id])]) (val admin) [204]) (
     ret (email, password))))))"

definition moderation_make_login_plan :: "plan" where
  "moderation_make_login_plan =
     [answered ''POST'' ''/users'' [200, 201], answered ''POST'' ''/api/shell/v1/auth/login'' [200], answered ''PUT''
         ''/roles/users/'' [204]]"

definition moderation_setup :: "('k, 'x) services \<Rightarrow> ('x host, json \<times> json \<times> json \<times> json \<times> json \<times> json \<times> json \<times> json) py" where
  "moderation_setup A =
     bind_py (read_secret A ''login_password'') (\<lambda>r1.
     bind_py (call A (str ''/api/shell/v1/auth/login'') ''POST'' (obj [(''email'', str ''admin@stir.test''),
         (''password'', val r1)]) none [200]) (\<lambda>r2.
     bind_py (eval (item (val r2) ''accessToken'')) (\<lambda>admin.
     bind_py (uuid4_hex A) (\<lambda>r3.
     bind_py (eval (upto (val r3) 8)) (\<lambda>suffix.
     bind_py (eval (str ''STIR Moderation Browser E2E'')) (\<lambda>tenant_name.
     bind_py (sql_e A (fmt A [str ''select tenant_id from idax_core.tenant_create('stir-mod-browser-'', val suffix,
         sq, str '', '', sq, val tenant_name, sq, str '', 'active', false);'']) False) (\<lambda>tenant.
     bind_py (call A (fmt A [str ''/api/shell/v1/tenants/'', val tenant, str ''/roles'']) ''POST'' (obj [(''key'',
         plus (str ''stir_mod_member_'') (val suffix)), (''name'', str ''STIR moderation E2E member''),
         (''description'', str ''Isolated development fixture''), (''enabled'', yes)]) (val admin) [200, 201])
         (\<lambda>member_role.
     then_py (call A (plus (plus (fmt A [str ''/api/shell/v1/tenants/'', val tenant, str ''/roles/'']) (item (val
         member_role) ''id'')) (str ''/permissions'')) ''PUT'' (val MEMBER_PERMISSIONS) (val admin) [200]) (
     bind_py (call A (fmt A [str ''/api/shell/v1/tenants/'', val tenant, str ''/roles'']) ''POST'' (obj [(''key'',
         plus (str ''stir_mod_moderator_'') (val suffix)), (''name'', str ''STIR moderation E2E moderator''),
         (''description'', str ''Isolated development fixture''), (''enabled'', yes)]) (val admin) [200, 201])
         (\<lambda>moderator_role.
     then_py (call A (plus (plus (fmt A [str ''/api/shell/v1/tenants/'', val tenant, str ''/roles/'']) (item (val
         moderator_role) ''id'')) (str ''/permissions'')) ''PUT'' (val MODERATOR_PERMISSIONS) (val admin) [200]) (
     bind_py (eval (item (val member_role) ''id'')) (\<lambda>r9.
     bind_py (moderation_make_login A admin tenant r9 (JStr ''ana'') suffix) (\<lambda>(ana_email, ana_password).
     bind_py (eval (item (val member_role) ''id'')) (\<lambda>r11.
     bind_py (moderation_make_login A admin tenant r11 (JStr ''carlos'') suffix) (\<lambda>(carlos_email,
         carlos_password).
     bind_py (eval (item (val moderator_role) ''id'')) (\<lambda>r13.
     bind_py (moderation_make_login A admin tenant r13 (JStr ''mod'') suffix) (\<lambda>(mod_email, mod_password).
     bind_py (eval (plus (str ''Suspicious offer '') (val suffix))) (\<lambda>title.
     ret (ana_email, ana_password, carlos_email, carlos_password, mod_email, mod_password, title,
         tenant_name)))))))))))))))))))"

definition moderation_setup_plan :: "plan" where
  "moderation_setup_plan =
     [answered ''POST'' ''/api/shell/v1/auth/login'' [200]] @ sql_events @ [answered ''POST'' ''/roles'' [200, 201],
         answered ''PUT'' ''/permissions'' [200], answered ''POST'' ''/roles'' [200, 201], answered ''PUT''
         ''/permissions'' [200]] @ moderation_make_login_plan @ moderation_make_login_plan @
         moderation_make_login_plan"

definition moderation_login :: "('k, 'x) services \<Rightarrow> json \<Rightarrow> locator \<Rightarrow> json \<Rightarrow> json \<Rightarrow> ('x host, unit) py" where
  "moderation_login A tenant_name page email password =
     steps [
     goto A (val page) (str ''http://localhost:8089''),
     fill A (css (val page) (str ''input[type=email]'')) (val email),
     fill A (css (val page) (str ''input[type=password]'')) (val password),
     click A (css (val page) (str ''button[type=submit]'')),
     click A (having (css (val page) (str ''.module-card'')) (named (val page) (str ''heading'') (str ''STIR''))),
     select_option A (first_of (css (val page) (str ''.surface > header select''))) ''label'' (val tenant_name)]"

definition moderation_ui :: "('k, 'x) services \<Rightarrow> locator \<Rightarrow> json \<Rightarrow> json \<Rightarrow> json \<Rightarrow> json \<Rightarrow> json \<Rightarrow> json \<Rightarrow> json \<Rightarrow> json \<Rightarrow> ('x host, unit) py" where
  "moderation_ui A browser ana_email ana_password carlos_email carlos_password mod_email mod_password title tenant_name =
     bind_py (new_page A browser 1440 1000) (\<lambda>ana.
     bind_py (new_page A browser 1440 1000) (\<lambda>carlos.
     bind_py (new_page A browser 1440 1000) (\<lambda>moderator.
     steps [
     for_py (\<lambda>page.
     steps [
     set_timeout A (val page) 60000,
     on_pageerror A (val page)]) [ana, carlos, moderator],
     moderation_login A tenant_name ana ana_email ana_password,
     moderation_login A tenant_name carlos carlos_email carlos_password,
     moderation_login A tenant_name moderator mod_email mod_password,
     expects A (button (val ana) (str (''Cola de moderaci'' @ oacute @ ''n''))) ''to_have_count'' [([], arg (num 0))],
     expects A (button (val carlos) (str (''Cola de moderaci'' @ oacute @ ''n''))) ''to_have_count'' [([], arg
         (num 0))],
     visible_now A (button (val moderator) (str (''Cola de moderaci'' @ oacute @ ''n''))),
     click A (button (val ana) (str (''+ Crear publicaci'' @ oacute @ ''n''))),
     fill A (by_label (val ana) (str (''T'' @ iacute @ ''tulo'')) exactly) (val title),
     fill A (by_label (val ana) (str (''Descripci'' @ oacute @ ''n'')) exactly)
         (str ''Oferta que Carlos va a reportar''),
     click A (button (val ana) (str ''Guardar'')),
     visible_now A (having (css (val ana) (str ''.stir-card'')) (button (val ana) (val title))),
     fill A (by_label (val carlos) (str ''Buscar'') exactly) (val title),
     click A (button (val carlos) (val title)),
     click A (button (val carlos) (str ''Reportar'')),
     fill A (by_label (val carlos) (str ''Motivo'') exactly) (str ''Parece un fraude''),
     click A (button (val carlos) (str ''Enviar reporte'')),
     visible_now A (by_text (val carlos) (str (''Gracias, tu reporte se ha enviado para revisi'' @ oacute @ ''n.''))
         []),
     goto A (val carlos) (str ''http://localhost:8089/stir/moderation''),
     expects A (by_text (val carlos) (str ''Parece un fraude'') []) ''to_have_count'' [([], arg (num 0))],
     click A (button (val moderator) (str (''Cola de moderaci'' @ oacute @ ''n''))),
     visible_now A (by_text (val moderator) (str ''Parece un fraude'') []),
     click A (button (val moderator) (str (''Ocultar publicaci'' @ oacute @ ''n''))),
     visible_now A (by_text (val moderator) (str ''No hay reportes abiertos.'') []),
     click A (button (val ana) (str ''Marketplace'')),
     fill A (by_label (val ana) (str ''Buscar'') exactly) (val title),
     expects A (having (css (val ana) (str ''.stir-card'')) (button (val ana) (val title))) ''to_have_count'' [([],
         arg (num 0))],
     click A (button (val ana) (str ''Mis publicaciones'')),
     fill A (by_label (val ana) (str ''Buscar'') exactly) (val title),
     visible_now A (having (css (val ana) (str ''.stir-card'')) (button (val ana) (val title))),
     assert_no_errors,
     print_py (''PASS: the moderation nav link and queue are reachable ONLY by an account holding '' @
         ''stir.moderation.manage; an ordinary member (Carlos) reported a real Listing; the moderator hid '' @
         ''it; the Listing vanished from everyone's public marketplace search while remaining visible '' @
         ''(marked hidden) in its owner's own listings - with no JavaScript page errors.''),
     print_py ''STIR 0.4 PUBLIC PILOT MVP (moderation): PASS''])))"

definition moderation_run :: "('k, 'x) services \<Rightarrow> ('x host, unit) py" where
  "moderation_run A =
     bind_py (moderation_setup A) (\<lambda>(ana_email, ana_password, carlos_email, carlos_password, mod_email,
         mod_password, title, tenant_name).
     session A (str ''msedge'') no_errors (\<lambda>browser. moderation_ui A browser ana_email ana_password
         carlos_email carlos_password mod_email mod_password title tenant_name))"

section \<open>Conformance\<close>

lemma moderation_make_login_conforms: "conforms moderation_make_login_plan (moderation_make_login A admin tenant role_id label suffix)"
  unfolding moderation_make_login_plan_def moderation_make_login_def append.simps by (intro py_conf) simp_all

lemmas moderation_make_login_steps [py_conf] =
  moderation_make_login_conforms conforms_bind [OF moderation_make_login_conforms] conforms_then [OF moderation_make_login_conforms]
  conforms_bind_last [OF moderation_make_login_conforms] conforms_then_last [OF moderation_make_login_conforms]

lemma moderation_make_login_logs [py_logs]: "(\<And>m u s. P (Called m u s)) \<Longrightarrow> logs P (moderation_make_login A admin tenant role_id label suffix)"
  unfolding moderation_make_login_def by (intro py_logs) simp_all

lemma moderation_setup_conforms: "conforms moderation_setup_plan (moderation_setup A)"
  unfolding moderation_setup_plan_def moderation_setup_def append.simps by (intro py_conf) simp_all

lemmas moderation_setup_steps [py_conf] =
  moderation_setup_conforms conforms_bind [OF moderation_setup_conforms] conforms_then [OF moderation_setup_conforms]
  conforms_bind_last [OF moderation_setup_conforms] conforms_then_last [OF moderation_setup_conforms]

lemma moderation_setup_logs [py_logs]: "(\<And>e. idle_event e \<Longrightarrow> P e) \<Longrightarrow> logs P (moderation_setup A)"
  unfolding moderation_setup_def by (intro py_logs logs_sql_e) simp_all

lemma moderation_login_quiet [py_plan, py_conf]: "follows [] (moderation_login A tenant_name page email password)"
  unfolding moderation_login_def by (intro follows_bind_quiet follows_then_quiet py_plan)

lemmas moderation_login_steps [py_conf] = conforms_bind_quiet [OF moderation_login_quiet] conforms_then_quiet [OF moderation_login_quiet]

lemma moderation_login_logs [py_logs]: "(\<And>e. P e) \<Longrightarrow> logs P (moderation_login A tenant_name page email password)"
  unfolding moderation_login_def by (intro py_logs logs_sql_e) simp_all

lemma moderation_ui_quiet [py_plan, py_conf]: "follows [] (moderation_ui A browser ana_email ana_password carlos_email carlos_password mod_email mod_password title tenant_name)"
  unfolding moderation_ui_def by (intro follows_bind_quiet follows_then_quiet py_plan)

lemmas moderation_ui_steps [py_conf] = conforms_bind_quiet [OF moderation_ui_quiet] conforms_then_quiet [OF moderation_ui_quiet]

lemma moderation_ui_logs [py_logs]: "(\<And>e. P e) \<Longrightarrow> logs P (moderation_ui A browser ana_email ana_password carlos_email carlos_password mod_email mod_password title tenant_name)"
  unfolding moderation_ui_def by (intro py_logs logs_sql_e) simp_all

lemma moderation_run_tidy: "leaves_tidy (moderation_run A)"
  unfolding moderation_run_def by (intro leaves_tidy_rules py_logs) simp_all

end
