(* ===== verification/PilotBrowser.thy ===== *)
theory PilotBrowser
  imports EconomicBrowser
begin

text \<open>
  The public pilot in the browser (scripts/public_pilot_browser_smoke.py): profile and avatar, a
      listing with a photo, the home dashboard and the notifications.
\<close>

section \<open>The script\<close>

definition PILOT_PERMISSIONS :: json where
  "PILOT_PERMISSIONS = also_permits ECONOMIC_PERMISSIONS [''stir.notifications.read'', ''stir.content.report'',
      ''stir.moderation.manage'']"

definition pilot_make_login :: "('k, 'x) services \<Rightarrow> json \<Rightarrow> json \<Rightarrow> json \<Rightarrow> json \<Rightarrow> json \<Rightarrow> ('x host, json \<times> json) py" where
  "pilot_make_login A admin tenant role_id label suffix =
     bind_py (eval (fmt A [val label, str ''-'', val suffix, str ''@stir.test''])) (\<lambda>email.
     bind_py (token_urlsafe A 24) (\<lambda>password.
     then_py (call A (fmt A [str ''/api/shell/v1/tenants/'', val tenant, str ''/users'']) ''POST'' (obj [(''email'',
         val email), (''displayName'', val label), (''authProvider'', str ''local''), (''subject'', val email),
         (''password'', val password), (''role'', str ''member''), (''enabled'', yes)]) (val admin) [200, 201]) (
     bind_py (call A (str ''/api/shell/v1/auth/login'') ''POST'' (obj [(''email'', val email), (''password'',
         val password)]) none [200]) (\<lambda>session.
     then_py (call A (plus (fmt A [str ''/api/shell/v1/tenants/'', val tenant, str ''/roles/users/'']) (item (item
         (val session) ''user'') ''id'')) ''PUT'' (obj [(''roleIds'', arr [val role_id])]) (val admin) [204]) (
     ret (email, password))))))"

definition pilot_make_login_plan :: "plan" where
  "pilot_make_login_plan =
     [answered ''POST'' ''/users'' [200, 201], answered ''POST'' ''/api/shell/v1/auth/login'' [200], answered ''PUT''
         ''/roles/users/'' [204]]"

definition pilot_setup :: "('k, 'x) services \<Rightarrow> ('x host, json \<times> json \<times> json \<times> json \<times> json) py" where
  "pilot_setup A =
     bind_py (read_secret A ''login_password'') (\<lambda>r1.
     bind_py (call A (str ''/api/shell/v1/auth/login'') ''POST'' (obj [(''email'', str ''admin@stir.test''),
         (''password'', val r1)]) none [200]) (\<lambda>r2.
     bind_py (eval (item (val r2) ''accessToken'')) (\<lambda>admin.
     bind_py (uuid4_hex A) (\<lambda>r3.
     bind_py (eval (upto (val r3) 8)) (\<lambda>suffix.
     bind_py (eval (str ''STIR Public Pilot Browser E2E'')) (\<lambda>tenant_name.
     bind_py (sql_e A (fmt A [str ''select tenant_id from idax_core.tenant_create('stir-pilot-browser-'', val suffix,
         sq, str '', '', sq, val tenant_name, sq, str '', 'active', false);'']) False) (\<lambda>tenant.
     bind_py (call A (fmt A [str ''/api/shell/v1/tenants/'', val tenant, str ''/roles'']) ''POST'' (obj [(''key'',
         plus (str ''stir_pilot_browser_'') (val suffix)), (''name'', str ''STIR pilot browser E2E''),
         (''description'', str ''Isolated development fixture''), (''enabled'', yes)]) (val admin) [200, 201])
         (\<lambda>role.
     then_py (call A (plus (plus (fmt A [str ''/api/shell/v1/tenants/'', val tenant, str ''/roles/'']) (item (val
         role) ''id'')) (str ''/permissions'')) ''PUT'' (val PILOT_PERMISSIONS) (val admin) [200]) (
     bind_py (eval (item (val role) ''id'')) (\<lambda>r7.
     bind_py (pilot_make_login A admin tenant r7 (JStr ''ana'') suffix) (\<lambda>(ana_email, ana_password).
     bind_py (eval (plus (str ''Handmade pottery '') (val suffix))) (\<lambda>title.
     ret (ana_email, ana_password, title, tenant_name, suffix)))))))))))))"

definition pilot_setup_plan :: "plan" where
  "pilot_setup_plan =
     [answered ''POST'' ''/api/shell/v1/auth/login'' [200]] @ sql_events @ [answered ''POST'' ''/roles'' [200, 201],
         answered ''PUT'' ''/permissions'' [200]] @ pilot_make_login_plan"

definition pilot_ui :: "('k, 'x) services \<Rightarrow> locator \<Rightarrow> json \<Rightarrow> json \<Rightarrow> json \<Rightarrow> json \<Rightarrow> json \<Rightarrow> ('x host, unit) py" where
  "pilot_ui A browser ana_email ana_password title tenant_name suffix =
     bind_py (new_page A browser 1440 1000) (\<lambda>ana.
     steps [
     set_timeout A (val ana) 60000,
     on_pageerror A (val ana),
     goto A (val ana) (str ''http://localhost:8089''),
     fill A (css (val ana) (str ''input[type=email]'')) (val ana_email),
     fill A (css (val ana) (str ''input[type=password]'')) (val ana_password),
     click A (css (val ana) (str ''button[type=submit]'')),
     click A (having (css (val ana) (str ''.module-card'')) (named (val ana) (str ''heading'') (str ''STIR''))),
     select_option A (first_of (css (val ana) (str ''.surface > header select''))) ''label'' (val tenant_name),
     click A (button (val ana) (str ''Mi perfil'')),
     fill A (by_label (val ana) (str ''Nombre visible'') exactly) (plus (str ''Ana '') (val suffix)),
     click A (button (val ana) (str ''Guardar'')),
     visible_now A (by_text (val ana) (str ''Perfil guardado.'') []),
     upload A (by_label (val ana) (str ''Subir foto'') []) (root_dir A @ [''.local'', ''test-assets'',
         ''test-avatar.png'']),
     expects A (css (val ana) (str ''img.stir-avatar'')) ''to_be_visible'' [(''timeout'', arg (num 15000))],
     click A (button (val ana) (str (leftarrow @ '' Marketplace''))),
     click A (button (val ana) (str (''+ Crear publicaci'' @ oacute @ ''n''))),
     fill A (by_label (val ana) (str (''T'' @ iacute @ ''tulo'')) exactly) (val title),
     fill A (by_label (val ana) (str (''Descripci'' @ oacute @ ''n'')) exactly) (str (''Piezas de cer'' @ aacute @
         ''mica hechas a mano'')),
     click A (button (val ana) (str ''Guardar'')),
     visible_now A (having (css (val ana) (str ''.stir-card'')) (button (val ana) (val title))),
     click A (button (having (css (val ana) (str ''.stir-card'')) (button (val ana) (val title))) (str ''Editar'')),
     upload A (by_label (val ana) (str ''Fotos'') exactly) (root_dir A @ [''.local'', ''test-assets'',
         ''test-photo.jpg'']),
     expects A (css (val ana) (str ''.stir-photo-item img'')) ''to_be_visible'' [(''timeout'', arg (num 15000))],
     visible_now A (by_text (val ana) (str ''1/6'') []),
     click A (button (val ana) (str ''Cancelar'')),
     expects A (css (having (css (val ana) (str ''.stir-card'')) (button (val ana) (val title)))
         (str ''img.stir-thumb'')) ''to_be_visible'' [(''timeout'', arg (num 15000))],
     click A (button (val ana) (str ''Resumen'')),
     visible_now A (button (val ana) (str (''Activaci'' @ oacute @ ''n econ'' @ oacute @ ''mica''))),
     visible_now A (first_of (having (css (val ana) (str ''.stir-card'')) (button (val ana) (val title)))),
     click A (button (val ana) (str ''Ver todas las notificaciones'')),
     visible_now A (by_text (val ana) (str (''Todav'' @ iacute @ ''a no hay notificaciones.'')) []),
     assert_no_errors,
     print_py (''PASS: profile+avatar upload, a photographed Listing (thumbnail visible on the card grid), the '' @
         ''Home dashboard and the notifications page all work end to end through the real rendered UI, '' @
         ''with no JavaScript page errors.''),
     print_py ''STIR 0.4 PUBLIC PILOT MVP (core flow smoke): PASS''])"

definition pilot_run :: "('k, 'x) services \<Rightarrow> ('x host, unit) py" where
  "pilot_run A =
     bind_py (pilot_setup A) (\<lambda>(ana_email, ana_password, title, tenant_name, suffix).
     session A (str ''msedge'') no_errors (\<lambda>browser. pilot_ui A browser ana_email ana_password title
         tenant_name suffix))"

section \<open>Conformance\<close>

lemma pilot_make_login_conforms: "conforms pilot_make_login_plan (pilot_make_login A admin tenant role_id label suffix)"
  unfolding pilot_make_login_plan_def pilot_make_login_def append.simps by (intro py_conf) simp_all

lemmas pilot_make_login_steps [py_conf] =
  pilot_make_login_conforms conforms_bind [OF pilot_make_login_conforms] conforms_then [OF pilot_make_login_conforms]
  conforms_bind_last [OF pilot_make_login_conforms] conforms_then_last [OF pilot_make_login_conforms]

lemma pilot_make_login_logs [py_logs]: "(\<And>m u s. P (Called m u s)) \<Longrightarrow> logs P (pilot_make_login A admin tenant role_id label suffix)"
  unfolding pilot_make_login_def by (intro py_logs) simp_all

lemma pilot_setup_conforms: "conforms pilot_setup_plan (pilot_setup A)"
  unfolding pilot_setup_plan_def pilot_setup_def append.simps by (intro py_conf) simp_all

lemmas pilot_setup_steps [py_conf] =
  pilot_setup_conforms conforms_bind [OF pilot_setup_conforms] conforms_then [OF pilot_setup_conforms]
  conforms_bind_last [OF pilot_setup_conforms] conforms_then_last [OF pilot_setup_conforms]

lemma pilot_setup_logs [py_logs]: "(\<And>e. idle_event e \<Longrightarrow> P e) \<Longrightarrow> logs P (pilot_setup A)"
  unfolding pilot_setup_def by (intro py_logs logs_sql_e) simp_all

lemma pilot_ui_quiet [py_plan, py_conf]: "follows [] (pilot_ui A browser ana_email ana_password title tenant_name suffix)"
  unfolding pilot_ui_def by (intro follows_bind_quiet follows_then_quiet py_plan)

lemmas pilot_ui_steps [py_conf] = conforms_bind_quiet [OF pilot_ui_quiet] conforms_then_quiet [OF pilot_ui_quiet]

lemma pilot_ui_logs [py_logs]: "(\<And>e. P e) \<Longrightarrow> logs P (pilot_ui A browser ana_email ana_password title tenant_name suffix)"
  unfolding pilot_ui_def by (intro py_logs logs_sql_e) simp_all

lemma pilot_run_tidy: "leaves_tidy (pilot_run A)"
  unfolding pilot_run_def by (intro leaves_tidy_rules py_logs) simp_all

end
