(* ===== verification/ReferencesBrowser.thy ===== *)
theory ReferencesBrowser
  imports ValueGovernance Browser
begin

text \<open>
  References in two browser sessions (scripts/community_references_browser.py): publication, an
      agreement above the guidance with consent, and the unchanged historical version.
\<close>

section \<open>The script\<close>

definition references_browser_setup :: "('k, 'x) services \<Rightarrow> ('x host, (json \<times> json) \<times> json \<times> (json \<times> json) \<times> json \<times> json \<times> json \<times> json) py" where
  "references_browser_setup A =
     bind_py (read_secret A ''login_password'') (\<lambda>r1.
     bind_py (call A (str ''/api/shell/v1/auth/login'') ''POST'' (obj [(''email'', str ''admin@stir.test''),
         (''password'', val r1)]) none [200]) (\<lambda>r2.
     bind_py (eval (item (val r2) ''accessToken'')) (\<lambda>admin.
     bind_py (uuid4_hex A) (\<lambda>r3.
     bind_py (eval (upto (val r3) 8)) (\<lambda>suffix.
     bind_py (eval (plus (str ''Reference Browser '') (val suffix))) (\<lambda>name.
     bind_py (sql_e A (fmt A [str ''select tenant_id from idax_core.tenant_create('ref-browser-'', val suffix, sq,
         str '','', sq, val name, sq, str '','active',false);'']) False) (\<lambda>tenant.
     bind_py (call A (fmt A [str ''/api/shell/v1/tenants/'', val tenant, str ''/roles'']) ''POST'' (obj [(''key'',
         plus (str ''reference'') (val suffix)), (''name'', str ''Reference publisher''), (''description'',
         str ''Local browser test''), (''enabled'', yes)]) (val admin) [200, 201]) (\<lambda>role.
     then_py (call A (plus (plus (fmt A [str ''/api/shell/v1/tenants/'', val tenant, str ''/roles/'']) (item (val
         role) ''id'')) (str ''/permissions'')) ''PUT'' (plus (val MEMBER) (arr [str ''stir.references.publish'']))
         (val admin) [200]) (
     bind_py (eval (item (val role) ''id'')) (\<lambda>r7.
     bind_py (make_login A admin tenant r7 (JStr ''ana'') suffix) (\<lambda>ana_login.
     bind_py (eval (item (val role) ''id'')) (\<lambda>r9.
     bind_py (make_login A admin tenant r9 (JStr ''pedro'') suffix) (\<lambda>pedro_login.
     bind_py (call A (str ''/api/shell/v1/auth/login'') ''POST'' (obj [(''email'', val (fst ana_login)),
         (''password'', val (snd ana_login))]) none [200]) (\<lambda>r11.
     bind_py (eval (item (val r11) ''accessToken'')) (\<lambda>a.
     bind_py (eval (fmt A [str ''/api/stir/tenants/'', val tenant])) (\<lambda>base.
     bind_py (call A (plus (val base) (str ''/economic/marketplace/bootstrap'')) ''POST'' (obj [(''communityName'',
         val name), (''unitCode'', str ''REF''), (''unitScale'', num 2)]) (val a) [200]) (\<lambda>binding.
     ret (ana_login, suffix, pedro_login, binding, name, base, a))))))))))))))))))"

definition references_browser_setup_plan :: "plan" where
  "references_browser_setup_plan =
     [answered ''POST'' ''/api/shell/v1/auth/login'' [200]] @ sql_events @ [answered ''POST'' ''/roles'' [200, 201],
         answered ''PUT'' ''/permissions'' [200]] @ make_login_plan @ make_login_plan @ [answered ''POST''
         ''/api/shell/v1/auth/login'' [200], answered ''POST'' ''/economic/marketplace/bootstrap'' [200]]"

definition references_browser_login :: "('k, 'x) services \<Rightarrow> json \<Rightarrow> locator \<Rightarrow> (json \<times> json) \<Rightarrow> ('x host, unit) py" where
  "references_browser_login A name page credentials =
     steps [
     set_timeout A (val page) 30000,
     on_pageerror A (val page),
     goto A (val page) (str ''http://localhost:8089''),
     fill A (css (val page) (str ''input[type=email]'')) (val (fst credentials)),
     fill A (css (val page) (str ''input[type=password]'')) (val (snd credentials)),
     click A (css (val page) (str ''button[type=submit]'')),
     click A (having (css (val page) (str ''.module-card'')) (named (val page) (str ''heading'') (str ''STIR''))),
     select_option A (first_of (css (val page) (str ''.surface > header select''))) ''label'' (val name)]"

definition references_browser_publish :: "('k, 'x) services \<Rightarrow> locator \<Rightarrow> json \<Rightarrow> json \<Rightarrow> json \<Rightarrow> ('x host, unit) py" where
  "references_browser_publish A page amount explanation decision =
     bind_py (eval (having_text (css (val page) (str ''summary'')) (str ''Proponer referencia''))) (\<lambda>summary.
     bind_py (act A (by_label (val page) (str ''Valor orientativo inferior'') exactly) ''is_visible'' [])
         (\<lambda>r1.
     steps [
     bind_py (eval (negate (truth (val r1)))) (\<lambda>b. when_py b (click A (val summary))),
     fill A (by_label (val page) (str ''Valor orientativo inferior'') exactly) (val amount),
     fill A (by_label (val page) (str ''Valor orientativo superior'') exactly) (val amount),
     fill A (by_label (val page) (str (''Explicaci'' @ oacute @ ''n humana'')) exactly) (val explanation),
     fill A (by_label (val page) (str (''M'' @ eacute @ ''todo / origen de la decisi'' @ oacute @ ''n'')) exactly)
         (str ''Asamblea comunitaria''),
     click A (button (val page) (str ''Proponer referencia'')),
     fill A (by_label (val page) (str (''Decisi'' @ oacute @ ''n de publicaci'' @ oacute @ ''n'')) exactly)
         (val decision),
     click A (button (val page) (str (''Publicar nueva versi'' @ oacute @ ''n''))),
     visible_now A (by_text (by_test_id (val page) (str ''reference-panel'')) (val explanation) exactly)]))"

definition references_browser_pages :: "('k, 'x) services \<Rightarrow> locator \<Rightarrow> ('x host, locator \<times> locator) py" where
  "references_browser_pages A browser =
     bind_py (new_page A browser 1440 1100) (\<lambda>ana.
     bind_py (new_page A browser 1440 1100) (\<lambda>pedro.
     ret (ana, pedro)))"

definition references_browser_steps :: "('k, 'x) services \<Rightarrow> locator \<Rightarrow> locator \<Rightarrow> (json \<times> json) \<Rightarrow> json \<Rightarrow> (json \<times> json) \<Rightarrow> json \<Rightarrow> json \<Rightarrow> json \<Rightarrow> json \<Rightarrow> ('x host, unit) py" where
  "references_browser_steps A ana pedro ana_login suffix pedro_login binding name base a =
     then_py (steps [
     references_browser_login A name ana ana_login,
     goto A (val ana) (str ''http://localhost:8089/stir/references''),
     click A (first_of (by_text (val ana) (str (''Crear definici'' @ oacute @ ''n comparable'')) exactly)),
     fill A (by_label (val ana) (str ''Nombre'') exactly) (plus (str ''Pan 500g '') (val suffix)),
     fill A (by_label (val ana) (str (Aacute @ ''mbito de comparaci'' @ oacute @ ''n'')) exactly)
         (str ''Una barra de pan de 500g''),
     fill A (by_label (val ana) (str ''Unidad de cantidad'') exactly) (str ''barra''),
     click A (button (val ana) (str (''Crear definici'' @ oacute @ ''n comparable''))),
     visible_now A (by_text (val ana) (str ''Datos insuficientes'') exactly),
     references_browser_publish A ana (JStr ''10'') (JStr (''Convenci'' @ oacute @ ''n inicial revisable'')) (JStr
         ''Primera asamblea'')]) (
     bind_py (call A (plus (val base) (str ''/references'')) ''GET'' none (val a) [200]) (\<lambda>r1.
     bind_py (eval (at (val r1) 0)) (\<lambda>definition.
     then_py (goto A (val ana) (str ''http://localhost:8089/stir/new'')) (
     bind_py (eval (plus (str ''Pan comunitario '') (val suffix))) (\<lambda>title.
     then_py (steps [
     fill A (by_label (val ana) (str (''T'' @ iacute @ ''tulo'')) loosely) (val title),
     fill A (by_label (val ana) (str (''Descripci'' @ oacute @ ''n'')) loosely) (str ''Barra de pan de 500g''),
     select_option A (by_label (val ana) (str (''Definici'' @ oacute @ ''n comparable'')) loosely) ''value''
         (item (val definition) ''id''),
     click A (button (val ana) (str (''Guardar y a'' @ ntilde @ ''adir fotos''))),
     click A (button (val ana) (str ''Listo'')),
     references_browser_login A name pedro pedro_login,
     goto A (val pedro) (str ''http://localhost:8089/stir''),
     fill A (by_label (val pedro) (str ''Buscar'') exactly) (val title),
     click A (button (val pedro) (val title)),
     visible_now A (by_text (val pedro) (str (''Convenci'' @ oacute @ ''n inicial revisable'')) exactly),
     click A (by_text (val pedro) (str (iquest @ ''Por qu'' @ eacute @ '' me muestran esta referencia?'')) exactly),
     visible_now A (by_text (val pedro) (str ''Datos insuficientes'') exactly),
     click A (button (val pedro) (str ''Hacer una propuesta'')),
     fill A (by_label (val pedro) (str ''Mensaje'') exactly) (str ''Propongo por debajo de la referencia''),
     fill A (by_label (val pedro) (str ''Cantidad'') exactly) (str ''1''),
     fill A (by_label (val pedro) (str ''Unidad'') exactly) (str ''barra''),
     fill A (by_label (val pedro) (str ''Importe propuesto'') exactly) (str ''1''),
     expects A (by_label (val pedro) (str ''Referencia de unidad'') exactly) ''to_have_value'' [([], arg (item (val
         binding) ''unitId''))],
     tick A (by_role (val pedro) (str ''checkbox'')),
     visible_now A (by_text (val pedro) (str ''Por debajo de la referencia (permitido)'') loosely),
     click A (button (val pedro) (str ''Enviar propuesta'')),
     expects A (val pedro) ''to_have_url'' [([], Inr (Pattern ''/stir/negotiations/''))]]) (
     bind_py (act A (val pedro) ''url'' []) (\<lambda>negotiation_url.
     then_py (steps [
     goto A (val ana) (val negotiation_url),
     click A (button (val ana) (str ''Contraoferta'')),
     fill A (by_label (val ana) (str ''Mensaje'') exactly) (str ''Propongo por encima de la referencia''),
     fill A (by_label (val ana) (str ''Cantidad'') exactly) (str ''1''),
     fill A (by_label (val ana) (str ''Unidad'') exactly) (str ''barra''),
     fill A (by_label (val ana) (str ''Importe propuesto'') exactly) (str ''100''),
     expects A (by_label (val ana) (str ''Referencia de unidad'') exactly) ''to_have_value'' [([], arg (item (val
         binding) ''unitId''))],
     tick A (last_of (by_role (val ana) (str ''checkbox''))),
     visible_now A (by_text (val ana) (str ''Por encima de la referencia (permitido)'') loosely),
     click A (button (val ana) (str ''Enviar contraoferta'')),
     reload A (val pedro),
     visible_now A (by_text (val pedro) (str ''Propongo por encima de la referencia'') exactly),
     tick A (by_role (val pedro) (str ''checkbox'')),
     click A (button (val pedro) (str ''Aceptar'')),
     expects A (val pedro) ''to_have_url'' [([], Inr (Pattern ''/stir/agreements/''))],
     visible_now A (named (val pedro) (str ''heading'') (str ''Acuerdo'')),
     visible_now A (by_text (val pedro) (str ''Lo que acordaste'') exactly),
     visible_now A (first_of (by_text (val pedro) (str ''Unidad comunitaria'') loosely))]) (
     bind_py (act A (val pedro) ''url'' []) (\<lambda>agreement_url.
     steps [
     visible_now A (by_text (val pedro) (str (''Convenci'' @ oacute @ ''n inicial revisable'')) exactly),
     screenshot A (val pedro) [''.local'', ''reference-agreement-v1.png''],
     goto A (val ana) (str ''http://localhost:8089/stir/references''),
     select_option A (by_label (val ana) (str (''Definici'' @ oacute @ ''n comparable'')) loosely) ''value''
         (item (val definition) ''id''),
     references_browser_publish A ana (JStr ''25'') (JStr (''Convenci'' @ oacute @ ''n revisada deliberadamente''))
         (JStr ''Segunda asamblea''),
     screenshot A (val ana) [''.local'', ''reference-published-v2.png''],
     goto A (val pedro) (val agreement_url),
     visible_now A (by_text (val pedro) (str (''Convenci'' @ oacute @ ''n inicial revisable'')) exactly),
     expects A (by_text (val pedro) (str (''Convenci'' @ oacute @ ''n revisada deliberadamente'')) exactly)
         ''to_have_count'' [([], arg (num 0))],
     assert_no_errors,
     print_py (''PASS BROWSER: two sessions, definition, published v1, listing association, explanation, free '' @
         ''counteroffer above guidance, consent, Agreement, v2 and unchanged historical v1; no page '' @
         ''errors.'')])))))))))"

definition references_browser_steps_plan :: "plan" where
  "references_browser_steps_plan =
     [answered ''GET'' ''/references'' [200]]"

definition references_browser_failure :: "('k, 'x) services \<Rightarrow> locator \<Rightarrow> locator \<Rightarrow> ('x host, unit) py" where
  "references_browser_failure A ana pedro =
     for_py (\<lambda>(label, page). screenshot A (val page) [''.local'', ''reference-failure-'' @ label @ ''.png''])
         [(''ana'', ana), (''pedro'', pedro)]"

definition references_browser_ui :: "('k, 'x) services \<Rightarrow> locator \<Rightarrow> (json \<times> json) \<Rightarrow> json \<Rightarrow> (json \<times> json) \<Rightarrow> json \<Rightarrow> json \<Rightarrow> json \<Rightarrow> json \<Rightarrow> ('x host, unit) py" where
  "references_browser_ui A browser ana_login suffix pedro_login binding name base a =
     bind_py (except_py (references_browser_pages A browser) (raise (UnboundLocalError ''ana''))) (\<lambda>(ana,
         pedro).
     except_py (references_browser_steps A ana pedro ana_login suffix pedro_login binding name base a)
         (references_browser_failure A ana pedro))"

definition references_browser_run :: "('k, 'x) services \<Rightarrow> ('x host, unit) py" where
  "references_browser_run A =
     bind_py (references_browser_setup A) (\<lambda>(ana_login, suffix, pedro_login, binding, name, base, a).
     session A (str ''msedge'') no_errors (\<lambda>browser. references_browser_ui A browser ana_login suffix
         pedro_login binding name base a))"

section \<open>Conformance\<close>

lemma references_browser_setup_conforms: "conforms references_browser_setup_plan (references_browser_setup A)"
  unfolding references_browser_setup_plan_def references_browser_setup_def append.simps by (intro py_conf) simp_all

lemmas references_browser_setup_steps [py_conf] =
  references_browser_setup_conforms conforms_bind [OF references_browser_setup_conforms] conforms_then [OF references_browser_setup_conforms]
  conforms_bind_last [OF references_browser_setup_conforms] conforms_then_last [OF references_browser_setup_conforms]

lemma references_browser_setup_logs [py_logs]: "(\<And>e. idle_event e \<Longrightarrow> P e) \<Longrightarrow> logs P (references_browser_setup A)"
  unfolding references_browser_setup_def by (intro py_logs logs_sql_e) simp_all

lemma references_browser_login_quiet [py_plan, py_conf]: "follows [] (references_browser_login A name page credentials)"
  unfolding references_browser_login_def by (intro follows_bind_quiet follows_then_quiet py_plan)

lemmas references_browser_login_steps [py_conf] = conforms_bind_quiet [OF references_browser_login_quiet] conforms_then_quiet [OF references_browser_login_quiet]

lemma references_browser_login_logs [py_logs]: "(\<And>e. P e) \<Longrightarrow> logs P (references_browser_login A name page credentials)"
  unfolding references_browser_login_def by (intro py_logs logs_sql_e) simp_all

lemma references_browser_publish_quiet [py_plan, py_conf]: "follows [] (references_browser_publish A page amount explanation decision)"
  unfolding references_browser_publish_def by (intro follows_bind_quiet follows_then_quiet py_plan)

lemmas references_browser_publish_steps [py_conf] = conforms_bind_quiet [OF references_browser_publish_quiet] conforms_then_quiet [OF references_browser_publish_quiet]

lemma references_browser_publish_logs [py_logs]: "(\<And>e. P e) \<Longrightarrow> logs P (references_browser_publish A page amount explanation decision)"
  unfolding references_browser_publish_def by (intro py_logs logs_sql_e) simp_all

lemma references_browser_pages_quiet [py_plan, py_conf]: "follows [] (references_browser_pages A browser)"
  unfolding references_browser_pages_def by (intro follows_bind_quiet follows_then_quiet py_plan)

lemmas references_browser_pages_steps [py_conf] = conforms_bind_quiet [OF references_browser_pages_quiet] conforms_then_quiet [OF references_browser_pages_quiet]

lemma references_browser_pages_logs [py_logs]: "(\<And>e. P e) \<Longrightarrow> logs P (references_browser_pages A browser)"
  unfolding references_browser_pages_def by (intro py_logs logs_sql_e) simp_all

lemma references_browser_steps_conforms: "conforms references_browser_steps_plan (references_browser_steps A ana pedro ana_login suffix pedro_login binding name base a)"
  unfolding references_browser_steps_plan_def references_browser_steps_def append.simps by (intro py_conf) simp_all

lemmas references_browser_steps_steps [py_conf] =
  references_browser_steps_conforms conforms_bind [OF references_browser_steps_conforms] conforms_then [OF references_browser_steps_conforms]
  conforms_bind_last [OF references_browser_steps_conforms] conforms_then_last [OF references_browser_steps_conforms]

lemma references_browser_steps_logs [py_logs]: "(\<And>e. P e) \<Longrightarrow> logs P (references_browser_steps A ana pedro ana_login suffix pedro_login binding name base a)"
  unfolding references_browser_steps_def by (intro py_logs logs_sql_e) simp_all

lemma references_browser_failure_rules [py_plan, py_conf, py_logs]:
  "follows [] (references_browser_failure A ana pedro)" "(\<And>e. P e) \<Longrightarrow> logs P (references_browser_failure A ana pedro)"
  unfolding references_browser_failure_def by (auto intro!: follows_quiet_for follows_then_quiet follows_ret quiet_ignore quiet_statements logs_for logs_then logs_ret logs_ignore logs_statements)

lemma references_browser_ui_logs [py_logs]: "(\<And>e. P e) \<Longrightarrow> logs P (references_browser_ui A browser ana_login suffix pedro_login binding name base a)"
  unfolding references_browser_ui_def by (intro py_logs) simp_all

lemma references_browser_run_tidy: "leaves_tidy (references_browser_run A)"
  unfolding references_browser_run_def by (intro leaves_tidy_rules py_logs) simp_all

end
