(* ===== verification/ValueBrowser.thy ===== *)
theory ValueBrowser
  imports ValueGovernance Browser
begin

text \<open>
  The publisher tools in three browser sessions (scripts/community_value_governance_browser.py):
      evidence, the reference policy, an integrity case decided by a second publisher, and a second
      version.
\<close>

section \<open>The script\<close>

definition value_browser_setup :: "('k, 'x) services \<Rightarrow> ('x host, (json \<times> json) \<times> json \<times> (json \<times> json) \<times> (json \<times> json) \<times> json \<times> json \<times> json) py" where
  "value_browser_setup A =
     bind_py (read_secret A ''login_password'') (\<lambda>r1.
     bind_py (call A (str ''/api/shell/v1/auth/login'') ''POST'' (obj [(''email'', str ''admin@stir.test''),
         (''password'', val r1)]) none [200]) (\<lambda>r2.
     bind_py (eval (item (val r2) ''accessToken'')) (\<lambda>admin.
     bind_py (uuid4_hex A) (\<lambda>r3.
     bind_py (eval (upto (val r3) 8)) (\<lambda>suffix.
     bind_py (eval (plus (str ''Governance Browser '') (val suffix))) (\<lambda>name.
     bind_py (sql_e A (fmt A [str ''select tenant_id from idax_core.tenant_create('gov-b-'', val suffix, sq,
         str '','', sq, val name, sq, str '','active',false);'']) False) (\<lambda>tenant.
     bind_py (call A (fmt A [str ''/api/shell/v1/tenants/'', val tenant, str ''/roles'']) ''POST'' (obj [(''key'',
         plus (str ''publisher'') (val suffix)), (''name'', str ''Publisher''), (''description'',
         str ''Local browser test''), (''enabled'', yes)]) (val admin) [200, 201]) (\<lambda>role.
     then_py (call A (plus (plus (fmt A [str ''/api/shell/v1/tenants/'', val tenant, str ''/roles/'']) (item (val
         role) ''id'')) (str ''/permissions'')) ''PUT'' (plus (val MEMBER) (arr [str ''stir.references.publish'']))
         (val admin) [200]) (
     bind_py (call A (fmt A [str ''/api/shell/v1/tenants/'', val tenant, str ''/roles'']) ''POST'' (obj [(''key'',
         plus (str ''publisher2-'') (val suffix)), (''name'', str ''Second publisher''), (''description'',
         str ''Local browser test''), (''enabled'', yes)]) (val admin) [200, 201]) (\<lambda>role2.
     then_py (call A (plus (plus (fmt A [str ''/api/shell/v1/tenants/'', val tenant, str ''/roles/'']) (item (val
         role2) ''id'')) (str ''/permissions'')) ''PUT'' (plus (val MEMBER) (arr [str ''stir.references.publish'']))
         (val admin) [200]) (
     bind_py (call A (fmt A [str ''/api/shell/v1/tenants/'', val tenant, str ''/roles'']) ''POST'' (obj [(''key'',
         plus (str ''member'') (val suffix)), (''name'', str ''Member''), (''description'',
         str ''Local browser test''), (''enabled'', yes)]) (val admin) [200, 201]) (\<lambda>member_role.
     then_py (call A (plus (plus (fmt A [str ''/api/shell/v1/tenants/'', val tenant, str ''/roles/'']) (item (val
         member_role) ''id'')) (str ''/permissions'')) ''PUT'' (val MEMBER) (val admin) [200]) (
     bind_py (eval (item (val role) ''id'')) (\<lambda>r11.
     bind_py (make_login A admin tenant r11 (JStr ''ana'') suffix) (\<lambda>ana_login.
     bind_py (eval (item (val role2) ''id'')) (\<lambda>r13.
     bind_py (make_login A admin tenant r13 (JStr ''diego'') suffix) (\<lambda>diego_login.
     bind_py (eval (item (val member_role) ''id'')) (\<lambda>r15.
     bind_py (make_login A admin tenant r15 (JStr ''pedro'') suffix) (\<lambda>pedro_login.
     bind_py (call A (str ''/api/shell/v1/auth/login'') ''POST'' (obj [(''email'', val (fst ana_login)),
         (''password'', val (snd ana_login))]) none [200]) (\<lambda>r17.
     bind_py (eval (item (val r17) ''accessToken'')) (\<lambda>a.
     bind_py (eval (fmt A [str ''/api/stir/tenants/'', val tenant])) (\<lambda>base.
     then_py (call A (plus (val base) (str ''/economic/marketplace/bootstrap'')) ''POST'' (obj [(''communityName'',
         val name), (''unitCode'', str ''GOV''), (''unitScale'', num 2)]) (val a) [200]) (
     ret (ana_login, suffix, pedro_login, diego_login, base, a, name))))))))))))))))))))))))"

definition value_browser_setup_plan :: "plan" where
  "value_browser_setup_plan =
     [answered ''POST'' ''/api/shell/v1/auth/login'' [200]] @ sql_events @ [answered ''POST'' ''/roles'' [200, 201],
         answered ''PUT'' ''/permissions'' [200], answered ''POST'' ''/roles'' [200, 201], answered ''PUT''
         ''/permissions'' [200], answered ''POST'' ''/roles'' [200, 201], answered ''PUT'' ''/permissions'' [200]] @
         make_login_plan @ make_login_plan @ make_login_plan @ [answered ''POST'' ''/api/shell/v1/auth/login'' [200],
         answered ''POST'' ''/economic/marketplace/bootstrap'' [200]]"

definition value_browser_login :: "('k, 'x) services \<Rightarrow> json \<Rightarrow> locator \<Rightarrow> (json \<times> json) \<Rightarrow> ('x host, unit) py" where
  "value_browser_login A name page credentials =
     steps [
     set_timeout A (val page) 30000,
     on_pageerror A (val page),
     goto A (val page) (str ''http://localhost:8089''),
     fill A (css (val page) (str ''input[type=email]'')) (val (fst credentials)),
     fill A (css (val page) (str ''input[type=password]'')) (val (snd credentials)),
     click A (css (val page) (str ''button[type=submit]'')),
     click A (having (css (val page) (str ''.module-card'')) (named (val page) (str ''heading'') (str ''STIR''))),
     select_option A (first_of (css (val page) (str ''.surface > header select''))) ''label'' (val name)]"

definition value_browser_pages :: "('k, 'x) services \<Rightarrow> locator \<Rightarrow> ('x host, locator \<times> locator \<times> locator) py" where
  "value_browser_pages A browser =
     bind_py (new_page A browser 1440 1600) (\<lambda>ana.
     bind_py (new_page A browser 1440 1600) (\<lambda>pedro.
     bind_py (new_page A browser 1440 1600) (\<lambda>diego.
     ret (ana, pedro, diego))))"

definition value_browser_steps :: "('k, 'x) services \<Rightarrow> locator \<Rightarrow> locator \<Rightarrow> locator \<Rightarrow> (json \<times> json) \<Rightarrow> json \<Rightarrow> (json \<times> json) \<Rightarrow> (json \<times> json) \<Rightarrow> json \<Rightarrow> json \<Rightarrow> json \<Rightarrow> ('x host, unit) py" where
  "value_browser_steps A ana pedro diego ana_login suffix pedro_login diego_login base a name =
     then_py (steps [
     value_browser_login A name ana ana_login,
     goto A (val ana) (str ''http://localhost:8089/stir/references''),
     click A (first_of (by_text (val ana) (str (''Crear definici'' @ oacute @ ''n comparable'')) exactly)),
     fill A (by_label (val ana) (str ''Nombre'') exactly) (plus (str ''Rice 1kg '') (val suffix)),
     fill A (by_label (val ana) (str (Aacute @ ''mbito de comparaci'' @ oacute @ ''n'')) exactly)
         (str ''One 1kg bag of rice''),
     fill A (by_label (val ana) (str ''Unidad de cantidad'') exactly) (str ''bag''),
     click A (button (val ana) (str (''Crear definici'' @ oacute @ ''n comparable''))),
     visible_now A (by_text (val ana) (str ''Datos insuficientes'') exactly),
     click A (by_text (val ana) (str ''Desglose de la evidencia'') exactly),
     visible_now A (by_text (val ana) (str (''A'' @ uacute @ ''n no hay observaciones'')) exactly),
     click A (by_text (val ana) (str (''Pol'' @ iacute @ ''tica de la referencia'')) exactly)]) (
     bind_py (eval (having_text (css (val ana) (str ''details'')) (str (''Pol'' @ iacute @
         ''tica de la referencia'')))) (\<lambda>policy.
     then_py (steps [
     fill A (by_label (val policy) (str (''Ventana (d'' @ iacute @ ''as)'')) exactly) (str ''60''),
     fill A (by_label (val policy) (str (''Motivo de esta pol'' @ iacute @ ''tica'')) exactly)
         (str ''Tighten the window after reviewing the category''),
     click A (button (val policy) (str (''Guardar pol'' @ iacute @ ''tica''))),
     expects A (first_of (css (val policy) (str ''input''))) ''to_have_value'' [([], arg (str ''60''))],
     click A (having_text (css (val ana) (str ''summary'')) (str ''Proponer referencia''))]) (
     bind_py (eval (first_of (having_text (css (val ana) (str ''details'')) (str ''Proponer referencia''))))
         (\<lambda>propose.
     then_py (steps [
     fill A (by_label (val propose) (str ''Valor orientativo inferior'') exactly) (str ''10''),
     fill A (by_label (val propose) (str ''Valor orientativo superior'') exactly) (str ''10''),
     fill A (by_label (val propose) (str (''Explicaci'' @ oacute @ ''n humana'')) exactly)
         (str ''Assembly convention, not an observed price''),
     fill A (by_label (val propose) (str (''M'' @ eacute @ ''todo / origen de la decisi'' @ oacute @ ''n'')) exactly)
         (str ''Community assembly''),
     click A (button (val propose) (str ''Proponer referencia'')),
     fill A (by_label (val ana) (str (''Decisi'' @ oacute @ ''n de publicaci'' @ oacute @ ''n'')) exactly)
         (str ''Initial assembly decision''),
     click A (button (val ana) (str (''Publicar nueva versi'' @ oacute @ ''n''))),
     visible_now A (by_text (by_test_id (val ana) (str ''reference-panel''))
         (str ''Assembly convention, not an observed price'') exactly),
     goto A (val ana) (str ''http://localhost:8089/stir/new'')]) (
     bind_py (eval (plus (str ''Rice bag '') (val suffix))) (\<lambda>title.
     then_py (steps [
     fill A (by_label (val ana) (str (''T'' @ iacute @ ''tulo'')) loosely) (val title),
     fill A (by_label (val ana) (str (''Descripci'' @ oacute @ ''n'')) loosely) (str ''1kg bag of rice'')]) (
     bind_py (call A (plus (val base) (str ''/references'')) ''GET'' none (val a) [200]) (\<lambda>definitions.
     bind_py (eval (item (next_e (val definitions) (\<lambda>d. eq A (item (val d) ''name'') (plus (str ''Rice 1kg '')
         (val suffix)))) ''id'')) (\<lambda>definition_id.
     then_py (steps [
     select_option A (by_label (val ana) (str (''Definici'' @ oacute @ ''n comparable'')) loosely) ''value''
         (val definition_id),
     click A (button (val ana) (str (''Guardar y a'' @ ntilde @ ''adir fotos''))),
     click A (button (val ana) (str ''Listo'')),
     value_browser_login A name pedro pedro_login,
     goto A (val pedro) (str ''http://localhost:8089/stir''),
     fill A (by_label (val pedro) (str ''Buscar'') exactly) (val title),
     click A (button (val pedro) (val title)),
     click A (button (val pedro) (str ''Hacer una propuesta'')),
     fill A (by_label (val pedro) (str ''Mensaje'') exactly) (str ''Free proposal''),
     fill A (by_label (val pedro) (str ''Cantidad'') exactly) (str ''1''),
     fill A (by_label (val pedro) (str ''Unidad'') exactly) (str ''bag''),
     fill A (by_label (val pedro) (str ''Importe propuesto'') exactly) (str ''12''),
     tick A (by_role (val pedro) (str ''checkbox'')),
     click A (button (val pedro) (str ''Enviar propuesta'')),
     expects A (val pedro) ''to_have_url'' [([], Inr (Pattern ''/stir/negotiations/''))]]) (
     bind_py (act A (val pedro) ''url'' []) (\<lambda>negotiation_url.
     then_py (steps [
     goto A (val ana) (val negotiation_url),
     tick A (by_role (val ana) (str ''checkbox'')),
     click A (button (val ana) (str ''Aceptar'')),
     goto A (val ana) (str ''http://localhost:8089/stir/references''),
     select_option A (by_label (val ana) (str (''Definici'' @ oacute @ ''n comparable'')) loosely) ''value''
         (val definition_id),
     click A (by_text (val ana) (str ''Desglose de la evidencia'') exactly),
     visible_now A (by_text (val ana) (str ''Observaciones brutas: 2'') loosely),
     click A (by_text (val ana) (str ''Integridad de mercado'') exactly)]) (
     bind_py (eval (having_text (css (val ana) (str ''details'')) (str ''Integridad de mercado'')))
         (\<lambda>integrity.
     then_py (click A (by_text (val integrity) (str (''Enviar una se'' @ ntilde @ ''al'')) exactly)) (
     bind_py (eval (having_text (css (val integrity) (str ''details'')) (str (''Enviar una se'' @ ntilde @ ''al''))))
         (\<lambda>signal_form.
     then_py (steps [
     select_option A (first_of (css (val signal_form) (str ''select''))) ''index'' (num 1),
     fill A (by_label (val signal_form) (str ''Motivo'') exactly) (str ''Reviewing this deal for concentration''),
     click A (button (val signal_form) (str (''Enviar se'' @ ntilde @ ''al'')))]) (
     bind_py (eval (first_of (css (val integrity) (str ''article'')))) (\<lambda>case1.
     then_py (steps [
     visible_now A (by_text (val case1) (str (''Se'' @ ntilde @ ''al'')) exactly),
     fill A (by_label (val case1) (str ''Motivo'') exactly) (str ''Looking into it''),
     click A (button (val case1) (str (''Iniciar revisi'' @ oacute @ ''n''))),
     visible_now A (by_text (val case1) (str (''En revisi'' @ oacute @ ''n'')) exactly),
     value_browser_login A name diego diego_login,
     goto A (val diego) (str ''http://localhost:8089/stir/references''),
     select_option A (by_label (val diego) (str (''Definici'' @ oacute @ ''n comparable'')) loosely) ''value''
         (val definition_id),
     click A (by_text (val diego) (str ''Integridad de mercado'') exactly)]) (
     bind_py (eval (having_text (css (val diego) (str ''details'')) (str ''Integridad de mercado'')))
         (\<lambda>diego_integrity.
     bind_py (eval (first_of (css (val diego_integrity) (str ''article'')))) (\<lambda>diego_case.
     then_py (steps [
     visible_now A (by_text (val diego_case) (str (''En revisi'' @ oacute @ ''n'')) exactly),
     fill A (by_label (val diego_case) (str ''Motivo'') exactly)
         (str ''Confirmed: concentrated with one counterparty''),
     click A (button (val diego_case) (str ''Marcar como final'')),
     visible_now A (by_text (val diego_case) (str ''Final'') exactly)]) (
     bind_py (call A (plus (plus (plus (val base) (str ''/references/'')) (val definition_id)) (str ''/history''))
         ''GET'' none (val a) [200]) (\<lambda>history_before.
     then_py (check (eq A (len (val history_before)) (num 1)) []) (
     then_py (steps [
     goto A (val ana) (str ''http://localhost:8089/stir/references''),
     select_option A (by_label (val ana) (str (''Definici'' @ oacute @ ''n comparable'')) loosely) ''value''
         (val definition_id),
     click A (having_text (css (val ana) (str ''summary'')) (str ''Proponer referencia''))]) (
     bind_py (eval (first_of (having_text (css (val ana) (str ''details'')) (str ''Proponer referencia''))))
         (\<lambda>propose2.
     then_py (steps [
     fill A (by_label (val propose2) (str ''Valor orientativo inferior'') exactly) (str ''25''),
     fill A (by_label (val propose2) (str ''Valor orientativo superior'') exactly) (str ''25''),
     fill A (by_label (val propose2) (str (''Explicaci'' @ oacute @ ''n humana'')) exactly)
         (str ''Deliberately revised convention''),
     fill A (by_label (val propose2) (str (''M'' @ eacute @ ''todo / origen de la decisi'' @ oacute @ ''n'')) exactly)
         (str ''Second assembly''),
     click A (button (val propose2) (str ''Proponer referencia'')),
     fill A (by_label (val ana) (str (''Decisi'' @ oacute @ ''n de publicaci'' @ oacute @ ''n'')) exactly)
         (str ''Second assembly decision''),
     click A (last_of (button (val ana) (str (''Publicar nueva versi'' @ oacute @ ''n'')))),
     visible_now A (by_text (by_test_id (val ana) (str ''reference-panel'')) (str ''Deliberately revised convention'')
         exactly)]) (
     bind_py (call A (plus (plus (plus (val base) (str ''/references/'')) (val definition_id)) (str ''/history''))
         ''GET'' none (val a) [200]) (\<lambda>history_after.
     then_py (check (eq A (len (val history_after)) (num 2)) []) (
     bind_py (eval (next_e (val history_after) (\<lambda>h. eq A (item (val h) ''version'') (num 1)))) (\<lambda>v1.
     then_py (check (eq A (item (val v1) ''explanation'') (str ''Assembly convention, not an observed price''))
         ''v1 stays exactly as originally published'') (
     steps [
     assert_no_errors,
     screenshot A (val ana) [''.local'', ''governance-browser-final.png''],
     print_py (''PASS BROWSER GOVERNANCE UI: evidence breakdown, reference policy configuration, v1 '' @
         ''propose/publish, real Agreement growing the raw observation count, market integrity '' @
         ''signal->review->FINAL across two independent publisher sessions, v2 publish with v1 unchanged '' @
         ''- all through the rendered UI, no page errors.'')]))))))))))))))))))))))))))))))"

definition value_browser_steps_plan :: "plan" where
  "value_browser_steps_plan =
     [answered ''GET'' ''/references'' [200], answered ''GET'' ''/history'' [200], answered ''GET'' ''/history''
         [200]]"

definition value_browser_failure :: "('k, 'x) services \<Rightarrow> locator \<Rightarrow> locator \<Rightarrow> locator \<Rightarrow> ('x host, unit) py" where
  "value_browser_failure A ana pedro diego =
     for_py (\<lambda>(label, page). ignore_py (screenshot A (val page) [''.local'', ''governance-browser-failure-'' @
         label @ ''.png''])) [(''ana'', ana), (''pedro'', pedro), (''diego'', diego)]"

definition value_browser_ui :: "('k, 'x) services \<Rightarrow> locator \<Rightarrow> (json \<times> json) \<Rightarrow> json \<Rightarrow> (json \<times> json) \<Rightarrow> (json \<times> json) \<Rightarrow> json \<Rightarrow> json \<Rightarrow> json \<Rightarrow> ('x host, unit) py" where
  "value_browser_ui A browser ana_login suffix pedro_login diego_login base a name =
     bind_py (except_py (value_browser_pages A browser) (raise (UnboundLocalError ''ana''))) (\<lambda>(ana, pedro,
         diego).
     except_py (value_browser_steps A ana pedro diego ana_login suffix pedro_login diego_login base a name)
         (value_browser_failure A ana pedro diego))"

definition value_browser_run :: "('k, 'x) services \<Rightarrow> ('x host, unit) py" where
  "value_browser_run A =
     bind_py (value_browser_setup A) (\<lambda>(ana_login, suffix, pedro_login, diego_login, base, a, name).
     session A (str ''msedge'') no_errors (\<lambda>browser. value_browser_ui A browser ana_login suffix pedro_login
         diego_login base a name))"

section \<open>Conformance\<close>

lemma value_browser_setup_conforms: "conforms value_browser_setup_plan (value_browser_setup A)"
  unfolding value_browser_setup_plan_def value_browser_setup_def append.simps by (intro py_conf) simp_all

lemmas value_browser_setup_steps [py_conf] =
  value_browser_setup_conforms conforms_bind [OF value_browser_setup_conforms] conforms_then [OF value_browser_setup_conforms]
  conforms_bind_last [OF value_browser_setup_conforms] conforms_then_last [OF value_browser_setup_conforms]

lemma value_browser_setup_logs [py_logs]: "(\<And>e. idle_event e \<Longrightarrow> P e) \<Longrightarrow> logs P (value_browser_setup A)"
  unfolding value_browser_setup_def by (intro py_logs logs_sql_e) simp_all

lemma value_browser_login_quiet [py_plan, py_conf]: "follows [] (value_browser_login A name page credentials)"
  unfolding value_browser_login_def by (intro follows_bind_quiet follows_then_quiet py_plan)

lemmas value_browser_login_steps [py_conf] = conforms_bind_quiet [OF value_browser_login_quiet] conforms_then_quiet [OF value_browser_login_quiet]

lemma value_browser_login_logs [py_logs]: "(\<And>e. P e) \<Longrightarrow> logs P (value_browser_login A name page credentials)"
  unfolding value_browser_login_def by (intro py_logs logs_sql_e) simp_all

lemma value_browser_pages_quiet [py_plan, py_conf]: "follows [] (value_browser_pages A browser)"
  unfolding value_browser_pages_def by (intro follows_bind_quiet follows_then_quiet py_plan)

lemmas value_browser_pages_steps [py_conf] = conforms_bind_quiet [OF value_browser_pages_quiet] conforms_then_quiet [OF value_browser_pages_quiet]

lemma value_browser_pages_logs [py_logs]: "(\<And>e. P e) \<Longrightarrow> logs P (value_browser_pages A browser)"
  unfolding value_browser_pages_def by (intro py_logs logs_sql_e) simp_all

lemma value_browser_steps_conforms: "conforms value_browser_steps_plan (value_browser_steps A ana pedro diego ana_login suffix pedro_login diego_login base a name)"
  unfolding value_browser_steps_plan_def value_browser_steps_def append.simps by (intro py_conf) simp_all

lemmas value_browser_steps_steps [py_conf] =
  value_browser_steps_conforms conforms_bind [OF value_browser_steps_conforms] conforms_then [OF value_browser_steps_conforms]
  conforms_bind_last [OF value_browser_steps_conforms] conforms_then_last [OF value_browser_steps_conforms]

lemma value_browser_steps_logs [py_logs]: "(\<And>e. P e) \<Longrightarrow> logs P (value_browser_steps A ana pedro diego ana_login suffix pedro_login diego_login base a name)"
  unfolding value_browser_steps_def by (intro py_logs logs_sql_e) simp_all

lemma value_browser_failure_rules [py_plan, py_conf, py_logs]:
  "follows [] (value_browser_failure A ana pedro diego)" "(\<And>e. P e) \<Longrightarrow> logs P (value_browser_failure A ana pedro diego)"
  unfolding value_browser_failure_def by (auto intro!: follows_quiet_for follows_then_quiet follows_ret quiet_ignore quiet_statements logs_for logs_then logs_ret logs_ignore logs_statements)

lemma value_browser_ui_logs [py_logs]: "(\<And>e. P e) \<Longrightarrow> logs P (value_browser_ui A browser ana_login suffix pedro_login diego_login base a name)"
  unfolding value_browser_ui_def by (intro py_logs) simp_all

lemma value_browser_run_tidy: "leaves_tidy (value_browser_run A)"
  unfolding value_browser_run_def by (intro leaves_tidy_rules py_logs) simp_all

end
