(* ===== verification/ConsentBrowser.thy ===== *)
theory ConsentBrowser
  imports ValueGovernance Browser
begin

text \<open>
  Consent and retention in the browser (scripts/consent_retention_browser.py): a party withdraws its
      consent, and a manager anonymises an old observation.
\<close>

section \<open>The script\<close>

definition consent_browser_agree :: "('k, 'x) services \<Rightarrow> json \<Rightarrow> json \<Rightarrow> json \<Rightarrow> json \<Rightarrow> json \<Rightarrow> json \<Rightarrow> ('x host, json) py" where
  "consent_browser_agree A base listing definition pedro m amount =
     bind_py (call A (plus (plus (plus (val base) (str ''/listings/'')) (item (val listing) ''id''))
         (str ''/offers'')) ''POST'' (obj [(''message'', str ''Offer''), (''quantity'', str ''1''), (''unitLabel'',
         str ''kg''), (''proposedAmount'', val amount), (''proposedUnitRef'', item (val definition) ''unit_ref''),
         (''shareReferenceObservation'', yes)]) (item (val pedro) ''accessToken'') [201]) (\<lambda>n.
     call A (plus (plus (plus (val base) (str ''/negotiations/'')) (item (val n) ''id'')) (str ''/accept'')) ''POST''
         (obj [(''offerId'', item (at (item (val n) ''offers'') (- 1)) ''id''), (''expectedVersion'', item (val n)
         ''version''), (''shareReferenceObservation'', yes)]) (val m) [200])"

definition consent_browser_agree_plan :: "plan" where
  "consent_browser_agree_plan =
     [answered ''POST'' ''/offers'' [201], answered ''POST'' ''/accept'' [200]]"

definition consent_browser_setup :: "('k, 'x) services \<Rightarrow> ('x host, (json \<times> json) \<times> (json \<times> json) \<times> json \<times> json \<times> json \<times> json) py" where
  "consent_browser_setup A =
     bind_py (read_secret A ''login_password'') (\<lambda>r1.
     bind_py (call A (str ''/api/shell/v1/auth/login'') ''POST'' (obj [(''email'', str ''admin@stir.test''),
         (''password'', val r1)]) none [200]) (\<lambda>r2.
     bind_py (eval (item (val r2) ''accessToken'')) (\<lambda>admin.
     bind_py (uuid4_hex A) (\<lambda>r3.
     bind_py (eval (upto (val r3) 8)) (\<lambda>suffix.
     bind_py (eval (plus (str ''ConsentRetention Browser '') (val suffix))) (\<lambda>name.
     bind_py (sql_e A (fmt A [str ''select tenant_id from idax_core.tenant_create('cr-b-'', val suffix, sq, str '','',
         sq, val name, sq, str '','active',false);'']) False) (\<lambda>tenant.
     bind_py (eval (fmt A [str ''/api/shell/v1/tenants/'', val tenant])) (\<lambda>shell.
     bind_py (call A (plus (val shell) (str ''/roles'')) ''POST'' (obj [(''key'', plus (str ''manager'')
         (val suffix)), (''name'', str ''Manager''), (''description'', str ''Local browser test''), (''enabled'',
         yes)]) (val admin) [200, 201]) (\<lambda>manager_role.
     then_py (call A (plus (plus (plus (val shell) (str ''/roles/'')) (item (val manager_role) ''id''))
         (str ''/permissions'')) ''PUT'' (plus (val MEMBER) (arr [str ''stir.references.publish'',
         str ''stir.retention.manage'', str ''stir.consent.manage''])) (val admin) [200]) (
     bind_py (call A (plus (val shell) (str ''/roles'')) ''POST'' (obj [(''key'', plus (str ''member'') (val suffix)),
         (''name'', str ''Member''), (''description'', str ''Local browser test''), (''enabled'', yes)]) (val admin)
         [200, 201]) (\<lambda>member_role.
     then_py (call A (plus (plus (plus (val shell) (str ''/roles/'')) (item (val member_role) ''id''))
         (str ''/permissions'')) ''PUT'' (plus (val MEMBER) (arr [str ''stir.consent.manage''])) (val admin) [200]) (
     bind_py (eval (item (val manager_role) ''id'')) (\<lambda>r9.
     bind_py (make_login A admin tenant r9 (JStr ''manager'') suffix) (\<lambda>manager_login.
     bind_py (eval (item (val member_role) ''id'')) (\<lambda>r11.
     bind_py (make_login A admin tenant r11 (JStr ''pedro'') suffix) (\<lambda>pedro_login.
     bind_py (call A (str ''/api/shell/v1/auth/login'') ''POST'' (obj [(''email'', val (fst manager_login)),
         (''password'', val (snd manager_login))]) none [200]) (\<lambda>manager.
     bind_py (call A (str ''/api/shell/v1/auth/login'') ''POST'' (obj [(''email'', val (fst pedro_login)),
         (''password'', val (snd pedro_login))]) none [200]) (\<lambda>pedro.
     bind_py (eval (item (val manager) ''accessToken'')) (\<lambda>m.
     bind_py (eval (fmt A [str ''/api/stir/tenants/'', val tenant])) (\<lambda>base.
     bind_py (call A (plus (val base) (str ''/economic/marketplace/bootstrap'')) ''POST'' (obj [(''communityName'',
         val name), (''unitCode'', str ''CRB''), (''unitScale'', num 2)]) (val m) [200]) (\<lambda>binding.
     bind_py (eval (item (val binding) ''communityId'')) (\<lambda>community.
     bind_py (call A (plus (val base) (str ''/references'')) ''POST'' (obj [(''name'', plus (str ''Wool '')
         (val suffix)), (''scope'', str ''One kilogram of raw wool''), (''attributes'', obj []), (''quantityBasis'',
         str ''1''), (''quantityUnit'', str ''kg'')]) (val m) [200]) (\<lambda>definition.
     bind_py (eval (item (val definition) ''id'')) (\<lambda>definition_id.
     bind_py (call A (plus (val base) (str ''/listings'')) ''POST'' (obj [(''direction'', str ''OFFER''), (''title'',
         plus (str ''Wool '') (val suffix)), (''description'', str ''Test bundle''), (''category'', str ''home''),
         (''resourceKind'', str ''physical''), (''referenceDefinitionId'', val definition_id)]) (val m) [201])
         (\<lambda>listing.
     bind_py (consent_browser_agree A base listing definition pedro m (JStr ''30'')) (\<lambda>agreement.
     bind_py (call A (plus (plus (plus (val base) (str ''/references/'')) (val definition_id))
         (str ''/observations'')) ''GET'' none (val m) [200]) (\<lambda>r19.
     bind_py (eval (next_e (val r19) (\<lambda>obs. eq A (item (val obs) ''source_id'') (item (val agreement)
         ''id'')))) (\<lambda>observation.
     bind_py (consent_browser_agree A base listing definition pedro m (JStr ''35'')) (\<lambda>old_agreement.
     bind_py (call A (plus (plus (plus (val base) (str ''/references/'')) (val definition_id))
         (str ''/observations'')) ''GET'' none (val m) [200]) (\<lambda>r21.
     bind_py (eval (next_e (val r21) (\<lambda>obs. eq A (item (val obs) ''source_id'') (item (val old_agreement)
         ''id'')))) (\<lambda>old_observation.
     then_py (sql_e A (fmt A [str (''set session_replication_role='replica'; update stir.reference_observation set ''
         @ ''observed_at=now()-interval '200 days' where tenant_id=''), sq, val tenant, sq, str '' and id='', sq,
         item (val old_observation) ''id'', sq, str ''; set session_replication_role='origin';'']) False) (
     then_py (call A (plus (plus (val base) (str ''/references/retention/policy/'')) (val community)) ''POST'' (obj
         [(''retentionPeriodDays'', num 90), (''explanation'', str ''Initial policy for this browser test'')]) (val m)
         [200]) (
     then_py no_errors (
     ret (pedro_login, manager_login, definition_id, name, old_observation, suffix)))))))))))))))))))))))))))))))))))"

definition consent_browser_setup_plan :: "plan" where
  "consent_browser_setup_plan =
     [answered ''POST'' ''/api/shell/v1/auth/login'' [200]] @ sql_events @ [answered ''POST'' ''/roles'' [200, 201],
         answered ''PUT'' ''/permissions'' [200], answered ''POST'' ''/roles'' [200, 201], answered ''PUT''
         ''/permissions'' [200]] @ make_login_plan @ make_login_plan @ [answered ''POST'' ''/api/shell/v1/auth/login''
         [200], answered ''POST'' ''/api/shell/v1/auth/login'' [200], answered ''POST''
         ''/economic/marketplace/bootstrap'' [200], answered ''POST'' ''/references'' [200], answered ''POST''
         ''/listings'' [201]] @ consent_browser_agree_plan @ [answered ''GET'' ''/observations'' [200]] @
         consent_browser_agree_plan @ [answered ''GET'' ''/observations'' [200]] @ sql_events @ [answered ''POST''
         ''/references/retention/policy/'' [200]]"

definition consent_browser_login :: "('k, 'x) services \<Rightarrow> json \<Rightarrow> locator \<Rightarrow> (json \<times> json) \<Rightarrow> ('x host, unit) py" where
  "consent_browser_login A name page credentials =
     steps [
     set_timeout A (val page) 30000,
     on_pageerror A (val page),
     goto A (val page) (str ''http://localhost:8089''),
     fill A (css (val page) (str ''input[type=email]'')) (val (fst credentials)),
     fill A (css (val page) (str ''input[type=password]'')) (val (snd credentials)),
     click A (css (val page) (str ''button[type=submit]'')),
     click A (having (css (val page) (str ''.module-card'')) (named (val page) (str ''heading'') (str ''STIR''))),
     select_option A (first_of (css (val page) (str ''.surface > header select''))) ''label'' (val name)]"

definition consent_browser_ui :: "('k, 'x) services \<Rightarrow> locator \<Rightarrow> (json \<times> json) \<Rightarrow> (json \<times> json) \<Rightarrow> json \<Rightarrow> json \<Rightarrow> json \<Rightarrow> json \<Rightarrow> ('x host, unit) py" where
  "consent_browser_ui A browser pedro_login manager_login definition_id name old_observation suffix =
     bind_py (new_page A browser 1280 1400) (\<lambda>pedro_page.
     then_py (steps [
     consent_browser_login A name pedro_page pedro_login,
     goto A (val pedro_page) (str ''http://localhost:8089/stir/profile'')]) (
     bind_py (eval (having_text (css (val pedro_page) (str ''section''))
         (str ''Mi consentimiento a la evidencia de referencias''))) (\<lambda>consent_panel.
     then_py (steps [
     visible_now A (first_of (by_text (val consent_panel) (plus (str ''Wool '') (val suffix)) loosely)),
     click A (first_of (button (val consent_panel) (str ''Retirar''))),
     visible_now A (by_text (val consent_panel) (str (''Esta observaci'' @ oacute @ ''n dejar'' @ aacute @
         '' de usarse'')) loosely),
     fill A (by_label (val consent_panel) (str ''Motivo (opcional)'') []) (str ''Ya no quiero compartir esto''),
     click A (button (val consent_panel) (str ''Confirmar retirada'')),
     visible_now A (by_text (val consent_panel) (str ''Has retirado este consentimiento'') loosely)]) (
     bind_py (new_page A browser 1440 1800) (\<lambda>manager_page.
     then_py (steps [
     consent_browser_login A name manager_page manager_login,
     goto A (val manager_page) (str ''http://localhost:8089/stir/references''),
     select_option A (by_label (val manager_page) (str (''Definici'' @ oacute @ ''n comparable'')) loosely) ''value''
         (val definition_id),
     click A (by_text (val manager_page) (str (''Conservaci'' @ oacute @ ''n'')) exactly)]) (
     bind_py (eval (first_of (having_text (css (val manager_page) (str ''details'')) (str (''Conservaci'' @ oacute @
         ''n''))))) (\<lambda>retention_panel.
     then_py (visible_now A (by_text (val retention_panel) (str (''Pol'' @ iacute @ ''tica actual'')) loosely)) (
     bind_py (eval (having_text (css (val retention_panel) (str ''li'')) (upto (item (val old_observation) ''id'')
         8))) (\<lambda>due_row.
     steps [
     visible_now A (val due_row),
     click A (button (val due_row) (str ''Anonimizar'')),
     expects A (val due_row) ''not_to_be_visible'' [],
     assert_no_errors,
     print_py (''PASS BROWSER CONSENT/RETENTION: Pedro viewed and withdrew his own consent with the '' @
         ''plain-language impact notice shown first; the manager viewed the retention policy and '' @
         ''anonymized an eligible observation from the rendered due-for-anonymization list - no page '' @
         ''errors.'')])))))))))"

definition consent_browser_run :: "('k, 'x) services \<Rightarrow> ('x host, unit) py" where
  "consent_browser_run A =
     bind_py (consent_browser_setup A) (\<lambda>(pedro_login, manager_login, definition_id, name, old_observation,
         suffix).
     session A (str ''msedge'') (ret ()) (\<lambda>browser. consent_browser_ui A browser pedro_login manager_login
         definition_id name old_observation suffix))"

section \<open>Conformance\<close>

lemma consent_browser_agree_conforms: "conforms consent_browser_agree_plan (consent_browser_agree A base listing definition pedro m amount)"
  unfolding consent_browser_agree_plan_def consent_browser_agree_def append.simps by (intro py_conf) simp_all

lemmas consent_browser_agree_steps [py_conf] =
  consent_browser_agree_conforms conforms_bind [OF consent_browser_agree_conforms] conforms_then [OF consent_browser_agree_conforms]
  conforms_bind_last [OF consent_browser_agree_conforms] conforms_then_last [OF consent_browser_agree_conforms]

lemma consent_browser_agree_logs [py_logs]: "(\<And>m u s. P (Called m u s)) \<Longrightarrow> logs P (consent_browser_agree A base listing definition pedro m amount)"
  unfolding consent_browser_agree_def by (intro py_logs) simp_all

lemma consent_browser_setup_conforms: "conforms consent_browser_setup_plan (consent_browser_setup A)"
  unfolding consent_browser_setup_plan_def consent_browser_setup_def append.simps by (intro py_conf) simp_all

lemmas consent_browser_setup_steps [py_conf] =
  consent_browser_setup_conforms conforms_bind [OF consent_browser_setup_conforms] conforms_then [OF consent_browser_setup_conforms]
  conforms_bind_last [OF consent_browser_setup_conforms] conforms_then_last [OF consent_browser_setup_conforms]

lemma consent_browser_setup_logs [py_logs]: "(\<And>e. idle_event e \<Longrightarrow> P e) \<Longrightarrow> logs P (consent_browser_setup A)"
  unfolding consent_browser_setup_def by (intro py_logs logs_sql_e) simp_all

lemma consent_browser_login_quiet [py_plan, py_conf]: "follows [] (consent_browser_login A name page credentials)"
  unfolding consent_browser_login_def by (intro follows_bind_quiet follows_then_quiet py_plan)

lemmas consent_browser_login_steps [py_conf] = conforms_bind_quiet [OF consent_browser_login_quiet] conforms_then_quiet [OF consent_browser_login_quiet]

lemma consent_browser_login_logs [py_logs]: "(\<And>e. P e) \<Longrightarrow> logs P (consent_browser_login A name page credentials)"
  unfolding consent_browser_login_def by (intro py_logs logs_sql_e) simp_all

lemma consent_browser_ui_quiet [py_plan, py_conf]: "follows [] (consent_browser_ui A browser pedro_login manager_login definition_id name old_observation suffix)"
  unfolding consent_browser_ui_def by (intro follows_bind_quiet follows_then_quiet py_plan)

lemmas consent_browser_ui_steps [py_conf] = conforms_bind_quiet [OF consent_browser_ui_quiet] conforms_then_quiet [OF consent_browser_ui_quiet]

lemma consent_browser_ui_logs [py_logs]: "(\<And>e. P e) \<Longrightarrow> logs P (consent_browser_ui A browser pedro_login manager_login definition_id name old_observation suffix)"
  unfolding consent_browser_ui_def by (intro py_logs logs_sql_e) simp_all

lemma consent_browser_run_tidy: "leaves_tidy (consent_browser_run A)"
  unfolding consent_browser_run_def by (intro leaves_tidy_rules py_logs) simp_all

end
