(* ===== verification/MultiBrowser.thy ===== *)
theory MultiBrowser
  imports ValueGovernance Browser
begin

text \<open>
  Evidence from several sources in the browser (scripts/multi_source_value_evidence_browser.py): a
      listing and a want with indicative prices, the policy form, and the proposal of a community
      seed.
\<close>

section \<open>The script\<close>

definition multi_browser_setup :: "('k, 'x) services \<Rightarrow> ('x host, (json \<times> json) \<times> (json \<times> json) \<times> json \<times> json \<times> json \<times> json \<times> json \<times> json \<times> json) py" where
  "multi_browser_setup A =
     bind_py (read_secret A ''login_password'') (\<lambda>r1.
     bind_py (call A (str ''/api/shell/v1/auth/login'') ''POST'' (obj [(''email'', str ''admin@stir.test''),
         (''password'', val r1)]) none [200]) (\<lambda>r2.
     bind_py (eval (item (val r2) ''accessToken'')) (\<lambda>admin.
     bind_py (uuid4_hex A) (\<lambda>r3.
     bind_py (eval (upto (val r3) 8)) (\<lambda>suffix.
     bind_py (eval (plus (str ''MultiSource Browser '') (val suffix))) (\<lambda>name.
     bind_py (sql_e A (fmt A [str ''select tenant_id from idax_core.tenant_create('mvse-b-'', val suffix, sq,
         str '','', sq, val name, sq, str '','active',false);'']) False) (\<lambda>tenant.
     bind_py (eval (fmt A [str ''/api/shell/v1/tenants/'', val tenant])) (\<lambda>shell.
     bind_py (call A (plus (val shell) (str ''/roles'')) ''POST'' (obj [(''key'', plus (str ''manager'')
         (val suffix)), (''name'', str ''Manager''), (''description'', str ''Local browser test''), (''enabled'',
         yes)]) (val admin) [200, 201]) (\<lambda>manager_role.
     then_py (call A (plus (plus (plus (val shell) (str ''/roles/'')) (item (val manager_role) ''id''))
         (str ''/permissions'')) ''PUT'' (plus (val MEMBER) (arr [str ''stir.references.publish'',
         str ''stir.governance.manage'', str ''stir.governance.vote''])) (val admin) [200]) (
     bind_py (call A (plus (val shell) (str ''/roles'')) ''POST'' (obj [(''key'', plus (str ''member'') (val suffix)),
         (''name'', str ''Member''), (''description'', str ''Local browser test''), (''enabled'', yes)]) (val admin)
         [200, 201]) (\<lambda>member_role.
     then_py (call A (plus (plus (plus (val shell) (str ''/roles/'')) (item (val member_role) ''id''))
         (str ''/permissions'')) ''PUT'' (val MEMBER) (val admin) [200]) (
     bind_py (eval (item (val manager_role) ''id'')) (\<lambda>r9.
     bind_py (make_login A admin tenant r9 (JStr ''ana'') suffix) (\<lambda>manager_login.
     bind_py (eval (item (val member_role) ''id'')) (\<lambda>r11.
     bind_py (make_login A admin tenant r11 (JStr ''pedro'') suffix) (\<lambda>pedro_login.
     bind_py (call A (str ''/api/shell/v1/auth/login'') ''POST'' (obj [(''email'', val (fst manager_login)),
         (''password'', val (snd manager_login))]) none [200]) (\<lambda>manager.
     bind_py (call A (str ''/api/shell/v1/auth/login'') ''POST'' (obj [(''email'', val (fst pedro_login)),
         (''password'', val (snd pedro_login))]) none [200]) (\<lambda>pedro.
     bind_py (eval (item (val manager) ''accessToken'')) (\<lambda>m.
     bind_py (eval (fmt A [str ''/api/stir/tenants/'', val tenant])) (\<lambda>base.
     bind_py (call A (plus (val base) (str ''/economic/marketplace/bootstrap'')) ''POST'' (obj [(''communityName'',
         val name), (''unitCode'', str ''MVB''), (''unitScale'', num 2)]) (val m) [200]) (\<lambda>binding.
     bind_py (call A (plus (val base) (str ''/references'')) ''POST'' (obj [(''name'', plus (str ''Wool '')
         (val suffix)), (''scope'', str ''One kilogram of raw wool''), (''attributes'', obj []), (''quantityBasis'',
         str ''1''), (''quantityUnit'', str ''kg'')]) (val m) [200]) (\<lambda>definition.
     bind_py (eval (item (val definition) ''id'')) (\<lambda>definition_id.
     then_py (call A (plus (plus (plus (val base) (str ''/references/'')) (val definition_id)) (str ''/policies''))
         ''POST'' (obj [(''windowDays'', num 90), (''minimumObservations'', num 5), (''minimumParticipants'', num 6),
         (''maximumParticipantShare'', str ''0.40''), (''freshnessDays'', num 30), (''explanation'',
         str ''Enable listing/wanted sources - browser fixture''), (''listingSourceEnabled'', yes),
         (''wantedSourceEnabled'', yes)]) (val m) [200]) (
     ret (manager_login, pedro_login, suffix, definition_id, definition, name, tenant, manager,
         pedro)))))))))))))))))))))))))"

definition multi_browser_setup_plan :: "plan" where
  "multi_browser_setup_plan =
     [answered ''POST'' ''/api/shell/v1/auth/login'' [200]] @ sql_events @ [answered ''POST'' ''/roles'' [200, 201],
         answered ''PUT'' ''/permissions'' [200], answered ''POST'' ''/roles'' [200, 201], answered ''PUT''
         ''/permissions'' [200]] @ make_login_plan @ make_login_plan @ [answered ''POST'' ''/api/shell/v1/auth/login''
         [200], answered ''POST'' ''/api/shell/v1/auth/login'' [200], answered ''POST''
         ''/economic/marketplace/bootstrap'' [200], answered ''POST'' ''/references'' [200], answered ''POST''
         ''/policies'' [200]]"

definition multi_browser_login :: "('k, 'x) services \<Rightarrow> json \<Rightarrow> locator \<Rightarrow> (json \<times> json) \<Rightarrow> ('x host, unit) py" where
  "multi_browser_login A name page credentials =
     steps [
     set_timeout A (val page) 30000,
     on_pageerror A (val page),
     goto A (val page) (str ''http://localhost:8089''),
     fill A (css (val page) (str ''input[type=email]'')) (val (fst credentials)),
     fill A (css (val page) (str ''input[type=password]'')) (val (snd credentials)),
     click A (css (val page) (str ''button[type=submit]'')),
     click A (having (css (val page) (str ''.module-card'')) (named (val page) (str ''heading'') (str ''STIR''))),
     select_option A (first_of (css (val page) (str ''.surface > header select''))) ''label'' (val name)]"

definition multi_browser_ui :: "('k, 'x) services \<Rightarrow> locator \<Rightarrow> (json \<times> json) \<Rightarrow> (json \<times> json) \<Rightarrow> json \<Rightarrow> json \<Rightarrow> json \<Rightarrow> json \<Rightarrow> json \<Rightarrow> json \<Rightarrow> json \<Rightarrow> ('x host, unit) py" where
  "multi_browser_ui A browser manager_login pedro_login suffix definition_id definition name tenant manager pedro =
     bind_py (new_page A browser 1440 1900) (\<lambda>ana_page.
     bind_py (new_page A browser 1440 1900) (\<lambda>pedro_page.
     then_py (steps [
     multi_browser_login A name ana_page manager_login,
     goto A (val ana_page) (str ''http://localhost:8089/stir/new''),
     fill A (by_label (val ana_page) (str (''T'' @ iacute @ ''tulo'')) loosely) (plus (str ''Wool bundle '')
         (val suffix)),
     fill A (by_label (val ana_page) (str (''Descripci'' @ oacute @ ''n'')) loosely)
         (str ''Real fleece, browser fixture''),
     select_option A (by_label (val ana_page) (str (''Definici'' @ oacute @ ''n comparable'')) loosely) ''value''
         (val definition_id),
     fill A (by_label (val ana_page) (str ''Importe indicativo'') exactly) (str ''40''),
     fill A (by_label (val ana_page) (str ''Cantidad indicativa'') exactly) (str ''1''),
     fill A (by_label (val ana_page) (str ''Unidad de cantidad'') exactly) (str ''kg''),
     fill A (by_label (val ana_page) (str ''Referencia de unidad de cuenta'') exactly) (item (val definition)
         ''unit_ref''),
     tick A (by_label (val ana_page)
         (str ''Usar el precio indicativo de este anuncio como evidencia de referencia comunitaria'') exactly),
     click A (button (val ana_page) (str (''Guardar y a'' @ ntilde @ ''adir fotos''))),
     visible_now A (button (val ana_page) (str ''Listo'')),
     click A (button (val ana_page) (str ''Listo'')),
     multi_browser_login A name pedro_page pedro_login,
     goto A (val pedro_page) (str ''http://localhost:8089/stir/new''),
     select_option A (by_label (val pedro_page) (str ''Quiero'') loosely) ''label'' (str ''BUSCO''),
     fill A (by_label (val pedro_page) (str (''T'' @ iacute @ ''tulo'')) loosely) (plus (str ''Looking for wool '')
         (val suffix)),
     fill A (by_label (val pedro_page) (str (''Descripci'' @ oacute @ ''n'')) loosely)
         (str ''Need fleece, browser fixture''),
     select_option A (by_label (val pedro_page) (str (''Definici'' @ oacute @ ''n comparable'')) loosely) ''value''
         (val definition_id),
     fill A (by_label (val pedro_page) (str ''Importe indicativo'') exactly) (str ''38''),
     fill A (by_label (val pedro_page) (str ''Cantidad indicativa'') exactly) (str ''1''),
     fill A (by_label (val pedro_page) (str ''Unidad de cantidad'') exactly) (str ''kg''),
     fill A (by_label (val pedro_page) (str ''Referencia de unidad de cuenta'') exactly) (item (val definition)
         ''unit_ref''),
     tick A (by_label (val pedro_page)
         (str ''Usar el precio indicativo de este anuncio como evidencia de referencia comunitaria'') exactly),
     click A (button (val pedro_page) (str (''Guardar y a'' @ ntilde @ ''adir fotos''))),
     visible_now A (button (val pedro_page) (str ''Listo''))]) (
     then_py (sql_e A (fmt A [str (''set session_replication_role='replica'; update stir.reference_observation set ''
         @ ''observed_at=now()-interval '1 day' where tenant_id=''), sq, val tenant, sq, str '' and definition_id='',
         sq, val definition_id, sq, str ''; set session_replication_role='origin';'']) False) (
     then_py (steps [
     goto A (val ana_page) (str ''http://localhost:8089/stir/references''),
     select_option A (by_label (val ana_page) (str (''Definici'' @ oacute @ ''n comparable'')) loosely) ''value''
         (val definition_id),
     visible_now A (by_text (val ana_page) (str ''Por fuente'') loosely),
     visible_now A (by_text (val ana_page) (str ''Anuncios: 1'') loosely),
     visible_now A (by_text (val ana_page) (str (''B'' @ uacute @ ''squedas: 1'')) loosely),
     visible_now A (by_text (val ana_page) (str ''Evidencia de anuncios (LISTING)'') loosely),
     visible_now A (by_text (val ana_page) (str (''Evidencia de b'' @ uacute @ ''squedas (WANTED)'')) loosely),
     click A (by_text (val ana_page) (str (''Pol'' @ iacute @ ''tica de la referencia'')) exactly)]) (
     bind_py (eval (first_of (having_text (css (val ana_page) (str ''details'')) (str (''Pol'' @ iacute @
         ''tica de la referencia''))))) (\<lambda>policy_panel.
     then_py (steps [
     expects A (by_label (val policy_panel) (str ''Aceptar evidencia de anuncios (LISTING)'') exactly)
         ''to_be_checked'' [],
     expects A (by_label (val policy_panel) (str (''Aceptar evidencia de b'' @ uacute @ ''squedas (WANTED)''))
         exactly) ''to_be_checked'' [],
     fill A (by_label (val policy_panel) (str (''Motivo de esta pol'' @ iacute @ ''tica'')) exactly)
         (str ''Unrelated edit - browser fixture''),
     click A (button (val policy_panel) (str (''Guardar pol'' @ iacute @ ''tica''))),
     reload A (val ana_page),
     select_option A (by_label (val ana_page) (str (''Definici'' @ oacute @ ''n comparable'')) loosely) ''value''
         (val definition_id),
     click A (by_text (val ana_page) (str (''Pol'' @ iacute @ ''tica de la referencia'')) exactly)]) (
     bind_py (eval (first_of (having_text (css (val ana_page) (str ''details'')) (str (''Pol'' @ iacute @
         ''tica de la referencia''))))) (\<lambda>policy_panel.
     then_py (steps [
     expects A (by_label (val policy_panel) (str ''Aceptar evidencia de anuncios (LISTING)'') exactly)
         ''to_be_checked'' [],
     expects A (by_label (val policy_panel) (str (''Aceptar evidencia de b'' @ uacute @ ''squedas (WANTED)''))
         exactly) ''to_be_checked'' [],
     click A (by_text (val ana_page) (str ''Gobernanza comunitaria ordinaria'') exactly)]) (
     bind_py (eval (first_of (having_text (css (val ana_page) (str ''details''))
         (str ''Gobernanza comunitaria ordinaria'')))) (\<lambda>gov.
     then_py (steps [
     click A (first_of (by_role (val gov) (str ''checkbox''))),
     click A (by_text (val gov) (str ''Censo electoral'') exactly)]) (
     bind_py (eval (having_text (css (val gov) (str ''details'')) (str ''Censo electoral''))) (\<lambda>electorate.
     bind_py (eval (item (item (val manager) ''user'') ''id'')) (\<lambda>r2.
     bind_py (eval (item (item (val pedro) ''user'') ''id'')) (\<lambda>r3.
     then_py (steps [
     for_py (\<lambda>user_id.
     steps [
     fill A (by_label (val electorate) (str ''ID de usuario'') exactly) (val user_id),
     click A (button (val electorate) (str (''A'' @ ntilde @ ''adir miembro''))),
     visible_now A (by_text (val electorate) (upto (val user_id) 8) loosely)]) [r2, r3],
     click A (by_text (val gov) (str (''Pol'' @ iacute @ ''tica de votaci'' @ oacute @ ''n'')) exactly)]) (
     bind_py (eval (having_text (css (val gov) (str ''details'')) (str (''Pol'' @ iacute @ ''tica de votaci'' @ oacute
         @ ''n'')))) (\<lambda>voting_policy.
     then_py (steps [
     fill A (by_label (val voting_policy) (str ''Numerador del quorum'') exactly) (str ''1''),
     fill A (by_label (val voting_policy) (str ''Denominador del quorum'') exactly) (str ''2''),
     fill A (by_label (val voting_policy) (str (''Numerador de aprobaci'' @ oacute @ ''n'')) exactly) (str ''2''),
     fill A (by_label (val voting_policy) (str (''Denominador de aprobaci'' @ oacute @ ''n'')) exactly) (str ''3''),
     fill A (by_label (val voting_policy) (str (''Motivo de esta pol'' @ iacute @ ''tica'')) exactly)
         (str ''v0.1 initial policy - browser fixture''),
     click A (button (val voting_policy) (str (''Guardar pol'' @ iacute @ ''tica''))),
     visible_now A (by_text (val voting_policy) (str (''Pol'' @ iacute @ ''tica actual'')) loosely),
     click A (by_text (val gov) (str (''Iniciar una votaci'' @ oacute @ ''n ordinaria'')) exactly)]) (
     bind_py (eval (having_text (css (val gov) (str ''details'')) (str (''Iniciar una votaci'' @ oacute @
         ''n ordinaria'')))) (\<lambda>start_vote.
     then_py (click A (button (val start_vote) (str (''Proponer una orientaci'' @ oacute @
         ''n inicial comunitaria'')))) (
     bind_py (eval (css (val start_vote) (str ''form''))) (\<lambda>seed_form.
     steps [
     fill A (by_label (val seed_form) (str ''Valor orientativo inferior'') exactly) (str ''30''),
     fill A (by_label (val seed_form) (str ''Valor orientativo superior'') exactly) (str ''30''),
     fill A (by_label (val seed_form) (str (''Justificaci'' @ oacute @ ''n'')) exactly)
         (str ''Initial orientation pending real evidence - browser fixture''),
     fill A (by_label (val seed_form) (str ''Base de gobernanza'') exactly) (str ''Founding assembly''),
     click A (button (val seed_form) (str ''Enviar propuesta'')),
     visible_now A (by_text (val gov) (str (''Publicaci'' @ oacute @ ''n de orientaci'' @ oacute @
         ''n inicial comunitaria'')) exactly),
     visible_now A (by_text (val gov) (str (''Abierta a votaci'' @ oacute @ ''n'')) exactly),
     assert_no_errors,
     print_py (''PASS BROWSER MULTI-SOURCE VALUE EVIDENCE: a real LISTING and a real WANTED published with '' @
         ''their own indicative price and explicit consent through the rendered listing form; the '' @
         ''source/lineage breakdown rendered with LISTING and WANTED kept separate from AGREEMENT; an '' @
         ''unrelated policy field edit through the direct publisher path never reset '' @
         ''listingSourceEnabled/wantedSourceEnabled; and a Community Seed was proposed through a real '' @
         ''ordinary-governance vote - no page errors.'')]))))))))))))))))))))"

definition multi_browser_ui_plan :: "plan" where
  "multi_browser_ui_plan =
     sql_events"

definition multi_browser_run :: "('k, 'x) services \<Rightarrow> ('x host, unit) py" where
  "multi_browser_run A =
     bind_py (multi_browser_setup A) (\<lambda>(manager_login, pedro_login, suffix, definition_id, definition, name,
         tenant, manager, pedro).
     session A (str ''msedge'') no_errors (\<lambda>browser. multi_browser_ui A browser manager_login pedro_login
         suffix definition_id definition name tenant manager pedro))"

section \<open>Conformance\<close>

lemma multi_browser_setup_conforms: "conforms multi_browser_setup_plan (multi_browser_setup A)"
  unfolding multi_browser_setup_plan_def multi_browser_setup_def append.simps by (intro py_conf) simp_all

lemmas multi_browser_setup_steps [py_conf] =
  multi_browser_setup_conforms conforms_bind [OF multi_browser_setup_conforms] conforms_then [OF multi_browser_setup_conforms]
  conforms_bind_last [OF multi_browser_setup_conforms] conforms_then_last [OF multi_browser_setup_conforms]

lemma multi_browser_setup_logs [py_logs]: "(\<And>e. idle_event e \<Longrightarrow> P e) \<Longrightarrow> logs P (multi_browser_setup A)"
  unfolding multi_browser_setup_def by (intro py_logs logs_sql_e) simp_all

lemma multi_browser_login_quiet [py_plan, py_conf]: "follows [] (multi_browser_login A name page credentials)"
  unfolding multi_browser_login_def by (intro follows_bind_quiet follows_then_quiet py_plan)

lemmas multi_browser_login_steps [py_conf] = conforms_bind_quiet [OF multi_browser_login_quiet] conforms_then_quiet [OF multi_browser_login_quiet]

lemma multi_browser_login_logs [py_logs]: "(\<And>e. P e) \<Longrightarrow> logs P (multi_browser_login A name page credentials)"
  unfolding multi_browser_login_def by (intro py_logs logs_sql_e) simp_all

lemma multi_browser_ui_conforms: "conforms multi_browser_ui_plan (multi_browser_ui A browser manager_login pedro_login suffix definition_id definition name tenant manager pedro)"
  unfolding multi_browser_ui_plan_def multi_browser_ui_def append.simps by (intro py_conf)

lemmas multi_browser_ui_steps [py_conf] =
  multi_browser_ui_conforms conforms_bind [OF multi_browser_ui_conforms] conforms_then [OF multi_browser_ui_conforms]
  conforms_bind_last [OF multi_browser_ui_conforms] conforms_then_last [OF multi_browser_ui_conforms]

lemma multi_browser_ui_logs [py_logs]: "(\<And>e. P e) \<Longrightarrow> logs P (multi_browser_ui A browser manager_login pedro_login suffix definition_id definition name tenant manager pedro)"
  unfolding multi_browser_ui_def by (intro py_logs logs_sql_e) simp_all

lemma multi_browser_run_tidy: "leaves_tidy (multi_browser_run A)"
  unfolding multi_browser_run_def by (intro leaves_tidy_rules py_logs) simp_all

end
