(* ===== verification/OrdinaryBrowser.thy ===== *)
theory OrdinaryBrowser
  imports ValueGovernance Browser
begin

text \<open>
  Ordinary governance in three browser sessions (scripts/ordinary_governance_browser.py): the
      electorate, the voting policy, two votes, and the direct publication that governance blocks.
\<close>

section \<open>The script\<close>

definition ordinary_browser_setup :: "('k, 'x) services \<Rightarrow> ('x host, (json \<times> json) \<times> (json \<times> json) \<times> (json \<times> json) \<times> json \<times> json \<times> json \<times> json \<times> json) py" where
  "ordinary_browser_setup A =
     bind_py (read_secret A ''login_password'') (\<lambda>r1.
     bind_py (call A (str ''/api/shell/v1/auth/login'') ''POST'' (obj [(''email'', str ''admin@stir.test''),
         (''password'', val r1)]) none [200]) (\<lambda>r2.
     bind_py (eval (item (val r2) ''accessToken'')) (\<lambda>admin.
     bind_py (uuid4_hex A) (\<lambda>r3.
     bind_py (eval (upto (val r3) 8)) (\<lambda>suffix.
     bind_py (eval (plus (str ''Ordinary Gov Browser '') (val suffix))) (\<lambda>name.
     bind_py (sql_e A (fmt A [str ''select tenant_id from idax_core.tenant_create('ordgov-b-'', val suffix, sq,
         str '','', sq, val name, sq, str '','active',false);'']) False) (\<lambda>tenant.
     bind_py (eval (fmt A [str ''/api/shell/v1/tenants/'', val tenant])) (\<lambda>shell.
     bind_py (call A (plus (val shell) (str ''/roles'')) ''POST'' (obj [(''key'', plus (str ''manager'')
         (val suffix)), (''name'', str ''Manager''), (''description'', str ''Local browser test''), (''enabled'',
         yes)]) (val admin) [200, 201]) (\<lambda>manager_role.
     then_py (call A (plus (plus (plus (val shell) (str ''/roles/'')) (item (val manager_role) ''id''))
         (str ''/permissions'')) ''PUT'' (plus (val MEMBER) (arr [str ''stir.references.publish'',
         str ''stir.governance.manage'', str ''stir.governance.vote''])) (val admin) [200]) (
     bind_py (call A (plus (val shell) (str ''/roles'')) ''POST'' (obj [(''key'', plus (str ''voter'') (val suffix)),
         (''name'', str ''Voter''), (''description'', str ''Local browser test''), (''enabled'', yes)]) (val admin)
         [200, 201]) (\<lambda>voter_role.
     then_py (call A (plus (plus (plus (val shell) (str ''/roles/'')) (item (val voter_role) ''id''))
         (str ''/permissions'')) ''PUT'' (plus (val MEMBER) (arr [str ''stir.governance.vote''])) (val admin) [200]) (
     bind_py (eval (item (val manager_role) ''id'')) (\<lambda>r9.
     bind_py (make_login A admin tenant r9 (JStr ''manager'') suffix) (\<lambda>manager_login.
     bind_py (eval (item (val voter_role) ''id'')) (\<lambda>r11.
     bind_py (make_login A admin tenant r11 (JStr ''v1'') suffix) (\<lambda>v1_login.
     bind_py (eval (item (val voter_role) ''id'')) (\<lambda>r13.
     bind_py (make_login A admin tenant r13 (JStr ''v2'') suffix) (\<lambda>v2_login.
     bind_py (call A (str ''/api/shell/v1/auth/login'') ''POST'' (obj [(''email'', val (fst manager_login)),
         (''password'', val (snd manager_login))]) none [200]) (\<lambda>manager.
     bind_py (call A (str ''/api/shell/v1/auth/login'') ''POST'' (obj [(''email'', val (fst v1_login)), (''password'',
         val (snd v1_login))]) none [200]) (\<lambda>v1.
     bind_py (call A (str ''/api/shell/v1/auth/login'') ''POST'' (obj [(''email'', val (fst v2_login)), (''password'',
         val (snd v2_login))]) none [200]) (\<lambda>v2.
     bind_py (eval (item (val manager) ''accessToken'')) (\<lambda>m.
     bind_py (eval (fmt A [str ''/api/stir/tenants/'', val tenant])) (\<lambda>base.
     bind_py (call A (plus (val base) (str ''/economic/marketplace/bootstrap'')) ''POST'' (obj [(''communityName'',
         val name), (''unitCode'', str ''OGB''), (''unitScale'', num 2)]) (val m) [200]) (\<lambda>binding.
     bind_py (eval (item (val binding) ''communityId'')) (\<lambda>community.
     bind_py (call A (plus (val base) (str ''/references'')) ''POST'' (obj [(''name'', plus (str ''Wheat '')
         (val suffix)), (''scope'', str ''One tonne of wheat''), (''attributes'', obj []), (''quantityBasis'',
         str ''1''), (''quantityUnit'', str ''t'')]) (val m) [200]) (\<lambda>definition.
     bind_py (eval (item (val definition) ''id'')) (\<lambda>definition_id.
     bind_py (call A (plus (plus (plus (val base) (str ''/references/'')) (val definition_id)) (str ''/proposals''))
         ''POST'' (obj [(''kind'', str ''CONVENTION''), (''lowerValue'', str ''200''), (''upperValue'', str ''200''),
         (''explanation'', str ''Community convention, not statistics''), (''origin'', str ''Assembly''),
         (''validDays'', num 90)]) (val m) [200]) (\<lambda>reference_proposal.
     ret (manager_login, v1_login, v2_login, definition_id, name, manager, v1, v2)))))))))))))))))))))))))))))"

definition ordinary_browser_setup_plan :: "plan" where
  "ordinary_browser_setup_plan =
     [answered ''POST'' ''/api/shell/v1/auth/login'' [200]] @ sql_events @ [answered ''POST'' ''/roles'' [200, 201],
         answered ''PUT'' ''/permissions'' [200], answered ''POST'' ''/roles'' [200, 201], answered ''PUT''
         ''/permissions'' [200]] @ make_login_plan @ make_login_plan @ make_login_plan @ [answered ''POST''
         ''/api/shell/v1/auth/login'' [200], answered ''POST'' ''/api/shell/v1/auth/login'' [200], answered ''POST''
         ''/api/shell/v1/auth/login'' [200], answered ''POST'' ''/economic/marketplace/bootstrap'' [200], answered
         ''POST'' ''/references'' [200], answered ''POST'' ''/proposals'' [200]]"

definition ordinary_browser_login :: "('k, 'x) services \<Rightarrow> json \<Rightarrow> locator \<Rightarrow> (json \<times> json) \<Rightarrow> ('x host, unit) py" where
  "ordinary_browser_login A name page credentials =
     steps [
     set_timeout A (val page) 30000,
     on_pageerror A (val page),
     goto A (val page) (str ''http://localhost:8089''),
     fill A (css (val page) (str ''input[type=email]'')) (val (fst credentials)),
     fill A (css (val page) (str ''input[type=password]'')) (val (snd credentials)),
     click A (css (val page) (str ''button[type=submit]'')),
     click A (having (css (val page) (str ''.module-card'')) (named (val page) (str ''heading'') (str ''STIR''))),
     select_option A (first_of (css (val page) (str ''.surface > header select''))) ''label'' (val name)]"

definition ordinary_browser_ui :: "('k, 'x) services \<Rightarrow> locator \<Rightarrow> (json \<times> json) \<Rightarrow> (json \<times> json) \<Rightarrow> (json \<times> json) \<Rightarrow> json \<Rightarrow> json \<Rightarrow> json \<Rightarrow> json \<Rightarrow> json \<Rightarrow> ('x host, unit) py" where
  "ordinary_browser_ui A browser manager_login v1_login v2_login definition_id name manager v1 v2 =
     bind_py (new_page A browser 1440 1800) (\<lambda>manager_page.
     bind_py (new_page A browser 1440 1800) (\<lambda>v1_page.
     bind_py (new_page A browser 1440 1800) (\<lambda>v2_page.
     then_py (steps [
     ordinary_browser_login A name manager_page manager_login,
     goto A (val manager_page) (str ''http://localhost:8089/stir/references''),
     select_option A (by_label (val manager_page) (str (''Definici'' @ oacute @ ''n comparable'')) loosely) ''value''
         (val definition_id),
     click A (by_text (val manager_page) (str ''Gobernanza comunitaria ordinaria'') exactly)]) (
     bind_py (eval (first_of (having_text (css (val manager_page) (str ''details''))
         (str ''Gobernanza comunitaria ordinaria'')))) (\<lambda>gov.
     then_py (steps [
     click A (by_role (val gov) (str ''checkbox'')),
     expects A (by_text (val gov) (str (''La gobernanza ordinaria est'' @ aacute @ '' desactivada'')) loosely)
         ''not_to_be_visible'' [],
     click A (by_text (val gov) (str ''Censo electoral'') exactly)]) (
     bind_py (eval (having_text (css (val gov) (str ''details'')) (str ''Censo electoral''))) (\<lambda>electorate.
     bind_py (eval (item (item (val manager) ''user'') ''id'')) (\<lambda>r1.
     bind_py (eval (item (item (val v1) ''user'') ''id'')) (\<lambda>r2.
     bind_py (eval (item (item (val v2) ''user'') ''id'')) (\<lambda>r3.
     then_py (steps [
     for_py (\<lambda>user_id.
     steps [
     fill A (by_label (val electorate) (str ''ID de usuario'') exactly) (val user_id),
     click A (button (val electorate) (str (''A'' @ ntilde @ ''adir miembro''))),
     visible_now A (by_text (val electorate) (upto (val user_id) 8) loosely)]) [r1, r2, r3],
     click A (by_text (val gov) (str (''Pol'' @ iacute @ ''tica de votaci'' @ oacute @ ''n'')) exactly)]) (
     bind_py (eval (having_text (css (val gov) (str ''details'')) (str (''Pol'' @ iacute @ ''tica de votaci'' @ oacute
         @ ''n'')))) (\<lambda>policy_form.
     then_py (steps [
     fill A (by_label (val policy_form) (str ''Numerador del quorum'') exactly) (str ''1''),
     fill A (by_label (val policy_form) (str ''Denominador del quorum'') exactly) (str ''2''),
     fill A (by_label (val policy_form) (str (''Numerador de aprobaci'' @ oacute @ ''n'')) exactly) (str ''2''),
     fill A (by_label (val policy_form) (str (''Denominador de aprobaci'' @ oacute @ ''n'')) exactly) (str ''3''),
     fill A (by_label (val policy_form) (str (''Motivo de esta pol'' @ iacute @ ''tica'')) exactly)
         (str ''v0.1 initial policy - browser fixture''),
     click A (button (val policy_form) (str (''Guardar pol'' @ iacute @ ''tica''))),
     visible_now A (by_text (val policy_form) (str (''Pol'' @ iacute @ ''tica actual'')) loosely),
     click A (by_text (val gov) (str (''Iniciar una votaci'' @ oacute @ ''n ordinaria'')) exactly)]) (
     bind_py (eval (having_text (css (val gov) (str ''details'')) (str (''Iniciar una votaci'' @ oacute @
         ''n ordinaria'')))) (\<lambda>start_vote.
     then_py (steps [
     click A (button (val start_vote) (str (''Iniciar votaci'' @ oacute @ ''n''))),
     visible_now A (by_text (val gov) (str ''Publicar una referencia de valor comunitario'') exactly),
     visible_now A (by_text (val gov) (str (''Tama'' @ ntilde @ ''o del censo: 3'')) loosely),
     ordinary_browser_login A name v1_page v1_login,
     goto A (val v1_page) (str ''http://localhost:8089/stir/references''),
     select_option A (by_label (val v1_page) (str (''Definici'' @ oacute @ ''n comparable'')) loosely) ''value''
         (val definition_id),
     click A (by_text (val v1_page) (str ''Gobernanza comunitaria ordinaria'') exactly)]) (
     bind_py (eval (first_of (having_text (css (val v1_page) (str ''details''))
         (str ''Gobernanza comunitaria ordinaria'')))) (\<lambda>v1_gov.
     then_py (steps [
     click A (button (val v1_gov) (str ''Votar a favor'')),
     visible_now A (by_text (val v1_gov) (str ''A favor: 1'') loosely),
     ordinary_browser_login A name v2_page v2_login,
     goto A (val v2_page) (str ''http://localhost:8089/stir/references''),
     select_option A (by_label (val v2_page) (str (''Definici'' @ oacute @ ''n comparable'')) loosely) ''value''
         (val definition_id),
     click A (by_text (val v2_page) (str ''Gobernanza comunitaria ordinaria'') exactly)]) (
     bind_py (eval (first_of (having_text (css (val v2_page) (str ''details''))
         (str ''Gobernanza comunitaria ordinaria'')))) (\<lambda>v2_gov.
     then_py (steps [
     click A (button (val v2_gov) (str ''Votar a favor'')),
     visible_now A (by_text (val v2_gov) (str ''A favor: 2'') loosely),
     reload A (val manager_page),
     select_option A (by_label (val manager_page) (str (''Definici'' @ oacute @ ''n comparable'')) loosely) ''value''
         (val definition_id),
     fill A (by_label (val manager_page) (str (''Decisi'' @ oacute @ ''n de publicaci'' @ oacute @ ''n'')) exactly)
         (str ''Bypass attempt'')]) (
     bind_py (eval (button (val manager_page) (str (''Publicar nueva versi'' @ oacute @ ''n''))))
         (\<lambda>publish_buttons.
     bind_py (act A (val publish_buttons) ''count'' []) (\<lambda>r4.
     steps [
     bind_py (eval (greater (val r4) (num 0))) (\<lambda>b. when_py b (steps [
     click A (first_of (val publish_buttons)),
     visible_now A (by_text (val manager_page) (str ''gobernanza ordinaria'') loosely)])),
     assert_no_errors,
     print_py (''PASS BROWSER ORDINARY GOVERNANCE: governance enabled, electorate built, voting policy saved, a '' @
         ''real ordinary vote started on a real reference proposal, two independent voter sessions cast '' @
         ''real votes with the tally updating live, direct publish blocked once governance is active - '' @
         ''all through the rendered UI, no page errors.'')])))))))))))))))))))))"

definition ordinary_browser_run :: "('k, 'x) services \<Rightarrow> ('x host, unit) py" where
  "ordinary_browser_run A =
     bind_py (ordinary_browser_setup A) (\<lambda>(manager_login, v1_login, v2_login, definition_id, name, manager,
         v1, v2).
     session A (str ''msedge'') no_errors (\<lambda>browser. ordinary_browser_ui A browser manager_login v1_login
         v2_login definition_id name manager v1 v2))"

section \<open>Conformance\<close>

lemma ordinary_browser_setup_conforms: "conforms ordinary_browser_setup_plan (ordinary_browser_setup A)"
  unfolding ordinary_browser_setup_plan_def ordinary_browser_setup_def append.simps by (intro py_conf) simp_all

lemmas ordinary_browser_setup_steps [py_conf] =
  ordinary_browser_setup_conforms conforms_bind [OF ordinary_browser_setup_conforms] conforms_then [OF ordinary_browser_setup_conforms]
  conforms_bind_last [OF ordinary_browser_setup_conforms] conforms_then_last [OF ordinary_browser_setup_conforms]

lemma ordinary_browser_setup_logs [py_logs]: "(\<And>e. idle_event e \<Longrightarrow> P e) \<Longrightarrow> logs P (ordinary_browser_setup A)"
  unfolding ordinary_browser_setup_def by (intro py_logs logs_sql_e) simp_all

lemma ordinary_browser_login_quiet [py_plan, py_conf]: "follows [] (ordinary_browser_login A name page credentials)"
  unfolding ordinary_browser_login_def by (intro follows_bind_quiet follows_then_quiet py_plan)

lemmas ordinary_browser_login_steps [py_conf] = conforms_bind_quiet [OF ordinary_browser_login_quiet] conforms_then_quiet [OF ordinary_browser_login_quiet]

lemma ordinary_browser_login_logs [py_logs]: "(\<And>e. P e) \<Longrightarrow> logs P (ordinary_browser_login A name page credentials)"
  unfolding ordinary_browser_login_def by (intro py_logs logs_sql_e) simp_all

lemma ordinary_browser_ui_quiet [py_plan, py_conf]: "follows [] (ordinary_browser_ui A browser manager_login v1_login v2_login definition_id name manager v1 v2)"
  unfolding ordinary_browser_ui_def by (intro follows_bind_quiet follows_then_quiet py_plan)

lemmas ordinary_browser_ui_steps [py_conf] = conforms_bind_quiet [OF ordinary_browser_ui_quiet] conforms_then_quiet [OF ordinary_browser_ui_quiet]

lemma ordinary_browser_ui_logs [py_logs]: "(\<And>e. P e) \<Longrightarrow> logs P (ordinary_browser_ui A browser manager_login v1_login v2_login definition_id name manager v1 v2)"
  unfolding ordinary_browser_ui_def by (intro py_logs logs_sql_e) simp_all

lemma ordinary_browser_run_tidy: "leaves_tidy (ordinary_browser_run A)"
  unfolding ordinary_browser_run_def by (intro leaves_tidy_rules py_logs) simp_all

end
