(* ===== verification/IndependenceBrowser.thy ===== *)
theory IndependenceBrowser
  imports ValueGovernance Independence Browser
begin

text \<open>
  Participant independence in the browser (scripts/participant_independence_browser.py): two related
      accounts, the badge of the evidence breakdown and its refresh.
\<close>

section \<open>The script\<close>

definition independence_browser_setup :: "('k, 'x) services \<Rightarrow> ('x host, (json \<times> json) \<times> json \<times> json) py" where
  "independence_browser_setup A =
     bind_py (read_secret A ''login_password'') (\<lambda>r1.
     bind_py (call A (str ''/api/shell/v1/auth/login'') ''POST'' (obj [(''email'', str ''admin@stir.test''),
         (''password'', val r1)]) none [200]) (\<lambda>r2.
     bind_py (eval (item (val r2) ''accessToken'')) (\<lambda>admin.
     bind_py (uuid4_hex A) (\<lambda>r3.
     bind_py (eval (upto (val r3) 8)) (\<lambda>suffix.
     bind_py (eval (plus (str ''Independence Browser '') (val suffix))) (\<lambda>name.
     bind_py (sql_e A (fmt A [str ''select tenant_id from idax_core.tenant_create('indep-b-'', val suffix, sq,
         str '','', sq, val name, sq, str '','active',false);'']) False) (\<lambda>tenant.
     bind_py (call A (fmt A [str ''/api/shell/v1/tenants/'', val tenant, str ''/roles'']) ''POST'' (obj [(''key'',
         plus (str ''reviewer'') (val suffix)), (''name'', str ''Reviewer''), (''description'',
         str ''Local browser test''), (''enabled'', yes)]) (val admin) [200, 201]) (\<lambda>reviewer_role.
     then_py (call A (plus (plus (fmt A [str ''/api/shell/v1/tenants/'', val tenant, str ''/roles/'']) (item (val
         reviewer_role) ''id'')) (str ''/permissions'')) ''PUT'' (plus (val MEMBER) (arr
         [str ''stir.references.publish'', str ''OSTRIS_IDENTITY_CONTINUITY_READ_PRIVATE''])) (val admin) [200]) (
     bind_py (call A (fmt A [str ''/api/shell/v1/tenants/'', val tenant, str ''/roles'']) ''POST'' (obj [(''key'',
         plus (str ''member'') (val suffix)), (''name'', str ''Member''), (''description'',
         str ''Local browser test''), (''enabled'', yes)]) (val admin) [200, 201]) (\<lambda>member_role.
     then_py (call A (plus (plus (fmt A [str ''/api/shell/v1/tenants/'', val tenant, str ''/roles/'']) (item (val
         member_role) ''id'')) (str ''/permissions'')) ''PUT'' (val MEMBER) (val admin) [200]) (
     bind_py (eval (item (val reviewer_role) ''id'')) (\<lambda>r9.
     bind_py (make_login A admin tenant r9 (JStr ''reviewer'') suffix) (\<lambda>reviewer_login.
     bind_py (eval (item (val member_role) ''id'')) (\<lambda>r11.
     bind_py (make_login A admin tenant r11 (JStr ''pedro'') suffix) (\<lambda>pedro_login.
     bind_py (eval (item (val member_role) ''id'')) (\<lambda>r13.
     bind_py (make_login A admin tenant r13 (JStr ''carlos'') suffix) (\<lambda>carlos_login.
     bind_py (call A (str ''/api/shell/v1/auth/login'') ''POST'' (obj [(''email'', val (fst reviewer_login)),
         (''password'', val (snd reviewer_login))]) none [200]) (\<lambda>reviewer.
     bind_py (call A (str ''/api/shell/v1/auth/login'') ''POST'' (obj [(''email'', val (fst pedro_login)),
         (''password'', val (snd pedro_login))]) none [200]) (\<lambda>pedro.
     bind_py (call A (str ''/api/shell/v1/auth/login'') ''POST'' (obj [(''email'', val (fst carlos_login)),
         (''password'', val (snd carlos_login))]) none [200]) (\<lambda>carlos.
     bind_py (eval (item (val reviewer) ''accessToken'')) (\<lambda>r.
     bind_py (eval (fmt A [str ''/api/stir/tenants/'', val tenant])) (\<lambda>base.
     bind_py (call A (plus (val base) (str ''/economic/marketplace/bootstrap'')) ''POST'' (obj [(''communityName'',
         val name), (''unitCode'', str ''IND''), (''unitScale'', num 2)]) (val r) [200]) (\<lambda>binding.
     bind_py (eval (item (val binding) ''communityId'')) (\<lambda>community.
     then_py (for_py (\<lambda>session.
     then_py (call A (plus (val base) (str ''/participants/me'')) ''PUT'' (obj [(''displayName'', str ''Fixture''),
         (''bio'', str ''Browser fixture''), (''location'', str ''Girona'')]) (item (val session) ''accessToken'')
         [200]) (
     then_py (activate_economic A base session) (
     ret ()))) [pedro, carlos]) (
     bind_py (eval (item (item (val pedro) ''user'') ''id'')) (\<lambda>pedro_user.
     bind_py (eval (item (item (val carlos) ''user'') ''id'')) (\<lambda>carlos_user.
     bind_py (participant_id A tenant pedro_user) (\<lambda>r21.
     bind_py (participant_id A tenant carlos_user) (\<lambda>r22.
     bind_py (eval (val r21)) (\<lambda>pedro_participant.
     bind_py (eval (val r22)) (\<lambda>carlos_participant.
     bind_py (uuid7 A) (\<lambda>risk_subject.
     then_py (sql_e A (fmt A [str ''insert into ostris.risk_subject(id,tenant_id,community_id) values ('', sq,
         val risk_subject, sq, str '','', sq, val tenant, sq, str '','', sq, val community, sq, str '');'']) False) (
     then_py (confirm_related A admin tenant community pedro_participant risk_subject (JStr
         ''Same cluster (browser fixture)'')) (
     then_py (confirm_related A admin tenant community carlos_participant risk_subject (JStr
         ''Same cluster (browser fixture)'')) (
     bind_py (call A (plus (val base) (str ''/references'')) ''POST'' (obj [(''name'', plus (str ''Firewood '')
         (val suffix)), (''scope'', str ''One stere of dry firewood''), (''attributes'', obj []), (''quantityBasis'',
         str ''1''), (''quantityUnit'', str ''stere'')]) (val r) [200]) (\<lambda>definition.
     bind_py (eval (item (val definition) ''id'')) (\<lambda>definition_id.
     bind_py (call A (plus (val base) (str ''/listings'')) ''POST'' (obj [(''direction'', str ''OFFER''), (''title'',
         plus (str ''Firewood '') (val suffix)), (''description'', str ''Browser fixture''), (''category'',
         str ''home''), (''resourceKind'', str ''physical''), (''referenceDefinitionId'', val definition_id)])
         (item (val pedro) ''accessToken'') [201]) (\<lambda>listing.
     bind_py (call A (plus (plus (plus (val base) (str ''/listings/'')) (item (val listing) ''id''))
         (str ''/offers'')) ''POST'' (obj [(''message'', str ''proposal''), (''quantity'', str ''1''), (''unitLabel'',
         str ''stere''), (''proposedAmount'', str ''10''), (''proposedUnitRef'', item (val definition) ''unit_ref''),
         (''shareReferenceObservation'', yes)]) (item (val carlos) ''accessToken'') [201]) (\<lambda>offer.
     then_py (call A (plus (plus (plus (val base) (str ''/negotiations/'')) (item (val offer) ''id''))
         (str ''/accept'')) ''POST'' (obj [(''offerId'', item (at (item (val offer) ''offers'') (- 1)) ''id''),
         (''expectedVersion'', item (val offer) ''version''), (''shareReferenceObservation'', yes)]) (item (val pedro)
         ''accessToken'') [200]) (
     ret (reviewer_login, name, definition_id)))))))))))))))))))))))))))))))))))))))))"

definition independence_browser_setup_plan :: "plan" where
  "independence_browser_setup_plan =
     [answered ''POST'' ''/api/shell/v1/auth/login'' [200]] @ sql_events @ [answered ''POST'' ''/roles'' [200, 201],
         answered ''PUT'' ''/permissions'' [200], answered ''POST'' ''/roles'' [200, 201], answered ''PUT''
         ''/permissions'' [200]] @ make_login_plan @ make_login_plan @ make_login_plan @ [answered ''POST''
         ''/api/shell/v1/auth/login'' [200], answered ''POST'' ''/api/shell/v1/auth/login'' [200], answered ''POST''
         ''/api/shell/v1/auth/login'' [200], answered ''POST'' ''/economic/marketplace/bootstrap'' [200]] @ concat
         (replicate 2 ([answered ''PUT'' ''/participants/me'' [200]] @ activate_economic_plan)) @ participant_id_plan
         @ participant_id_plan @ sql_events @ confirm_related_plan @ confirm_related_plan @ [answered ''POST''
         ''/references'' [200], answered ''POST'' ''/listings'' [201], answered ''POST'' ''/offers'' [201], answered
         ''POST'' ''/accept'' [200]]"

definition independence_browser_ui :: "('k, 'x) services \<Rightarrow> locator \<Rightarrow> (json \<times> json) \<Rightarrow> json \<Rightarrow> json \<Rightarrow> ('x host, unit) py" where
  "independence_browser_ui A browser reviewer_login name definition_id =
     bind_py (new_page A browser 1440 1600) (\<lambda>page.
     then_py (steps [
     set_timeout A (val page) 30000,
     on_pageerror A (val page),
     goto A (val page) (str ''http://localhost:8089''),
     fill A (css (val page) (str ''input[type=email]'')) (val (fst reviewer_login)),
     fill A (css (val page) (str ''input[type=password]'')) (val (snd reviewer_login)),
     click A (css (val page) (str ''button[type=submit]'')),
     click A (having (css (val page) (str ''.module-card'')) (named (val page) (str ''heading'') (str ''STIR''))),
     select_option A (first_of (css (val page) (str ''.surface > header select''))) ''label'' (val name),
     goto A (val page) (str ''http://localhost:8089/stir/references''),
     select_option A (by_label (val page) (str (''Definici'' @ oacute @ ''n comparable'')) loosely) ''value''
         (val definition_id),
     click A (by_text (val page) (str (iquest @ ''Por qu'' @ eacute @ '' me muestran esta referencia?'')) exactly),
     visible_now A (by_text (val page) (str (''Garant'' @ iacute @ ''a de independencia'')) loosely),
     click A (by_text (val page) (str ''Desglose de la evidencia'') exactly)]) (
     bind_py (eval (having_text (css (val page) (str ''details'')) (str ''Desglose de la evidencia'')))
         (\<lambda>breakdown.
     bind_py (eval (first_of (css (val breakdown) (str ''button.stir-inline-action'')))) (\<lambda>badge.
     then_py (visible_now A (val badge)) (
     bind_py (act A (val badge) ''inner_text'' []) (\<lambda>before_text.
     then_py (steps [
     click A (val badge),
     expects A (val badge) ''to_contain_text'' [([], arg (str (''Relaci'' @ oacute @ ''n confirmada''))),
         (''timeout'', arg (num 15000))],
     assert_no_errors]) (
     print_e (fmt A
         [str (''PASS BROWSER PARTICIPANT INDEPENDENCE: identity-assurance summary line visible, independence '' @
         ''badge renders per participant in the evidence breakdown, refresh action updates the label live '' @
         ''(was ''), repr_e A (val before_text),
         str '', now confirmed related) - no JavaScript page errors.'']))))))))"

definition independence_browser_run :: "('k, 'x) services \<Rightarrow> ('x host, unit) py" where
  "independence_browser_run A =
     bind_py (independence_browser_setup A) (\<lambda>(reviewer_login, name, definition_id).
     session A (str ''msedge'') no_errors (\<lambda>browser. independence_browser_ui A browser reviewer_login name
         definition_id))"

section \<open>Conformance\<close>

lemma fixture_logs [py_logs]:
  assumes "\<And>e. idle_event e \<Longrightarrow> P e"
  shows "logs P (activate_economic A base party)" "logs P (participant_id A tenant user)" "logs P (uuid7 A)"
    "logs P (confirm_related A admin tenant community participant risk_subject reason)"
  unfolding activate_economic_def participant_id_def uuid7_def confirm_related_def fresh_keypair_def
  by (intro py_logs logs_sql_e; simp add: assms)+

lemma independence_browser_setup_conforms: "conforms independence_browser_setup_plan (independence_browser_setup A)"
  unfolding independence_browser_setup_plan_def independence_browser_setup_def append.simps by (intro py_conf) simp_all

lemmas independence_browser_setup_steps [py_conf] =
  independence_browser_setup_conforms conforms_bind [OF independence_browser_setup_conforms] conforms_then [OF independence_browser_setup_conforms]
  conforms_bind_last [OF independence_browser_setup_conforms] conforms_then_last [OF independence_browser_setup_conforms]

lemma independence_browser_setup_logs [py_logs]: "(\<And>e. idle_event e \<Longrightarrow> P e) \<Longrightarrow> logs P (independence_browser_setup A)"
  unfolding independence_browser_setup_def by (intro py_logs logs_sql_e) simp_all

lemma independence_browser_ui_quiet [py_plan, py_conf]: "follows [] (independence_browser_ui A browser reviewer_login name definition_id)"
  unfolding independence_browser_ui_def by (intro follows_bind_quiet follows_then_quiet py_plan)

lemmas independence_browser_ui_steps [py_conf] = conforms_bind_quiet [OF independence_browser_ui_quiet] conforms_then_quiet [OF independence_browser_ui_quiet]

lemma independence_browser_ui_logs [py_logs]: "(\<And>e. P e) \<Longrightarrow> logs P (independence_browser_ui A browser reviewer_login name definition_id)"
  unfolding independence_browser_ui_def by (intro py_logs logs_sql_e) simp_all

lemma independence_browser_run_tidy: "leaves_tidy (independence_browser_run A)"
  unfolding independence_browser_run_def by (intro leaves_tidy_rules py_logs) simp_all

end
