(* ===== verification/GovernanceBrowser.thy ===== *)
theory GovernanceBrowser
  imports ValueGovernance Browser
begin

text \<open>
  The seven keys in the browser (scripts/governance_ui_browser.py): the bootstrap ceremony, an
      amendment, a suspension and the rotation of a credential.
\<close>

section \<open>The script\<close>

definition governance_browser_setup :: "('k, 'x) services \<Rightarrow> ('x host, (json \<times> json) \<times> json \<times> json \<times> json) py" where
  "governance_browser_setup A =
     bind_py (read_secret A ''login_password'') (\<lambda>r1.
     bind_py (call A (str ''/api/shell/v1/auth/login'') ''POST'' (obj [(''email'', str ''admin@stir.test''),
         (''password'', val r1)]) none [200]) (\<lambda>r2.
     bind_py (eval (item (val r2) ''accessToken'')) (\<lambda>admin.
     bind_py (uuid4_hex A) (\<lambda>r3.
     bind_py (eval (upto (val r3) 8)) (\<lambda>suffix.
     bind_py (eval (plus (str ''Governance UI '') (val suffix))) (\<lambda>name.
     bind_py (sql_e A (fmt A [str ''select tenant_id from idax_core.tenant_create('gov-ui-'', val suffix, sq,
         str '','', sq, val name, sq, str '','active',false);'']) False) (\<lambda>tenant.
     bind_py (call A (fmt A [str ''/api/shell/v1/tenants/'', val tenant, str ''/roles'']) ''POST'' (obj [(''key'',
         plus (str ''publisher'') (val suffix)), (''name'', str ''Governance publisher''), (''description'',
         str ''Local browser test''), (''enabled'', yes)]) (val admin) [200, 201]) (\<lambda>role.
     then_py (call A (plus (plus (fmt A [str ''/api/shell/v1/tenants/'', val tenant, str ''/roles/'']) (item (val
         role) ''id'')) (str ''/permissions'')) ''PUT'' (plus (val MEMBER) (arr [str ''stir.references.publish'']))
         (val admin) [200]) (
     bind_py (eval (item (val role) ''id'')) (\<lambda>r7.
     bind_py (make_login A admin tenant r7 (JStr ''ana'') suffix) (\<lambda>ana_login.
     bind_py (call A (str ''/api/shell/v1/auth/login'') ''POST'' (obj [(''email'', val (fst ana_login)),
         (''password'', val (snd ana_login))]) none [200]) (\<lambda>r9.
     bind_py (eval (item (val r9) ''accessToken'')) (\<lambda>ana.
     bind_py (eval (fmt A [str ''/api/stir/tenants/'', val tenant])) (\<lambda>base.
     then_py (call A (plus (val base) (str ''/economic/marketplace/bootstrap'')) ''POST'' (obj [(''communityName'',
         val name), (''unitCode'', str ''GOV''), (''unitScale'', num 2)]) (val ana) [200]) (
     ret (ana_login, name, ana, base))))))))))))))))"

definition governance_browser_setup_plan :: "plan" where
  "governance_browser_setup_plan =
     [answered ''POST'' ''/api/shell/v1/auth/login'' [200]] @ sql_events @ [answered ''POST'' ''/roles'' [200, 201],
         answered ''PUT'' ''/permissions'' [200]] @ make_login_plan @ [answered ''POST'' ''/api/shell/v1/auth/login''
         [200], answered ''POST'' ''/economic/marketplace/bootstrap'' [200]]"

definition governance_browser_pages :: "('k, 'x) services \<Rightarrow> locator \<Rightarrow> ('x host, locator) py" where
  "governance_browser_pages A browser =
     bind_py (new_page A browser 1440 1400) (\<lambda>page.
     ret page)"

definition governance_browser_steps :: "('k, 'x) services \<Rightarrow> locator \<Rightarrow> (json \<times> json) \<Rightarrow> json \<Rightarrow> json \<Rightarrow> json \<Rightarrow> ('x host, unit) py" where
  "governance_browser_steps A page ana_login name ana base =
     then_py (steps [
     set_timeout A (val page) 30000,
     on_pageerror A (val page),
     goto A (val page) (str ''http://localhost:8089''),
     fill A (css (val page) (str ''input[type=email]'')) (val (fst ana_login)),
     fill A (css (val page) (str ''input[type=password]'')) (val (snd ana_login)),
     click A (css (val page) (str ''button[type=submit]'')),
     click A (having (css (val page) (str ''.module-card'')) (named (val page) (str ''heading'') (str ''STIR''))),
     select_option A (first_of (css (val page) (str ''.surface > header select''))) ''label'' (val name),
     goto A (val page) (str ''http://localhost:8089/stir/governance''),
     visible_now A (by_text (val page) (str ''Define sus siete asientos'') loosely)]) (
     bind_py (eval (css (val page) (str ''article.stir-form''))) (\<lambda>forms.
     then_py (steps [
     expects A (val forms) ''to_have_count'' [([], arg (num 8))],
     for_py (\<lambda>i.
     steps [
     click A (button (nth_of (val forms) i) (str ''Generar una clave en este dispositivo'')),
     visible_now A (css (nth_of (val forms) i) (str ''code''))]) [0..7],
     click A (button (val page) (str ''Construir la carga de inicio'')),
     visible_now A (by_text (val page) (str ''Carga completa de inicio'') exactly)]) (
     bind_py (eval (css (val page) (str ''article.stir-form''))) (\<lambda>sign_forms.
     then_py (steps [
     expects A (val sign_forms) ''to_have_count'' [([], arg (num 8))],
     for_py (\<lambda>i.
     click A (button (nth_of (val sign_forms) i) (str ''Firmar con la clave de este dispositivo''))) [0..7],
     visible_now A (by_text (val page) (str ''Se han reunido las ocho firmas.'') exactly),
     click A (button (val page) (str ''Activar las siete llaves'')),
     visible_now A (named (val page) (str ''heading'') (str ''Gobernanza de las Siete Llaves'')),
     for_py (\<lambda>ordinal.
     visible_now A (by_text (val page) (fmt A [str ''Asiento '', num ordinal, str '': ACTIVE'']) loosely)) [1..7],
     visible_now A (by_text (val page) (str ''Version de la constitucion: 1'') loosely)]) (
     bind_py (eval (fmt A [val base, str ''/references/governance/''])) (\<lambda>r1.
     bind_py (call A (fmt A [val base, str ''/references/community'']) ''GET'' none (val ana) [200]) (\<lambda>r2.
     bind_py (call A (plus (val r1) (item (val r2) ''communityId'')) ''GET'' none (val ana) [200]) (\<lambda>view.
     bind_py (eval (item (val view) ''authorityId'')) (\<lambda>authority.
     then_py (steps [
     click A (by_text (val page) (str ''Proponer un cambio'') exactly),
     fill A (by_label (val page) (str (''Observaciones m'' @ iacute @ ''nimas'')) exactly) (str ''7''),
     fill A (by_test_id (val page) (str ''proposal-reason'')) (str ''Raise the observation floor after review''),
     click A (by_test_id (val page) (str ''proposal-submit''))]) (
     bind_py (eval (first_of (having_text (css (val page) (str ''article.stir-panel''))
         (str ''Enmendar la constitucion'')))) (\<lambda>proposal.
     then_py (steps [
     click A (by_text (val proposal) (str ''Firmas'') exactly),
     click A (button (val proposal) (str ''Cargar carga de firma'')),
     for_py (\<lambda>ordinal.
     steps [
     click A (button (val proposal) (fmt A [str ''Firmar con la clave de este dispositivo (Asiento '', num ordinal,
         str '')''])),
     visible_now A (by_text (val proposal) (fmt A [str ''Asiento '', num ordinal, str '': Firma lista'']) exactly)])
         [1..7],
     click A (css_text (val proposal) (str ''summary'') (str ''Activar'')),
     click A (button (val proposal) (str ''Activar'')),
     visible_now A (by_text (val page) (str ''Version de la constitucion: 2'') loosely),
     click A (by_text (val page) (str ''Suspender un asiento de emergencia'') loosely)]) (
     bind_py (eval (having_text (css (val page) (str ''details'')) (str ''Suspender un asiento de emergencia'')))
         (\<lambda>suspend.
     then_py (steps [
     select_option A (css (val suspend) (str ''select'')) [] (str ''7''),
     fill A (by_label (val suspend) (str ''Codigo de motivo'') exactly) (str ''DEVICE_LOST''),
     click A (button (val suspend) (str ''Firmar con la clave de este dispositivo'')),
     click A (button (val suspend) (str ''Suspender'')),
     visible_now A (by_text (val page) (str ''Asiento 7: EMERGENCY_SUSPENDED'') loosely)]) (
     bind_py (act A (having_text (css (val page) (str ''li'')) (str ''Asiento 7:'')) ''inner_text'' [])
         (\<lambda>old_key.
     bind_py (eval (having_text (css (val page) (str ''details'')) (str ''Proponer un cambio'')))
         (\<lambda>propose_form.
     bind_py (act A (first_of (css (val propose_form) (str ''select''))) ''is_visible'' []) (\<lambda>r5.
     then_py (steps [
     bind_py (eval (negate (truth (val r5)))) (\<lambda>b. when_py b (click A (by_text (val page)
         (str ''Proponer un cambio'') exactly))),
     select_option A (first_of (css (val propose_form) (str ''select''))) ''label'' (str ''Rotar una credencial''),
     click A (button (val propose_form) (str ''Generar una clave en este dispositivo'')),
     visible_now A (css (val propose_form) (str ''code''))]) (
     bind_py (eval (having_text (css (val page) (str ''section.stir-panel''))
         (str ''Herramienta de firma de gobernanza''))) (\<lambda>sign_tool.
     then_py (steps [
     fill A (by_test_id (val page) (str ''proposal-reason'')) (str ''Lost-device recovery, same controller''),
     click A (by_test_id (val page) (str ''proposal-submit''))]) (
     bind_py (eval (first_of (having_text (css (val page) (str ''article.stir-panel''))
         (str ''Rotar una credencial'')))) (\<lambda>rotation.
     then_py (steps [
     click A (by_text (val rotation) (str ''Firmas'') exactly),
     click A (button (val rotation) (str ''Cargar carga de firma'')),
     click A (first_of (by_text (val rotation) (str ''Exportar tarea de firma'') exactly))]) (
     bind_py (act A (first_of (css (val rotation) (str ''textarea[readonly]''))) ''input_value'' []) (\<lambda>r6.
     bind_py (eval (loads_e A (val r6))) (\<lambda>payload_task.
     bind_py (eval (item (val payload_task) ''canonicalText'')) (\<lambda>canonical_text.
     then_py (steps [
     for_py (\<lambda>ordinal.
     steps [
     click A (button (val rotation) (fmt A [str ''Firmar con la clave de este dispositivo (Asiento '', num ordinal,
         str '')''])),
     visible_now A (by_text (val rotation) (fmt A [str ''Asiento '', num ordinal, str '': Firma lista'']) exactly)])
         [1..6],
     fill A (by_test_id (val sign_tool) (str ''sign-tool-input'')) (dumps_e (obj [(''kind'', str ''SIGN''),
         (''authorityId'', val authority), (''role'', str ''guardian''), (''domain'',
         str ''STIR:MARKET:GUARDIAN:V1''), (''canonicalText'', val canonical_text)])),
     click A (by_test_id (val sign_tool) (str ''sign-tool-process'')),
     expects A (by_test_id (val sign_tool) (str ''sign-tool-output'')) ''to_have_value'' [([], Inr (Pattern
         ''SIGNATURE'')), (''timeout'', arg (num 15000))]]) (
     bind_py (act A (by_test_id (val sign_tool) (str ''sign-tool-output'')) ''input_value'' []) (\<lambda>r7.
     bind_py (eval (item (loads_e A (val r7)) ''signature'')) (\<lambda>guardian_signature.
     then_py (steps [
     fill A (by_test_id (val sign_tool) (str ''sign-tool-input'')) (dumps_e (obj [(''kind'', str ''SIGN''),
         (''authorityId'', val authority), (''role'', str ''seat-7-incoming''), (''domain'',
         str ''STIR:MARKET:POSSESSION:V1''), (''canonicalText'', val canonical_text)])),
     click A (by_test_id (val sign_tool) (str ''sign-tool-process'')),
     expects A (by_test_id (val sign_tool) (str ''sign-tool-output'')) ''to_have_value'' [([], Inr (Pattern
         ''SIGNATURE'')), (''timeout'', arg (num 15000))]]) (
     bind_py (act A (by_test_id (val sign_tool) (str ''sign-tool-output'')) ''input_value'' []) (\<lambda>r8.
     bind_py (eval (item (loads_e A (val r8)) ''signature'')) (\<lambda>possession_signature.
     then_py (steps [
     click A (css_text (val rotation) (str ''summary'') (str ''Activar'')),
     fill A (by_label (val rotation) (str (''Firma del guardi'' @ aacute @ ''n'')) loosely) (val guardian_signature),
     fill A (by_label (val rotation) (str ''Firma de posesion de la nueva clave'') loosely)
         (val possession_signature),
     click A (button (val rotation) (str ''Activar'')),
     visible_now A (by_text (val page) (str ''Asiento 7: ACTIVE'') loosely)]) (
     bind_py (act A (having_text (css (val page) (str ''li'')) (str ''Asiento 7:'')) ''inner_text'' [])
         (\<lambda>new_key_row.
     then_py (check (negate (eq A (val new_key_row) (val old_key)))
         ''seat 7 public key fingerprint did not change after rotation'') (
     steps [
     assert_no_errors,
     screenshot A (val page) [''.local'', ''governance-ui-final.png''],
     print_py (''PASS BROWSER GOVERNANCE: bootstrap (7 seats + guardian, WebCrypto Ed25519), 7-of-7 '' @
         ''constitutional amendment, guardian emergency suspension, and 6-of-6 + guardian + possession '' @
         ''same-controller credential rotation - all through the rendered UI.'')]))))))))))))))))))))))))))))))))))"

definition governance_browser_steps_plan :: "plan" where
  "governance_browser_steps_plan =
     [answered ''GET'' ''/references/community'' [200], answered ''GET'' [] [200]]"

definition governance_browser_failure :: "('k, 'x) services \<Rightarrow> locator \<Rightarrow> ('x host, unit) py" where
  "governance_browser_failure A page =
     screenshot A (val page) [''.local'', ''governance-ui-failure.png'']"

definition governance_browser_ui :: "('k, 'x) services \<Rightarrow> locator \<Rightarrow> (json \<times> json) \<Rightarrow> json \<Rightarrow> json \<Rightarrow> json \<Rightarrow> ('x host, unit) py" where
  "governance_browser_ui A browser ana_login name ana base =
     bind_py (except_py (governance_browser_pages A browser) (raise (UnboundLocalError ''page''))) (\<lambda>page.
     except_py (governance_browser_steps A page ana_login name ana base) (governance_browser_failure A page))"

definition governance_browser_run :: "('k, 'x) services \<Rightarrow> ('x host, unit) py" where
  "governance_browser_run A =
     bind_py (governance_browser_setup A) (\<lambda>(ana_login, name, ana, base).
     session A (str ''msedge'') no_errors (\<lambda>browser. governance_browser_ui A browser ana_login name ana base))"

section \<open>Conformance\<close>

lemma governance_browser_setup_conforms: "conforms governance_browser_setup_plan (governance_browser_setup A)"
  unfolding governance_browser_setup_plan_def governance_browser_setup_def append.simps by (intro py_conf) simp_all

lemmas governance_browser_setup_steps [py_conf] =
  governance_browser_setup_conforms conforms_bind [OF governance_browser_setup_conforms] conforms_then [OF governance_browser_setup_conforms]
  conforms_bind_last [OF governance_browser_setup_conforms] conforms_then_last [OF governance_browser_setup_conforms]

lemma governance_browser_setup_logs [py_logs]: "(\<And>e. idle_event e \<Longrightarrow> P e) \<Longrightarrow> logs P (governance_browser_setup A)"
  unfolding governance_browser_setup_def by (intro py_logs logs_sql_e) simp_all

lemma governance_browser_pages_quiet [py_plan, py_conf]: "follows [] (governance_browser_pages A browser)"
  unfolding governance_browser_pages_def by (intro follows_bind_quiet follows_then_quiet py_plan)

lemmas governance_browser_pages_steps [py_conf] = conforms_bind_quiet [OF governance_browser_pages_quiet] conforms_then_quiet [OF governance_browser_pages_quiet]

lemma governance_browser_pages_logs [py_logs]: "(\<And>e. P e) \<Longrightarrow> logs P (governance_browser_pages A browser)"
  unfolding governance_browser_pages_def by (intro py_logs logs_sql_e) simp_all

lemma governance_browser_steps_conforms: "conforms governance_browser_steps_plan (governance_browser_steps A page ana_login name ana base)"
  unfolding governance_browser_steps_plan_def governance_browser_steps_def append.simps by (intro py_conf) simp_all

lemmas governance_browser_steps_steps [py_conf] =
  governance_browser_steps_conforms conforms_bind [OF governance_browser_steps_conforms] conforms_then [OF governance_browser_steps_conforms]
  conforms_bind_last [OF governance_browser_steps_conforms] conforms_then_last [OF governance_browser_steps_conforms]

lemma governance_browser_steps_logs [py_logs]: "(\<And>e. P e) \<Longrightarrow> logs P (governance_browser_steps A page ana_login name ana base)"
  unfolding governance_browser_steps_def by (intro py_logs logs_sql_e) simp_all

lemma governance_browser_failure_rules [py_plan, py_conf, py_logs]:
  "follows [] (governance_browser_failure A page)" "(\<And>e. P e) \<Longrightarrow> logs P (governance_browser_failure A page)"
  unfolding governance_browser_failure_def by (auto intro!: follows_quiet_for follows_then_quiet follows_ret quiet_ignore quiet_statements logs_for logs_then logs_ret logs_ignore logs_statements)

lemma governance_browser_ui_logs [py_logs]: "(\<And>e. P e) \<Longrightarrow> logs P (governance_browser_ui A browser ana_login name ana base)"
  unfolding governance_browser_ui_def by (intro py_logs) simp_all

lemma governance_browser_run_tidy: "leaves_tidy (governance_browser_run A)"
  unfolding governance_browser_run_def by (intro leaves_tidy_rules py_logs) simp_all

end
