(* ===== verification/WebauthnBrowser.thy ===== *)
theory WebauthnBrowser
  imports ValueGovernance Browser
begin

text \<open>
  Hardware credentials in the browser (scripts/webauthn_hardware_custody_browser.py): a seat and the
      guardian register with a virtual authenticator and sign two ceremonies.
\<close>

section \<open>The script\<close>

definition add_virtual_authenticator :: "('k, 'x) services \<Rightarrow> locator \<Rightarrow> ('x host, unit) py" where
  "add_virtual_authenticator A page =
     bind_py (act A (context_of (val page)) ''new_cdp_session'' [([], target (val page))]) (\<lambda>cdp.
     steps [
       does A (val (Handle cdp)) ''send'' [([], arg (str ''WebAuthn.enable'')), ([], arg (obj [(''enableUI'', no)]))],
       does A (val (Handle cdp)) ''send'' [([], arg (str ''WebAuthn.addVirtualAuthenticator'')),
         ([], arg (obj [(''options'', obj [(''protocol'', str ''ctap2''), (''transport'', str ''internal''),
           (''hasResidentKey'', yes), (''hasUserVerification'', yes), (''isUserVerified'', yes),
           (''automaticPresenceSimulation'', yes)])]))]])"

definition webauthn_browser_setup :: "('k, 'x) services \<Rightarrow> ('x host, (json \<times> json) \<times> json) py" where
  "webauthn_browser_setup A =
     bind_py (read_secret A ''login_password'') (\<lambda>r1.
     bind_py (call A (str ''/api/shell/v1/auth/login'') ''POST'' (obj [(''email'', str ''admin@stir.test''),
         (''password'', val r1)]) none [200]) (\<lambda>r2.
     bind_py (eval (item (val r2) ''accessToken'')) (\<lambda>admin.
     bind_py (uuid4_hex A) (\<lambda>r3.
     bind_py (eval (upto (val r3) 8)) (\<lambda>suffix.
     bind_py (eval (plus (str ''WebAuthn UI '') (val suffix))) (\<lambda>name.
     bind_py (sql_e A (fmt A [str ''select tenant_id from idax_core.tenant_create('webauthn-ui-'', val suffix, sq,
         str '','', sq, val name, sq, str '','active',false);'']) False) (\<lambda>tenant.
     bind_py (call A (fmt A [str ''/api/shell/v1/tenants/'', val tenant, str ''/roles'']) ''POST'' (obj [(''key'',
         plus (str ''publisher'') (val suffix)), (''name'', str ''Governance publisher''), (''description'',
         str ''Local browser test''), (''enabled'', yes)]) (val admin) [200, 201]) (\<lambda>role.
     then_py (call A (plus (plus (fmt A [str ''/api/shell/v1/tenants/'', val tenant, str ''/roles/'']) (item (val
         role) ''id'')) (str ''/permissions'')) ''PUT'' (plus (val MEMBER) (arr [str ''stir.references.publish'']))
         (val admin) [200]) (
     bind_py (eval (item (val role) ''id'')) (\<lambda>r7.
     bind_py (make_login A admin tenant r7 (JStr ''ana'') suffix) (\<lambda>ana_login.
     bind_py (call A (str ''/api/shell/v1/auth/login'') ''POST'' (obj [(''email'', val (fst ana_login)),
         (''password'', val (snd ana_login))]) none [200]) (\<lambda>r9.
     bind_py (eval (item (val r9) ''accessToken'')) (\<lambda>ana.
     bind_py (eval (fmt A [str ''/api/stir/tenants/'', val tenant])) (\<lambda>base.
     then_py (call A (plus (val base) (str ''/economic/marketplace/bootstrap'')) ''POST'' (obj [(''communityName'',
         val name), (''unitCode'', str ''WAU''), (''unitScale'', num 2)]) (val ana) [200]) (
     ret (ana_login, name))))))))))))))))"

definition webauthn_browser_setup_plan :: "plan" where
  "webauthn_browser_setup_plan =
     [answered ''POST'' ''/api/shell/v1/auth/login'' [200]] @ sql_events @ [answered ''POST'' ''/roles'' [200, 201],
         answered ''PUT'' ''/permissions'' [200]] @ make_login_plan @ [answered ''POST'' ''/api/shell/v1/auth/login''
         [200], answered ''POST'' ''/economic/marketplace/bootstrap'' [200]]"

definition webauthn_browser_pages :: "('k, 'x) services \<Rightarrow> locator \<Rightarrow> ('x host, locator) py" where
  "webauthn_browser_pages A browser =
     bind_py (new_page A browser 1440 1400) (\<lambda>page.
     ret page)"

definition webauthn_browser_steps :: "('k, 'x) services \<Rightarrow> locator \<Rightarrow> (json \<times> json) \<Rightarrow> json \<Rightarrow> ('x host, unit) py" where
  "webauthn_browser_steps A page ana_login name =
     then_py (steps [
     set_timeout A (val page) 30000,
     on_pageerror A (val page),
     add_virtual_authenticator A page,
     goto A (val page) (str ''http://localhost:8089''),
     fill A (css (val page) (str ''input[type=email]'')) (val (fst ana_login)),
     fill A (css (val page) (str ''input[type=password]'')) (val (snd ana_login)),
     click A (css (val page) (str ''button[type=submit]'')),
     click A (having (css (val page) (str ''.module-card'')) (named (val page) (str ''heading'') (str ''STIR''))),
     select_option A (first_of (css (val page) (str ''.surface > header select''))) ''label'' (val name),
     goto A (val page) (str ''http://localhost:8089/stir/governance''),
     visible_now A (by_text (val page) (str ''Define sus siete asientos'') loosely)]) (
     bind_py (eval (css (val page) (str ''article.stir-form''))) (\<lambda>forms.
     then_py (steps [
     expects A (val forms) ''to_have_count'' [([], arg (num 8))],
     for_py (\<lambda>i.
     steps [
     click A (button (nth_of (val forms) i) (str ''Generar una clave en este dispositivo'')),
     visible_now A (css (nth_of (val forms) i) (str ''code''))]) [0..5]]) (
     bind_py (eval (nth_of (val forms) 6)) (\<lambda>seat7_form.
     then_py (steps [
     click A (by_text (val seat7_form) (str ''Credencial WebAuthn / respaldada por hardware'') exactly),
     click A (button (val seat7_form) (str ''Registrar credencial de hardware'')),
     expects A (by_text (val seat7_form) (str ''Credencial WebAuthn / respaldada por hardware'') exactly)
         ''to_be_visible'' [(''timeout'', arg (num 15000))]]) (
     bind_py (eval (nth_of (val forms) 7)) (\<lambda>guardian_form.
     then_py (steps [
     click A (by_text (val guardian_form) (str ''Credencial WebAuthn / respaldada por hardware'') exactly),
     click A (button (val guardian_form) (str ''Registrar credencial de hardware'')),
     expects A (by_text (val guardian_form) (str ''Credencial WebAuthn / respaldada por hardware'') exactly)
         ''to_be_visible'' [(''timeout'', arg (num 15000))],
     click A (button (val page) (str ''Construir la carga de inicio'')),
     visible_now A (by_text (val page) (str ''Carga completa de inicio'') exactly)]) (
     bind_py (eval (css (val page) (str ''article.stir-form''))) (\<lambda>sign_forms.
     then_py (steps [
     expects A (val sign_forms) ''to_have_count'' [([], arg (num 8))],
     for_py (\<lambda>i.
     click A (button (nth_of (val sign_forms) i) (str ''Firmar con la clave de este dispositivo''))) [0..5],
     click A (button (nth_of (val sign_forms) 6) (str ''Firmar con WebAuthn'')),
     click A (button (nth_of (val sign_forms) 7) (str ''Firmar con WebAuthn'')),
     expects A (by_text (val page) (str ''Se han reunido las ocho firmas.'') exactly) ''to_be_visible'' [(''timeout'',
         arg (num 15000))],
     click A (button (val page) (str ''Activar las siete llaves'')),
     visible_now A (named (val page) (str ''heading'') (str ''Gobernanza de las Siete Llaves'')),
     for_py (\<lambda>ordinal.
     visible_now A (by_text (val page) (fmt A [str ''Asiento '', num ordinal, str '': ACTIVE'']) loosely)) [1..7],
     visible_now A (by_text (val page) (str ''Version de la constitucion: 1'') loosely),
     print_py (''PASS: mixed-credential bootstrap through the real UI - seat 7 and the Guardian registered and '' @
         ''signed with a real (CDP virtual) WebAuthn authenticator''),
     click A (by_text (val page) (str ''Proponer un cambio'') exactly),
     fill A (by_label (val page) (str (''Observaciones m'' @ iacute @ ''nimas'')) exactly) (str ''7''),
     fill A (by_test_id (val page) (str ''proposal-reason'')) (str ''Raise the observation floor after review''),
     click A (by_test_id (val page) (str ''proposal-submit''))]) (
     bind_py (eval (first_of (having_text (css (val page) (str ''article.stir-panel''))
         (str ''Enmendar la constitucion'')))) (\<lambda>proposal.
     steps [
     click A (by_text (val proposal) (str ''Firmas'') exactly),
     click A (button (val proposal) (str ''Cargar carga de firma'')),
     for_py (\<lambda>ordinal.
     steps [
     click A (button (val proposal) (fmt A [str ''Firmar con la clave de este dispositivo (Asiento '', num ordinal,
         str '')''])),
     visible_now A (by_text (val proposal) (fmt A [str ''Asiento '', num ordinal, str '': Firma lista'']) exactly)])
         [1..6],
     click A (button (val proposal) (str ''Firmar con WebAuthn (Asiento 7)'')),
     expects A (by_text (val proposal) (str ''Asiento 7: Firma lista'') exactly) ''to_be_visible'' [(''timeout'', arg
         (num 15000))],
     click A (css_text (val proposal) (str ''summary'') (str ''Activar'')),
     click A (button (val proposal) (str ''Activar'')),
     visible_now A (by_text (val page) (str ''Version de la constitucion: 2'') loosely),
     print_py (''PASS: a real WebAuthn credential (CDP virtual authenticator) signed a second, later ceremony '' @
         ''and activated a real constitutional amendment through the UI''),
     assert_no_errors,
     screenshot A (val page) [''.local'', ''webauthn-hardware-custody-ui-final.png''],
     print_py (''PASS BROWSER WEBAUTHN HARDWARE CUSTODY: real navigator.credentials.create()/get() ceremonies '' @
         ''via a CDP virtual authenticator, driven entirely through the rendered CredentialRegistrar UI, '' @
         ''for both a seat and the Guardian, across bootstrap and a later constitutional amendment.'')]))))))))))"

definition webauthn_browser_failure :: "('k, 'x) services \<Rightarrow> locator \<Rightarrow> ('x host, unit) py" where
  "webauthn_browser_failure A page =
     screenshot A (val page) [''.local'', ''webauthn-hardware-custody-ui-failure.png'']"

definition webauthn_browser_ui :: "('k, 'x) services \<Rightarrow> locator \<Rightarrow> (json \<times> json) \<Rightarrow> json \<Rightarrow> ('x host, unit) py" where
  "webauthn_browser_ui A browser ana_login name =
     bind_py (except_py (webauthn_browser_pages A browser) (raise (UnboundLocalError ''page''))) (\<lambda>page.
     except_py (webauthn_browser_steps A page ana_login name) (webauthn_browser_failure A page))"

definition webauthn_browser_run :: "('k, 'x) services \<Rightarrow> ('x host, unit) py" where
  "webauthn_browser_run A =
     bind_py (webauthn_browser_setup A) (\<lambda>(ana_login, name).
     session A (str ''msedge'') no_errors (\<lambda>browser. webauthn_browser_ui A browser ana_login name))"

section \<open>Conformance\<close>

lemma add_virtual_authenticator_quiet [py_plan, py_conf]: "follows [] (add_virtual_authenticator A page)"
  unfolding add_virtual_authenticator_def by (intro py_conf)

lemma add_virtual_authenticator_logs [py_logs]: "(\<And>e. P e) \<Longrightarrow> logs P (add_virtual_authenticator A page)"
  unfolding add_virtual_authenticator_def by (intro py_logs) simp_all

lemma webauthn_browser_setup_conforms: "conforms webauthn_browser_setup_plan (webauthn_browser_setup A)"
  unfolding webauthn_browser_setup_plan_def webauthn_browser_setup_def append.simps by (intro py_conf) simp_all

lemmas webauthn_browser_setup_steps [py_conf] =
  webauthn_browser_setup_conforms conforms_bind [OF webauthn_browser_setup_conforms] conforms_then [OF webauthn_browser_setup_conforms]
  conforms_bind_last [OF webauthn_browser_setup_conforms] conforms_then_last [OF webauthn_browser_setup_conforms]

lemma webauthn_browser_setup_logs [py_logs]: "(\<And>e. idle_event e \<Longrightarrow> P e) \<Longrightarrow> logs P (webauthn_browser_setup A)"
  unfolding webauthn_browser_setup_def by (intro py_logs logs_sql_e) simp_all

lemma webauthn_browser_pages_quiet [py_plan, py_conf]: "follows [] (webauthn_browser_pages A browser)"
  unfolding webauthn_browser_pages_def by (intro follows_bind_quiet follows_then_quiet py_plan)

lemmas webauthn_browser_pages_steps [py_conf] = conforms_bind_quiet [OF webauthn_browser_pages_quiet] conforms_then_quiet [OF webauthn_browser_pages_quiet]

lemma webauthn_browser_pages_logs [py_logs]: "(\<And>e. P e) \<Longrightarrow> logs P (webauthn_browser_pages A browser)"
  unfolding webauthn_browser_pages_def by (intro py_logs logs_sql_e) simp_all

lemma webauthn_browser_steps_quiet [py_plan, py_conf]: "follows [] (webauthn_browser_steps A page ana_login name)"
  unfolding webauthn_browser_steps_def by (intro follows_bind_quiet follows_then_quiet py_plan)

lemmas webauthn_browser_steps_steps [py_conf] = conforms_bind_quiet [OF webauthn_browser_steps_quiet] conforms_then_quiet [OF webauthn_browser_steps_quiet]

lemma webauthn_browser_steps_logs [py_logs]: "(\<And>e. P e) \<Longrightarrow> logs P (webauthn_browser_steps A page ana_login name)"
  unfolding webauthn_browser_steps_def by (intro py_logs logs_sql_e) simp_all

lemma webauthn_browser_failure_rules [py_plan, py_conf, py_logs]:
  "follows [] (webauthn_browser_failure A page)" "(\<And>e. P e) \<Longrightarrow> logs P (webauthn_browser_failure A page)"
  unfolding webauthn_browser_failure_def by (auto intro!: follows_quiet_for follows_then_quiet follows_ret quiet_ignore quiet_statements logs_for logs_then logs_ret logs_ignore logs_statements)

lemma webauthn_browser_ui_logs [py_logs]: "(\<And>e. P e) \<Longrightarrow> logs P (webauthn_browser_ui A browser ana_login name)"
  unfolding webauthn_browser_ui_def by (intro py_logs) simp_all

lemma webauthn_browser_run_tidy: "leaves_tidy (webauthn_browser_run A)"
  unfolding webauthn_browser_run_def by (intro leaves_tidy_rules py_logs) simp_all

end
