(* ===== verification/BrowserSmoke.thy ===== *)
theory BrowserSmoke
  imports Browser
begin

text \<open>
  The browser smoke check (scripts/browser-smoke.py): one page creates, filters, edits and closes a
      want.
\<close>

section \<open>The script\<close>

definition browser_smoke_ui :: "('k, 'x) services \<Rightarrow> locator \<Rightarrow> ('x host, unit) py" where
  "browser_smoke_ui A browser =
     bind_py (lone_page A browser 1440 1000) (\<lambda>page.
     then_py (steps [
     set_timeout A (val page) 60000,
     no_errors,
     on_pageerror A (val page),
     goto A (val page) (str ''http://localhost:8089''),
     fill A (css (val page) (str ''input[type=email]'')) (str ''admin@stir.test'')]) (
     bind_py (read_secret A ''login_password'') (\<lambda>r1.
     then_py (steps [
     fill A (css (val page) (str ''input[type=password]'')) (val r1),
     click A (css (val page) (str ''button[type=submit]'')),
     click A (having (css (val page) (str ''.module-card'')) (named (val page) (str ''heading'') (str ''STIR''))),
     select_option A (first_of (css (val page) (str ''.surface > header select''))) ''label''
         (str ''STIR Development''),
     click A (button (val page) (str (''+ Crear publicaci'' @ oacute @ ''n'')))]) (
     bind_py (uuid4_hex A) (\<lambda>r2.
     bind_py (eval (plus (str ''Browser resource '') (upto (val r2) 8))) (\<lambda>title.
     then_py (steps [
     select_option A (by_label (val page) (str ''Quiero'') []) [] (str ''WANTED''),
     fill A (by_label (val page) (str (''T'' @ iacute @ ''tulo'')) exactly) (val title),
     fill A (by_label (val page) (str (''Descripci'' @ oacute @ ''n'')) exactly)
         (str ''Recurso de prueba de navegador''),
     select_option A (by_label (val page) (str (''Categor'' @ iacute @ ''a'')) []) [] (str ''general''),
     select_option A (by_label (val page) (str ''Tipo de recurso'') []) [] (str ''service''),
     click A (button (val page) (str ''Guardar''))]) (
     bind_py (eval (having (css (val page) (str ''.stir-card'')) (named (val page) (str ''heading'') (val title))))
         (\<lambda>card.
     then_py (steps [
     visible_now A (val card),
     click A (button (val card) (str ''Editar'')),
     fill A (by_label (val page) (str (''T'' @ iacute @ ''tulo'')) exactly) (plus (val title) (str '' edited'')),
     click A (button (val page) (str ''Guardar'')),
     fill A (by_label (val page) (str ''Buscar'') exactly) (val title)]) (
     bind_py (eval (having (css (val page) (str ''.stir-card'')) (named (val page) (str ''heading'') (plus (val title)
         (str '' edited''))))) (\<lambda>card.
     steps [
     visible_now A (val card),
     expects A (css (val page) (str ''.stir-card'')) ''to_have_count'' [([], arg (num 1))],
     screenshot A (val page) [''.local'', ''browser-listing.png''],
     on_dialog A (val page),
     click A (button (val card) (str (''Cerrar publicaci'' @ oacute @ ''n''))),
     expects A (css (val page) (str ''.stir-card'')) ''to_have_count'' [([], arg (num 0))],
     select_option A (by_label (val page) (str ''Estado'') []) [] (str ''CLOSED''),
     visible_now A (val card),
     click A (button (val page) (str ''Marketplace'')),
     reload A (val page),
     visible_now A (button (val page) (str (''+ Crear publicaci'' @ oacute @ ''n''))),
     assert_no_errors,
     print_py (''PASS: real browser login, tenant selection, Shell module, WANTED '' @
         ''create/list/filter/edit/close, CLOSED query, navigation and deep-link reload; no JavaScript '' @
         ''page errors.'')]))))))))))"

definition browser_smoke_run :: "('k, 'x) services \<Rightarrow> ('x host, unit) py" where
  "browser_smoke_run A = session A (str ''msedge'') (ret ()) (browser_smoke_ui A)"

section \<open>Conformance\<close>

lemma browser_smoke_ui_quiet [py_plan, py_conf]: "follows [] (browser_smoke_ui A browser)"
  unfolding browser_smoke_ui_def by (intro follows_bind_quiet follows_then_quiet py_plan)

lemmas browser_smoke_ui_steps [py_conf] = conforms_bind_quiet [OF browser_smoke_ui_quiet] conforms_then_quiet [OF browser_smoke_ui_quiet]

lemma browser_smoke_ui_logs [py_logs]: "(\<And>e. P e) \<Longrightarrow> logs P (browser_smoke_ui A browser)"
  unfolding browser_smoke_ui_def by (intro py_logs logs_sql_e) simp_all

lemma browser_smoke_run_tidy: "leaves_tidy (browser_smoke_run A)"
  unfolding browser_smoke_run_def by (intro leaves_tidy_rules py_logs) simp_all

end
