(* ===== verification/ReleaseBrowser.thy ===== *)
theory ReleaseBrowser
  imports Backup Marketplace Browser
begin

text \<open>
  The release smoke check in two browser sessions (scripts/release_browser_smoke.py): one
      marketplace flow on the demo tenant of a deployment, with HTTP calls for the provisioning and
      no SQL.
\<close>

section \<open>The script\<close>

text \<open>
  What the script takes from the environment when it is imported: the URL of the pages (\<open>None\<close> when it is
  not set), where the login password is (a path given there is taken as absolute), and the channel of
  the browser.
\<close>

definition release_base :: "'x host \<Rightarrow> json" where
  "release_base h = (case env h ''STIR_BROWSER_URL'' of None \<Rightarrow> JNull | Some u \<Rightarrow> JStr u)"

definition release_secrets :: "path \<Rightarrow> 'x host \<Rightarrow> path" where
  "release_secrets root h =
     (case env h ''STIR_BROWSER_SECRETS'' of None \<Rightarrow> root @ [''.local'', ''secrets''] | Some p \<Rightarrow> path_of p)"

definition release_channel :: "'x host \<Rightarrow> json" where
  "release_channel h = (case env h ''STIR_BROWSER_CHANNEL'' of None \<Rightarrow> JNull | Some c \<Rightarrow> if c = [] then JNull else JStr c)"

definition release_login :: "'x host \<Rightarrow> json" where
  "release_login h = JStr (case env h ''STIR_BROWSER_LOGIN_EMAIL'' of None \<Rightarrow> ''admin@stir.test'' | Some e \<Rightarrow> e)"

definition TEXT_INPUT :: string where
  "TEXT_INPUT = ''input:not([type=hidden]):not([type=password]):not([type=email]):not([type=checkbox])''
     @ '':not([type=radio]):not([type=file]):not([type=number]):not([type=date])''"

definition form_field :: "loc \<Rightarrow> exp \<Rightarrow> loc" where
  "form_field page label_text =
     first_of (css page (plus
       (item_at (obj [(''Nombre visible'', str TEXT_INPUT), (''Ubicaci'' @ oacute @ ''n'', str TEXT_INPUT),
          (''Biograf'' @ iacute @ ''a breve'', str ''textarea''), (''T'' @ iacute @ ''tulo'', str TEXT_INPUT),
          (''Descripci'' @ oacute @ ''n'', str ''textarea''), (''Mensaje'', str ''textarea''), (''Buscar'', str TEXT_INPUT)])
        label_text)
       (str '':visible'')))"

definition release_make_user :: "('k, 'x) services \<Rightarrow> json \<Rightarrow> json \<Rightarrow> json \<Rightarrow> json \<Rightarrow> json \<Rightarrow> ('x host, json \<times> json) py" where
  "release_make_user A admin tenant role_id label suffix =
     bind_py (eval (fmt A [val label, str ''-'', val suffix, str ''@stir.test''])) (\<lambda>email.
     bind_py (token_urlsafe A 24) (\<lambda>password.
     then_py (call A (fmt A [str ''/api/shell/v1/tenants/'', val tenant, str ''/users'']) ''POST'' (obj [(''email'',
         val email), (''displayName'', val label), (''authProvider'', str ''local''), (''subject'', val email),
         (''password'', val password), (''role'', str ''member''), (''enabled'', yes)]) (val admin) [200, 201]) (
     bind_py (call A (str ''/api/shell/v1/auth/login'') ''POST'' (obj [(''email'', val email), (''password'',
         val password)]) none [200]) (\<lambda>session.
     then_py (call A (plus (fmt A [str ''/api/shell/v1/tenants/'', val tenant, str ''/roles/users/'']) (item (item
         (val session) ''user'') ''id'')) ''PUT'' (obj [(''roleIds'', arr [val role_id])]) (val admin) [204]) (
     ret (email, password))))))"

definition release_make_user_plan :: "plan" where
  "release_make_user_plan =
     [answered ''POST'' ''/users'' [200, 201], answered ''POST'' ''/api/shell/v1/auth/login'' [200], answered ''PUT''
         ''/roles/users/'' [204]]"

definition release_browser_setup :: "('k, 'x) services \<Rightarrow> ('x host, json \<times> json \<times> json \<times> json \<times> json \<times> json \<times> json \<times> json \<times> json) py" where
  "release_browser_setup A =
     bind_py (asks release_base) (\<lambda>BASE.
     bind_py (asks release_channel) (\<lambda>CHANNEL.
     bind_py (asks (release_secrets (root_dir A))) (\<lambda>secrets.
     then_py (check (truth (val BASE)) ''set STIR_BROWSER_URL to the deployment UI base URL'') (
     bind_py (asks release_login) (\<lambda>login_email.
     bind_py (read_text (secrets @ [''login_password''])) (\<lambda>secret.
     bind_py (eval (str (strip secret))) (\<lambda>admin_password.
     bind_py (call A (str ''/api/shell/v1/auth/login'') ''POST'' (obj [(''email'', val login_email), (''password'',
         val admin_password)]) none [200]) (\<lambda>session.
     bind_py (eval (item (val session) ''accessToken'')) (\<lambda>admin.
     bind_py (eval (at (item (val session) ''tenants'') 0)) (\<lambda>tenant_row.
     bind_py (eval (item (val tenant_row) ''id'')) (\<lambda>tenant.
     bind_py (eval (or_e (get (val tenant_row) ''name'') (get (val tenant_row) ''displayName'')))
         (\<lambda>tenant_label.
     bind_py (uuid4_hex A) (\<lambda>r2.
     bind_py (eval (upto (val r2) 8)) (\<lambda>suffix.
     bind_py (call A (fmt A [str ''/api/shell/v1/tenants/'', val tenant, str ''/roles'']) ''POST'' (obj [(''key'',
         plus (str ''release_browser_'') (val suffix)), (''name'', str ''Release browser smoke''), (''description'',
         str ''Release browser smoke fixture''), (''enabled'', yes)]) (val admin) [200, 201]) (\<lambda>role.
     then_py (call A (plus (plus (fmt A [str ''/api/shell/v1/tenants/'', val tenant, str ''/roles/'']) (item (val
         role) ''id'')) (str ''/permissions'')) ''PUT'' (val MARKET_PERMISSIONS) (val admin) [200]) (
     bind_py (eval (item (val role) ''id'')) (\<lambda>r5.
     bind_py (release_make_user A admin tenant r5 (JStr ''ana'') suffix) (\<lambda>(ana_email, ana_password).
     bind_py (eval (item (val role) ''id'')) (\<lambda>r7.
     bind_py (release_make_user A admin tenant r7 (JStr ''pedro'') suffix) (\<lambda>(pedro_email, pedro_password).
     bind_py (eval (plus (str ''Tomates '') (val suffix))) (\<lambda>title.
     ret (CHANNEL, ana_email, ana_password, title, pedro_email, pedro_password, BASE, suffix,
         tenant_label))))))))))))))))))))))"

definition release_browser_setup_plan :: "plan" where
  "release_browser_setup_plan =
     [answered ''POST'' ''/api/shell/v1/auth/login'' [200], answered ''POST'' ''/roles'' [200, 201], answered ''PUT''
         ''/permissions'' [200]] @ release_make_user_plan @ release_make_user_plan"

definition release_browser_login :: "('k, 'x) services \<Rightarrow> json \<Rightarrow> json \<Rightarrow> locator \<Rightarrow> json \<Rightarrow> json \<Rightarrow> ('x host, unit) py" where
  "release_browser_login A BASE tenant_label page email password =
     steps [
     goto A (val page) (val BASE),
     visible_now A (css (val page) (str ''input[type=email]'')),
     fill A (css (val page) (str ''input[type=email]'')) (val email),
     fill A (css (val page) (str ''input[type=password]'')) (val password),
     click A (css (val page) (str ''button[type=submit]'')),
     click A (having (css (val page) (str ''.module-card'')) (named (val page) (str ''heading'') (str ''STIR''))),
     select_option A (first_of (css (val page) (str ''.surface > header select''))) ''label'' (val tenant_label)]"

definition release_browser_ui :: "('k, 'x) services \<Rightarrow> locator \<Rightarrow> json \<Rightarrow> json \<Rightarrow> json \<Rightarrow> json \<Rightarrow> json \<Rightarrow> json \<Rightarrow> json \<Rightarrow> json \<Rightarrow> json \<Rightarrow> ('x host, unit) py" where
  "release_browser_ui A browser CHANNEL ana_email ana_password title pedro_email pedro_password BASE suffix tenant_label =
     bind_py (new_page A browser 1440 1000) (\<lambda>ana.
     bind_py (new_page A browser 1440 1000) (\<lambda>pedro.
     then_py (steps [
     for_py (\<lambda>page.
     steps [
     set_timeout A (val page) 60000,
     on_pageerror A (val page)]) [ana, pedro],
     release_browser_login A BASE tenant_label ana ana_email ana_password,
     click A (button (val ana) (str ''Mi perfil'')),
     fill A (form_field (val ana) (str ''Nombre visible'')) (plus (str ''Ana '') (val suffix)),
     fill A (form_field (val ana) (str (''Biograf'' @ iacute @ ''a breve''))) (str ''Cultivo tomates''),
     expects A (form_field (val ana) (str ''Nombre visible'')) ''to_have_value'' [([], arg (plus (str ''Ana '')
         (val suffix)))],
     click A (button (val ana) (str ''Guardar'')),
     visible_now A (first_of (by_text (val ana) (str ''Perfil guardado.'') [])),
     click A (button (val ana) (str (leftarrow @ '' Marketplace''))),
     click A (button (val ana) (str (''+ Crear publicaci'' @ oacute @ ''n''))),
     fill A (form_field (val ana) (str (''T'' @ iacute @ ''tulo''))) (val title),
     fill A (form_field (val ana) (str (''Descripci'' @ oacute @ ''n''))) (str ''Tomates San Marzano maduros''),
     click A (button (val ana) (str (''Guardar y a'' @ ntilde @ ''adir fotos''))),
     visible_now A (first_of (by_text (val ana) (str (iexcl @ ''Publicaci'' @ oacute @ ''n guardada!'')) [])),
     click A (button (val ana) (str ''Listo'')),
     visible_now A (having (css (val ana) (str ''.stir-card'')) (button (val ana) (val title))),
     release_browser_login A BASE tenant_label pedro pedro_email pedro_password,
     fill A (form_field (val pedro) (str ''Buscar'')) (val title),
     click A (button (val pedro) (val title)),
     click A (button (val pedro) (str ''Hacer una propuesta'')),
     fill A (form_field (val pedro) (str ''Mensaje'')) (str ''Me interesan 15kg''),
     click A (button (val pedro) (str ''Enviar propuesta'')),
     visible_now A (first_of (by_text (val pedro) (str ''Abierta'') [])),
     click A (button (val ana) (str ''Mis negociaciones'')),
     click A (button (val ana) (str ''Ver'')),
     visible_now A (first_of (by_text (val ana) (str ''Me interesan 15kg'') [])),
     click A (button (val ana) (str ''Contraoferta'')),
     fill A (form_field (val ana) (str ''Mensaje'')) (str ''Puedo hacer 20kg al mismo precio''),
     click A (button (val ana) (str ''Enviar contraoferta'')),
     visible_now A (first_of (by_text (val ana) (str ''Puedo hacer 20kg al mismo precio'') [])),
     reload A (val pedro),
     visible_now A (first_of (by_text (val pedro) (str ''Puedo hacer 20kg al mismo precio'') [])),
     click A (button (val pedro) (str ''Aceptar'')),
     visible_now A (named (val pedro) (str ''heading'') (str ''Acuerdo'')),
     visible_now A (first_of (by_text (val pedro) (str (''Sin intercambio econ'' @ oacute @ ''mico'')) [])),
     assert_no_errors]) (
     print_e (fmt A [str (''BROWSER RELEASE SMOKE: PASS (two browser sessions: login, profile, listing, offer, '' @
         ''counteroffer, acceptance and agreement on ''), val BASE, str ''; no JavaScript page errors)'']))))"

definition release_browser_run :: "('k, 'x) services \<Rightarrow> ('x host, unit) py" where
  "release_browser_run A =
     bind_py (release_browser_setup A) (\<lambda>(CHANNEL, ana_email, ana_password, title, pedro_email,
         pedro_password, BASE, suffix, tenant_label).
     session A (val CHANNEL) no_errors (\<lambda>browser. release_browser_ui A browser CHANNEL ana_email ana_password
         title pedro_email pedro_password BASE suffix tenant_label))"

section \<open>Conformance\<close>

lemma release_make_user_conforms: "conforms release_make_user_plan (release_make_user A admin tenant role_id label suffix)"
  unfolding release_make_user_plan_def release_make_user_def append.simps by (intro py_conf) simp_all

lemmas release_make_user_steps [py_conf] =
  release_make_user_conforms conforms_bind [OF release_make_user_conforms] conforms_then [OF release_make_user_conforms]
  conforms_bind_last [OF release_make_user_conforms] conforms_then_last [OF release_make_user_conforms]

lemma release_make_user_logs [py_logs]: "(\<And>m u s. P (Called m u s)) \<Longrightarrow> logs P (release_make_user A admin tenant role_id label suffix)"
  unfolding release_make_user_def by (intro py_logs) simp_all

lemma release_browser_setup_conforms: "conforms release_browser_setup_plan (release_browser_setup A)"
  unfolding release_browser_setup_plan_def release_browser_setup_def append.simps by (intro py_conf) simp_all

lemmas release_browser_setup_steps [py_conf] =
  release_browser_setup_conforms conforms_bind [OF release_browser_setup_conforms] conforms_then [OF release_browser_setup_conforms]
  conforms_bind_last [OF release_browser_setup_conforms] conforms_then_last [OF release_browser_setup_conforms]

lemma release_browser_setup_logs [py_logs]: "(\<And>e. idle_event e \<Longrightarrow> P e) \<Longrightarrow> logs P (release_browser_setup A)"
  unfolding release_browser_setup_def by (intro py_logs logs_sql_e) simp_all

lemma release_browser_login_quiet [py_plan, py_conf]: "follows [] (release_browser_login A BASE tenant_label page email password)"
  unfolding release_browser_login_def by (intro follows_bind_quiet follows_then_quiet py_plan)

lemmas release_browser_login_steps [py_conf] = conforms_bind_quiet [OF release_browser_login_quiet] conforms_then_quiet [OF release_browser_login_quiet]

lemma release_browser_login_logs [py_logs]: "(\<And>e. P e) \<Longrightarrow> logs P (release_browser_login A BASE tenant_label page email password)"
  unfolding release_browser_login_def by (intro py_logs logs_sql_e) simp_all

lemma release_browser_ui_quiet [py_plan, py_conf]: "follows [] (release_browser_ui A browser CHANNEL ana_email ana_password title pedro_email pedro_password BASE suffix tenant_label)"
  unfolding release_browser_ui_def by (intro follows_bind_quiet follows_then_quiet py_plan)

lemmas release_browser_ui_steps [py_conf] = conforms_bind_quiet [OF release_browser_ui_quiet] conforms_then_quiet [OF release_browser_ui_quiet]

lemma release_browser_ui_logs [py_logs]: "(\<And>e. P e) \<Longrightarrow> logs P (release_browser_ui A browser CHANNEL ana_email ana_password title pedro_email pedro_password BASE suffix tenant_label)"
  unfolding release_browser_ui_def by (intro py_logs logs_sql_e) simp_all

lemma release_browser_run_tidy: "leaves_tidy (release_browser_run A)"
  unfolding release_browser_run_def by (intro leaves_tidy_rules py_logs) simp_all

end
