(* ===== verification/CatalogBrowser.thy ===== *)
theory CatalogBrowser
  imports Backup Browser
begin

text \<open>
  The community catalog from the browser (scripts/community_catalog_browser_e2e.py): a listing with
      a photo, an offer sent through the catalog, and the marker the upgrade check reads.
\<close>

section \<open>The script\<close>

text \<open>
  \<open>binascii.crc32\<close>, bit by bit, and the PNG of 8 by 8 pixels: its signature and its chunks, each with its
  length, kind, payload and checksum. \<open>deflate\<close> is \<open>zlib.compress\<close>.
\<close>

unbundle bit_operations_syntax

definition crc_bit :: "32 word \<Rightarrow> 32 word" where
  "crc_bit c = (if c AND 1 = 1 then 0xEDB88320 XOR drop_bit 1 c else drop_bit 1 c)"

definition crc_byte :: "8 word \<Rightarrow> 32 word \<Rightarrow> 32 word" where
  "crc_byte b c = (crc_bit ^^ 8) (c XOR ucast b)"

definition crc32 :: "bytes \<Rightarrow> 32 word" where
  "crc32 bs = fold crc_byte bs 0xFFFFFFFF XOR 0xFFFFFFFF"

definition png_chunk :: "bytes \<Rightarrow> bytes \<Rightarrow> bytes" where
  "png_chunk kind payload = be_bytes 4 (length payload) @ kind @ payload @ be_bytes 4 (unat (crc32 (kind @ payload)))"

definition png_pixels :: bytes where
  "png_pixels = concat (replicate 8 (0 # concat (replicate 8 [0x30, 0x90, 0x60])))"

definition test_png :: "(bytes \<Rightarrow> bytes) \<Rightarrow> bytes" where
  "test_png deflate =
     [0x89, 0x50, 0x4E, 0x47, 0x0D, 0x0A, 0x1A, 0x0A]
     @ png_chunk (encode ''IHDR'') (be_bytes 4 8 @ be_bytes 4 8 @ [8, 2, 0, 0, 0])
     @ png_chunk (encode ''IDAT'') (deflate png_pixels)
     @ png_chunk (encode ''IEND'') []"

text \<open>The multipart body, as the characters of its bytes.\<close>

definition crlf :: string where
  "crlf = [CHR 0x0D, CHR 0x0A]"

definition photo_body :: "(bytes \<Rightarrow> bytes) \<Rightarrow> string \<Rightarrow> string" where
  "photo_body deflate boundary =
     ''--'' @ boundary @ crlf @ ''Content-Disposition: form-data; name=\"file\"; filename=\"fixture.png\"'' @ crlf
     @ ''Content-Type: image/png'' @ crlf @ crlf
     @ map (\<lambda>b. char_of (unat b)) (test_png deflate)
     @ crlf @ ''--'' @ boundary @ ''--'' @ crlf"

definition upload_photo ::
  "('k, 'x) services \<Rightarrow> (bytes \<Rightarrow> bytes) \<Rightarrow> json \<Rightarrow> json \<Rightarrow> json \<Rightarrow> ('x host, json) py" where
  "upload_photo A deflate base listing_id token =
     bind_py (uuid4_hex A) (\<lambda>id.
     bind_py (eval (bind_sum (plus (str ''catalog-e2e-'') (val id)) as_str)) (\<lambda>boundary.
     bind_py (eval (bind_sum (plus (plus (plus (plus (str (base_url A)) (val base)) (str ''/listings/'')) (val listing_id))
         (str ''/photos'')) as_str)) (\<lambda>url.
     bind_py (eval (bind_sum (plus (str ''Bearer '') (val token)) as_str)) (\<lambda>authorization.
     bind_py (exchange A ''POST'' url (Some (photo_body deflate boundary))
         [(''Authorization'', authorization), (''Content-Type'', ''multipart/form-data; boundary='' @ boundary)]) (\<lambda>(status, data).
       if status < 200 \<or> 300 \<le> status then raise (URLError (''HTTP Error '' @ show_int status))
       else then_py (assert_py (status = 201) [])
         (eval (item (if utf8_ok data then loads (digit_limit A) (depth_limit A) data else Inl UnicodeDecodeError) ''id'')))))))"

section \<open>The script\<close>

text \<open>
  Where the checkout is comes from the environment, a path taken as absolute; \<open>resolve\<close> is
  \<open>Path(text).resolve()\<close>. \<open>d.is_relative_to(r)\<close> compares the components.
\<close>

definition runtime_root :: "path \<Rightarrow> 'x host \<Rightarrow> path" where
  "runtime_root root h = (case env h ''STIR_RUNTIME_ROOT'' of None \<Rightarrow> root | Some d \<Rightarrow> path_of d)"

definition local_dir :: "(string \<Rightarrow> path) \<Rightarrow> path \<Rightarrow> path" where
  "local_dir resolve root = resolve (path_text (root @ [''.local'']))"

fun is_relative_to :: "path \<Rightarrow> path \<Rightarrow> bool" where
  "is_relative_to p [] = True"
| "is_relative_to (c # p) (d # q) = (c = d \<and> is_relative_to p q)"
| "is_relative_to [] (d # q) = False"

text \<open>\<open>e.rsplit('/', 1)[-1]\<close>\<close>

definition after_slash :: "exp \<Rightarrow> exp" where
  "after_slash e = bind_sum e (\<lambda>v.
     case v of JStr s \<Rightarrow> Inr (JStr (after_last (CHR ''/'') s)) | _ \<Rightarrow> Inl (TypeError ''object has no attribute rsplit''))"

definition CATALOG_PERMISSIONS :: json where
  "CATALOG_PERMISSIONS = JArr (map JStr [''stir.listings.read'', ''stir.listings.create'',
      ''stir.listings.update'', ''stir.negotiations.read'', ''stir.negotiations.create'',
      ''stir.negotiations.update''])"

definition catalog_member :: "('k, 'x) services \<Rightarrow> json \<Rightarrow> json \<Rightarrow> json \<Rightarrow> json \<Rightarrow> json \<Rightarrow> ('x host, json \<times> json \<times> json) py" where
  "catalog_member A admin tenant role_id label suffix =
     bind_py (eval (fmt A [val label, str ''-'', val suffix, str ''@stir.test''])) (\<lambda>email.
     bind_py (token_urlsafe A 32) (\<lambda>password.
     bind_py (eval (fmt A [str ''/api/shell/v1/tenants/'', val tenant])) (\<lambda>base.
     then_py (call A (plus (val base) (str ''/users'')) ''POST'' (obj [(''email'', val email), (''displayName'',
         val label), (''authProvider'', str ''local''), (''subject'', val email), (''password'', val password),
         (''role'', str ''member''), (''enabled'', yes)]) (val admin) [200, 201]) (
     bind_py (call A (str ''/api/shell/v1/auth/login'') ''POST'' (obj [(''email'', val email), (''password'',
         val password)]) none [200]) (\<lambda>initial.
     then_py (call A (plus (plus (val base) (str ''/roles/users/'')) (item (item (val initial) ''user'') ''id''))
         ''PUT'' (obj [(''roleIds'', arr [val role_id])]) (val admin) [204]) (
     bind_py (call A (str ''/api/shell/v1/auth/login'') ''POST'' (obj [(''email'', val email), (''password'',
         val password)]) none [200]) (\<lambda>session.
     ret (email, password, session))))))))"

definition catalog_member_plan :: "plan" where
  "catalog_member_plan =
     [answered ''POST'' ''/users'' [200, 201], answered ''POST'' ''/api/shell/v1/auth/login'' [200], answered ''PUT''
         ''/roles/users/'' [204], answered ''POST'' ''/api/shell/v1/auth/login'' [200]]"

definition upload_plan :: plan where
  "upload_plan = [answered ''POST'' [] [201]]"

definition catalog_setup :: "('k, 'x) services \<Rightarrow> (bytes \<Rightarrow> bytes) \<Rightarrow> ('x host, json \<times> json \<times> json \<times> json \<times> json \<times> json \<times> json \<times> json \<times> json \<times> bool) py" where
  "catalog_setup A deflate =
     bind_py (read_secret A ''login_password'') (\<lambda>r1.
     bind_py (call A (str ''/api/shell/v1/auth/login'') ''POST'' (obj [(''email'', str ''admin@stir.test''),
         (''password'', val r1)]) none [200]) (\<lambda>r2.
     bind_py (eval (item (val r2) ''accessToken'')) (\<lambda>admin.
     bind_py (uuid4_hex A) (\<lambda>r3.
     bind_py (eval (upto (val r3) 10)) (\<lambda>suffix.
     bind_py (eval (plus (str ''Community catalog E2E '') (val suffix))) (\<lambda>tenant_name.
     bind_py (sql_e A (fmt A [str ''select tenant_id from idax_core.tenant_create('catalog-e2e-'', val suffix, sq,
         str '', '', sq, val tenant_name, sq, str '', 'active', false);'']) False) (\<lambda>tenant.
     bind_py (eval (fmt A [str ''/api/shell/v1/tenants/'', val tenant])) (\<lambda>shell_base.
     bind_py (call A (plus (val shell_base) (str ''/roles'')) ''POST'' (obj [(''key'', plus (str ''catalog_e2e_'')
         (val suffix)), (''name'', str ''Catalog E2E member''), (''description'',
         str ''Isolated development fixture''), (''enabled'', yes)]) (val admin) [200, 201]) (\<lambda>role.
     then_py (call A (plus (plus (plus (val shell_base) (str ''/roles/'')) (item (val role) ''id''))
         (str ''/permissions'')) ''PUT'' (val CATALOG_PERMISSIONS) (val admin) [200]) (
     bind_py (eval (item (val role) ''id'')) (\<lambda>r7.
     bind_py (catalog_member A admin tenant r7 (JStr ''ana'') suffix) (\<lambda>(ana_email, ana_password, ana).
     bind_py (eval (item (val role) ''id'')) (\<lambda>r9.
     bind_py (catalog_member A admin tenant r9 (JStr ''pedro'') suffix) (\<lambda>(pedro_email, pedro_password,
         pedro).
     bind_py (eval (fmt A [str ''/api/stir/tenants/'', val tenant])) (\<lambda>base.
     bind_py (eval (plus (str ''Community catalog resource '') (val suffix))) (\<lambda>title.
     bind_py (call A (plus (val base) (str ''/listings'')) ''POST'' (obj [(''direction'', str ''OFFER''), (''title'',
         val title), (''description'', str ''Dedicated browser test fixture''), (''category'', str ''general''),
         (''resourceKind'', str ''physical''), (''location'', str ''Test tenant'')]) (item (val ana) ''accessToken'')
         [201]) (\<lambda>listing.
     bind_py (eval (item (val listing) ''id'')) (\<lambda>r12.
     bind_py (eval (item (val ana) ''accessToken'')) (\<lambda>r13.
     bind_py (upload_photo A deflate base r12 r13) (\<lambda>photo_id.
     bind_py (call A (plus (plus (plus (val base) (str ''/listings/'')) (item (val listing) ''id''))
         (str ''/photos'')) ''GET'' none (item (val pedro) ''accessToken'') [200]) (\<lambda>r15.
     then_py (check (eq A (item (at (val r15) 0) ''id'') (val photo_id)) []) (
     then_py no_errors (
     bind_py (asks (\<lambda>h. (case env h ''STIR_CATALOG_EXPECT_PHOTOS'' of None \<Rightarrow> ''1'' | Some v
         \<Rightarrow> v) \<noteq> ''0'')) (\<lambda>expect_community_photos.
     ret (tenant, tenant_name, pedro_email, pedro_password, pedro, base, title, listing, photo_id,
         expect_community_photos)))))))))))))))))))))))))"

definition catalog_setup_plan :: "plan" where
  "catalog_setup_plan =
     [answered ''POST'' ''/api/shell/v1/auth/login'' [200]] @ sql_events @ [answered ''POST'' ''/roles'' [200, 201],
         answered ''PUT'' ''/permissions'' [200]] @ catalog_member_plan @ catalog_member_plan @ [answered ''POST''
         ''/listings'' [201]] @ upload_plan @ [answered ''GET'' ''/photos'' [200]]"

text \<open>
  The marker for the upgrade script, when the environment asks for one: refused outside of
  \<open>.local\<close>, else written with what the fixture made and the versions the instance declares.
\<close>

definition write_marker :: "(string \<Rightarrow> path) \<Rightarrow> ('k, 'x) services \<Rightarrow> exp \<Rightarrow> string \<Rightarrow> ('x host, unit) py" where
  "write_marker resolve A content marker_path =
     (let target = resolve marker_path in
      if \<not> is_relative_to target (local_dir resolve (root_dir A))
      then raise (ValueError ''Upgrade marker must stay under the ignored .local directory'')
      else bind_py (call A (str ''/api/stir/instance'') ''GET'' none none [200]) (\<lambda>instance.
           bind_py (eval (dumps_e (spread content [(''stir_version'', item (val instance) ''stirVersion''),
               (''catalog_contract_version'', item (val instance) ''catalogContractVersion''),
               (''external_contract_schema_version'', item (val instance) ''externalContractSchemaVersion'')]))) (\<lambda>text.
           bind_py (eval (as_str text)) (\<lambda>s. write_text target s))))"

definition catalog_ui :: "('k, 'x) services \<Rightarrow> (string \<Rightarrow> path) \<Rightarrow> locator \<Rightarrow> json \<Rightarrow> json \<Rightarrow> json \<Rightarrow> json \<Rightarrow> json \<Rightarrow> json \<Rightarrow> json \<Rightarrow> json \<Rightarrow> json \<Rightarrow> bool \<Rightarrow> ('x host, unit) py" where
  "catalog_ui A resolve browser tenant tenant_name pedro_email pedro_password pedro base title listing photo_id expect_community_photos =
     bind_py (lone_page A browser 1440 1000) (\<lambda>page.
     then_py (steps [
     set_timeout A (val page) 60000,
     on_pageerror A (val page),
     goto A (val page) (str (base_url A)),
     fill A (css (val page) (str ''input[type=email]'')) (val pedro_email),
     fill A (css (val page) (str ''input[type=password]'')) (val pedro_password),
     click A (css (val page) (str ''button[type=submit]'')),
     select_option A (first_of (css (val page) (str ''.surface > header select''))) ''label'' (val tenant_name),
     click A (having (css (val page) (str ''.module-card'')) (named (val page) (str ''heading'')
         (str ''Community catalog'')))]) (
     bind_py (eval (having (css (val page) (str ''.community-grid article'')) (button (val page) (val title))))
         (\<lambda>card.
     then_py (steps [
     visible_now A (val card),
     bind_py (eval (truth (val (JBool expect_community_photos)))) (\<lambda>b. when_py b (visible_now A (css
         (val card) (str ''img.community-image'')))),
     click A (button (val card) (val title)),
     expects A (css (val page) (str ''.community-detail h1'')) ''to_have_text'' [([], arg (val title))],
     bind_py (eval (truth (val (JBool expect_community_photos)))) (\<lambda>b. when_py b (visible_now A (css
         (val page) (str ''.community-detail img.community-image'')))),
     fill A (css (val page) (str ''.community-detail textarea'')) (str ''I would like this resource''),
     click A (css (val page) (str ''.community-detail button[type=submit]'')),
     expects A (val page) ''to_have_url'' [([], Inr (Pattern ''/stir/negotiations/[0-9a-f-]+$''))]]) (
     bind_py (act A (val page) ''url'' []) (\<lambda>r1.
     bind_py (eval (after_slash (val r1))) (\<lambda>negotiation_id.
     bind_py (call A (plus (plus (val base) (str ''/negotiations/'')) (val negotiation_id)) ''GET'' none (item (val
         pedro) ''accessToken'') [200]) (\<lambda>negotiation.
     then_py (check (eq A (item (val negotiation) ''listingId'') (item (val listing) ''id'')) []) (
     then_py (check (eq A (item (at (item (val negotiation) ''offers'') 0) ''message'')
         (str ''I would like this resource'')) []) (
     then_py (check (eq A (item (at (item (val negotiation) ''offers'') 0) ''authorId'') (item (item (val pedro)
         ''user'') ''id'')) []) (
     then_py (steps [
     goto A (val page) (plus (plus (str (base_url A)) (str ''/stir/listing/'')) (item (val listing) ''id'')),
     visible_now A (css (val page) (str ''.stir-gallery img'')),
     assert_no_errors]) (
     bind_py (asks (\<lambda>h. env h ''STIR_CATALOG_UPGRADE_MARKER'')) (\<lambda>marker_path.
     then_py (case marker_path of None \<Rightarrow> ret () | Some p \<Rightarrow> if p = [] then ret () else
         write_marker resolve A (obj [(''tenant_name'', val tenant_name), (''tenant_id'', val tenant),
         (''pedro_email'', val pedro_email), (''pedro_password'', val pedro_password), (''listing_id'', item (val
         listing) ''id''), (''negotiation_id'', val negotiation_id), (''photo_id'', val photo_id), (''title'',
         val title)]) p) (
     print_py (''PASS: ordinary participant sent a real offer through the second Shell presentation; STIR '' @
         ''gallery showed the authenticated photo''))))))))))))))"

definition catalog_main :: "('k, 'x) services \<Rightarrow> (bytes \<Rightarrow> bytes) \<Rightarrow> (string \<Rightarrow> path) \<Rightarrow> ('x host, unit) py" where
  "catalog_main A deflate resolve =
     bind_py (asks (runtime_root (root_dir A))) (\<lambda>root. let B = A\<lparr>root_dir := root\<rparr> in
     bind_py (catalog_setup B deflate) (\<lambda>(tenant, tenant_name, pedro_email, pedro_password, pedro, base,
         title, listing, photo_id, expect_community_photos).
     session B (str ''msedge'') (ret ()) (\<lambda>browser. catalog_ui B resolve browser tenant tenant_name
         pedro_email pedro_password pedro base title listing photo_id expect_community_photos)))"

section \<open>Conformance\<close>

lemma contains_nothing [simp]: "contains [] s"
  by (cases s) simp_all

lemma upload_photo_conforms: "conforms upload_plan (upload_photo A deflate base listing_id token)"
  unfolding upload_photo_def upload_plan_def
  by (intro conforms_bind_quiet [OF quiet_eval] conforms_bind_quiet [OF quiet_generators(1)] conforms_exchange)
    (auto simp: raise_def assert_py_def then_py_def bind_py_def intro!: quiet_eval)

lemmas upload_photo_steps [py_conf] =
  upload_photo_conforms conforms_bind [OF upload_photo_conforms] conforms_then [OF upload_photo_conforms]
  conforms_bind_last [OF upload_photo_conforms] conforms_then_last [OF upload_photo_conforms]

lemma upload_photo_logs [py_logs]: "(\<And>m u s. P (Called m u s)) \<Longrightarrow> logs P (upload_photo A deflate base listing_id token)"
  unfolding upload_photo_def by (intro py_logs) (auto intro!: py_logs split: prod.splits)

lemma catalog_member_conforms: "conforms catalog_member_plan (catalog_member A admin tenant role_id label suffix)"
  unfolding catalog_member_plan_def catalog_member_def append.simps by (intro py_conf) simp_all

lemmas catalog_member_steps [py_conf] =
  catalog_member_conforms conforms_bind [OF catalog_member_conforms] conforms_then [OF catalog_member_conforms]
  conforms_bind_last [OF catalog_member_conforms] conforms_then_last [OF catalog_member_conforms]

lemma catalog_member_logs [py_logs]: "(\<And>m u s. P (Called m u s)) \<Longrightarrow> logs P (catalog_member A admin tenant role_id label suffix)"
  unfolding catalog_member_def by (intro py_logs) simp_all

lemma catalog_setup_conforms: "conforms catalog_setup_plan (catalog_setup A deflate)"
  unfolding catalog_setup_plan_def catalog_setup_def append.simps by (intro py_conf) simp_all

lemmas catalog_setup_steps [py_conf] =
  catalog_setup_conforms conforms_bind [OF catalog_setup_conforms] conforms_then [OF catalog_setup_conforms]
  conforms_bind_last [OF catalog_setup_conforms] conforms_then_last [OF catalog_setup_conforms]

lemma catalog_setup_logs [py_logs]: "(\<And>e. idle_event e \<Longrightarrow> P e) \<Longrightarrow> logs P (catalog_setup A deflate)"
  unfolding catalog_setup_def by (intro py_logs logs_sql_e) simp_all

text \<open>The checksum of the empty last chunk, as every PNG file ends.\<close>

lemma encode_IEND: "encode ''IEND'' = [0x49, 0x45, 0x4E, 0x44]"
  by (simp add: encode_def byte_def)

lemma crc_byte_steps: "crc_byte b c = crc_bit (crc_bit (crc_bit (crc_bit (crc_bit (crc_bit (crc_bit (crc_bit (c XOR ucast b))))))))"
  by (simp add: crc_byte_def eval_nat_numeral)

lemma crc32_IEND: "crc32 [0x49, 0x45, 0x4E, 0x44] = 0xAE426082"
  by (simp add: crc32_def crc_byte_steps crc_bit_def)

lemma be_bytes_four:
  "be_bytes 4 n = [byte (n div 256 div 256 div 256 mod 256), byte (n div 256 div 256 mod 256), byte (n div 256 mod 256), byte (n mod 256)]"
proof -
  have "4 = Suc (Suc (Suc (Suc 0)))" by simp
  then show ?thesis by (simp only: be_bytes.simps append.simps)
qed

lemma test_png_end: "\<exists>start. test_png deflate = start @ [0, 0, 0, 0, 0x49, 0x45, 0x4E, 0x44, 0xAE, 0x42, 0x60, 0x82]"
proof -
  have "png_chunk (encode ''IEND'') [] = [0, 0, 0, 0, 0x49, 0x45, 0x4E, 0x44, 0xAE, 0x42, 0x60, 0x82]"
    by (simp add: png_chunk_def encode_IEND crc32_IEND be_bytes_four byte_def)
  then show ?thesis by (simp add: test_png_def)
qed

text \<open>A file is only written under \<open>.local\<close>.\<close>

lemma write_marker_logs:
  assumes "\<And>m u s. P (Called m u s)" and "\<And>p. is_relative_to p (local_dir resolve (root_dir A)) \<Longrightarrow> P (Wrote p)"
  shows "logs P (write_marker resolve A content p)"
  unfolding write_marker_def Let_def using assms by (auto intro!: py_logs logs_write)

lemma catalog_ui_logs:
  assumes "\<And>e. (\<forall>p. e \<noteq> Wrote p) \<Longrightarrow> P e" and "\<And>p. is_relative_to p (local_dir resolve (root_dir A)) \<Longrightarrow> P (Wrote p)"
  shows "logs P (catalog_ui A resolve browser tenant tenant_name pedro_email pedro_password pedro base title listing photo_id expect)"
  unfolding catalog_ui_def by (intro py_logs) (auto intro!: py_logs write_marker_logs assms split: option.splits)

lemma catalog_main_tidy: "leaves_tidy (catalog_main A deflate resolve)"
  unfolding catalog_main_def Let_def
  by (intro leaves_tidy_rules py_logs catalog_ui_logs) simp_all

end
