(* ===== verification/CatalogUpgrade.thy ===== *)
theory CatalogUpgrade
  imports CatalogBrowser
begin

text \<open>
  The check after a frontend upgrade (scripts/community_catalog_upgrade_e2e.py): what the catalog
      script left behind is read back over HTTP and through the pages.
\<close>

section \<open>The script\<close>

text \<open>
  The marker: its path comes from the environment, has to lie in \<open>.local\<close> of the checkout, and its text is
  JSON in UTF-8.
\<close>

definition upgrade_root :: "(string \<Rightarrow> path) \<Rightarrow> path \<Rightarrow> 'x host \<Rightarrow> path" where
  "upgrade_root resolve root h = resolve (case env h ''STIR_RUNTIME_ROOT'' of None \<Rightarrow> path_text root | Some d \<Rightarrow> d)"

definition read_marker :: "('k, 'x) services \<Rightarrow> (string \<Rightarrow> path) \<Rightarrow> ('x host, json) py" where
  "read_marker A resolve =
     bind_py (asks (upgrade_root resolve (root_dir A))) (\<lambda>root.
     bind_py (asks (\<lambda>h. env h ''STIR_CATALOG_UPGRADE_MARKER'')) (\<lambda>value.
     bind_py (eval (need (KeyError ''STIR_CATALOG_UPGRADE_MARKER'') value)) (\<lambda>marker_path.
     if \<not> is_relative_to (resolve marker_path) (local_dir resolve root)
     then raise (ValueError ''Upgrade marker must stay under the ignored .local directory'')
     else bind_py (read_text (resolve marker_path)) (\<lambda>text.
          eval (if utf8_ok text then loads (digit_limit A) (depth_limit A) text else Inl UnicodeDecodeError)))))"

definition upgrade_setup :: "('k, 'x) services \<Rightarrow> (string \<Rightarrow> path) \<Rightarrow> ('x host, json) py" where
  "upgrade_setup A resolve =
     bind_py (read_marker A resolve) (\<lambda>marker.
     bind_py (call A (str ''/api/shell/v1/auth/login'') ''POST'' (obj [(''email'', item (val marker) ''pedro_email''),
         (''password'', item (val marker) ''pedro_password'')]) none [200]) (\<lambda>session.
     bind_py (eval (fmt A [str ''/api/stir/tenants/'', item (val marker) ''tenant_id''])) (\<lambda>base.
     bind_py (call A (plus (plus (val base) (str ''/listings/'')) (item (val marker) ''listing_id'')) ''GET'' none
         (item (val session) ''accessToken'') [200]) (\<lambda>listing.
     bind_py (call A (plus (plus (val base) (str ''/negotiations/'')) (item (val marker) ''negotiation_id'')) ''GET''
         none (item (val session) ''accessToken'') [200]) (\<lambda>negotiation.
     bind_py (call A (plus (plus (plus (val base) (str ''/listings/'')) (item (val marker) ''listing_id''))
         (str ''/photos'')) ''GET'' none (item (val session) ''accessToken'') [200]) (\<lambda>photos.
     then_py (check (both (eq A (item (val listing) ''title'') (item (val marker) ''title'')) (eq A (item (val
         listing) ''mainPhotoId'') (item (val marker) ''photo_id''))) []) (
     then_py (check (both (eq A (item (val negotiation) ''listingId'') (item (val listing) ''id'')) (eq A (item (at
         (item (val negotiation) ''offers'') 0) ''message'') (str ''I would like this resource''))) []) (
     then_py (check (eq A (item (at (val photos) 0) ''id'') (item (val marker) ''photo_id'')) []) (
     bind_py (call A (str ''/api/stir/instance'') ''GET'' none none [200]) (\<lambda>instance.
     then_py (check (eq A (item (val instance) ''stirVersion'') (item (val marker) ''stir_version'')) []) (
     then_py (check (eq A (item (val instance) ''catalogContractVersion'') (item (val marker)
         ''catalog_contract_version'')) []) (
     then_py (check (eq A (item (val instance) ''externalContractSchemaVersion'') (item (val marker)
         ''external_contract_schema_version'')) []) (
     then_py no_errors (
     ret marker))))))))))))))"

definition upgrade_setup_plan :: "plan" where
  "upgrade_setup_plan =
     [answered ''POST'' ''/api/shell/v1/auth/login'' [200], answered ''GET'' ''/listings/'' [200], answered ''GET''
         ''/negotiations/'' [200], answered ''GET'' ''/photos'' [200], answered ''GET'' ''/api/stir/instance'' [200]]"

definition upgrade_ui :: "('k, 'x) services \<Rightarrow> locator \<Rightarrow> json \<Rightarrow> ('x host, unit) py" where
  "upgrade_ui A browser marker =
     bind_py (lone_page A browser 1440 1000) (\<lambda>page.
     then_py (steps [
     set_timeout A (val page) 60000,
     on_pageerror A (val page),
     goto A (val page) (str (base_url A)),
     fill A (css (val page) (str ''input[type=email]'')) (item (val marker) ''pedro_email''),
     fill A (css (val page) (str ''input[type=password]'')) (item (val marker) ''pedro_password''),
     click A (css (val page) (str ''button[type=submit]'')),
     select_option A (first_of (css (val page) (str ''.surface > header select''))) ''label'' (item (val marker)
         ''tenant_name''),
     click A (having (css (val page) (str ''.module-card'')) (named (val page) (str ''heading'')
         (str ''Community catalog'')))]) (
     bind_py (eval (having (css (val page) (str ''.community-grid article'')) (button (val page) (item (val marker)
         ''title'')))) (\<lambda>card.
     steps [
     visible_now A (val card),
     visible_now A (css (val card) (str ''img.community-image'')),
     click A (button (val card) (item (val marker) ''title'')),
     expects A (css (val page) (str ''.community-detail h1'')) ''to_have_text'' [([], arg (item (val marker)
         ''title''))],
     visible_now A (css (val page) (str ''.community-detail img.community-image'')),
     goto A (val page) (plus (plus (str (base_url A)) (str ''/stir/negotiations/'')) (item (val marker)
         ''negotiation_id'')),
     expects A (css (val page) (str ''.stir-thread'')) ''to_contain_text'' [([], arg
         (str ''I would like this resource''))],
     goto A (val page) (plus (plus (str (base_url A)) (str ''/stir/listing/'')) (item (val marker) ''listing_id'')),
     visible_now A (css (val page) (str ''.stir-gallery img'')),
     assert_no_errors,
     print_py (''PASS: earlier tenant, listing, authenticated photo, negotiation and the declared compatibility '' @
         ''surface survive the frontend upgrade'')])))"

definition upgrade_main :: "('k, 'x) services \<Rightarrow> (string \<Rightarrow> path) \<Rightarrow> ('x host, unit) py" where
  "upgrade_main A resolve =
     bind_py (upgrade_setup A resolve) (\<lambda>marker.
     session A (str ''msedge'') (ret ()) (\<lambda>browser. upgrade_ui A browser marker))"

section \<open>Conformance\<close>

lemma read_marker_quiet [py_plan, py_conf]: "follows [] (read_marker A resolve)"
  unfolding read_marker_def by (intro follows_bind_quiet follows_asks quiet_eval follows_if follows_raise follows_read)

lemmas read_marker_steps [py_conf] = conforms_bind_quiet [OF read_marker_quiet]

lemma read_marker_logs [py_logs]: "logs P (read_marker A resolve)"
  unfolding read_marker_def by (intro py_logs)

lemma upgrade_setup_conforms: "conforms upgrade_setup_plan (upgrade_setup A resolve)"
  unfolding upgrade_setup_plan_def upgrade_setup_def append.simps by (intro py_conf) simp_all

lemmas upgrade_setup_steps [py_conf] =
  upgrade_setup_conforms conforms_bind [OF upgrade_setup_conforms] conforms_then [OF upgrade_setup_conforms]
  conforms_bind_last [OF upgrade_setup_conforms] conforms_then_last [OF upgrade_setup_conforms]

lemma upgrade_setup_logs [py_logs]: "(\<And>e. idle_event e \<Longrightarrow> P e) \<Longrightarrow> logs P (upgrade_setup A resolve)"
  unfolding upgrade_setup_def by (intro py_logs logs_sql_e) simp_all

lemma upgrade_ui_quiet [py_plan, py_conf]: "follows [] (upgrade_ui A browser marker)"
  unfolding upgrade_ui_def by (intro follows_bind_quiet follows_then_quiet py_plan)

lemmas upgrade_ui_steps [py_conf] = conforms_bind_quiet [OF upgrade_ui_quiet] conforms_then_quiet [OF upgrade_ui_quiet]

lemma upgrade_ui_logs [py_logs]: "(\<And>e. P e) \<Longrightarrow> logs P (upgrade_ui A browser marker)"
  unfolding upgrade_ui_def by (intro py_logs logs_sql_e) simp_all

lemma upgrade_main_tidy: "leaves_tidy (upgrade_main A resolve)"
  unfolding upgrade_main_def by (intro leaves_tidy_rules py_logs) simp_all

end
