(* ===== verification/BrowserRuns.thy ===== *)
theory BrowserRuns
  imports EconomicBrowser MarketplaceBrowser CredentialBrowser ModerationBrowser PilotBrowser ReferencesBrowser
    ValueBrowser ConsentBrowser MultiBrowser OrdinaryBrowser IndependenceBrowser GovernanceBrowser WebauthnBrowser
    BrowserSmoke ReleaseBrowser CatalogUpgrade Sample
begin

text \<open>
  What holds of whole runs of the browser scripts: a browser that was launched is closed, a run that
  returns had no page error, the upgrade check only reads, the catalog script writes only under
  \<open>.local\<close>, and the release check needs no database.
\<close>

section \<open>Every browser is closed\<close>

text \<open>
  C36: A browser that was launched is closed, and the library stopped, whatever happens: however a browser
  script ends, the part it adds to the log has no browser call at all or ends with the two calls that
  close the browser and stop Playwright.
\<close>

theorem browsers_are_closed:
  "list_all leaves_tidy
     [economic_run A, market_browser_run A, credential_run A, moderation_run A, pilot_run A, references_browser_run A,
      value_browser_run A, consent_browser_run A, multi_browser_run A, ordinary_browser_run A, independence_browser_run A,
      governance_browser_run A, webauthn_browser_run A, browser_smoke_run A, release_browser_run A,
      catalog_main A deflate resolve, upgrade_main A resolve]"
  by (simp add: economic_run_tidy market_browser_run_tidy credential_run_tidy moderation_run_tidy pilot_run_tidy
      references_browser_run_tidy value_browser_run_tidy consent_browser_run_tidy multi_browser_run_tidy
      ordinary_browser_run_tidy independence_browser_run_tidy governance_browser_run_tidy webauthn_browser_run_tidy
      browser_smoke_run_tidy release_browser_run_tidy catalog_main_tidy upgrade_main_tidy)

section \<open>No page errors in a run that returns\<close>

lemma clean_economic: "ensures (\<lambda>x. clean_end A) (economic_run A)"
  unfolding economic_run_def economic_ui_def by (intro clean_rules)

lemma clean_market_browser: "ensures (\<lambda>x. clean_end A) (market_browser_run A)"
  unfolding market_browser_run_def market_browser_ui_def by (intro clean_rules)

lemma clean_credential: "ensures (\<lambda>x. clean_end A) (credential_run A)"
  unfolding credential_run_def credential_ui_def by (intro clean_rules)

lemma clean_moderation: "ensures (\<lambda>x. clean_end A) (moderation_run A)"
  unfolding moderation_run_def moderation_ui_def by (intro clean_rules)

lemma clean_pilot: "ensures (\<lambda>x. clean_end A) (pilot_run A)"
  unfolding pilot_run_def pilot_ui_def by (intro clean_rules)

lemma clean_references_browser: "ensures (\<lambda>x. clean_end A) (references_browser_run A)"
  unfolding references_browser_run_def references_browser_ui_def references_browser_steps_def by (intro clean_rules)

lemma clean_value_browser: "ensures (\<lambda>x. clean_end A) (value_browser_run A)"
  unfolding value_browser_run_def value_browser_ui_def value_browser_steps_def by (intro clean_rules)

lemma clean_consent_browser: "ensures (\<lambda>x. clean_end A) (consent_browser_run A)"
  unfolding consent_browser_run_def consent_browser_ui_def by (intro clean_rules)

lemma clean_multi_browser: "ensures (\<lambda>x. clean_end A) (multi_browser_run A)"
  unfolding multi_browser_run_def multi_browser_ui_def by (intro clean_rules)

lemma clean_ordinary_browser: "ensures (\<lambda>x. clean_end A) (ordinary_browser_run A)"
  unfolding ordinary_browser_run_def ordinary_browser_ui_def by (intro clean_rules)

lemma clean_independence_browser: "ensures (\<lambda>x. clean_end A) (independence_browser_run A)"
  unfolding independence_browser_run_def independence_browser_ui_def by (intro clean_rules)

lemma clean_governance_browser: "ensures (\<lambda>x. clean_end A) (governance_browser_run A)"
  unfolding governance_browser_run_def governance_browser_ui_def governance_browser_steps_def by (intro clean_rules)

lemma clean_webauthn_browser: "ensures (\<lambda>x. clean_end A) (webauthn_browser_run A)"
  unfolding webauthn_browser_run_def webauthn_browser_ui_def webauthn_browser_steps_def by (intro clean_rules)

lemma clean_browser_smoke: "ensures (\<lambda>x. clean_end A) (browser_smoke_run A)"
  unfolding browser_smoke_run_def browser_smoke_ui_def by (intro clean_rules)

lemma clean_release_browser: "ensures (\<lambda>x. clean_end A) (release_browser_run A)"
  unfolding release_browser_run_def release_browser_ui_def by (intro clean_rules)

lemma clean_upgrade: "ensures (\<lambda>x. clean_end A) (upgrade_main A resolve)"
  unfolding upgrade_main_def upgrade_ui_def by (intro clean_rules)

lemma clean_marker: "keeps (clean_end A) (write_marker resolve B content p)"
  unfolding write_marker_def Let_def by (intro py_keeps clean_call clean_eval clean_host)

lemma clean_marker_option:
  "keeps (clean_end A) (case path of None \<Rightarrow> ret () | Some p \<Rightarrow> if p = [] then ret () else write_marker resolve B content p)"
  by (cases path) (simp_all add: keeps_ret clean_marker)

lemma clean_catalog_ui:
  "ensures (\<lambda>x. clean_end A) (catalog_ui A resolve browser tenant tenant_name email password pedro base title listing photo expect)"
  unfolding catalog_ui_def by (intro clean_rules keeps_then clean_marker_option)

lemma clean_end_root: "clean_end (A\<lparr>root_dir := root\<rparr>) = clean_end A"
  by (rule ext) (simp add: clean_end_def late_errors_def)

lemma clean_catalog: "ensures (\<lambda>x. clean_end A) (catalog_main A deflate resolve)"
proof -
  have body: "ensures (\<lambda>x. clean_end B) (bind_py (catalog_setup B deflate) (\<lambda>(a, b, c, d, e, f, g, i, j, k).
      session B (str ''msedge'') (ret ()) (\<lambda>browser. catalog_ui B resolve browser a b c d e f g i j k)))" for B
    by (intro ensures_bind clean_pair clean_session clean_catalog_ui)
  show ?thesis
    unfolding catalog_main_def Let_def
    by (intro ensures_bind [OF body [of "A\<lparr>root_dir := root\<rparr>" for root, unfolded clean_end_root]])
qed


section \<open>The upgrade check only reads\<close>

text \<open>
  What a run that only reads may log: GET calls, the login call, the line of its success, and browser calls that
  navigate or look, and enter text into the two fields of the login form only.
\<close>

definition login_field :: "locator \<Rightarrow> bool" where
  "login_field l = (case l of
     Found p m [(k, Value (JStr s))] \<Rightarrow> m = ''locator'' \<and> s \<in> {''input[type=email]'', ''input[type=password]''}
   | _ \<Rightarrow> False)"

fun reading_event :: "('k, 'x) services \<Rightarrow> event \<Rightarrow> bool" where
  "reading_event A (Called meth url status) =
     (meth = ''GET'' \<or> meth = ''POST'' \<and> url = base_url A @ ''/api/shell/v1/auth/login'')"
| "reading_event A (Printed s) =
     (s = ''PASS: earlier tenant, listing, authenticated photo, negotiation and the declared compatibility '' @
          ''surface survive the frontend upgrade'')"
| "reading_event A (Browsed l m as) =
     (m \<in> {''start'', ''chromium.launch'', ''new_page'', ''set_default_timeout'', ''on'', ''goto'', ''click'', ''select_option'',
        ''to_be_visible'', ''to_have_text'', ''to_contain_text'', ''close'', ''stop''} \<or> m = ''fill'' \<and> login_field l)"
| "reading_event A e = False"

lemma logs_request_at:
  "(\<And>s. P (Called meth (base_url A @ path) s)) \<Longrightarrow> logs P (request A path meth body token allowed hs)"
  unfolding request_def by (intro py_logs) (auto intro: py_logs split: prod.splits)

lemma logs_call_at:
  "(\<And>s. P (Called meth (base_url A @ path) s)) \<Longrightarrow> logs P (call A (str path) meth body token allowed)"
  unfolding call_def call_with_def as_str.simps bind_lift
  by (intro logs_bind logs_lift logs_map logs_pair logs_ret) (simp add: logs_request_at)

lemma logs_fill_in:
  "(\<And>as. P (Browsed (Found l ''locator'' [([], Value (JStr s))]) ''fill'' as))
     \<Longrightarrow> logs P (fill A (css (val l) (str s)) e)"
  unfolding fill_def does_def act_def css_def found_def arg_def
  by (simp add: bind_lift) (intro py_logs logs_driven; simp)

lemma logs_navigation:
  "(\<And>l as. P (Browsed l ''click'' as)) \<Longrightarrow> logs P (click A l)"
  "(\<And>l as. P (Browsed l ''goto'' as)) \<Longrightarrow> logs P (goto A l e)"
  "(\<And>l as. P (Browsed l ''select_option'' as)) \<Longrightarrow> logs P (select_option A l k e)"
  "(\<And>l as. P (Browsed l ''set_default_timeout'' as)) \<Longrightarrow> logs P (set_timeout A l n)"
  "(\<And>l as. P (Browsed l ''on'' as)) \<Longrightarrow> logs P (on_pageerror A l)"
  "(\<And>l as. P (Browsed l ''close'' as)) \<Longrightarrow> logs P (close_browser A b)"
  "(\<And>l as. P (Browsed l meth as)) \<Longrightarrow> logs P (expects A l meth ps)"
  "(\<And>l as. P (Browsed l ''to_be_visible'' as)) \<Longrightarrow> logs P (visible_now A l)"
  "(\<And>l as. P (Browsed l ''new_page'' as)) \<Longrightarrow> logs P (lone_page A b w h)"
  unfolding click_def goto_def select_option_def set_timeout_def on_pageerror_def close_browser_def expects_def
    visible_now_def lone_page_def
  by (intro py_logs logs_does logs_act; simp)+

lemma upgrade_setup_reads: "logs (reading_event A) (upgrade_setup A resolve)"
  unfolding upgrade_setup_def
  by (intro logs_bind logs_then logs_eval logs_check logs_errors logs_ret read_marker_logs; (rule logs_call_at logs_call)?; simp)

lemma upgrade_ui_reads: "logs (reading_event A) (upgrade_ui A browser marker)"
  unfolding upgrade_ui_def
  by (intro logs_bind logs_then logs_steps logs_eval logs_errors logs_print logs_fill_in logs_navigation)
    (simp_all add: login_field_def)


section \<open>The marker stays in the ignored directory\<close>

fun only_in :: "path \<Rightarrow> event \<Rightarrow> bool" where
  "only_in d (Wrote p) = is_relative_to p d"
| "only_in d (Removed p) = False"
| "only_in d (Chmod p m) = False"
| "only_in d e = True"

lemma logs_only_in: "logs (only_in d) (catalog_setup A deflate)"
  unfolding catalog_setup_def by (intro py_logs logs_sql_e) simp_all

lemma catalog_ui_only_in:
  "logs (only_in (local_dir resolve (root_dir A)))
     (catalog_ui A resolve browser tenant tenant_name email password pedro base title listing photo expect)"
  unfolding catalog_ui_def
  by (intro py_logs) (auto intro!: py_logs write_marker_logs split: option.splits)

lemma catalog_body_only_in:
  "logs (only_in (local_dir resolve (root_dir B))) (bind_py (catalog_setup B deflate) (\<lambda>(a, b, c, d, e, f, g, i, j, k).
     session B (str ''msedge'') (ret ()) (\<lambda>browser. catalog_ui B resolve browser a b c d e f g i j k)))"
  by (intro logs_bind logs_only_in logs_pair logs_session logs_ret catalog_ui_only_in) simp

text \<open>
  C39: The catalog script changes no file outside of the ignored directory: every file it writes is under
  \<open>.local\<close> of the runtime root once the path is resolved, whatever the environment names as the marker, and it
  removes nothing.
\<close>

theorem marker_stays_local:
  "\<exists>es. trace (snd (catalog_main A deflate resolve h)) = trace h @ es
     \<and> list_all (only_in (local_dir resolve (runtime_root (root_dir A) h))) es"
  using catalog_body_only_in [of resolve "A\<lparr>root_dir := runtime_root (root_dir A) h\<rparr>" deflate]
  unfolding logs_def catalog_main_def by (simp add: bind_asks Let_def)

section \<open>The release check needs no database\<close>

fun remote_event :: "event \<Rightarrow> bool" where
  "remote_event (Called meth url status) = True"
| "remote_event (Browsed l m as) = True"
| "remote_event (Printed s) = True"
| "remote_event e = False"

lemma release_setup_remote: "logs remote_event (release_browser_setup A)"
  unfolding release_browser_setup_def by (intro py_logs) simp_all

lemma release_ui_remote:
  "logs remote_event
     (release_browser_ui A browser channel ana_email ana_password title pedro_email pedro_password base suffix label)"
  unfolding release_browser_ui_def release_browser_login_def by (intro py_logs) simp_all

text \<open>
  The release check runs against a deployment it can only reach over the network: it runs no command (so no
  SQL), and writes or removes no file.
\<close>

theorem release_needs_no_database: "logs remote_event (release_browser_run A)"
  unfolding release_browser_run_def
  by (intro logs_bind logs_pair logs_session release_setup_remote release_ui_remote logs_errors) simp

end
