(* ===== verification/BrowserPlans.thy ===== *)
theory BrowserPlans
  imports BrowserRuns
begin

text \<open>
  The calls of whole runs of the browser scripts: what they do over HTTP and SQL is their provisioning and, for
  four of them, what they read back between the pages, in the order of their plans.
\<close>

text \<open>Pages that could not be opened leave a name unbound.\<close>

lemma conforms_unbound:
  assumes "follows [] m" and "\<And>x. conforms ps (f x)"
  shows "conforms ps (bind_py (except_py m (raise e)) f)"
proof (rule conforms_bind_quiet [OF follows_quiet assms(2)])
  fix h
  have "snd (except_py m (raise e) h) = snd (m h)"
    by (simp add: except_py_def raise_def split: prod.splits sum.splits)
  then show "shown (trace (snd (except_py m (raise e) h))) = shown (trace h)" using assms(1) by (simp add: quiet_shown)
qed

lemmas whole_run = conforms_pair conforms_session conforms_unbound conforms_except quiet_errors follows_ret

lemma economic_run_conforms: "conforms economic_setup_plan (economic_run A)"
  unfolding economic_run_def by (intro conforms_bind_last [OF economic_setup_conforms] whole_run conforms_quiet [OF economic_ui_quiet])

lemma market_browser_run_conforms: "conforms market_browser_setup_plan (market_browser_run A)"
  unfolding market_browser_run_def by (intro conforms_bind_last [OF market_browser_setup_conforms] whole_run conforms_quiet [OF market_browser_ui_quiet])

lemma credential_run_conforms: "conforms credential_setup_plan (credential_run A)"
  unfolding credential_run_def by (intro conforms_bind_last [OF credential_setup_conforms] whole_run conforms_quiet [OF credential_ui_quiet])

lemma moderation_run_conforms: "conforms moderation_setup_plan (moderation_run A)"
  unfolding moderation_run_def by (intro conforms_bind_last [OF moderation_setup_conforms] whole_run conforms_quiet [OF moderation_ui_quiet])

lemma pilot_run_conforms: "conforms pilot_setup_plan (pilot_run A)"
  unfolding pilot_run_def by (intro conforms_bind_last [OF pilot_setup_conforms] whole_run conforms_quiet [OF pilot_ui_quiet])

lemma references_browser_run_conforms: "conforms (references_browser_setup_plan @ references_browser_steps_plan) (references_browser_run A)"
  unfolding references_browser_run_def references_browser_ui_def by (intro conforms_bind [OF references_browser_setup_conforms] whole_run references_browser_pages_quiet references_browser_steps_conforms references_browser_failure_rules)

lemma value_browser_run_conforms: "conforms (value_browser_setup_plan @ value_browser_steps_plan) (value_browser_run A)"
  unfolding value_browser_run_def value_browser_ui_def by (intro conforms_bind [OF value_browser_setup_conforms] whole_run value_browser_pages_quiet value_browser_steps_conforms value_browser_failure_rules)

lemma consent_browser_run_conforms: "conforms consent_browser_setup_plan (consent_browser_run A)"
  unfolding consent_browser_run_def by (intro conforms_bind_last [OF consent_browser_setup_conforms] whole_run conforms_quiet [OF consent_browser_ui_quiet])

lemma multi_browser_run_conforms: "conforms (multi_browser_setup_plan @ multi_browser_ui_plan) (multi_browser_run A)"
  unfolding multi_browser_run_def by (intro conforms_bind [OF multi_browser_setup_conforms] whole_run multi_browser_ui_conforms)

lemma ordinary_browser_run_conforms: "conforms ordinary_browser_setup_plan (ordinary_browser_run A)"
  unfolding ordinary_browser_run_def by (intro conforms_bind_last [OF ordinary_browser_setup_conforms] whole_run conforms_quiet [OF ordinary_browser_ui_quiet])

lemma independence_browser_run_conforms: "conforms independence_browser_setup_plan (independence_browser_run A)"
  unfolding independence_browser_run_def by (intro conforms_bind_last [OF independence_browser_setup_conforms] whole_run conforms_quiet [OF independence_browser_ui_quiet])

lemma governance_browser_run_conforms: "conforms (governance_browser_setup_plan @ governance_browser_steps_plan) (governance_browser_run A)"
  unfolding governance_browser_run_def governance_browser_ui_def by (intro conforms_bind [OF governance_browser_setup_conforms] whole_run governance_browser_pages_quiet governance_browser_steps_conforms governance_browser_failure_rules)

lemma webauthn_browser_run_conforms: "conforms webauthn_browser_setup_plan (webauthn_browser_run A)"
  unfolding webauthn_browser_run_def webauthn_browser_ui_def by (intro conforms_bind_last [OF webauthn_browser_setup_conforms] whole_run webauthn_browser_pages_quiet conforms_quiet [OF webauthn_browser_steps_quiet] webauthn_browser_failure_rules)

lemma release_browser_run_conforms: "conforms release_browser_setup_plan (release_browser_run A)"
  unfolding release_browser_run_def by (intro conforms_bind_last [OF release_browser_setup_conforms] whole_run conforms_quiet [OF release_browser_ui_quiet])

lemma upgrade_main_conforms: "conforms upgrade_setup_plan (upgrade_main A resolve)"
  unfolding upgrade_main_def by (intro conforms_bind_last [OF upgrade_setup_conforms] whole_run conforms_quiet [OF upgrade_ui_quiet])

lemma browser_smoke_run_conforms: "conforms [] (browser_smoke_run A)"
  unfolding browser_smoke_run_def by (intro whole_run conforms_quiet [OF browser_smoke_ui_quiet])


end
