(* ===== verification/Spec2Isabelle.thy ===== *)
theory Spec2Isabelle
  imports Probe Webauthn FaultProxy Backup Deploy Exchange References Consent MultiSource Independence Authority Ordinary ValueGovernance MarketIntegrity Boundary AuditCommit Marketplace Smoke Isolation Ledger Custody Update Status Initialize Anchoring XrplNetwork RestoreProof Protocols Identifiers AuditPublic BrowserPlans Picture
begin

text \<open>
  This development models the Python of stir-main: the scripts that operate a STIR stack (deploy it, back it
  up, restore it, update it, watch its audit status), the scripts that bootstrap the private ledger, and the
  end-to-end scripts that prove a running stack over HTTP, SQL and a browser. The services themselves are in other
  repositories; what is here is what these scripts do with them.

  \<^bold>\<open>How the parts interact.\<close> Every script is an effect of the type \<open>('s, 'a) py\<close> of Prelude: a function
  from a state to an exception or a value, and the new state; a Python exception, \<open>SystemExit\<close> and
  \<open>AssertionError\<close> included, is a value of \<open>exn\<close>. The state is the record \<open>host\<close> of Host (files, environment,
  clock, typed lines, generated identifiers, reported page errors, and a log \<open>trace\<close> of everything done), with
  \<open>ext\<close> for the rest of the world. Programs that a script starts are one parameter \<open>X\<close> from a command line to
  an exit status and output; the end-to-end scripts take a record \<open>services\<close> (Script) with that parameter, the HTTP
  server, the Playwright driver, the keys and the generators. The operating scripts call each other through
  commands (deploy.py, backup.py, restore.py, update.py, backup_restore_e2e.py) or import each other's helpers, and the
  theories import each other in the same way: every SQL statement of the fixtures goes through the guard of
  ComposeGuard, every signature through Signing, every HTTP call through \<open>request\<close> of Script.

  \<^bold>\<open>Foundations.\<close>
  \<^item> Prelude: exceptions, effects, their combinators, and the collections of rules (\<open>py_keeps\<close>, \<open>py_logs\<close>,
    \<open>py_plan\<close>, \<open>py_conf\<close>) by which facts about a script follow from facts about its parts.
  \<^item> PyText, PyInt, Bytes: Python's text operations on UTF-8 text, \<open>int()\<close>, \<open>bytes\<close>, base64, SHA-256.
  \<^item> Json, JsonRoundtrip: \<open>json.dumps\<close> and \<open>json.loads\<close>, and that loading what was dumped gives it back.
  \<^item> Codec: the contract of an encoding with a decoder (\<open>codec\<close>, \<open>prefix_codec\<close>, the one giving the other by a
    sublocale) and of a state machine with an invariant (\<open>transition_system\<close>).
  \<^item> Host: the machine, commands, files, and the contract \<open>polling\<close> of the loops that wait with a deadline.
  \<^item> Script: expressions over JSON values, HTTP calls, SQL, and plans: \<open>conforms ps m\<close> says that a run of \<open>m\<close> that
    returns has made the calls of the plan \<open>ps\<close>, each with an accepted status and in this order, and that a run
    that raises has made a beginning of them and at most one call more.
  \<^item> Sample: a concrete instance of all the parameters, for the witnesses.

  \<^bold>\<open>Operating scripts\<close> (under scripts/).
  \<^item> Probe (audit_security_status_probe.py): the validator of a security status, one poll, the loop, and the exit
    status. An exit 0 needs a coherent CLEAR answer, and everything else is at least an error; two kinds of answer
    nevertheless end the interpreter with the status of a critical incident.
  \<^item> ComposeGuard (multitenant.py): no SQL reaches a container outside of the isolated Compose project. The contract
    \<open>project_guard\<close> is interpreted on the guard.
  \<^item> Backup (backup.py, restore.py): the restore refines a plan of commands and needs its confirmation; a failed backup
    removes nothing; pruning keeps the newest runs.
  \<^item> Deploy (deploy.py), Update (update.py), Status (status.py), Initialize (initialize.py, prepare_shell.py): a
    deployment that returns was healthy, one whose checks fail rolls back; a repository is pulled only when it is
    clean and on its branch; the status script only reads; secrets that exist are kept.
  \<^item> RestoreProof (backup_restore_e2e.py): volumes are destroyed after a verified backup only, and only those of the
    isolated project.
  \<^item> AuditPublic (audit-public.py): the scan of the published files.
  \<^item> FaultProxy (audit_ostris_fault_proxy.py): the proxy as a step relation over its two locked operations; a fault is
    injected at most once for every arming, whatever the interleaving; the body of a chunked request is put
    together as it was sent.

  \<^bold>\<open>Ledger scripts\<close> (under deploy/idax-ledger/). Xrpl, XrplNetwork and Anchoring model xrpl_health.py,
  init_xrpl_network.py and init_anchoring_account.py: every node gets a resolved configuration, and the wait for the
  funding ends within its ninety seconds of sleep.

  \<^bold>\<open>End-to-end scripts over HTTP.\<close> Signing and Webauthn hold the canonical form, the domain-separated message and the
  WebAuthn ceremony the scripts build byte by byte, with decoders as their specification. One theory for each
  script holds its helpers, its run and its plan: Exchange, References, Consent, MultiSource, Independence, Authority,
  Ordinary, ValueGovernance, MarketIntegrity, Boundary, AuditCommit, Marketplace, Smoke, Isolation, Ledger, Custody (the
  scripts are named in their first lines). Protocols draws from the plans what whole runs guarantee, and Identifiers
  reads the UUIDv7 generator bit by bit.

  \<^bold>\<open>End-to-end scripts in the browser.\<close> Browser holds what they share: a locator is the chain of methods that makes
  it, a method call is one event and may report page errors, and \<open>session\<close> is the \<open>with\<close>, the launch, the
  \<open>try\<close> and the \<open>finally\<close> around the pages. One theory for each script holds its provisioning (\<open>X_setup\<close>, with a
  plan), its nested functions, its walk through the pages (\<open>X_ui\<close>) and the whole (\<open>X_run\<close>): EconomicBrowser,
  MarketplaceBrowser, CredentialBrowser, ModerationBrowser, PilotBrowser, ReferencesBrowser, ValueBrowser, ConsentBrowser,
  MultiBrowser, OrdinaryBrowser, IndependenceBrowser, GovernanceBrowser, WebauthnBrowser, BrowserSmoke, ReleaseBrowser,
  CatalogBrowser and CatalogUpgrade. BrowserPlans shows of whole runs that their calls are those of their plans, BrowserRuns
  that a browser is closed however the run ends and that a run which returns saw no page error, and of single ones where they write and that they only read; Picture
  reads back the PNG that the catalog script assembles.

  \<^bold>\<open>Bounds and termination.\<close> Every definition is total: no theorem is about runs that return only because they are
  assumed to. Fuel has only the CBOR decoder of Webauthn, a specification and no code of the scripts, and the depth of an
  item is enough for it (\<open>item_ok\<close>). The loops that wait (\<open>wait_loop\<close> of Deploy, \<open>up_loop\<close> of RestoreProof,
  \<open>wait_funding\<close> of Anchoring) recurse on the time left before their deadline, which every round shortens by its sleep; the
  loop of the probe is cut at the number of polls its argument gives, since the script itself never ends, and the property
  about it says that no number of polls ends it. The scanners and parsers recurse on the text left. \<open>digit_limit\<close> and
  \<open>depth_limit\<close> are the interpreter's limits on the digits of an integer and on the depth of recursion: \<open>json.loads\<close>
  raises beyond them, as Python does. Words are 8, 32 and 64 bits wide where the code packs bytes, hashes or shifts.

  \<^bold>\<open>Parameters.\<close> What is not under src/ is an argument: commands (docker, git, openssl, rippled, other interpreters), the
  HTTP server and the upstream of the proxy, the \<open>cryptography\<close> package, Playwright, \<open>zlib.compress\<close>,
  \<open>Path.resolve\<close>, \<open>shutil.disk_usage\<close>, the rendering of floats and of \<open>repr\<close>, and the generators of random values and of
  time. Nothing is assumed of them but what a theorem names.

  \<^bold>\<open>Not modelled.\<close>
  \<^item> The unit tests (test_audit_security_status_probe.py, test_multitenant_compose_safety.py), the shell, Compose and
    Docker files, the patches and the example catalog, and what the pages and the services do.
  \<^item> Texts of error messages are abbreviated where no branch looks at them, and the message of an assertion that is not
    a literal is left empty.
  \<^item> \<open>json.loads\<close> reads UTF-8 without detecting another encoding or a byte order mark; digits and letters outside of
    ASCII count as neither in \<open>int()\<close>, in a pattern, and in \<open>lower()\<close> and \<open>upper()\<close>; a slice of a text counts bytes.
  \<^item> Relative paths taken from the environment are read as absolute; argparse is replaced by its values; log lines of
    the proxy are left out; an HTTP call takes no time on the model's clock.
  \<^item> What a page reports to a listener between two calls of the driver is part of the answer to the later call.
\<close>

end
